(* ===== verification/Go_Prelude.thy ===== *)
theory Go_Prelude
  imports Main "HOL-Library.Char_ord" "HOL-Library.List_Lexorder" "HOL-Library.Sublist"
begin

text \<open>
  The prelude of the development: the parts of Go and of its standard library that every
  component uses, and the lemma collections the component proofs rest on.

  A Go string or byte slice is a \<^typ>\<open>string\<close>: an Isabelle \<^typ>\<open>char\<close> is one byte, so
  \<open>length\<close> counts bytes as Go's \<open>len\<close> does.  An \<open>int\<close> or \<open>int64\<close> is an \<^typ>\<open>int\<close>, an instant
  (\<open>time.Time\<close>) and a \<open>time.Duration\<close> are integers counting nanoseconds.  A fallible Go
  function returns \<open>error + 'a\<close>, with \<open>Inl\<close> for a non-nil error.
\<close>

section \<open>Lemma collections\<close>

text \<open>
  \<open>sql\<close> holds the rewrite rules that run a database statement in a world without faults,
  \<open>frame\<close> the facts about what an operation leaves alone, \<open>gostr\<close> the rules for Go's string
  functions.
\<close>

named_theorems sql \<open>evaluation of database statements\<close>
named_theorems frame \<open>what an operation does not change\<close>
named_theorems gostr \<open>Go string functions\<close>

type_synonym time = int
type_synonym duration = int

section \<open>Errors\<close>

text \<open>
  The errors of the program.  Each package-level \<open>errors.New\<close> sentinel is a constructor of
  its own, because \<open>errors.Is\<close> compares sentinels by identity; an \<open>errors.New\<close> at a return
  statement is \<open>ErrorsNew\<close>, \<open>fmt.Errorf\<close> with a \<open>%w\<close> verb is \<open>Errorf\<close> (its text and the
  wrapped error) and \<open>errors.Join\<close> of non-nil errors is \<open>Join\<close>.  \<open>DriverError\<close> carries the
  text of an error the database driver or the operating system reports.
\<close>

datatype error =
    ErrInvalidCredentials | ErrPasswordChanged | ErrLastAdmin | ErrNotAdministrator
  | ErrUserNotFound | ErrInvalidUsername | ErrInvalidResetTarget | ErrResetTargetIsAdministrator
  | ErrWeakPassword
  | ErrRefreshSessionReused | ErrRateLimitLocked | ErrInvalidRefreshSession | ErrRefreshSigning
  | ErrInvalidHash | ErrPassword
  | ErrInvalidAccessToken | ErrInvalidRefreshToken | ErrInvalidSessionToken | ErrSessionTokenID
  | ErrAlreadyInitialized | ErrRecoveryRequired | ErrInconsistentState
  | ErrInvalidKey | ErrInvalidUserID | ErrUnsafeStorage | ErrConfigTooLarge | ErrTemporaryCreate
  | ErrAlreadyLocked
  | ErrRecordNotFound
  | ErrNoRows
  | ErrNotExist
  | ErrExist
  | DriverError string
  | ErrorsNew string
  | Errorf string error
  | Join "error list"

text \<open>\<open>errors.Is\<close>: the error itself, an error it wraps, or one of the errors it joins.\<close>

fun errors_Is :: "error \<Rightarrow> error \<Rightarrow> bool" where
  "errors_Is (Errorf m e) t = (Errorf m e = t \<or> errors_Is e t)"
| "errors_Is (Join es) t = (Join es = t \<or> list_ex (\<lambda>e. errors_Is e t) es)"
| "errors_Is e t = (e = t)"

section \<open>Go strings\<close>

definition HasPrefix :: "string \<Rightarrow> string \<Rightarrow> bool" where
  "HasPrefix s p = (take (length p) s = p)"

definition HasSuffix :: "string \<Rightarrow> string \<Rightarrow> bool" where
  "HasSuffix s p = (length p \<le> length s \<and> drop (length s - length p) s = p)"

definition TrimPrefix :: "string \<Rightarrow> string \<Rightarrow> string" where
  "TrimPrefix s p = (if HasPrefix s p then drop (length p) s else s)"

definition TrimSuffix :: "string \<Rightarrow> string \<Rightarrow> string" where
  "TrimSuffix s p = (if HasSuffix s p then take (length s - length p) s else s)"

fun Contains :: "string \<Rightarrow> string \<Rightarrow> bool" where
  "Contains [] p = (p = [])"
| "Contains (c # s) p = (HasPrefix (c # s) p \<or> Contains s p)"

definition ContainsAny :: "string \<Rightarrow> string \<Rightarrow> bool" where
  "ContainsAny s cs = list_ex (\<lambda>c. c \<in> set cs) s"

text \<open>\<open>strings.Split\<close> with a separator of one byte, and \<open>strings.Join\<close>.\<close>

fun Split :: "string \<Rightarrow> char \<Rightarrow> string list" where
  "Split [] d = [[]]"
| "Split (c # s) d =
     (if c = d then [] # Split s d
      else (case Split s d of [] \<Rightarrow> [[c]] | p # ps \<Rightarrow> (c # p) # ps))"

definition is_lower :: "char \<Rightarrow> bool" where
  "is_lower c = (CHR ''a'' \<le> c \<and> c \<le> CHR ''z'')"

definition is_upper :: "char \<Rightarrow> bool" where
  "is_upper c = (CHR ''A'' \<le> c \<and> c \<le> CHR ''Z'')"

definition is_digit :: "char \<Rightarrow> bool" where
  "is_digit c = (CHR ''0'' \<le> c \<and> c \<le> CHR ''9'')"

definition alnum :: "char \<Rightarrow> bool" where
  "alnum c = (is_lower c \<or> is_upper c \<or> is_digit c)"

text \<open>
  \<open>strings.TrimSpace\<close>: the white space of \<open>unicode.IsSpace\<close>, written as the byte strings
  that encode it in UTF-8.
\<close>

definition spaces :: "string list" where
  "spaces =
     [[CHR 0x09], [CHR 0x0A], [CHR 0x0B], [CHR 0x0C], [CHR 0x0D], [CHR 0x20],
      [CHR 0xC2, CHR 0x85], [CHR 0xC2, CHR 0xA0], [CHR 0xE1, CHR 0x9A, CHR 0x80],
      [CHR 0xE2, CHR 0x80, CHR 0x80], [CHR 0xE2, CHR 0x80, CHR 0x81],
      [CHR 0xE2, CHR 0x80, CHR 0x82], [CHR 0xE2, CHR 0x80, CHR 0x83],
      [CHR 0xE2, CHR 0x80, CHR 0x84], [CHR 0xE2, CHR 0x80, CHR 0x85],
      [CHR 0xE2, CHR 0x80, CHR 0x86], [CHR 0xE2, CHR 0x80, CHR 0x87],
      [CHR 0xE2, CHR 0x80, CHR 0x88], [CHR 0xE2, CHR 0x80, CHR 0x89],
      [CHR 0xE2, CHR 0x80, CHR 0x8A], [CHR 0xE2, CHR 0x80, CHR 0xA8],
      [CHR 0xE2, CHR 0x80, CHR 0xA9], [CHR 0xE2, CHR 0x80, CHR 0xAF],
      [CHR 0xE2, CHR 0x81, CHR 0x9F], [CHR 0xE3, CHR 0x80, CHR 0x80]]"

function TrimLeftSpace :: "string list \<Rightarrow> string \<Rightarrow> string" where
  "TrimLeftSpace sps s =
     (case find (\<lambda>sp. sp \<noteq> [] \<and> HasPrefix s sp) sps of
        None \<Rightarrow> s
      | Some sp \<Rightarrow> TrimLeftSpace sps (drop (length sp) s))"
  by pat_completeness auto
termination
proof (relation "measure (\<lambda>(sps, s). length s)", goal_cases)
  case 1
  show ?case by simp
next
  case (2 sps s sp)
  then have "sp \<noteq> []" and "take (length sp) s = sp"
    by (auto simp: find_Some_iff HasPrefix_def)
  then show ?case
    by (cases s) auto
qed

declare TrimLeftSpace.simps [simp del]

definition TrimSpace :: "string \<Rightarrow> string" where
  "TrimSpace s =
     rev (TrimLeftSpace (map rev spaces) (rev (TrimLeftSpace spaces s)))"

text \<open>\<open>strings.EqualFold\<close> where the second string has no letter with a fold outside ASCII.\<close>

definition to_lower :: "char \<Rightarrow> char" where
  "to_lower c = (if is_upper c then char_of (of_char c + (32 :: nat)) else c)"

definition EqualFold :: "string \<Rightarrow> string \<Rightarrow> bool" where
  "EqualFold s t = (map to_lower s = map to_lower t)"

text \<open>
  The pattern \<open>^[A-Za-z0-9][A-Za-z0-9._-]{0,63}$\<close>, which two packages compile: in Go's syntax
  \<open>$\<close> without the \<open>m\<close> flag matches at the end of the text only.
\<close>

fun name_pattern :: "string \<Rightarrow> bool" where
  "name_pattern [] = False"
| "name_pattern (c # s) =
     (alnum c \<and> length s \<le> 63 \<and> list_all (\<lambda>d. alnum d \<or> d \<in> set ''._-'') s)"

section \<open>Numbers as text\<close>

definition digit_char :: "nat \<Rightarrow> char" where
  "digit_char n = char_of (48 + n)"

fun dec_of_nat :: "nat \<Rightarrow> string" where
  "dec_of_nat n = (if n < 10 then [digit_char n] else dec_of_nat (n div 10) @ [digit_char (n mod 10)])"

declare dec_of_nat.simps [simp del]

definition Itoa :: "int \<Rightarrow> string" where
  "Itoa n = (if n < 0 then CHR ''-'' # dec_of_nat (nat (- n)) else dec_of_nat (nat n))"

definition digits_value :: "string \<Rightarrow> nat" where
  "digits_value s = foldl (\<lambda>n c. 10 * n + (of_char c - 48)) 0 s"

definition all_digits :: "string \<Rightarrow> bool" where
  "all_digits s = (s \<noteq> [] \<and> list_all is_digit s)"

text \<open>\<open>strconv.ParseUint (s, 10, bits)\<close>; \<open>None\<close> is a syntax or range error.\<close>

definition ParseUint :: "string \<Rightarrow> nat \<Rightarrow> nat option" where
  "ParseUint s bits =
     (if all_digits s \<and> digits_value s < 2 ^ bits then Some (digits_value s) else None)"

text \<open>\<open>strconv.Atoi\<close>: an optional sign, decimal digits, and the range of a 64-bit integer.\<close>

definition Atoi :: "string \<Rightarrow> int option" where
  "Atoi s =
     (let neg = (s \<noteq> [] \<and> hd s = CHR ''-'');
          body = (if s \<noteq> [] \<and> hd s \<in> set ''+-'' then tl s else s);
          v = (if neg then - int (digits_value body) else int (digits_value body))
      in if all_digits body \<and> - (2 ^ 63) \<le> v \<and> v < 2 ^ 63 then Some v else None)"

section \<open>Lemmas on text\<close>

lemma HasPrefix_append [simp]: "HasPrefix (p @ s) p"
  by (simp add: HasPrefix_def)

lemma HasPrefix_iff: "HasPrefix s p \<longleftrightarrow> (\<exists>t. s = p @ t)"
  unfolding HasPrefix_def by (metis append_eq_conv_conj append_take_drop_id)

lemma HasSuffix_iff: "HasSuffix s p \<longleftrightarrow> (\<exists>t. s = t @ p)"
proof
  assume "HasSuffix s p"
  then show "\<exists>t. s = t @ p"
    unfolding HasSuffix_def by (metis append_take_drop_id)
next
  assume "\<exists>t. s = t @ p"
  then show "HasSuffix s p"
    by (auto simp: HasSuffix_def)
qed

lemma TrimPrefix_append [simp]: "TrimPrefix (p @ s) p = s"
  by (simp add: TrimPrefix_def)

lemma TrimSuffix_append [simp]: "TrimSuffix (s @ p) p = s"
  by (simp add: TrimSuffix_def HasSuffix_iff)

lemma ContainsAny_iff: "ContainsAny s cs \<longleftrightarrow> (\<exists>c \<in> set s. c \<in> set cs)"
  by (auto simp: ContainsAny_def list_ex_iff)

lemma Contains_iff: "Contains s p \<longleftrightarrow> (\<exists>a b. s = a @ p @ b)"
proof (induction s p rule: Contains.induct)
  case (1 p)
  then show ?case by auto
next
  case (2 c s p)
  have "(\<exists>a b. c # s = a @ p @ b) \<longleftrightarrow> (\<exists>b. c # s = p @ b) \<or> (\<exists>a b. s = a @ p @ b)"
    by (auto simp: Cons_eq_append_conv intro: exI [of _ "c # _"])
  with 2 show ?case by (simp add: HasPrefix_iff)
qed

lemma Contains_single: "Contains s [c] \<longleftrightarrow> c \<in> set s"
  by (auto simp: Contains_iff in_set_conv_decomp)

text \<open>\<open>Split\<close> never returns the empty list, and joining the pieces gives the text back.\<close>

lemma Split_not_Nil [simp]: "Split s d \<noteq> []"
  by (induction s d rule: Split.induct) (auto split: list.splits)

lemma Split_no_sep [gostr]: "d \<notin> set p \<Longrightarrow> Split p d = [p]"
  by (induction p) auto

lemma Split_Cons [gostr]: "d \<notin> set p \<Longrightarrow> Split (p @ d # s) d = p # Split s d"
  by (induction p) auto

fun join_with :: "char \<Rightarrow> string list \<Rightarrow> string" where
  "join_with d [] = []"
| "join_with d [p] = p"
| "join_with d (p # q # ps) = p @ d # join_with d (q # ps)"

lemma join_with_Cons: "ps \<noteq> [] \<Longrightarrow> join_with d (p # ps) = p @ d # join_with d ps"
  by (cases ps) auto

lemma join_Split: "join_with d (Split s d) = s"
proof (induction s d rule: Split.induct)
  case (1 d)
  then show ?case by simp
next
  case (2 c s d)
  obtain p ps where ps: "Split s d = p # ps"
    by (cases "Split s d") auto
  show ?case
  proof (cases "c = d")
    case True
    with 2 show ?thesis by (simp add: join_with_Cons)
  next
    case False
    with 2 ps show ?thesis by (cases ps) auto
  qed
qed

lemma Split_pieces: "p \<in> set (Split s d) \<Longrightarrow> d \<notin> set p"
  by (induction s d arbitrary: p rule: Split.induct) (auto split: list.splits if_splits)

lemma Split_join:
  assumes "ps \<noteq> []" and "\<forall>p \<in> set ps. d \<notin> set p"
  shows "Split (join_with d ps) d = ps"
  using assms
  by (induction d ps rule: join_with.induct) (simp_all add: Split_no_sep Split_Cons)

declare Split.simps(2) [simp del]

subsection \<open>Decimal text\<close>

lemma of_char_digit_char [simp]: "n < 10 \<Longrightarrow> (of_char (digit_char n) :: nat) = 48 + n"
  by (simp add: digit_char_def)

lemma is_digit_iff: "is_digit c \<longleftrightarrow> (48 :: nat) \<le> of_char c \<and> of_char c \<le> (57 :: nat)"
  by (simp add: is_digit_def less_eq_char_def)

lemma is_digit_digit_char [simp]: "n < 10 \<Longrightarrow> is_digit (digit_char n)"
  by (simp add: is_digit_iff)

lemma digits_value_snoc [simp]:
  "digits_value (s @ [c]) = 10 * digits_value s + (of_char c - 48)"
  by (simp add: digits_value_def)

lemma digits_value_Nil [simp]: "digits_value [] = 0"
  by (simp add: digits_value_def)

lemma digits_value_single [simp]: "digits_value [c] = of_char c - 48"
  by (simp add: digits_value_def)

lemma dec_of_nat_value [simp]: "digits_value (dec_of_nat n) = n"
proof (induction n rule: dec_of_nat.induct)
  case (1 n)
  show ?case
    using 1 by (cases "n < 10") (simp_all add: dec_of_nat.simps [of n])
qed

lemma dec_of_nat_digits: "list_all is_digit (dec_of_nat n)"
proof (induction n rule: dec_of_nat.induct)
  case (1 n)
  show ?case
    using 1 by (cases "n < 10") (simp_all add: dec_of_nat.simps [of n])
qed

lemma dec_of_nat_not_Nil [simp]: "dec_of_nat n \<noteq> []"
  by (subst dec_of_nat.simps) simp

lemma dec_of_nat_hd: "0 < n \<Longrightarrow> hd (dec_of_nat n) \<noteq> CHR ''0''"
proof (induction n rule: dec_of_nat.induct)
  case (1 n)
  show ?case
  proof (cases "n < 10")
    case True
    have "digit_char n \<noteq> CHR ''0''"
    proof
      assume "digit_char n = CHR ''0''"
      then have "(of_char (digit_char n) :: nat) = of_char (CHR ''0'')" by (rule arg_cong)
      with True 1(2) show False by simp
    qed
    then show ?thesis
      using True by (simp add: dec_of_nat.simps [of n])
  next
    case False
    then have "hd (dec_of_nat (n div 10)) \<noteq> CHR ''0''"
      using 1 by simp
    with False show ?thesis
      by (simp add: dec_of_nat.simps [of n])
  qed
qed

lemma all_digits_dec [simp]: "all_digits (dec_of_nat n)"
  by (simp add: all_digits_def dec_of_nat_digits)

text \<open>Digits without a leading zero are the printed form of their value.\<close>

lemma digits_value_pos: "s \<noteq> [] \<Longrightarrow> list_all is_digit s \<Longrightarrow> hd s \<noteq> CHR ''0'' \<Longrightarrow> 0 < digits_value s"
proof (induction s rule: rev_induct)
  case (snoc c s)
  show ?case
  proof (cases "s = []")
    case True
    with snoc.prems have "is_digit c" "c \<noteq> CHR ''0''" by simp_all
    then have "(of_char c :: nat) \<noteq> of_char (CHR ''0'')"
      by (simp only: of_char_eq_iff not_False_eq_True)
    with True \<open>is_digit c\<close> show ?thesis by (simp add: is_digit_iff)
  next
    case False
    with snoc show ?thesis by simp
  qed
qed simp

lemma digit_char_value: "is_digit c \<Longrightarrow> digit_char (of_char c - 48) = c"
  by (simp add: digit_char_def is_digit_iff)

lemma dec_of_digits:
  "all_digits s \<and> (length s > 1 \<longrightarrow> hd s \<noteq> CHR ''0'') \<Longrightarrow> dec_of_nat (digits_value s) = s"
proof (induction s rule: rev_induct)
  case (snoc c s)
  then have c: "is_digit c" and s: "list_all is_digit s" by (simp_all add: all_digits_def)
  from c have d: "(of_char c :: nat) - 48 < 10" unfolding is_digit_iff by linarith
  show ?case
  proof (cases "s = []")
    case True
    with c d show ?thesis by (simp add: dec_of_nat.simps [of "of_char c - 48"] digit_char_value)
  next
    case False
    with snoc.prems have hd: "hd s \<noteq> CHR ''0''" by (cases s) auto
    have pos: "0 < digits_value s" using digits_value_pos [OF False s hd] .
    have "dec_of_nat (digits_value s) = s"
      using snoc.IH False s hd by (simp add: all_digits_def)
    with pos d c show ?thesis
      by (simp add: dec_of_nat.simps [of "10 * digits_value s + _"] digit_char_value)
  qed
qed (simp add: all_digits_def)

lemma ParseUint_dec: "n < 2 ^ bits \<Longrightarrow> ParseUint (dec_of_nat n) bits = Some n"
  by (simp add: ParseUint_def)

lemma dec_of_nat_hd_digit: "is_digit (hd (dec_of_nat n))"
  using dec_of_nat_digits [of n] dec_of_nat_not_Nil [of n]
  by (cases "dec_of_nat n") auto

lemma is_digit_not_sign: "is_digit c \<Longrightarrow> c \<noteq> CHR ''-'' \<and> c \<noteq> CHR ''+''"
  by (auto simp: is_digit_iff)

lemma Atoi_Itoa:
  assumes "- (2 ^ 63) \<le> n" and "n < 2 ^ 63"
  shows "Atoi (Itoa n) = Some n"
proof (cases "n < 0")
  case True
  with assms show ?thesis
    by (simp add: Atoi_def Itoa_def Let_def)
next
  case False
  have "hd (dec_of_nat (nat n)) \<noteq> CHR ''-''" "hd (dec_of_nat (nat n)) \<noteq> CHR ''+''"
    using is_digit_not_sign dec_of_nat_hd_digit by blast+
  with False assms show ?thesis
    by (simp add: Atoi_def Itoa_def Let_def)
qed

lemma Itoa_inject: "Itoa m = Itoa n \<Longrightarrow> m = n"
proof -
  assume eq: "Itoa m = Itoa n"
  have nz: "dec_of_nat k \<noteq> CHR ''-'' # s" for k s
    using is_digit_not_sign dec_of_nat_hd_digit [of k] by fastforce
  have inj: "dec_of_nat i = dec_of_nat j \<Longrightarrow> i = j" for i j
    by (metis dec_of_nat_value)
  show "m = n"
    using eq nz nz [symmetric]
    by (auto simp: Itoa_def split: if_splits dest!: inj)
qed

subsection \<open>The name pattern\<close>

lemma name_pattern_iff:
  "name_pattern s \<longleftrightarrow>
     s \<noteq> [] \<and> length s \<le> 64 \<and> alnum (hd s) \<and> (\<forall>d \<in> set (tl s). alnum d \<or> d \<in> set ''._-'')"
  by (cases s) (auto simp: list_all_iff)

end
