(* ===== verification/Store.thy ===== *)
theory Store
  imports Go_Prelude "HOL-Library.Word"
begin

text \<open>
  The user database: the rows of \<open>src/service/model\<close> and \<open>src/model/event.go\<close>, and the statements
  the services run against them.

  A table is the list of its rows in rowid order.  A statement, whether the source writes its
  SQL out or builds it with a gorm chain, is the function on the tables that the SQL denotes.
  Everything the database engine and the operating system decide is an oracle of the world
  record: whether a statement fails and with what text, what other processes do to the tables
  between two statements, what the clock shows, what the random source delivers, which rowid a
  new row gets.  A theorem about an operation therefore holds for every behaviour of the
  environment that its hypotheses do not exclude.
\<close>

section \<open>The rows\<close>

record UserDBModel =
  u_Id :: int
  u_Username :: string
  u_Password :: string
  u_Role :: string
  u_Email :: string
  u_Nickname :: string
  u_Avatar :: string
  u_Description :: string
  u_TokenVersion :: int
  u_CreatedAt :: time
  u_UpdatedAt :: time

record RefreshSessionDBModel =
  rs_ID :: string
  rs_UserID :: int
  rs_TokenSHA256 :: string
  rs_IssuedAt :: time
  rs_ExpiresAt :: time
  rs_UsedAt :: "time option"
  rs_ReplacedBy :: string
  rs_RevokedAt :: "time option"
  rs_RevokeReason :: string

record LoginAttemptDBModel =
  la_Key :: string
  la_Failures :: int
  la_WindowStartedAt :: time
  la_LockedUntil :: "time option"

record CredentialEventDBModel =
  ce_ID :: int
  ce_OccurredAt :: time
  ce_InstallationID :: string
  ce_ActorUserID :: int
  ce_EventType :: string
  ce_Success :: bool
  ce_Source :: string
  ce_Detail :: string

record RevokedAccessTokenDBModel =
  ra_JTI :: string
  ra_UserID :: int
  ra_ExpiresAt :: time

record BootstrapStateDBModel =
  bs_ID :: int
  bs_InstallationID :: string
  bs_Status :: string
  bs_AdminUserID :: "int option"
  bs_InitializedAt :: "time option"
  bs_CreatedAt :: time
  bs_UpdatedAt :: time

record EventModel =
  ev_UUID :: string
  ev_SourceID :: string
  ev_Name :: string
  ev_Properties :: string
  ev_Timestamp :: int

text \<open>The zero value of a user, which the lookups return when no row matches.\<close>

definition zero_time :: time where
  "zero_time = - 62135596800 * 10 ^ 9"

definition zero_user :: UserDBModel where
  "zero_user = \<lparr>u_Id = 0, u_Username = [], u_Password = [], u_Role = [], u_Email = [],
     u_Nickname = [], u_Avatar = [], u_Description = [], u_TokenVersion = 0,
     u_CreatedAt = zero_time, u_UpdatedAt = zero_time\<rparr>"

text \<open>The \<open>TableName\<close> methods.\<close>

definition UserDBModel_TableName :: string where
  "UserDBModel_TableName = ''o_users''"

definition RefreshSessionDBModel_TableName :: string where
  "RefreshSessionDBModel_TableName = ''o_refresh_sessions''"

definition LoginAttemptDBModel_TableName :: string where
  "LoginAttemptDBModel_TableName = ''o_login_attempts''"

definition CredentialEventDBModel_TableName :: string where
  "CredentialEventDBModel_TableName = ''o_credential_events''"

definition RevokedAccessTokenDBModel_TableName :: string where
  "RevokedAccessTokenDBModel_TableName = ''o_revoked_access_tokens''"

definition BootstrapStateDBModel_TableName :: string where
  "BootstrapStateDBModel_TableName = ''o_bootstrap_state''"

definition EventModel_TableName :: string where
  "EventModel_TableName = ''events''"

text \<open>The types of credential events.\<close>

definition CredentialEventLoginSuccess :: string where
  "CredentialEventLoginSuccess = ''login_success''"
definition CredentialEventLoginFailure :: string where
  "CredentialEventLoginFailure = ''login_failure''"
definition CredentialEventLoginLockout :: string where
  "CredentialEventLoginLockout = ''login_lockout''"
definition CredentialEventLogout :: string where
  "CredentialEventLogout = ''logout''"
definition CredentialEventLogoutAll :: string where
  "CredentialEventLogoutAll = ''logout_all''"
definition CredentialEventRefreshSuccess :: string where
  "CredentialEventRefreshSuccess = ''refresh_success''"
definition CredentialEventRefreshFailure :: string where
  "CredentialEventRefreshFailure = ''refresh_failure''"
definition CredentialEventRefreshReuse :: string where
  "CredentialEventRefreshReuse = ''refresh_reuse_detected''"
definition CredentialEventPasswordChanged :: string where
  "CredentialEventPasswordChanged = ''password_changed''"
definition CredentialEventPasswordReset :: string where
  "CredentialEventPasswordReset = ''password_reset''"
definition CredentialEventBootstrapCreated :: string where
  "CredentialEventBootstrapCreated = ''bootstrap_admin_created''"

section \<open>The world\<close>

text \<open>
  \<open>schema\<close> lists the tables of the file (a legacy database lacks some), \<open>has_token_version\<close>
  says whether \<open>o_users\<close> already has its \<open>token_version\<close> column.
\<close>

record db =
  schema :: "string list"
  has_token_version :: bool
  o_users :: "UserDBModel list"
  o_refresh_sessions :: "RefreshSessionDBModel list"
  o_login_attempts :: "LoginAttemptDBModel list"
  o_credential_events :: "CredentialEventDBModel list"
  o_revoked_access_tokens :: "RevokedAccessTokenDBModel list"
  o_bootstrap_state :: "BootstrapStateDBModel list"
  events :: "EventModel list"

text \<open>
  The oracles.  Each is indexed by the number of environment calls made so far, so two calls
  may behave differently.  \<open>id_affinity\<close> is the integer that SQLite's \<open>INTEGER\<close> affinity makes
  of a text compared with an integer column, if any.
\<close>

record env =
  clock :: "nat \<Rightarrow> time"
  rng :: "nat \<Rightarrow> nat \<Rightarrow> string option"
  fault :: "nat \<Rightarrow> string option"
  interfere :: "nat \<Rightarrow> db \<Rightarrow> db"
  new_rowid :: "string \<Rightarrow> db \<Rightarrow> int"
  id_affinity :: "string \<Rightarrow> int option"

text \<open>
  \<open>kdf\<close> records the Argon2id derivations the process has paid for: iterations, memory in KiB,
  lanes and key length of each, in order.
\<close>

type_synonym kdf_call = "32 word \<times> 32 word \<times> 8 word \<times> 32 word"

record world =
  db :: db
  env :: env
  tick :: nat
  kdf :: "kdf_call list"

text \<open>\<open>time.Now\<close>, and \<open>crypto/rand.Read\<close> or \<open>io.ReadFull\<close> of the random reader.\<close>

definition time_Now :: "'x world_scheme \<Rightarrow> time \<times> 'x world_scheme" where
  "time_Now w = (clock (env w) (tick w), w\<lparr>tick := Suc (tick w)\<rparr>)"

definition rand_Read :: "nat \<Rightarrow> 'x world_scheme \<Rightarrow> string option \<times> 'x world_scheme" where
  "rand_Read n w =
     (case rng (env w) (tick w) n of
        None \<Rightarrow> None
      | Some bs \<Rightarrow> if length bs < n then None else Some (take n bs),
      w\<lparr>tick := Suc (tick w)\<rparr>)"

section \<open>Statements and transactions\<close>

text \<open>
  \<open>in_tx\<close> runs one statement of an open transaction: it fails with the driver's text, or with
  SQLite's message for a missing table, or runs the statement, which may itself fail (a
  constraint).  A failed statement changes nothing.  \<open>autocommit\<close> runs a statement outside a
  transaction: other connections may have changed the tables since the last statement.
\<close>

definition in_tx ::
  "string \<Rightarrow> (db \<Rightarrow> error + ('a \<times> db)) \<Rightarrow> 'x world_scheme \<Rightarrow> (error + 'a) \<times> 'x world_scheme" where
  "in_tx tbl f w =
     (case fault (env w) (tick w) of
        Some m \<Rightarrow> (Inl (DriverError m), w\<lparr>tick := Suc (tick w)\<rparr>)
      | None \<Rightarrow>
          if tbl \<notin> set (schema (db w))
          then (Inl (DriverError (''no such table: '' @ tbl)), w\<lparr>tick := Suc (tick w)\<rparr>)
          else (case f (db w) of
                  Inl e \<Rightarrow> (Inl e, w\<lparr>tick := Suc (tick w)\<rparr>)
                | Inr (r, d) \<Rightarrow> (Inr r, w\<lparr>db := d, tick := Suc (tick w)\<rparr>)))"

text \<open>A call of the driver that touches no table: taking a connection, reading a result.\<close>

definition driver_call :: "'x world_scheme \<Rightarrow> (error + unit) \<times> 'x world_scheme" where
  "driver_call w =
     (case fault (env w) (tick w) of
        Some m \<Rightarrow> (Inl (DriverError m), w\<lparr>tick := Suc (tick w)\<rparr>)
      | None \<Rightarrow> (Inr (), w\<lparr>tick := Suc (tick w)\<rparr>))"

definition interfered :: "'x world_scheme \<Rightarrow> 'x world_scheme" where
  "interfered w = w\<lparr>db := interfere (env w) (tick w) (db w)\<rparr>"

definition autocommit ::
  "string \<Rightarrow> (db \<Rightarrow> error + ('a \<times> db)) \<Rightarrow> 'x world_scheme \<Rightarrow> (error + 'a) \<times> 'x world_scheme" where
  "autocommit tbl f w = in_tx tbl f (interfered w)"

text \<open>
  \<open>BEGIN\<close>, \<open>COMMIT\<close> and \<open>ROLLBACK\<close>.  Other writers act before a transaction takes its lock and
  not while it holds it; a failed \<open>COMMIT\<close> leaves the transaction open for the rollback.
\<close>

definition begin_tx :: "'x world_scheme \<Rightarrow> (error + unit) \<times> 'x world_scheme" where
  "begin_tx w =
     (case fault (env w) (tick w) of
        Some m \<Rightarrow> (Inl (DriverError m), w\<lparr>tick := Suc (tick w)\<rparr>)
      | None \<Rightarrow> (Inr (), (interfered w)\<lparr>tick := Suc (tick w)\<rparr>))"

definition commit_tx :: "'x world_scheme \<Rightarrow> (error + unit) \<times> 'x world_scheme" where
  "commit_tx w = driver_call w"

definition rollback :: "db \<Rightarrow> 'x world_scheme \<Rightarrow> 'x world_scheme" where
  "rollback d w = w\<lparr>db := d\<rparr>"

text \<open>
  \<open>Transaction\<close> runs a body between \<open>BEGIN\<close> and \<open>COMMIT\<close> and rolls back when the body or the
  commit fails.  The body's failure may carry more than an error (variables the closure
  captured), so \<open>werr\<close> builds a failure from an error of \<open>BEGIN\<close>, \<open>cerr\<close> from one of \<open>COMMIT\<close>.
\<close>

definition Transaction ::
  "(error \<Rightarrow> 'e) \<Rightarrow> (error \<Rightarrow> 'e) \<Rightarrow> ('x world_scheme \<Rightarrow> ('e + 'a) \<times> 'x world_scheme)
     \<Rightarrow> 'x world_scheme \<Rightarrow> ('e + 'a) \<times> 'x world_scheme" where
  "Transaction werr cerr body w =
     (case begin_tx w of
        (Inl e, w1) \<Rightarrow> (Inl (werr e), w1)
      | (Inr _, w1) \<Rightarrow>
          (case body w1 of
             (Inl e, w2) \<Rightarrow> (Inl e, rollback (db w1) w2)
           | (Inr r, w2) \<Rightarrow>
               (case commit_tx w2 of
                  (Inl e, w3) \<Rightarrow> (Inl (cerr e), rollback (db w1) w3)
                | (Inr _, w3) \<Rightarrow> (Inr r, w3))))"

section \<open>Statements on one table\<close>

text \<open>
  gorm's \<open>First\<close>: the matching row with the least primary key, or \<open>ErrRecordNotFound\<close>.
  An \<open>UPDATE\<close> rewrites the matching rows and reports how many there were; an \<open>INSERT\<close> fails
  when a unique column already holds the new row's value; \<open>Save\<close> updates the row with the
  same primary key or inserts it.
\<close>

definition First :: "('r \<Rightarrow> 'k::linorder) \<Rightarrow> ('r \<Rightarrow> bool) \<Rightarrow> 'r list \<Rightarrow> error + 'r" where
  "First key P rows =
     (case sort_key key (filter P rows) of [] \<Rightarrow> Inl ErrRecordNotFound | r # _ \<Rightarrow> Inr r)"

definition update_where :: "('r \<Rightarrow> bool) \<Rightarrow> ('r \<Rightarrow> 'r) \<Rightarrow> 'r list \<Rightarrow> 'r list" where
  "update_where P f rows = map (\<lambda>r. if P r then f r else r) rows"

definition RowsAffected :: "('r \<Rightarrow> bool) \<Rightarrow> 'r list \<Rightarrow> int" where
  "RowsAffected P rows = int (length (filter P rows))"

definition delete_where :: "('r \<Rightarrow> bool) \<Rightarrow> 'r list \<Rightarrow> 'r list" where
  "delete_where P rows = filter (\<lambda>r. \<not> P r) rows"

definition unique_failed :: "string \<Rightarrow> error" where
  "unique_failed col = DriverError (''UNIQUE constraint failed: '' @ col)"

definition save_row :: "('r \<Rightarrow> 'k) \<Rightarrow> 'r \<Rightarrow> 'r list \<Rightarrow> 'r list" where
  "save_row key r rows =
     (if key r \<in> set (map key rows)
      then update_where (\<lambda>q. key q = key r) (\<lambda>_. r) rows else rows @ [r])"

section \<open>Worlds without surprises\<close>

text \<open>
  \<open>quiet\<close>: no statement fails and nobody else writes.  \<open>migrated\<close>: the tables of a file that
  \<open>AutoMigrate\<close> has been run on.
\<close>

definition quiet :: "'x world_scheme \<Rightarrow> bool" where
  "quiet w \<longleftrightarrow> fault (env w) = (\<lambda>_. None) \<and> interfere (env w) = (\<lambda>_ d. d)"

definition all_tables :: "string list" where
  "all_tables = [UserDBModel_TableName, BootstrapStateDBModel_TableName, EventModel_TableName,
     RefreshSessionDBModel_TableName, LoginAttemptDBModel_TableName,
     CredentialEventDBModel_TableName, RevokedAccessTokenDBModel_TableName]"

definition migrated :: "db \<Rightarrow> bool" where
  "migrated d \<longleftrightarrow> set all_tables \<subseteq> set (schema d) \<and> has_token_version d"

definition ready :: "'x world_scheme \<Rightarrow> bool" where
  "ready w \<longleftrightarrow> quiet w \<and> migrated (db w)"

definition rng_ok :: "env \<Rightarrow> bool" where
  "rng_ok e \<longleftrightarrow> (\<forall>k n. \<exists>bs. rng e k n = Some bs \<and> n \<le> length bs)"

text \<open>
  The constraints of the schema, which hold of the tables at every moment: primary keys and
  unique indices.
\<close>

definition wf_db :: "db \<Rightarrow> bool" where
  "wf_db d \<longleftrightarrow>
     distinct (map u_Id (o_users d)) \<and> distinct (map u_Username (o_users d)) \<and>
     distinct (map rs_ID (o_refresh_sessions d)) \<and>
     distinct (map rs_TokenSHA256 (o_refresh_sessions d)) \<and>
     distinct (map la_Key (o_login_attempts d)) \<and>
     distinct (map ce_ID (o_credential_events d)) \<and>
     distinct (map ra_JTI (o_revoked_access_tokens d)) \<and>
     distinct (map bs_ID (o_bootstrap_state d)) \<and> (\<forall>i \<in> set (map bs_ID (o_bootstrap_state d)). i = 1) \<and>
     distinct (map ev_UUID (events d))"

section \<open>Lemmas\<close>

subsection \<open>Running statements\<close>

lemma quiet_update [simp]:
  "quiet (w\<lparr>tick := n\<rparr>) = quiet w" "quiet (w\<lparr>db := d\<rparr>) = quiet w" "quiet (w\<lparr>kdf := k\<rparr>) = quiet w"
  by (simp_all add: quiet_def)

lemma ready_update [simp]:
  "ready (w\<lparr>tick := n\<rparr>) = ready w" "ready (w\<lparr>kdf := k\<rparr>) = ready w"
  by (simp_all add: ready_def)

lemma ready_env: "ready w \<Longrightarrow> env w' = env w \<Longrightarrow> migrated (db w') \<Longrightarrow> ready w'"
  by (simp add: ready_def quiet_def)

lemma ready_db [simp]: "ready (w\<lparr>db := d\<rparr>) = (quiet w \<and> migrated d)"
  by (simp add: ready_def)

lemma rand_Read_length: "rand_Read n w = (Some bs, w') \<Longrightarrow> length bs = n"
  by (auto simp: rand_Read_def split: option.splits if_splits)

lemma rand_Read_frame [frame]:
  "env (snd (rand_Read n w)) = env w" "db (snd (rand_Read n w)) = db w"
  "kdf (snd (rand_Read n w)) = kdf w"
  by (simp_all add: rand_Read_def)

lemma rand_Read_total: "rng_ok (env w) \<Longrightarrow> \<exists>bs. rand_Read n w = (Some bs, w\<lparr>tick := Suc (tick w)\<rparr>)"
proof -
  assume "rng_ok (env w)"
  then obtain bs where "rng (env w) (tick w) n = Some bs" and "n \<le> length bs"
    unfolding rng_ok_def by blast
  then show ?thesis by (simp add: rand_Read_def)
qed

lemma readyD [simp]: "ready w \<Longrightarrow> quiet w" "ready w \<Longrightarrow> migrated (db w)"
  by (simp_all add: ready_def)

lemma migrated_tables [simp]:
  assumes "migrated d"
  shows "UserDBModel_TableName \<in> set (schema d)" "BootstrapStateDBModel_TableName \<in> set (schema d)"
    "EventModel_TableName \<in> set (schema d)" "RefreshSessionDBModel_TableName \<in> set (schema d)"
    "LoginAttemptDBModel_TableName \<in> set (schema d)"
    "CredentialEventDBModel_TableName \<in> set (schema d)"
    "RevokedAccessTokenDBModel_TableName \<in> set (schema d)"
    "has_token_version d"
  using assms by (auto simp: migrated_def all_tables_def)

lemma migrated_update [simp]:
  "migrated (d\<lparr>o_users := x1\<rparr>) = migrated d"
  "migrated (d\<lparr>o_refresh_sessions := x2\<rparr>) = migrated d"
  "migrated (d\<lparr>o_login_attempts := x3\<rparr>) = migrated d"
  "migrated (d\<lparr>o_credential_events := x4\<rparr>) = migrated d"
  "migrated (d\<lparr>o_revoked_access_tokens := x5\<rparr>) = migrated d"
  "migrated (d\<lparr>o_bootstrap_state := x6\<rparr>) = migrated d"
  "migrated (d\<lparr>events := x7\<rparr>) = migrated d"
  by (simp_all add: migrated_def)

lemma interfered_quiet [simp]: "quiet w \<Longrightarrow> interfered w = w"
  by (simp add: interfered_def quiet_def)

lemma in_tx_quiet [sql]:
  "quiet w \<Longrightarrow> tbl \<in> set (schema (db w)) \<Longrightarrow>
   in_tx tbl f w =
     (case f (db w) of
        Inl e \<Rightarrow> (Inl e, w\<lparr>tick := Suc (tick w)\<rparr>)
      | Inr (r, d) \<Rightarrow> (Inr r, w\<lparr>db := d, tick := Suc (tick w)\<rparr>))"
  by (simp add: in_tx_def quiet_def)

lemma autocommit_quiet [sql]:
  "quiet w \<Longrightarrow> tbl \<in> set (schema (db w)) \<Longrightarrow>
   autocommit tbl f w =
     (case f (db w) of
        Inl e \<Rightarrow> (Inl e, w\<lparr>tick := Suc (tick w)\<rparr>)
      | Inr (r, d) \<Rightarrow> (Inr r, w\<lparr>db := d, tick := Suc (tick w)\<rparr>))"
  by (simp add: autocommit_def in_tx_quiet)

lemma begin_tx_quiet [sql]: "quiet w \<Longrightarrow> begin_tx w = (Inr (), w\<lparr>tick := Suc (tick w)\<rparr>)"
  by (simp add: begin_tx_def) (simp add: quiet_def)

lemma driver_call_quiet [sql]: "quiet w \<Longrightarrow> driver_call w = (Inr (), w\<lparr>tick := Suc (tick w)\<rparr>)"
  by (simp add: driver_call_def quiet_def)

lemma commit_tx_quiet [sql]: "quiet w \<Longrightarrow> commit_tx w = (Inr (), w\<lparr>tick := Suc (tick w)\<rparr>)"
  by (simp add: commit_tx_def driver_call_quiet)

lemma in_tx_env [frame]: "env (snd (in_tx tbl f w)) = env w"
  by (simp add: in_tx_def split: option.splits sum.splits prod.splits)

lemma autocommit_env [frame]: "env (snd (autocommit tbl f w)) = env w"
  by (simp add: autocommit_def in_tx_env interfered_def)

lemma begin_tx_env [frame]: "env (snd (begin_tx w)) = env w"
  by (simp add: begin_tx_def interfered_def split: option.splits)

lemma driver_call_frame [frame]:
  "env (snd (driver_call w)) = env w" "db (snd (driver_call w)) = db w"
  "kdf (snd (driver_call w)) = kdf w"
  by (simp_all add: driver_call_def split: option.splits)

lemma commit_tx_env [frame]: "env (snd (commit_tx w)) = env w" "db (snd (commit_tx w)) = db w"
  by (simp_all add: commit_tx_def driver_call_frame)

lemma quiet_env: "env w' = env w \<Longrightarrow> quiet w' = quiet w"
  by (simp add: quiet_def)

lemma Transaction_env [frame]:
  assumes "\<And>w. env (snd (body w)) = env w"
  shows "env (snd (Transaction a b body w)) = env w"
proof -
  have body: "env w2 = env w1" if "body w1 = (r, w2)" for w1 r w2
    using assms [of w1] that by simp
  have beg: "env w2 = env w1" if "begin_tx w1 = (r, w2)" for w1 :: "'a world_scheme" and r w2
    using begin_tx_env [of w1] that by simp
  have com: "env w2 = env w1" if "commit_tx w1 = (r, w2)" for w1 :: "'a world_scheme" and r w2
    using commit_tx_env(1) [of w1] that by simp
  show ?thesis
    by (auto simp: Transaction_def rollback_def split: prod.splits sum.splits dest!: body beg com)
qed

lemma Transaction_quiet [sql]:
  assumes "quiet w" and "\<And>w. env (snd (body w)) = env w"
  shows "Transaction a b body w =
     (case body (w\<lparr>tick := Suc (tick w)\<rparr>) of
        (Inl e, w2) \<Rightarrow> (Inl e, w2\<lparr>db := db w\<rparr>)
      | (Inr r, w2) \<Rightarrow> (Inr r, w2\<lparr>tick := Suc (tick w2)\<rparr>))"
proof -
  have "quiet w2" if "body (w\<lparr>tick := Suc (tick w)\<rparr>) = (r, w2)" for r w2
    using assms(2) [of "w\<lparr>tick := Suc (tick w)\<rparr>"] that assms(1)
    by (simp add: quiet_def)
  then show ?thesis
    using assms(1)
    by (auto simp: Transaction_def begin_tx_quiet commit_tx_quiet rollback_def
             split: prod.splits sum.splits)
qed

lemma Transaction_run:
  assumes "quiet w" and "body (w\<lparr>tick := Suc (tick w)\<rparr>) = (r, w2)" and "quiet w2"
  shows "Transaction a b body w = (r, if isl r then w2\<lparr>db := db w\<rparr> else w2\<lparr>tick := Suc (tick w2)\<rparr>)"
  using assms by (cases r) (simp_all add: Transaction_def rollback_def begin_tx_quiet commit_tx_quiet)

text \<open>
  Atomicity.  Whatever fails inside a transaction, the tables are afterwards as they were when
  the transaction began (with what other connections did before its lock).
\<close>

lemma begin_tx_db: "begin_tx w = (r, w') \<Longrightarrow> db w' = db w \<or> db w' = db (interfered w)"
  by (auto simp: begin_tx_def split: option.splits)

lemma Transaction_failed:
  assumes "Transaction a b body w = (Inl e, w')"
  shows "db w' = db w \<or> db w' = db (interfered w)"
  using assms begin_tx_db [of w]
  by (auto simp: Transaction_def rollback_def split: prod.splits sum.splits)

text \<open>What an operation guarantees of the tables, whatever the environment does in a failed run.\<close>

lemma in_tx_failed: "in_tx tbl f w = (Inl e, w') \<Longrightarrow> db w' = db w"
  by (auto simp: in_tx_def split: option.splits if_splits sum.splits)

lemma in_tx_ok:
  "in_tx tbl f w = (Inr r, w') \<Longrightarrow> tbl \<in> set (schema (db w)) \<and> f (db w) = Inr (r, db w') \<and> env w' = env w"
  by (auto simp: in_tx_def split: option.splits if_splits sum.splits)

lemma autocommit_failed: "autocommit tbl f w = (Inl e, w') \<Longrightarrow> db w' = db (interfered w)"
  by (simp add: autocommit_def in_tx_failed)

lemma autocommit_ok:
  "autocommit tbl f w = (Inr r, w') \<Longrightarrow> f (db (interfered w)) = Inr (r, db w') \<and> env w' = env w"
  using in_tx_ok [of tbl f "interfered w" r w'] by (simp add: autocommit_def interfered_def)

text \<open>What survives of a transaction that commits.\<close>

lemma Transaction_ok:
  assumes "Transaction a b body w = (Inr r, w')"
  obtains w2 where "body ((interfered w)\<lparr>tick := Suc (tick w)\<rparr>) = (Inr r, w2)"
    and "w' = w2\<lparr>tick := Suc (tick w2)\<rparr>"
  using assms
  by (auto simp: Transaction_def begin_tx_def commit_tx_def driver_call_def rollback_def
           split: prod.splits sum.splits option.splits)

text \<open>Statements change the tables and consume oracle answers, nothing else of the world.\<close>

definition db_only :: "'x world_scheme \<Rightarrow> 'x world_scheme \<Rightarrow> bool" where
  "db_only w w' \<longleftrightarrow> w' = w\<lparr>db := db w', tick := tick w'\<rparr>"

lemma db_only_refl [simp, intro]: "db_only w w"
  by (simp add: db_only_def)

lemma db_only_update [simp, intro]:
  "db_only w (w\<lparr>tick := n\<rparr>)" "db_only w (w\<lparr>db := d\<rparr>)" "db_only w (w\<lparr>db := d, tick := n\<rparr>)"
  "db_only w (interfered w)" "db_only w ((interfered w)\<lparr>tick := n\<rparr>)"
  by (simp_all add: db_only_def interfered_def)

lemma db_only_trans [trans]: "db_only u v \<Longrightarrow> db_only v w \<Longrightarrow> db_only u w"
proof -
  assume "db_only u v" and "db_only v w"
  then have v: "v = u\<lparr>db := db v, tick := tick v\<rparr>" and w: "w = v\<lparr>db := db w, tick := tick w\<rparr>"
    by (simp_all add: db_only_def)
  have "w = u\<lparr>db := db v, tick := tick v\<rparr>\<lparr>db := db w, tick := tick w\<rparr>"
    using v w by simp
  then show ?thesis by (simp add: db_only_def)
qed

lemma db_onlyD:
  assumes "db_only w w'"
  shows "env w' = env w" "kdf w' = kdf w" "world.more w' = world.more w"
proof -
  have "w' = w\<lparr>db := db w', tick := tick w'\<rparr>" using assms by (simp add: db_only_def)
  then show "env w' = env w" "kdf w' = kdf w" "world.more w' = world.more w"
    by (metis world.select_convs world.simps world.surjective world.update_convs)+
qed

lemma db_only_in_tx: "in_tx tbl f w = (r, w') \<Longrightarrow> db_only w w'"
  by (auto simp: in_tx_def split: option.splits if_splits sum.splits)

lemma db_only_autocommit: "autocommit tbl f w = (r, w') \<Longrightarrow> db_only w w'"
  unfolding autocommit_def by (rule db_only_trans [OF _ db_only_in_tx]) auto

lemma db_only_driver: "driver_call w = (r, w') \<Longrightarrow> db_only w w'"
  by (auto simp: driver_call_def split: option.splits)

lemma db_only_now: "time_Now w = (r, w') \<Longrightarrow> db_only w w'"
  by (auto simp: time_Now_def)

lemma db_only_rand: "rand_Read n w = (r, w') \<Longrightarrow> db_only w w'"
  by (auto simp: rand_Read_def)

lemma db_only_Transaction:
  assumes "\<And>w r w'. body w = (r, w') \<Longrightarrow> db_only w w'" and "Transaction a b body w = (r, w')"
  shows "db_only w w'"
proof -
  obtain r1 w1 where b: "begin_tx w = (r1, w1)" by fastforce
  obtain r2 w2 where c: "body w1 = (r2, w2)" by fastforce
  obtain r3 w3 where d: "commit_tx w2 = (r3, w3)" by fastforce
  have w1: "db_only w w1" using b by (auto simp: begin_tx_def split: option.splits)
  have w2: "db_only w w2" using w1 assms(1) [OF c] by (rule db_only_trans)
  have w3: "db_only w w3" using w2 d by (auto simp: commit_tx_def intro: db_only_trans db_only_driver)
  have "w' \<in> {w1, w2, w3} \<or> w' = w2\<lparr>db := db w1\<rparr> \<or> w' = w3\<lparr>db := db w1\<rparr>"
    using assms(2) b c d by (auto simp: Transaction_def rollback_def split: sum.splits)
  then show ?thesis
    using w1 w2 w3 by (auto intro: db_only_trans [OF _ db_only_update(2)])
qed

subsection \<open>Rows\<close>

lemma First_Inr: "First key P rows = Inr r \<Longrightarrow> r \<in> set rows \<and> P r"
proof -
  assume "First key P rows = Inr r"
  then obtain rs where "sort_key key (filter P rows) = r # rs"
    by (auto simp: First_def split: list.splits)
  then have "r \<in> set (sort_key key (filter P rows))" by simp
  then show ?thesis by simp
qed

lemma sort_key_eq_Nil [simp]: "sort_key key xs = [] \<longleftrightarrow> xs = []"
  by (metis length_0_conv length_sort)

lemma First_Inl: "First key P rows = Inl e \<longleftrightarrow> e = ErrRecordNotFound \<and> (\<forall>r \<in> set rows. \<not> P r)"
proof (cases "filter P rows = []")
  case True
  then show ?thesis by (auto simp: First_def filter_empty_conv)
next
  case False
  then obtain q qs where "sort_key key (filter P rows) = q # qs"
    by (metis list.exhaust sort_key_eq_Nil)
  with False show ?thesis by (auto simp: First_def filter_empty_conv)
qed

lemma First_unique:
  assumes "r \<in> set rows" and "P r" and "\<And>q. q \<in> set rows \<Longrightarrow> P q \<Longrightarrow> q = r"
  shows "First key P rows = Inr r"
proof (cases "First key P rows")
  case (Inl e)
  with assms(1,2) show ?thesis by (simp add: First_Inl)
next
  case (Inr q)
  then have "q \<in> set rows" and "P q" by (simp_all add: First_Inr)
  then have "q = r" by (rule assms(3))
  with Inr show ?thesis by simp
qed

lemma First_ex: "r \<in> set rows \<Longrightarrow> P r \<Longrightarrow> \<exists>x. First key P rows = Inr x \<and> x \<in> set rows \<and> P x"
  by (cases "First key P rows") (auto simp: First_Inl dest: First_Inr)

text \<open>A lookup by a unique column finds the row with that value.\<close>

lemma First_key:
  assumes "distinct (map col rows)" and "r \<in> set rows"
  shows "First key (\<lambda>q. col q = col r) rows = Inr r"
proof (rule First_unique)
  fix q assume "q \<in> set rows" and "col q = col r"
  with assms show "q = r" by (auto simp: distinct_map inj_on_def)
qed (use assms in auto)

lemma First_none: "(\<forall>r \<in> set rows. \<not> P r) \<Longrightarrow> First key P rows = Inl ErrRecordNotFound"
  by (simp add: First_Inl)

lemma RowsAffected_unique:
  assumes "distinct (map col rows)" and "r \<in> set rows"
  shows "RowsAffected (\<lambda>q. col q = col r \<and> Q q) rows = (if Q r then 1 else 0)"
proof -
  have "q = r" if "q \<in> set rows" and "col q = col r" for q
    using that assms by (auto simp: distinct_map inj_on_def)
  then have "set (filter (\<lambda>q. col q = col r \<and> Q q) rows) = (if Q r then {r} else {})"
    using assms(2) by auto
  moreover have "distinct (filter (\<lambda>q. col q = col r \<and> Q q) rows)"
    using assms(1) by (simp add: distinct_map)
  ultimately have "length (filter (\<lambda>q. col q = col r \<and> Q q) rows) = (if Q r then 1 else 0)"
    by (simp add: distinct_card [symmetric])
  then show ?thesis by (simp add: RowsAffected_def)
qed

lemma RowsAffected_zero: "RowsAffected P rows = 0 \<longleftrightarrow> (\<forall>r \<in> set rows. \<not> P r)"
  by (simp add: RowsAffected_def filter_empty_conv)

lemma set_update_where: "set (update_where P f rows) = f ` {r \<in> set rows. P r} \<union> {r \<in> set rows. \<not> P r}"
  by (auto simp: update_where_def)

lemma update_where_none: "(\<forall>r \<in> set rows. \<not> P r) \<Longrightarrow> update_where P f rows = rows"
  by (auto simp: update_where_def intro: map_idI)

lemma map_update_where [simp]: "(\<And>r. col (f r) = col r) \<Longrightarrow> map col (update_where P f rows) = map col rows"
  by (simp add: update_where_def)

lemma length_update_where [simp]: "length (update_where P f rows) = length rows"
  by (simp add: update_where_def)

lemma set_delete_where [simp]: "set (delete_where P rows) = {r \<in> set rows. \<not> P r}"
  by (auto simp: delete_where_def)

lemma distinct_delete_where: "distinct (map col rows) \<Longrightarrow> distinct (map col (delete_where P rows))"
  by (simp add: delete_where_def distinct_map_filter)

lemma map_save_row: "distinct (map key rows) \<Longrightarrow> distinct (map key (save_row key r rows))"
  by (simp add: save_row_def update_where_def if_distrib comp_def cong: if_cong)

text \<open>Replacing one table keeps the schema's constraints if the new table does.\<close>

lemma wf_db_upd:
  assumes "wf_db d"
  shows "distinct (map u_Id us) \<Longrightarrow> distinct (map u_Username us) \<Longrightarrow> wf_db (d\<lparr>o_users := us\<rparr>)"
    "distinct (map rs_ID ss) \<Longrightarrow> distinct (map rs_TokenSHA256 ss) \<Longrightarrow> wf_db (d\<lparr>o_refresh_sessions := ss\<rparr>)"
    "distinct (map la_Key ls) \<Longrightarrow> wf_db (d\<lparr>o_login_attempts := ls\<rparr>)"
    "distinct (map ce_ID cs) \<Longrightarrow> wf_db (d\<lparr>o_credential_events := cs\<rparr>)"
    "distinct (map ra_JTI rs) \<Longrightarrow> wf_db (d\<lparr>o_revoked_access_tokens := rs\<rparr>)"
    "distinct (map ev_UUID es) \<Longrightarrow> wf_db (d\<lparr>events := es\<rparr>)"
  using assms by (simp_all add: wf_db_def)

lemma wf_dbD:
  assumes "wf_db d"
  shows "distinct (map u_Id (o_users d))" "distinct (map u_Username (o_users d))"
    "distinct (map rs_ID (o_refresh_sessions d))" "distinct (map rs_TokenSHA256 (o_refresh_sessions d))"
    "distinct (map la_Key (o_login_attempts d))" "distinct (map ce_ID (o_credential_events d))"
    "distinct (map ra_JTI (o_revoked_access_tokens d))" "distinct (map ev_UUID (events d))"
  using assms by (simp_all add: wf_db_def)

section \<open>Sample worlds\<close>

text \<open>A process with nothing to fear, on which properties are evaluated.\<close>

definition calm_env :: env where
  "calm_env = \<lparr>clock = (\<lambda>n. 1000 * int n), rng = (\<lambda>i n. Some (replicate n (char_of i))),
     fault = (\<lambda>_. None), interfere = (\<lambda>_ d. d), new_rowid = (\<lambda>_ d. int (length (o_users d)) + 1),
     id_affinity = Atoi\<rparr>"

definition empty_db :: db where
  "empty_db = \<lparr>schema = all_tables, has_token_version = True, o_users = [], o_refresh_sessions = [],
     o_login_attempts = [], o_credential_events = [], o_revoked_access_tokens = [],
     o_bootstrap_state = [], events = []\<rparr>"

definition calm_world :: "db \<Rightarrow> world" where
  "calm_world d = \<lparr>db = d, env = calm_env, tick = 0, kdf = []\<rparr>"

lemma calm_ready [simp]: "quiet (calm_world d)" "migrated d \<Longrightarrow> ready (calm_world d)"
  by (simp_all add: calm_world_def calm_env_def quiet_def ready_def)

lemma calm_fields [simp]: "db (calm_world d) = d" "env (calm_world d) = calm_env" "tick (calm_world d) = 0"
  by (simp_all add: calm_world_def)

lemma calm_rng [simp]: "rng_ok calm_env"
  by (simp add: calm_env_def rng_ok_def)

lemma empty_db_migrated [simp]: "migrated empty_db"
  by (simp add: empty_db_def migrated_def)

end
