(* ===== verification/Go_Encoding.thy ===== *)
theory Go_Encoding
  imports Go_Prelude
begin

text \<open>
  The encodings of Go's standard library the program uses: \<open>encoding/hex\<close> and the unpadded,
  strict form of \<open>encoding/base64\<close>, with their round trips.
\<close>

abbreviation code :: "char \<Rightarrow> nat" where
  "code c \<equiv> of_char c"

lemma code_less_256 [simp]: "code c < 256"
  by (metis of_char_of nat_of_char_less_256)

section \<open>encoding/hex\<close>

definition hex_digits :: string where
  "hex_digits = ''0123456789abcdef''"

fun hex_EncodeToString :: "string \<Rightarrow> string" where
  "hex_EncodeToString [] = []"
| "hex_EncodeToString (c # s) =
     hex_digits ! (code c div 16) # hex_digits ! (code c mod 16) # hex_EncodeToString s"

definition hex_value :: "char \<Rightarrow> nat option" where
  "hex_value c =
     (if is_digit c then Some (code c - 48)
      else if CHR ''a'' \<le> c \<and> c \<le> CHR ''f'' then Some (code c - 87)
      else if CHR ''A'' \<le> c \<and> c \<le> CHR ''F'' then Some (code c - 55)
      else None)"

fun hex_DecodeString :: "string \<Rightarrow> string option" where
  "hex_DecodeString [] = Some []"
| "hex_DecodeString [c] = None"
| "hex_DecodeString (c # d # s) =
     (case (hex_value c, hex_value d, hex_DecodeString s) of
        (Some a, Some b, Some t) \<Rightarrow> Some (char_of (16 * a + b) # t)
      | _ \<Rightarrow> None)"

lemma nat_less_16: "n < 16 \<Longrightarrow> n \<in> {0, 1, 2, 3, 4, 5, 6, 7, 8, 9, 10, 11, 12, 13, 14, 15 :: nat}"
  by (simp, presburger)

lemma hex_value_digit: "n < 16 \<Longrightarrow> hex_value (hex_digits ! n) = Some n"
  by (drule nat_less_16)
     (auto simp: hex_digits_def hex_value_def is_digit_iff less_eq_char_def)

lemma hex_digits_lower: "n < 16 \<Longrightarrow> hex_digits ! n \<in> set hex_digits"
  by (simp only: hex_digits_def) (rule nth_mem, simp)

lemma code_div_16 [simp]: "code c div 16 < 16"
  using code_less_256 [of c] by (simp add: less_mult_imp_div_less)

lemma length_hex_Encode [simp]: "length (hex_EncodeToString s) = 2 * length s"
  by (induction s) auto

lemma set_hex_Encode: "set (hex_EncodeToString s) \<subseteq> set hex_digits"
  by (induction s) (simp_all add: hex_digits_lower)

theorem hex_roundtrip: "hex_DecodeString (hex_EncodeToString s) = Some s"
  by (induction s) (simp_all add: hex_value_digit)

lemma nth_hex_Encode:
  "i < length s \<Longrightarrow>
   hex_EncodeToString s ! (2 * i) = hex_digits ! (code (s ! i) div 16) \<and>
   hex_EncodeToString s ! (2 * i + 1) = hex_digits ! (code (s ! i) mod 16)"
proof (induction s arbitrary: i)
  case Nil
  then show ?case by simp
next
  case (Cons c s)
  then show ?case by (cases i) auto
qed

lemma hex_DecodeString_length: "hex_DecodeString s = Some t \<Longrightarrow> length s = 2 * length t"
  by (induction s arbitrary: t rule: hex_DecodeString.induct) (auto split: option.splits)

section \<open>encoding/base64, raw and strict\<close>

definition StdAlphabet :: string where
  "StdAlphabet = ''ABCDEFGHIJKLMNOPQRSTUVWXYZabcdefghijklmnopqrstuvwxyz0123456789+/''"

definition URLAlphabet :: string where
  "URLAlphabet = ''ABCDEFGHIJKLMNOPQRSTUVWXYZabcdefghijklmnopqrstuvwxyz0123456789-_''"

text \<open>\<open>RawStdEncoding.EncodeToString\<close>: groups of three bytes, no padding.\<close>

fun b64_Encode :: "string \<Rightarrow> string \<Rightarrow> string" where
  "b64_Encode al [] = []"
| "b64_Encode al [a] = [al ! (code a div 4), al ! (code a mod 4 * 16)]"
| "b64_Encode al [a, b] =
     [al ! (code a div 4), al ! (code a mod 4 * 16 + code b div 16), al ! (code b mod 16 * 4)]"
| "b64_Encode al (a # b # c # s) =
     al ! (code a div 4) # al ! (code a mod 4 * 16 + code b div 16) #
     al ! (code b mod 16 * 4 + code c div 64) # al ! (code c mod 64) # b64_Encode al s"

definition b64_value :: "string \<Rightarrow> char \<Rightarrow> nat option" where
  "b64_value al c = find (\<lambda>i. al ! i = c) [0..<length al]"

text \<open>
  \<open>Strict().DecodeString\<close>: the trailing bits of the last character must be zero; the decoder
  skips carriage returns and line feeds.
\<close>

fun b64_quanta :: "string \<Rightarrow> string \<Rightarrow> string option" where
  "b64_quanta al [] = Some []"
| "b64_quanta al [w] = None"
| "b64_quanta al [w, x] =
     (case (b64_value al w, b64_value al x) of
        (Some i, Some j) \<Rightarrow> if j mod 16 = 0 then Some [char_of (i * 4 + j div 16)] else None
      | _ \<Rightarrow> None)"
| "b64_quanta al [w, x, y] =
     (case (b64_value al w, b64_value al x, b64_value al y) of
        (Some i, Some j, Some k) \<Rightarrow>
          if k mod 4 = 0 then Some [char_of (i * 4 + j div 16), char_of (j mod 16 * 16 + k div 4)]
          else None
      | _ \<Rightarrow> None)"
| "b64_quanta al (w # x # y # z # s) =
     (case (b64_value al w, b64_value al x, b64_value al y, b64_value al z, b64_quanta al s) of
        (Some i, Some j, Some k, Some l, Some t) \<Rightarrow>
          Some (char_of (i * 4 + j div 16) # char_of (j mod 16 * 16 + k div 4) #
                char_of (k mod 4 * 64 + l) # t)
      | _ \<Rightarrow> None)"

definition skip_breaks :: "string \<Rightarrow> string" where
  "skip_breaks s = filter (\<lambda>c. c \<notin> {CHR 0x0A, CHR 0x0D}) s"

definition b64_DecodeString :: "string \<Rightarrow> string \<Rightarrow> string option" where
  "b64_DecodeString al s = b64_quanta al (skip_breaks s)"

definition alphabet :: "string \<Rightarrow> bool" where
  "alphabet al \<longleftrightarrow> distinct al \<and> length al = 64 \<and> CHR 0x0A \<notin> set al \<and> CHR 0x0D \<notin> set al"

lemma StdAlphabet: "alphabet StdAlphabet" and URLAlphabet: "alphabet URLAlphabet"
  by (simp_all add: alphabet_def StdAlphabet_def URLAlphabet_def)

lemma skip_breaks_simps [simp]:
  "skip_breaks [] = []" "skip_breaks (s @ t) = skip_breaks s @ skip_breaks t"
  "skip_breaks (c # s) = (if c \<in> {CHR 0x0A, CHR 0x0D} then skip_breaks s else c # skip_breaks s)"
  by (simp_all add: skip_breaks_def)

lemma skip_breaks_dec [simp]: "skip_breaks (dec_of_nat n) = dec_of_nat n"
  using dec_of_nat_digits [of n]
  by (auto simp: skip_breaks_def filter_id_conv list_all_iff is_digit_iff)

lemma b64_value_Some: "b64_value al c = Some i \<Longrightarrow> i < length al \<and> al ! i = c"
  by (auto simp: b64_value_def find_Some_iff)

lemma b64_value_nth:
  assumes "alphabet al" and "i < 64"
  shows "b64_value al (al ! i) = Some i"
proof -
  have "distinct al" "length al = 64"
    using assms(1) by (auto simp: alphabet_def)
  then show ?thesis
    using assms(2) by (auto simp: b64_value_def find_Some_iff nth_eq_iff_index_eq intro!: exI [of _ i])
qed

text \<open>Sextets of a byte stream are sextets, and they reassemble to the bytes.\<close>

lemma code_parts [simp]:
  "code c div 4 < 64" "code c div 64 < 4" "code c div 64 div 4 = 0" "code c div 16 div 16 = 0"
  using code_less_256 [of c] by (simp_all add: div_mult2_eq [symmetric] less_mult_imp_div_less)

lemma sextet_bounds [simp]:
  "code a mod 4 * 16 < 64" "code a mod 4 * 16 + code b div 16 < 64"
  "code b mod 16 * 4 < 64" "code b mod 16 * 4 + code c div 64 < 64" "code c mod 64 < 64"
proof -
  have "code a mod 4 < 4" "code b mod 16 < 16" "code c mod 64 < 64" by simp_all
  moreover have "code b div 16 < 16" "code c div 64 < 4" by simp_all
  ultimately show "code a mod 4 * 16 < 64" "code a mod 4 * 16 + code b div 16 < 64"
    "code b mod 16 * 4 < 64" "code b mod 16 * 4 + code c div 64 < 64" "code c mod 64 < 64"
    by linarith+
qed

lemma b64_quanta_Encode: "alphabet al \<Longrightarrow> b64_quanta al (b64_Encode al s) = Some s"
  by (induction al s rule: b64_Encode.induct) (simp_all add: b64_value_nth)

lemma set_b64_Encode: "alphabet al \<Longrightarrow> set (b64_Encode al s) \<subseteq> set al"
proof -
  assume "alphabet al"
  then have "length al = 64" by (simp add: alphabet_def)
  then show ?thesis
    by (induction al s rule: b64_Encode.induct) (simp_all add: nth_mem)
qed

theorem b64_roundtrip: "alphabet al \<Longrightarrow> b64_DecodeString al (b64_Encode al s) = Some s"
proof -
  assume al: "alphabet al"
  then have "skip_breaks (b64_Encode al s) = b64_Encode al s"
    using set_b64_Encode [OF al, of s] by (auto simp: skip_breaks_def filter_id_conv alphabet_def)
  with al show ?thesis by (simp add: b64_DecodeString_def b64_quanta_Encode)
qed

text \<open>Strictness: a text that decodes is the canonical encoding of what it decodes to.\<close>

lemma sextet_code:
  fixes i j k l :: nat
  assumes "i < 64" "j < 64" "k < 64" "l < 64"
  shows "code (char_of (i * 4 + j div 16)) = i * 4 + j div 16"
    "code (char_of (j mod 16 * 16 + k div 4)) = j mod 16 * 16 + k div 4"
    "code (char_of (k mod 4 * 64 + l)) = k mod 4 * 64 + l"
proof -
  have "j div 16 < 4" "j mod 16 < 16" "k div 4 < 16" "k mod 4 < 4"
    using assms by (simp_all add: less_mult_imp_div_less)
  then have "i * 4 + j div 16 < 256" "j mod 16 * 16 + k div 4 < 256" "k mod 4 * 64 + l < 256"
    using assms by linarith+
  then show "code (char_of (i * 4 + j div 16)) = i * 4 + j div 16"
    "code (char_of (j mod 16 * 16 + k div 4)) = j mod 16 * 16 + k div 4"
    "code (char_of (k mod 4 * 64 + l)) = k mod 4 * 64 + l"
    by simp_all
qed

lemma sextet_split:
  fixes i j k l :: nat
  assumes "i < 64" "j < 64" "k < 64" "l < 64"
  shows "(i * 4 + j div 16) div 4 = i"
    "(i * 4 + j div 16) mod 4 * 16 + (j mod 16 * 16 + k div 4) div 16 = j"
    "(i * 4 + j div 16) mod 4 * 16 = j div 16 * 16"
    "(j mod 16 * 16 + k div 4) mod 16 * 4 + (k mod 4 * 64 + l) div 64 = k"
    "(j mod 16 * 16 + k div 4) mod 16 * 4 = k div 4 * 4"
    "(k mod 4 * 64 + l) mod 64 = l"
proof -
  have "j div 16 < 4" "k div 4 < 16"
    using assms by (simp_all add: less_mult_imp_div_less)
  then show "(i * 4 + j div 16) div 4 = i"
    "(i * 4 + j div 16) mod 4 * 16 + (j mod 16 * 16 + k div 4) div 16 = j"
    "(i * 4 + j div 16) mod 4 * 16 = j div 16 * 16"
    "(j mod 16 * 16 + k div 4) mod 16 * 4 + (k mod 4 * 64 + l) div 64 = k"
    "(j mod 16 * 16 + k div 4) mod 16 * 4 = k div 4 * 4"
    "(k mod 4 * 64 + l) mod 64 = l"
    using assms by simp_all
qed

lemma b64_Encode_quanta:
  assumes "length al = 64"
  shows "b64_quanta al s = Some t \<Longrightarrow> b64_Encode al t = s"
  using assms
proof (induction al s arbitrary: t rule: b64_quanta.induct)
  case (3 al w x)
  then obtain i j where "b64_value al w = Some i" "b64_value al x = Some j" "j mod 16 = 0"
    "t = [char_of (i * 4 + j div 16)]"
    by (auto simp del: of_char_of split: option.splits if_splits)
  with 3 show ?case
    using sextet_code [of i j 0 0] sextet_split [of i j 0 0]
    by (auto simp del: of_char_of dest!: b64_value_Some)
next
  case (4 al w x y)
  then obtain i j k where "b64_value al w = Some i" "b64_value al x = Some j"
    "b64_value al y = Some k" "k mod 4 = 0"
    "t = [char_of (i * 4 + j div 16), char_of (j mod 16 * 16 + k div 4)]"
    by (auto simp del: of_char_of split: option.splits if_splits)
  with 4 show ?case
    using sextet_code [of i j k 0] sextet_split [of i j k 0]
    by (auto simp del: of_char_of dest!: b64_value_Some)
next
  case (5 al w x y z s)
  then obtain i j k l u where "b64_value al w = Some i" "b64_value al x = Some j"
    "b64_value al y = Some k" "b64_value al z = Some l" "b64_quanta al s = Some u"
    "t = char_of (i * 4 + j div 16) # char_of (j mod 16 * 16 + k div 4) #
         char_of (k mod 4 * 64 + l) # u"
    by (auto simp del: of_char_of split: option.splits if_splits)
  with 5 show ?case
    using sextet_code [of i j k l] sextet_split [of i j k l]
    by (auto simp del: of_char_of dest!: b64_value_Some)
qed auto

end
