(* ===== verification/Tokens.thy ===== *)
theory Tokens
  imports Store Go_Encoding
begin

unbundle bit_operations_syntax

text \<open>
  \<open>src/pkg/authsecurity\<close>: session tokens and the published key set.

  SHA-256 and the P-256 curve equation, which the source takes from Go's standard library, are
  defined here.  The JWT library (\<open>github.com/golang-jwt/jwt/v4\<close>) is a parameter: a record of the
  functions the source calls.  What its documentation promises is stated in \<open>jwt_sound\<close> and
  \<open>jwt_complete\<close>, the hypotheses of the theorems that need them.
\<close>

section \<open>SHA-256\<close>

text \<open>The round constants and the initial state, in decimal.\<close>

definition sha_K :: "32 word list" where
  "sha_K =
     [1116352408, 1899447441, 3049323471, 3921009573, 961987163, 1508970993, 2453635748, 2870763221,
      3624381080, 310598401, 607225278, 1426881987, 1925078388, 2162078206, 2614888103, 3248222580,
      3835390401, 4022224774, 264347078, 604807628, 770255983, 1249150122, 1555081692, 1996064986,
      2554220882, 2821834349, 2952996808, 3210313671, 3336571891, 3584528711, 113926993, 338241895,
      666307205, 773529912, 1294757372, 1396182291, 1695183700, 1986661051, 2177026350, 2456956037,
      2730485921, 2820302411, 3259730800, 3345764771, 3516065817, 3600352804, 4094571909, 275423344,
      430227734, 506948616, 659060556, 883997877, 958139571, 1322822218, 1537002063, 1747873779,
      1955562222, 2024104815, 2227730452, 2361852424, 2428436474, 2756734187, 3204031479, 3329325298]"

definition sha_H0 :: "32 word list" where
  "sha_H0 = [1779033703, 3144134277, 1013904242, 2773480762, 1359893119, 2600822924, 528734635, 1541459225]"

definition rotr32 :: "nat \<Rightarrow> 32 word \<Rightarrow> 32 word" where
  "rotr32 n x = drop_bit n x OR push_bit (32 - n) x"

text \<open>Big-endian bytes of a number, most significant first, and back.\<close>

fun be_bytes :: "nat \<Rightarrow> nat \<Rightarrow> string" where
  "be_bytes 0 n = []"
| "be_bytes (Suc k) n = be_bytes k (n div 256) @ [char_of (n mod 256)]"

definition be_value :: "string \<Rightarrow> nat" where
  "be_value s = foldl (\<lambda>v c. 256 * v + code c) 0 s"

definition sha_pad :: "string \<Rightarrow> string" where
  "sha_pad m =
     m @ [char_of (128 :: nat)] @ replicate ((119 - length m mod 64) mod 64) (char_of (0 :: nat)) @
     be_bytes 8 (8 * length m)"

fun chunks :: "nat \<Rightarrow> nat \<Rightarrow> string \<Rightarrow> string list" where
  "chunks 0 n s = []"
| "chunks (Suc k) n s = take n s # chunks k n (drop n s)"

definition sha_words :: "string \<Rightarrow> 32 word list" where
  "sha_words block = map (\<lambda>c. word_of_nat (be_value c)) (chunks 16 4 block)"

fun sha_schedule :: "nat \<Rightarrow> 32 word list \<Rightarrow> 32 word list" where
  "sha_schedule 0 ws = ws"
| "sha_schedule (Suc k) ws =
     (let t = length ws;
          s0 = rotr32 7 (ws ! (t - 15)) XOR rotr32 18 (ws ! (t - 15)) XOR drop_bit 3 (ws ! (t - 15));
          s1 = rotr32 17 (ws ! (t - 2)) XOR rotr32 19 (ws ! (t - 2)) XOR drop_bit 10 (ws ! (t - 2)) in
      sha_schedule k (ws @ [ws ! (t - 16) + s0 + ws ! (t - 7) + s1]))"

definition sha_round :: "32 word list \<Rightarrow> 32 word \<times> 32 word \<Rightarrow> 32 word list" where
  "sha_round v kw =
     (let a = v ! 0; b = v ! 1; c = v ! 2; d = v ! 3; e = v ! 4; f = v ! 5; g = v ! 6; h = v ! 7;
          S1 = rotr32 6 e XOR rotr32 11 e XOR rotr32 25 e;
          ch = (e AND f) XOR (NOT e AND g);
          t1 = h + S1 + ch + fst kw + snd kw;
          S0 = rotr32 2 a XOR rotr32 13 a XOR rotr32 22 a;
          maj = (a AND b) XOR (a AND c) XOR (b AND c);
          t2 = S0 + maj in
      [t1 + t2, a, b, c, d + t1, e, f, g])"

definition sha_block :: "32 word list \<Rightarrow> string \<Rightarrow> 32 word list" where
  "sha_block hs block =
     map2 (+) hs (foldl sha_round hs (zip sha_K (sha_schedule 48 (sha_words block))))"

definition sha256_Sum256 :: "string \<Rightarrow> string" where
  "sha256_Sum256 m =
     (let p = sha_pad m in
      concat (map (\<lambda>w. be_bytes 4 (unat w)) (foldl sha_block sha_H0 (chunks (length p div 64) 64 p))))"

section \<open>Keys\<close>

datatype curve = P256 | OtherCurve string

record PublicKey =
  pk_Curve :: curve
  pk_X :: "int option"
  pk_Y :: "int option"

record PrivateKey =
  sk_Public :: PublicKey
  sk_D :: int

definition p256_p :: int where
  "p256_p = 2 ^ 256 - 2 ^ 224 + 2 ^ 192 + 2 ^ 96 - 1"

definition p256_b :: int where
  "p256_b = 0x5ac635d8aa3a93e7b3ebbd55769886bc651d06b0cc53b0f63bce3c3e27d2604b"

definition IsOnCurve :: "int \<Rightarrow> int \<Rightarrow> bool" where
  "IsOnCurve x y \<longleftrightarrow> 0 \<le> x \<and> x < p256_p \<and> 0 \<le> y \<and> y < p256_p \<and>
     (y * y - (x * x * x - 3 * x + p256_b)) mod p256_p = 0"

text \<open>The check that three functions make of a key: \<open>P-256\<close>, both coordinates present, on the curve.\<close>

definition valid_p256 :: "PublicKey option \<Rightarrow> bool" where
  "valid_p256 key =
     (case key of
        None \<Rightarrow> False
      | Some k \<Rightarrow> pk_Curve k = P256 \<and>
          (case (pk_X k, pk_Y k) of (Some x, Some y) \<Rightarrow> IsOnCurve x y | _ \<Rightarrow> False))"

section \<open>The key set\<close>

definition p256CoordinateBytes :: nat where "p256CoordinateBytes = 32"

record publicJWK =
  KeyType :: string
  Curve :: string
  JWK_X :: string
  JWK_Y :: string

text \<open>\<open>json.Marshal\<close> of the one-element key set; the field values need no escapes.\<close>

definition marshal_jwks :: "publicJWK list \<Rightarrow> string" where
  "marshal_jwks ks =
     ''{\"keys\":['' @ join_with (CHR '','') (map (\<lambda>k.
        ''{\"kty\":\"'' @ KeyType k @ ''\",\"crv\":\"'' @ Curve k @ ''\",\"x\":\"'' @ JWK_X k @
        ''\",\"y\":\"'' @ JWK_Y k @ ''\"}'') ks) @ '']}''"

definition GeneratePublicJWKS :: "PublicKey option \<Rightarrow> error + string" where
  "GeneratePublicJWKS publicKey =
     (if \<not> valid_p256 publicKey then Inl (ErrorsNew ''JWKS requires a valid P-256 public key'')
      else
      let k = the publicKey;
          x = be_bytes p256CoordinateBytes (nat (the (pk_X k)));
          y = be_bytes p256CoordinateBytes (nat (the (pk_Y k))) in
      Inr (marshal_jwks [\<lparr>KeyType = ''EC'', Curve = ''P-256'', JWK_X = b64_Encode URLAlphabet x,
             JWK_Y = b64_Encode URLAlphabet y\<rparr>]))"

section \<open>Claims\<close>

definition AccessTokenIssuer :: string where "AccessTokenIssuer = ''casaos''"
definition RefreshTokenIssuer :: string where "RefreshTokenIssuer = ''refresh''"
definition maxTokenSize :: nat where "maxTokenSize = 8 * 1024"

definition second :: duration where "second = 10 ^ 9"
definition minute :: duration where "minute = 60 * second"
definition hour :: duration where "hour = 3600 * second"

definition AccessTokenLifetime :: duration where "AccessTokenLifetime = 3 * hour"
definition RefreshTokenLifetime :: duration where "RefreshTokenLifetime = 7 * 24 * hour"
definition maxSessionTokenIDBytes :: nat where "maxSessionTokenIDBytes = 16"

record RegisteredClaims =
  Issuer :: string
  Subject :: string
  IssuedAt :: "time option"
  NotBefore :: "time option"
  ExpiresAt :: "time option"

record SessionClaims = RegisteredClaims +
  ID :: string
  Username :: string
  UserID :: int
  TokenVersion :: int

text \<open>The claims of \<open>CasaOS-Common\<close>, which the older validators read: a numeric id and a name.\<close>

record CommonClaims = RegisteredClaims +
  cc_Username :: string
  cc_ID :: int

section \<open>The JWT library\<close>

text \<open>
  \<open>jwt_Parse token keyfunc methods now\<close> is \<open>jwt.ParseWithClaims\<close> with \<open>WithValidMethods methods\<close> when the
  clock shows \<open>now\<close>: the claims if it returns no error and a valid token.  \<open>keyfunc\<close> gets the name of
  the header's algorithm.  \<open>jwt_Sign n claims key\<close> is \<open>NewWithClaims (SigningMethodES256, claims).SignedString
  (key)\<close>; ECDSA signatures are randomised, so it also depends on the number of the call.
  \<open>NumericDate\<close> is the precision a date claim keeps.  \<open>jwt_signed key token claims\<close> says that the
  token carries these claims under a signature of this key.
\<close>

record jwtlib =
  jwt_Parse :: "string \<Rightarrow> (string \<Rightarrow> error + PublicKey) \<Rightarrow> string list \<Rightarrow> time \<Rightarrow> SessionClaims option"
  jwt_ParseCommon :: "string \<Rightarrow> (string \<Rightarrow> error + PublicKey) \<Rightarrow> string list \<Rightarrow> time \<Rightarrow> CommonClaims option"
  jwt_Sign :: "nat \<Rightarrow> SessionClaims \<Rightarrow> PrivateKey \<Rightarrow> string option"
  NumericDate :: "time \<Rightarrow> time"
  jwt_signed :: "PublicKey \<Rightarrow> string \<Rightarrow> SessionClaims \<Rightarrow> bool"

definition ES256 :: string where "ES256 = ''ES256''"

definition claims_valid :: "'c RegisteredClaims_scheme \<Rightarrow> time \<Rightarrow> bool" where
  "claims_valid c now \<longleftrightarrow>
     (case ExpiresAt c of None \<Rightarrow> True | Some t \<Rightarrow> now < t) \<and>
     (case IssuedAt c of None \<Rightarrow> True | Some t \<Rightarrow> t \<le> now) \<and>
     (case NotBefore c of None \<Rightarrow> True | Some t \<Rightarrow> t \<le> now)"

text \<open>
  Documented behaviour: \<open>ParseWithClaims\<close> calls the key function with the header's method, returns a
  valid token only for an allowed method, a good signature under the key it was given, and a
  current time within the date claims; a token from \<open>SignedString\<close> verifies under the signer's
  public key; date claims keep whole seconds.
\<close>

definition jwt_sound :: "jwtlib \<Rightarrow> bool" where
  "jwt_sound lib \<longleftrightarrow> (\<forall>t kf ms now c. jwt_Parse lib t kf ms now = Some c \<longrightarrow>
     claims_valid c now \<and> (\<exists>m k. m \<in> set ms \<and> kf m = Inr k \<and> jwt_signed lib k t c))"

definition jwt_complete :: "jwtlib \<Rightarrow> bool" where
  "jwt_complete lib \<longleftrightarrow>
     (\<forall>n c sk t kf ms now. jwt_Sign lib n c sk = Some t \<and> ES256 \<in> set ms \<and>
        kf ES256 = Inr (sk_Public sk) \<and> claims_valid c now \<longrightarrow> jwt_Parse lib t kf ms now = Some c) \<and>
     (\<forall>t. NumericDate lib t \<le> t \<and> t - second < NumericDate lib t)"

section \<open>Validating\<close>

text \<open>The key function that both validators pass to the library.\<close>

definition key_function ::
  "error \<Rightarrow> (error + PublicKey option) \<Rightarrow> string \<Rightarrow> error + PublicKey" where
  "key_function invalid publicKey method_name =
     (if method_name \<noteq> ES256 then Inl invalid
      else case publicKey of
             Inl _ \<Rightarrow> Inl invalid
           | Inr key \<Rightarrow> if \<not> valid_p256 key then Inl invalid else Inr (the key))"

text \<open>\<open>publicKey\<close> is the function's value; \<open>None\<close> is a nil function.\<close>

definition validateSessionToken ::
  "jwtlib \<Rightarrow> string \<Rightarrow> string \<Rightarrow> (error + PublicKey option) option \<Rightarrow> 'x world_scheme \<Rightarrow>
   (error + SessionClaims) \<times> 'x world_scheme" where
  "validateSessionToken lib token issuer publicKey w =
     (case publicKey of
        None \<Rightarrow> (Inl ErrInvalidSessionToken, w)
      | Some pk \<Rightarrow>
      if token = [] \<or> length token > maxTokenSize then (Inl ErrInvalidSessionToken, w)
      else
      case time_Now w of (now, w1) \<Rightarrow>
      case jwt_Parse lib token (key_function ErrInvalidSessionToken pk) [ES256] now of
        None \<Rightarrow> (Inl ErrInvalidSessionToken, w1)
      | Some claims \<Rightarrow>
          if Issuer claims \<noteq> issuer \<or> ID claims = [] \<or> UserID claims < 1 \<or>
             Username claims = [] \<or> Subject claims \<noteq> Username claims \<or> TokenVersion claims < 0 \<or>
             ExpiresAt claims = None \<or> IssuedAt claims = None \<or> NotBefore claims = None
          then (Inl ErrInvalidSessionToken, w1)
          else (Inr claims, w1))"

definition ValidateSessionAccessToken ::
  "jwtlib \<Rightarrow> string \<Rightarrow> (error + PublicKey option) option \<Rightarrow> 'x world_scheme \<Rightarrow>
   (error + SessionClaims) \<times> 'x world_scheme" where
  "ValidateSessionAccessToken lib token publicKey w =
     validateSessionToken lib token AccessTokenIssuer publicKey w"

definition ValidateSessionRefreshToken ::
  "jwtlib \<Rightarrow> string \<Rightarrow> (error + PublicKey option) option \<Rightarrow> 'x world_scheme \<Rightarrow>
   (error + SessionClaims) \<times> 'x world_scheme" where
  "ValidateSessionRefreshToken lib token publicKey w =
     validateSessionToken lib token RefreshTokenIssuer publicKey w"

definition validateToken ::
  "jwtlib \<Rightarrow> string \<Rightarrow> string \<Rightarrow> (error + PublicKey option) option \<Rightarrow> error \<Rightarrow> 'x world_scheme \<Rightarrow>
   (error + CommonClaims) \<times> 'x world_scheme" where
  "validateToken lib token issuer publicKey invalidError w =
     (case publicKey of
        None \<Rightarrow> (Inl invalidError, w)
      | Some pk \<Rightarrow>
      if token = [] \<or> length token > maxTokenSize then (Inl invalidError, w)
      else
      case time_Now w of (now, w1) \<Rightarrow>
      case jwt_ParseCommon lib token (key_function invalidError pk) [ES256] now of
        None \<Rightarrow> (Inl invalidError, w1)
      | Some claims \<Rightarrow>
          if Issuer claims \<noteq> issuer \<or> cc_ID claims < 1 \<or> cc_Username claims = [] \<or>
             ExpiresAt claims = None \<or> IssuedAt claims = None \<or> NotBefore claims = None
          then (Inl invalidError, w1)
          else (Inr claims, w1))"

definition ValidateAccessToken ::
  "jwtlib \<Rightarrow> string \<Rightarrow> (error + PublicKey option) option \<Rightarrow> 'x world_scheme \<Rightarrow>
   (error + CommonClaims) \<times> 'x world_scheme" where
  "ValidateAccessToken lib token publicKey w =
     validateToken lib token AccessTokenIssuer publicKey ErrInvalidAccessToken w"

definition ValidateRefreshToken ::
  "jwtlib \<Rightarrow> string \<Rightarrow> (error + PublicKey option) option \<Rightarrow> 'x world_scheme \<Rightarrow>
   (error + CommonClaims) \<times> 'x world_scheme" where
  "ValidateRefreshToken lib token publicKey w =
     validateToken lib token RefreshTokenIssuer publicKey ErrInvalidRefreshToken w"

section \<open>Minting\<close>

definition NewTokenID :: "'x world_scheme \<Rightarrow> (error + string) \<times> 'x world_scheme" where
  "NewTokenID w =
     (case rand_Read maxSessionTokenIDBytes w of
        (None, w1) \<Rightarrow> (Inl ErrSessionTokenID, w1)
      | (Some raw, w1) \<Rightarrow> (Inr (hex_EncodeToString raw), w1))"

definition TokenSHA256 :: "string \<Rightarrow> string" where
  "TokenSHA256 token = hex_EncodeToString (sha256_Sum256 token)"

definition mintSessionToken ::
  "jwtlib \<Rightarrow> string \<Rightarrow> int \<Rightarrow> int \<Rightarrow> string \<Rightarrow> string \<Rightarrow> duration \<Rightarrow> PrivateKey option \<Rightarrow> 'x world_scheme \<Rightarrow>
   (error + string) \<times> 'x world_scheme" where
  "mintSessionToken lib username userID tokenVersion tokenID issuer lifetime privateKey w =
     (case privateKey of
        None \<Rightarrow> (Inl ErrInvalidSessionToken, w)
      | Some sk \<Rightarrow>
      if username = [] \<or> userID < 1 \<or> tokenID = [] \<or> tokenVersion < 0
      then (Inl ErrInvalidSessionToken, w)
      else
      case time_Now w of (now, w1) \<Rightarrow>
      let claims = \<lparr>Issuer = issuer, Subject = username, IssuedAt = Some (NumericDate lib now),
                    NotBefore = Some (NumericDate lib now),
                    ExpiresAt = Some (NumericDate lib (now + lifetime)), ID = tokenID,
                    Username = username, UserID = userID, TokenVersion = tokenVersion\<rparr> in
      case jwt_Sign lib (tick w1) claims sk of
        None \<Rightarrow> (Inl (DriverError ''jwt''), w1\<lparr>tick := Suc (tick w1)\<rparr>)
      | Some tok \<Rightarrow> (Inr tok, w1\<lparr>tick := Suc (tick w1)\<rparr>))"

definition MintAccessToken ::
  "jwtlib \<Rightarrow> string \<Rightarrow> int \<Rightarrow> int \<Rightarrow> string \<Rightarrow> PrivateKey option \<Rightarrow> 'x world_scheme \<Rightarrow>
   (error + string) \<times> 'x world_scheme" where
  "MintAccessToken lib username userID tokenVersion tokenID privateKey w =
     mintSessionToken lib username userID tokenVersion tokenID AccessTokenIssuer AccessTokenLifetime privateKey w"

definition MintRefreshToken ::
  "jwtlib \<Rightarrow> string \<Rightarrow> int \<Rightarrow> int \<Rightarrow> string \<Rightarrow> PrivateKey option \<Rightarrow> 'x world_scheme \<Rightarrow>
   (error + string) \<times> 'x world_scheme" where
  "MintRefreshToken lib username userID tokenVersion tokenID privateKey w =
     mintSessionToken lib username userID tokenVersion tokenID RefreshTokenIssuer RefreshTokenLifetime privateKey w"

section \<open>Lemmas\<close>

subsection \<open>Bytes\<close>

lemma length_be_bytes [simp]: "length (be_bytes k n) = k"
  by (induction k arbitrary: n) auto

lemma be_value_snoc [simp]: "be_value (s @ [c]) = 256 * be_value s + code c"
  by (simp add: be_value_def)

lemma be_value_be_bytes: "be_value (be_bytes k n) = n mod 256 ^ k"
proof (induction k arbitrary: n)
  case 0
  then show ?case by (simp add: be_value_def)
next
  case (Suc k)
  then show ?case by (simp add: mod_mult2_eq [of n 256 "256 ^ k"] of_char_of)
qed

lemma length_map2_add: "length (map2 (+) xs ys) = min (length xs) (length ys)"
  by simp

lemma length_sha_round: "length (sha_round v kw) = 8"
  by (simp add: sha_round_def Let_def)

lemma length_sha_rounds: "length v = 8 \<Longrightarrow> length (foldl sha_round v kws) = 8"
  by (induction kws arbitrary: v) (simp_all add: length_sha_round)

lemma length_sha_blocks: "length hs = 8 \<Longrightarrow> length (foldl sha_block hs bs) = 8"
  by (induction bs arbitrary: hs) (simp_all add: sha_block_def length_sha_rounds)

lemma length_concat_const: "(\<And>x. x \<in> set xs \<Longrightarrow> length (f x) = k) \<Longrightarrow> length (concat (map f xs)) = k * length xs"
  by (induction xs) auto

lemma length_sha256 [simp]: "length (sha256_Sum256 m) = 32"
  using length_concat_const [of "foldl sha_block sha_H0 (chunks (length (sha_pad m) div 64) 64 (sha_pad m))"
      "\<lambda>w. be_bytes 4 (unat w)" 4]
  by (simp add: sha256_Sum256_def Let_def length_sha_blocks sha_H0_def)

lemma length_TokenSHA256 [simp]: "length (TokenSHA256 t) = 64"
  by (simp add: TokenSHA256_def)

lemma TokenSHA256_nonempty [simp]: "TokenSHA256 t \<noteq> []"
  using length_TokenSHA256 [of t] by (metis list.size(3) zero_neq_numeral)

lemma NewTokenID_ok:
  "NewTokenID w = (Inr i, w') \<Longrightarrow> length i = 32 \<and> db_only w w' \<and> db w' = db w"
  using rand_Read_frame(2) [of maxSessionTokenIDBytes w]
  by (auto simp: NewTokenID_def maxSessionTokenIDBytes_def split: prod.splits option.splits
      dest: rand_Read_length db_only_rand)

subsection \<open>Tokens\<close>

lemma mint_ok:
  assumes "mintSessionToken lib un uid ver tid iss life sk w = (Inr tok, w')"
  obtains k where "sk = Some k" and "un \<noteq> []" and "1 \<le> uid" and "tid \<noteq> []" and "0 \<le> ver"
    and "jwt_Sign lib (Suc (tick w))
      \<lparr>Issuer = iss, Subject = un, IssuedAt = Some (NumericDate lib (clock (env w) (tick w))),
       NotBefore = Some (NumericDate lib (clock (env w) (tick w))),
       ExpiresAt = Some (NumericDate lib (clock (env w) (tick w) + life)), ID = tid,
       Username = un, UserID = uid, TokenVersion = ver\<rparr> k = Some tok"
    and "w' = w\<lparr>tick := Suc (Suc (tick w))\<rparr>"
  using assms
  by (auto simp: mintSessionToken_def time_Now_def Let_def split: option.splits if_splits)

lemma validate_ok:
  assumes "validateSessionToken lib tok iss pk w = (Inr c, w')"
  obtains p where "pk = Some p" and "tok \<noteq> []" and "length tok \<le> maxTokenSize"
    and "jwt_Parse lib tok (key_function ErrInvalidSessionToken p) [ES256] (clock (env w) (tick w)) = Some c"
    and "Issuer c = iss" and "ID c \<noteq> []" and "1 \<le> UserID c" and "Username c \<noteq> []"
    and "Subject c = Username c" and "0 \<le> TokenVersion c" and "ExpiresAt c \<noteq> None"
    and "w' = w\<lparr>tick := Suc (tick w)\<rparr>"
  using assms
  by (auto simp: validateSessionToken_def time_Now_def split: option.splits if_splits)

lemma validate_frame:
  "validateSessionToken lib tok iss pk w = (r, w') \<Longrightarrow> db_only w w' \<and> db w' = db w \<and> kdf w' = kdf w"
  by (auto simp: validateSessionToken_def time_Now_def split: option.splits if_splits)

lemma key_function_ok:
  "key_function e p m = Inr k \<Longrightarrow> m = ES256 \<and> p = Inr (Some k) \<and> valid_p256 (Some k)"
  by (auto simp: key_function_def valid_p256_def split: if_splits sum.splits option.splits)

lemma token_accepted:
  assumes "jwt_sound lib" and "validateSessionToken lib tok iss (Some (Inr key)) w = (Inr c, w')"
  shows "\<exists>k. key = Some k \<and> jwt_signed lib k tok c \<and> Issuer c = iss \<and>
    (\<exists>t. ExpiresAt c = Some t \<and> clock (env w) (tick w) < t)"
  using assms(2)
proof (cases rule: validate_ok)
  case (1 p)
  obtain m k where "m \<in> set [ES256]" "key_function ErrInvalidSessionToken p m = Inr k" "jwt_signed lib k tok c"
    "claims_valid c (clock (env w) (tick w))"
    using assms(1) 1 unfolding jwt_sound_def by blast
  with 1 show ?thesis
    using key_function_ok [of ErrInvalidSessionToken p m k] by (auto simp: claims_valid_def)
qed

lemma minted_validates:
  assumes "jwt_complete lib" and "valid_p256 (Some (sk_Public sk))"
    and "mintSessionToken lib un uid ver tid iss life (Some sk) w = (Inr tok, w')"
    and "tok \<noteq> []" and "length tok \<le> maxTokenSize"
    and "clock (env w) (tick w) \<le> clock (env v) (tick v)"
    and "clock (env v) (tick v) \<le> clock (env w) (tick w) + life - second"
  shows "\<exists>c. (\<forall>iss0. validateSessionToken lib tok iss0 (Some (Inr (Some (sk_Public sk)))) v =
      (if iss0 = iss then Inr c else Inl ErrInvalidSessionToken, v\<lparr>tick := Suc (tick v)\<rparr>)) \<and>
    ID c = tid \<and> UserID c = uid \<and> Username c = un \<and> TokenVersion c = ver \<and> Issuer c = iss"
  using assms(3)
proof (cases rule: mint_ok)
  case (1 k)
  let ?t = "clock (env w) (tick w)"
  let ?c = "\<lparr>Issuer = iss, Subject = un, IssuedAt = Some (NumericDate lib ?t),
       NotBefore = Some (NumericDate lib ?t), ExpiresAt = Some (NumericDate lib (?t + life)), ID = tid,
       Username = un, UserID = uid, TokenVersion = ver\<rparr>"
  have kf: "key_function ErrInvalidSessionToken (Inr (Some (sk_Public sk))) ES256 = Inr (sk_Public sk)"
    using assms(2) by (simp add: key_function_def)
  have "NumericDate lib ?t \<le> ?t" "?t + life - second < NumericDate lib (?t + life)"
    using assms(1) by (simp_all add: jwt_complete_def)
  then have "claims_valid ?c (clock (env v) (tick v))"
    using assms(6,7) by (simp add: claims_valid_def)
  with kf 1 assms(1) have "jwt_Parse lib tok (key_function ErrInvalidSessionToken (Inr (Some (sk_Public sk))))
      [ES256] (clock (env v) (tick v)) = Some ?c"
    unfolding jwt_complete_def by (metis list.set_intros(1) option.inject)
  with 1 assms(4,5) show ?thesis
    by (intro exI [of _ ?c]) (simp add: validateSessionToken_def time_Now_def)
qed

section \<open>Properties\<close>

text \<open>
  C7.  A session token that a validator accepts carries an ES256 signature of the service's key,
  which is a point of the P-256 curve; the current time is within its lifetime; its class is the
  one the validator asks for; and it names a session id, a user and a credential generation.
\<close>

theorem session_token_sound:
  assumes "jwt_sound lib" and "validateSessionToken lib tok iss pk w = (Inr c, w')"
  shows "\<exists>k. pk = Some (Inr (Some k)) \<and> valid_p256 (Some k) \<and> jwt_signed lib k tok c \<and>
    Issuer c = iss \<and> ID c \<noteq> [] \<and> 1 \<le> UserID c \<and> Username c \<noteq> [] \<and> Subject c = Username c \<and>
    0 \<le> TokenVersion c \<and> (\<exists>t. ExpiresAt c = Some t \<and> clock (env w) (tick w) < t) \<and>
    length tok \<le> maxTokenSize"
  using assms(2)
proof (cases rule: validate_ok)
  case (1 p)
  obtain m k where "m \<in> set [ES256]" "key_function ErrInvalidSessionToken p m = Inr k" "jwt_signed lib k tok c"
    "claims_valid c (clock (env w) (tick w))"
    using assms(1) 1 unfolding jwt_sound_def by blast
  with 1 show ?thesis
    using key_function_ok [of ErrInvalidSessionToken p m k] by (auto simp: claims_valid_def)
qed

text \<open>
  C8.  Minting and validating agree.  While it lives, a token that \<open>mintSessionToken\<close> returned
  validates for the issuer it was minted for, with exactly the claims it was minted with, and for no other issuer: an
  access token is never accepted as a refresh token or the other way round.
\<close>

theorem session_token_roundtrip:
  assumes "jwt_complete lib" and "valid_p256 (Some (sk_Public sk))"
    and "mintSessionToken lib un uid ver tid iss life (Some sk) w = (Inr tok, w')"
    and "tok \<noteq> []" and "length tok \<le> maxTokenSize"
    and "clock (env w) (tick w) \<le> clock (env v) (tick v)"
    and "clock (env v) (tick v) \<le> clock (env w) (tick w) + life - second"
  shows "(\<exists>c. fst (validateSessionToken lib tok iss (Some (Inr (Some (sk_Public sk)))) v) = Inr c \<and>
      ID c = tid \<and> UserID c = uid \<and> Username c = un \<and> TokenVersion c = ver \<and> Issuer c = iss) \<and>
    (iss2 \<noteq> iss \<longrightarrow>
      fst (validateSessionToken lib tok iss2 (Some (Inr (Some (sk_Public sk)))) v) = Inl ErrInvalidSessionToken)"
proof -
  obtain c where "validateSessionToken lib tok iss0 (Some (Inr (Some (sk_Public sk)))) v =
      (if iss0 = iss then Inr c else Inl ErrInvalidSessionToken, v\<lparr>tick := Suc (tick v)\<rparr>)"
    "ID c = tid" "UserID c = uid" "Username c = un" "TokenVersion c = ver" "Issuer c = iss" for iss0
    using minted_validates [OF assms] by blast
  then show ?thesis by simp
qed

text \<open>
  C9.  The published key set.  For a valid P-256 key the document is one public key whose two
  coordinates decode to exactly 32 bytes each, big-endian, equal to the key's coordinates; it has
  no other field, in particular no private one.  Every other key is refused.
\<close>

theorem JWKS_coordinates:
  "(\<forall>s. GeneratePublicJWKS key = Inr s \<longrightarrow>
     (\<exists>k x y xs ys bx by. key = Some k \<and> pk_X k = Some x \<and> pk_Y k = Some y \<and> IsOnCurve x y \<and>
        s = ''{\"keys\":[{\"kty\":\"EC\",\"crv\":\"P-256\",\"x\":\"'' @ xs @ ''\",\"y\":\"'' @ ys @ ''\"}]}'' \<and>
        b64_DecodeString URLAlphabet xs = Some bx \<and> b64_DecodeString URLAlphabet ys = Some by \<and>
        length bx = 32 \<and> length by = 32 \<and> int (be_value bx) = x \<and> int (be_value by) = y)) \<and>
   (GeneratePublicJWKS key = Inl (ErrorsNew ''JWKS requires a valid P-256 public key'') \<longleftrightarrow> \<not> valid_p256 key)"
proof (cases "valid_p256 key")
  case False
  then show ?thesis by (simp add: GeneratePublicJWKS_def)
next
  case True
  then obtain k x y where k: "key = Some k" "pk_X k = Some x" "pk_Y k = Some y" "IsOnCurve x y"
    by (auto simp: valid_p256_def split: option.splits)
  then have "0 \<le> x" "x < 256 ^ 32" "0 \<le> y" "y < 256 ^ 32"
    by (auto simp: IsOnCurve_def p256_p_def)
  then have v: "int (be_value (be_bytes 32 (nat x))) = x" "int (be_value (be_bytes 32 (nat y))) = y"
    by (simp_all add: be_value_be_bytes nat_less_iff)
  have "GeneratePublicJWKS key = Inr (''{\"keys\":[{\"kty\":\"EC\",\"crv\":\"P-256\",\"x\":\"'' @
      b64_Encode URLAlphabet (be_bytes 32 (nat x)) @ ''\",\"y\":\"'' @
      b64_Encode URLAlphabet (be_bytes 32 (nat y)) @ ''\"}]}'')"
    using True k by (simp add: GeneratePublicJWKS_def Let_def marshal_jwks_def p256CoordinateBytes_def)
  with True k v show ?thesis
    using b64_roundtrip [OF URLAlphabet] by (auto simp del: be_bytes.simps intro!: exI)
qed

section \<open>A sample library\<close>

text \<open>
  A stand-in for the JWT library that meets both promises: tokens are written-out claims, and it
  signs exactly the claims it can read back.
\<close>

definition toy_time :: "time option \<Rightarrow> string" where
  "toy_time t = (case t of None \<Rightarrow> [] | Some n \<Rightarrow> Itoa n)"

definition toy_encode :: "SessionClaims \<Rightarrow> string" where
  "toy_encode c = join_with (CHR ''_'') [Issuer c, Subject c, toy_time (IssuedAt c), toy_time (NotBefore c),
     toy_time (ExpiresAt c), ID c, Username c, Itoa (UserID c), Itoa (TokenVersion c)] @ ''..''"

definition toy_decode :: "string \<Rightarrow> SessionClaims option" where
  "toy_decode t =
     (case Split (TrimSuffix t ''..'') (CHR ''_'') of
        [a, b, c, d, e, f, g, h, i] \<Rightarrow>
          (case (Atoi h, Atoi i) of
             (Some u, Some v) \<Rightarrow>
               Some \<lparr>Issuer = a, Subject = b, IssuedAt = Atoi c, NotBefore = Atoi d, ExpiresAt = Atoi e,
                 ID = f, Username = g, UserID = u, TokenVersion = v\<rparr>
           | _ \<Rightarrow> None)
      | _ \<Rightarrow> None)"

definition toy_lib :: jwtlib where
  "toy_lib = \<lparr>
     jwt_Parse = (\<lambda>t kf ms now. case kf ES256 of
        Inl _ \<Rightarrow> None
      | Inr _ \<Rightarrow> (case toy_decode t of
            None \<Rightarrow> None | Some c \<Rightarrow> if ES256 \<in> set ms \<and> claims_valid c now then Some c else None)),
     jwt_ParseCommon = (\<lambda>_ _ _ _. None),
     jwt_Sign = (\<lambda>_ c _. if toy_decode (toy_encode c) = Some c then Some (toy_encode c) else None),
     NumericDate = (\<lambda>t. t - t mod second),
     jwt_signed = (\<lambda>_ t c. toy_decode t = Some c)\<rparr>"

lemma toy_lib_laws: "jwt_sound toy_lib" "jwt_complete toy_lib"
proof -
  show "jwt_sound toy_lib"
    unfolding jwt_sound_def by (auto simp: toy_lib_def split: sum.splits option.splits if_splits)
  have "0 \<le> t mod second" "t mod second < second" for t by (simp_all add: second_def)
  then show "jwt_complete toy_lib"
    unfolding jwt_complete_def by (auto simp: toy_lib_def split: if_splits)
qed

text \<open>The base point of the curve as the service's key.\<close>

definition sample_key :: PrivateKey where
  "sample_key = \<lparr>sk_Public = \<lparr>pk_Curve = P256,
      pk_X = Some 0x6b17d1f2e12c4247f8bce6e563a440f277037d812deb33a0f4a13945d898c296,
      pk_Y = Some 0x4fe342e2fe1a7f9b8ee7eb4a7c0f9e162bce33576b315ececbb6406837bf51f5\<rparr>, sk_D = 1\<rparr>"

lemma base_point:
  "(0x4fe342e2fe1a7f9b8ee7eb4a7c0f9e162bce33576b315ececbb6406837bf51f5 :: int) *
     0x4fe342e2fe1a7f9b8ee7eb4a7c0f9e162bce33576b315ececbb6406837bf51f5 -
   (0x6b17d1f2e12c4247f8bce6e563a440f277037d812deb33a0f4a13945d898c296 *
     0x6b17d1f2e12c4247f8bce6e563a440f277037d812deb33a0f4a13945d898c296 *
     0x6b17d1f2e12c4247f8bce6e563a440f277037d812deb33a0f4a13945d898c296 -
     3 * 0x6b17d1f2e12c4247f8bce6e563a440f277037d812deb33a0f4a13945d898c296 + p256_b) =
   p256_p * (- 0x12bdd1ad23dfc833dccf5f6141d6bb4a1f365dc1430b0e600b52dd851938d2d6933106a72efbf035fdaf43963b37fd5456e90c6581a8fb7a0d8a46a3629f0458)"
  by (simp add: p256_p_def p256_b_def)

lemma sample_key_valid: "valid_p256 (Some (sk_Public sample_key))"
  unfolding valid_p256_def sample_key_def IsOnCurve_def
  by (simp only: option.case PrivateKey.simps PublicKey.simps prod.case base_point mod_mult_self1_is_0)
     (simp add: p256_p_def)

definition sample_claims :: SessionClaims where
  "sample_claims = \<lparr>Issuer = AccessTokenIssuer, Subject = ''ann'', IssuedAt = Some 0, NotBefore = Some 0,
     ExpiresAt = Some AccessTokenLifetime, ID = ''s1'', Username = ''ann'', UserID = 1, TokenVersion = 0\<rparr>"

lemma Itoa_chars: "c \<in> set (Itoa n) \<Longrightarrow> is_digit c \<or> c = CHR ''-''"
  using dec_of_nat_digits [of "nat n"] dec_of_nat_digits [of "nat (- n)"]
  by (auto simp: Itoa_def list_all_iff split: if_splits)

lemma Itoa_no_underscore [simp]: "CHR ''_'' \<notin> set (Itoa n)"
  using Itoa_chars [of "CHR ''_''" n] by (auto simp: is_digit_iff)

definition toy_range :: "int \<Rightarrow> bool" where
  "toy_range n \<longleftrightarrow> - (2 ^ 63) \<le> n \<and> n < 2 ^ 63"

lemma toy_roundtrip:
  assumes "CHR ''_'' \<notin> set (Issuer c) \<union> set (Subject c) \<union> set (ID c) \<union> set (Username c)"
    and "IssuedAt c = Some i" "NotBefore c = Some n" "ExpiresAt c = Some e"
    and "toy_range i" "toy_range n" "toy_range e" "toy_range (UserID c)" "toy_range (TokenVersion c)"
  shows "toy_decode (toy_encode c) = Some c"
proof -
  have "Split (TrimSuffix (toy_encode c) ''..'') (CHR ''_'') =
      [Issuer c, Subject c, Itoa i, Itoa n, Itoa e, ID c, Username c, Itoa (UserID c), Itoa (TokenVersion c)]"
    unfolding toy_encode_def TrimSuffix_append using assms(1-4)
    by (subst Split_join) (simp_all add: toy_time_def)
  then show ?thesis
    using assms by (simp add: toy_decode_def Atoi_Itoa toy_range_def)
qed

lemma sample_times: "AccessTokenLifetime = 10800000000000"
  by (simp add: AccessTokenLifetime_def hour_def second_def)

lemma toy_decode_sample: "toy_decode (toy_encode sample_claims) = Some sample_claims"
  by (rule toy_roundtrip [of _ 0 0 AccessTokenLifetime])
     (simp_all add: sample_claims_def AccessTokenIssuer_def toy_range_def sample_times)

lemma toy_encode_sample: "toy_encode sample_claims \<noteq> []" "length (toy_encode sample_claims) = 42"
  by (simp_all add: toy_encode_def sample_claims_def AccessTokenIssuer_def sample_times toy_time_def
      Itoa_def dec_of_nat.simps)

lemma mint_sample:
  "mintSessionToken toy_lib ''ann'' 1 0 ''s1'' AccessTokenIssuer AccessTokenLifetime (Some sample_key)
     (calm_world empty_db) = (Inr (toy_encode sample_claims), (calm_world empty_db)\<lparr>tick := 2\<rparr>)"
proof -
  have "NumericDate toy_lib 0 = 0" "NumericDate toy_lib (0 + AccessTokenLifetime) = AccessTokenLifetime"
    by (simp_all add: toy_lib_def second_def AccessTokenLifetime_def hour_def)
  moreover have "jwt_Sign toy_lib n sample_claims k = Some (toy_encode sample_claims)" for n k
    using toy_decode_sample by (simp add: toy_lib_def)
  ultimately show ?thesis
    by (simp add: mintSessionToken_def time_Now_def calm_world_def calm_env_def Let_def
        flip: sample_claims_def)
qed

theorem session_token_roundtrip_witness:
  "(\<exists>c. fst (validateSessionToken toy_lib (toy_encode sample_claims) AccessTokenIssuer
        (Some (Inr (Some (sk_Public sample_key)))) (calm_world empty_db)) = Inr c \<and> UserID c = 1) \<and>
   fst (validateSessionToken toy_lib (toy_encode sample_claims) RefreshTokenIssuer
        (Some (Inr (Some (sk_Public sample_key)))) (calm_world empty_db)) = Inl ErrInvalidSessionToken"
proof -
  have "RefreshTokenIssuer \<noteq> AccessTokenIssuer" by (simp add: RefreshTokenIssuer_def AccessTokenIssuer_def)
  then show ?thesis
    using session_token_roundtrip [OF toy_lib_laws(2) sample_key_valid mint_sample, of "calm_world empty_db" RefreshTokenIssuer]
    by (auto simp: toy_encode_sample maxTokenSize_def AccessTokenLifetime_def hour_def second_def)
qed

lemma validate_sample:
  "validateSessionToken toy_lib (toy_encode sample_claims) AccessTokenIssuer
     (Some (Inr (Some (sk_Public sample_key)))) (calm_world empty_db) =
   (Inr sample_claims, (calm_world empty_db)\<lparr>tick := 1\<rparr>)"
proof -
  have "jwt_Parse toy_lib (toy_encode sample_claims)
      (key_function ErrInvalidSessionToken (Inr (Some (sk_Public sample_key)))) [ES256] 0 = Some sample_claims"
    using toy_decode_sample sample_key_valid
    by (simp add: toy_lib_def key_function_def claims_valid_def sample_claims_def AccessTokenLifetime_def
        hour_def second_def)
  then show ?thesis
    using toy_encode_sample
    by (simp add: validateSessionToken_def time_Now_def calm_world_def calm_env_def maxTokenSize_def)
       (simp add: sample_claims_def)
qed

theorem session_token_sound_witness:
  "jwt_signed toy_lib (sk_Public sample_key) (toy_encode sample_claims) sample_claims \<and>
   valid_p256 (Some (sk_Public sample_key))"
  using session_token_sound [OF toy_lib_laws(1) validate_sample] by simp

theorem JWKS_coordinates_witness:
  "\<exists>s xs bx. GeneratePublicJWKS (Some (sk_Public sample_key)) = Inr s \<and>
     b64_DecodeString URLAlphabet xs = Some bx \<and> length bx = 32"
proof -
  obtain s where "GeneratePublicJWKS (Some (sk_Public sample_key)) = Inr s"
    using sample_key_valid by (simp add: GeneratePublicJWKS_def Let_def)
  with JWKS_coordinates [of "Some (sk_Public sample_key)"] show ?thesis by blast
qed

end
