(* ===== verification/Password.thy ===== *)
theory Password
  imports Store Go_Encoding
begin

text \<open>
  \<open>src/pkg/password/password.go\<close>: bounded Argon2id verifiers in PHC string form.  Argon2id itself
  (\<open>golang.org/x/crypto/argon2\<close>) is the parameter \<open>idkey\<close>, with the argument order of
  \<open>argon2.IDKey\<close>; every derivation is recorded in the world's \<open>kdf\<close> log.
\<close>

section \<open>Parameters\<close>

type_synonym argon2 = "string \<Rightarrow> string \<Rightarrow> 32 word \<Rightarrow> 32 word \<Rightarrow> 8 word \<Rightarrow> 32 word \<Rightarrow> string"

definition Version :: nat where "Version = 19"

definition DefaultMemory :: "32 word" where "DefaultMemory = 64 * 1024"
definition DefaultIterations :: "32 word" where "DefaultIterations = 3"
definition DefaultParallelism :: "8 word" where "DefaultParallelism = 4"
definition DefaultSaltLength :: int where "DefaultSaltLength = 16"
definition DefaultKeyLength :: int where "DefaultKeyLength = 32"

definition MinMemory :: "32 word" where "MinMemory = 19 * 1024"
definition MaxMemory :: "32 word" where "MaxMemory = 128 * 1024"
definition MinIterations :: "32 word" where "MinIterations = 1"
definition MaxIterations :: "32 word" where "MaxIterations = 5"
definition MinParallelism :: "8 word" where "MinParallelism = 1"
definition MaxParallelism :: "8 word" where "MaxParallelism = 8"
definition MinSaltLength :: int where "MinSaltLength = 16"
definition MaxSaltLength :: int where "MaxSaltLength = 64"
definition MinKeyLength :: int where "MinKeyLength = 16"
definition MaxKeyLength :: int where "MaxKeyLength = 64"

lemmas limits = DefaultMemory_def DefaultIterations_def DefaultParallelism_def
  DefaultSaltLength_def DefaultKeyLength_def MinMemory_def MaxMemory_def MinIterations_def
  MaxIterations_def MinParallelism_def MaxParallelism_def MinSaltLength_def MaxSaltLength_def
  MinKeyLength_def MaxKeyLength_def

record Parameters =
  Memory :: "32 word"
  Iterations :: "32 word"
  Parallelism :: "8 word"
  SaltLength :: int
  KeyLength :: int

definition defaultParameters :: Parameters where
  "defaultParameters = \<lparr>Memory = DefaultMemory, Iterations = DefaultIterations,
     Parallelism = DefaultParallelism, SaltLength = DefaultSaltLength, KeyLength = DefaultKeyLength\<rparr>"

record parsedHash =
  parameters :: Parameters
  salt :: string
  digest :: string

definition validateParameters :: "Parameters \<Rightarrow> error + unit" where
  "validateParameters ps =
     (if Memory ps < MinMemory \<or> Memory ps > MaxMemory \<or>
         Iterations ps < MinIterations \<or> Iterations ps > MaxIterations \<or>
         Parallelism ps < MinParallelism \<or> Parallelism ps > MaxParallelism \<or>
         SaltLength ps < MinSaltLength \<or> SaltLength ps > MaxSaltLength \<or>
         KeyLength ps < MinKeyLength \<or> KeyLength ps > MaxKeyLength
      then Inl ErrInvalidHash else Inr ())"

section \<open>Parsing\<close>

definition parseUint :: "string \<Rightarrow> nat \<Rightarrow> error + nat" where
  "parseUint v bits =
     (if v = [] \<or> (length v > 1 \<and> hd v = CHR ''0'') then Inl ErrInvalidHash
      else (case ParseUint v bits of
              None \<Rightarrow> Inl (DriverError ''strconv.ParseUint'')
            | Some n \<Rightarrow> Inr n))"

definition parse :: "string \<Rightarrow> error + parsedHash" where
  "parse encoded =
     (let parts = Split encoded (CHR ''$'') in
      if length parts \<noteq> 6 \<or> parts ! 0 \<noteq> [] \<or> parts ! 1 \<noteq> ''argon2id'' \<or> parts ! 2 \<noteq> ''v=19''
      then Inl ErrInvalidHash
      else
      let parameterParts = Split (parts ! 3) (CHR '','') in
      if length parameterParts \<noteq> 3 \<or> \<not> HasPrefix (parameterParts ! 0) ''m='' \<or>
         \<not> HasPrefix (parameterParts ! 1) ''t='' \<or> \<not> HasPrefix (parameterParts ! 2) ''p=''
      then Inl ErrInvalidHash
      else
      case parseUint (drop 2 (parameterParts ! 0)) 32 of Inl _ \<Rightarrow> Inl ErrInvalidHash | Inr memory \<Rightarrow>
      case parseUint (drop 2 (parameterParts ! 1)) 32 of Inl _ \<Rightarrow> Inl ErrInvalidHash | Inr iterations \<Rightarrow>
      case parseUint (drop 2 (parameterParts ! 2)) 8 of Inl _ \<Rightarrow> Inl ErrInvalidHash | Inr parallelism \<Rightarrow>
      case b64_DecodeString StdAlphabet (parts ! 4) of None \<Rightarrow> Inl ErrInvalidHash | Some slt \<Rightarrow>
      case b64_DecodeString StdAlphabet (parts ! 5) of None \<Rightarrow> Inl ErrInvalidHash | Some dgst \<Rightarrow>
      let ps = \<lparr>Memory = word_of_nat memory, Iterations = word_of_nat iterations,
                Parallelism = word_of_nat parallelism, SaltLength = int (length slt),
                KeyLength = int (length dgst)\<rparr> in
      case validateParameters ps of
        Inl _ \<Rightarrow> Inl ErrInvalidHash
      | Inr _ \<Rightarrow> Inr \<lparr>parameters = ps, salt = slt, digest = dgst\<rparr>)"

definition NeedsRehash :: "string \<Rightarrow> bool" where
  "NeedsRehash encoded =
     (case parse encoded of Inl _ \<Rightarrow> True | Inr p \<Rightarrow> parameters p \<noteq> defaultParameters)"

definition IsArgon2id :: "string \<Rightarrow> bool" where
  "IsArgon2id encoded = (case parse encoded of Inl _ \<Rightarrow> False | Inr _ \<Rightarrow> True)"

section \<open>Hashing and verifying\<close>

text \<open>
  \<open>deriveKey\<close> passes one slot of \<open>argon2Gate\<close>, so derivations happen one after the other: the
  log is a sequence.
\<close>

definition deriveKey ::
  "argon2 \<Rightarrow> string \<Rightarrow> string \<Rightarrow> Parameters \<Rightarrow> int \<Rightarrow> 'x world_scheme \<Rightarrow> string \<times> 'x world_scheme" where
  "deriveKey idkey plaintext slt ps keyLength w =
     (let n = word_of_int keyLength in
      (idkey plaintext slt (Iterations ps) (Memory ps) (Parallelism ps) n,
       w\<lparr>kdf := kdf w @ [(Iterations ps, Memory ps, Parallelism ps, n)]\<rparr>))"

text \<open>\<open>fmt.Sprintf ("$argon2id$v=%d$m=%d,t=%d,p=%d$%s$%s", ...)\<close>\<close>

definition encodeHash :: "Parameters \<Rightarrow> string \<Rightarrow> string \<Rightarrow> string" where
  "encodeHash ps slt dgst =
     ''$argon2id$v='' @ dec_of_nat Version @ ''$m='' @ dec_of_nat (unat (Memory ps)) @
     '',t='' @ dec_of_nat (unat (Iterations ps)) @ '',p='' @ dec_of_nat (unat (Parallelism ps)) @
     ''$'' @ b64_Encode StdAlphabet slt @ ''$'' @ b64_Encode StdAlphabet dgst"

definition hashWithReader ::
  "argon2 \<Rightarrow> string \<Rightarrow> Parameters \<Rightarrow> 'x world_scheme \<Rightarrow> (error + string) \<times> 'x world_scheme" where
  "hashWithReader idkey plaintext ps w =
     (case validateParameters ps of
        Inl e \<Rightarrow> (Inl e, w)
      | Inr _ \<Rightarrow>
          (case rand_Read (nat (SaltLength ps)) w of
             (None, w1) \<Rightarrow> (Inl (Errorf ''generate password salt'' (DriverError ''rand'')), w1)
           | (Some slt, w1) \<Rightarrow>
               (case deriveKey idkey plaintext slt ps (KeyLength ps) w1 of
                  (dgst, w2) \<Rightarrow> (Inr (encodeHash ps slt dgst), w2))))"

definition Hash :: "argon2 \<Rightarrow> string \<Rightarrow> 'x world_scheme \<Rightarrow> (error + string) \<times> 'x world_scheme" where
  "Hash idkey plaintext w = hashWithReader idkey plaintext defaultParameters w"

text \<open>\<open>subtle.ConstantTimeCompare\<close> is 1 for equal slices and 0 otherwise.\<close>

definition ConstantTimeCompare :: "string \<Rightarrow> string \<Rightarrow> int" where
  "ConstantTimeCompare x y = (if x = y then 1 else 0)"

definition verifyWithDeriver ::
  "string \<Rightarrow> string \<Rightarrow>
   (string \<Rightarrow> string \<Rightarrow> Parameters \<Rightarrow> int \<Rightarrow> 'x world_scheme \<Rightarrow> string \<times> 'x world_scheme) \<Rightarrow>
   'x world_scheme \<Rightarrow> (error + unit) \<times> 'x world_scheme" where
  "verifyWithDeriver encoded plaintext derive w =
     (case parse encoded of
        Inl e \<Rightarrow>
          (case derive plaintext ''ReCasaOS-dummy-v1'' defaultParameters (KeyLength defaultParameters) w of
             (_, w1) \<Rightarrow> (Inl e, w1))
      | Inr parsed \<Rightarrow>
          (case derive plaintext (salt parsed) (parameters parsed) (int (length (digest parsed))) w of
             (dgst, w1) \<Rightarrow>
               if ConstantTimeCompare dgst (digest parsed) \<noteq> 1
               then (Inl ErrPassword, w1) else (Inr (), w1)))"

definition Verify ::
  "argon2 \<Rightarrow> string \<Rightarrow> string \<Rightarrow> 'x world_scheme \<Rightarrow> (error + unit) \<times> 'x world_scheme" where
  "Verify idkey encoded plaintext w = verifyWithDeriver encoded plaintext (deriveKey idkey) w"

definition consumeUnknownUserWithDeriver ::
  "string \<Rightarrow>
   (string \<Rightarrow> string \<Rightarrow> Parameters \<Rightarrow> int \<Rightarrow> 'x world_scheme \<Rightarrow> string \<times> 'x world_scheme) \<Rightarrow>
   'x world_scheme \<Rightarrow> 'x world_scheme" where
  "consumeUnknownUserWithDeriver plaintext derive w =
     snd (derive plaintext ''ReCasaOS-dummy-v1'' defaultParameters (KeyLength defaultParameters) w)"

definition ConsumeUnknownUser :: "argon2 \<Rightarrow> string \<Rightarrow> 'x world_scheme \<Rightarrow> 'x world_scheme" where
  "ConsumeUnknownUser idkey plaintext w = consumeUnknownUserWithDeriver plaintext (deriveKey idkey) w"

section \<open>Lemmas\<close>

text \<open>The length law of Argon2id, which the round trip relies on.\<close>

definition idkey_length :: "argon2 \<Rightarrow> bool" where
  "idkey_length idkey \<longleftrightarrow> (\<forall>p s t m l n. length (idkey p s t m l n) = unat n)"

lemma defaultParameters_valid [simp]: "validateParameters defaultParameters = Inr ()"
  by (simp add: validateParameters_def defaultParameters_def limits)

lemma validateParameters_ok:
  "validateParameters ps = Inr () \<longleftrightarrow>
     MinMemory \<le> Memory ps \<and> Memory ps \<le> MaxMemory \<and>
     MinIterations \<le> Iterations ps \<and> Iterations ps \<le> MaxIterations \<and>
     MinParallelism \<le> Parallelism ps \<and> Parallelism ps \<le> MaxParallelism \<and>
     MinSaltLength \<le> SaltLength ps \<and> SaltLength ps \<le> MaxSaltLength \<and>
     MinKeyLength \<le> KeyLength ps \<and> KeyLength ps \<le> MaxKeyLength"
  by (auto simp: validateParameters_def not_less)

lemma parse_ok:
  assumes "parse s = Inr p"
  shows "validateParameters (parameters p) = Inr ()"
    and "SaltLength (parameters p) = int (length (salt p))"
    and "KeyLength (parameters p) = int (length (digest p))"
  using assms
  by (auto simp: parse_def Let_def split: if_splits sum.splits option.splits)

lemma parse_error: "parse s = Inl e \<Longrightarrow> e = ErrInvalidHash"
  by (auto simp: parse_def Let_def split: if_splits sum.splits option.splits)

lemma parseUint_dec: "n < 2 ^ bits \<Longrightarrow> parseUint (dec_of_nat n) bits = Inr n"
proof -
  assume n: "n < 2 ^ bits"
  have "\<not> (length (dec_of_nat n) > 1 \<and> hd (dec_of_nat n) = CHR ''0'')"
    using dec_of_nat_hd [of n] by (cases "n = 0") (auto simp: dec_of_nat.simps [of 0])
  with n show ?thesis by (simp add: parseUint_def ParseUint_dec)
qed

lemma digits_no_sep: "list_all is_digit s \<Longrightarrow> \<not> is_digit c \<Longrightarrow> c \<notin> set s"
  by (auto simp: list_all_iff)

lemma not_digit [simp]: "\<not> is_digit (CHR ''$'')" "\<not> is_digit (CHR '','')"
  by (simp_all add: is_digit_iff)

lemma b64_no_dollar [simp]: "CHR ''$'' \<notin> set (b64_Encode StdAlphabet s)"
  using set_b64_Encode [OF StdAlphabet, of s] by (auto simp: StdAlphabet_def)

lemma dec_no_sep [simp]: "CHR ''$'' \<notin> set (dec_of_nat n)" "CHR '','' \<notin> set (dec_of_nat n)"
  using dec_of_nat_digits [of n] by (auto simp: list_all_iff)

lemma dec_19: "dec_of_nat 19 = ''19''"
  by code_simp

text \<open>The pieces of a printed verifier, and of its parameter field.\<close>

lemma Split_encodeHash:
  "Split (encodeHash ps slt dgst) (CHR ''$'') =
     [[], ''argon2id'', ''v=19'',
      ''m='' @ dec_of_nat (unat (Memory ps)) @ '',t='' @ dec_of_nat (unat (Iterations ps)) @
      '',p='' @ dec_of_nat (unat (Parallelism ps)),
      b64_Encode StdAlphabet slt, b64_Encode StdAlphabet dgst]" (is "_ = ?ps")
proof -
  have "encodeHash ps slt dgst = join_with (CHR ''$'') ?ps"
    by (simp add: encodeHash_def Version_def dec_19)
  then show ?thesis by (simp add: Split_join del: join_with.simps)
qed

lemma Split_parameters:
  "Split (''m='' @ dec_of_nat a @ '',t='' @ dec_of_nat b @ '',p='' @ dec_of_nat c) (CHR '','') =
     [''m='' @ dec_of_nat a, ''t='' @ dec_of_nat b, ''p='' @ dec_of_nat c]" (is "Split ?s _ = ?ps")
proof -
  have "?s = join_with (CHR '','') ?ps" by simp
  then show ?thesis by (simp only: Split_join) (simp add: Split_join del: join_with.simps)
qed

lemma unat_bound: "unat (x :: 'w::len word) < 2 ^ LENGTH('w)"
  by (fact unsigned_less)

lemma parse_encodeHash:
  assumes "validateParameters ps = Inr ()"
    and "SaltLength ps = int (length slt)" and "KeyLength ps = int (length dgst)"
  shows "parse (encodeHash ps slt dgst) = Inr \<lparr>parameters = ps, salt = slt, digest = dgst\<rparr>"
proof -
  have n: "unat (Memory ps) < 2 ^ 32" "unat (Iterations ps) < 2 ^ 32" "unat (Parallelism ps) < 2 ^ 8"
    using unat_bound [of "Memory ps"] unat_bound [of "Iterations ps"] unat_bound [of "Parallelism ps"]
    by simp_all
  have "\<lparr>Memory = Memory ps, Iterations = Iterations ps, Parallelism = Parallelism ps,
      SaltLength = int (length slt), KeyLength = int (length dgst)\<rparr> = ps"
    using assms(2,3) by simp
  with assms(1) n show ?thesis
    by (simp add: parse_def Let_def Split_encodeHash Split_parameters [simplified] HasPrefix_def
        parseUint_dec b64_roundtrip StdAlphabet)
qed

text \<open>Hashing: what comes out, and what it costs.\<close>

lemma keyLength_small:
  "validateParameters ps = Inr () \<Longrightarrow> uint (word_of_int (KeyLength ps) :: 32 word) = KeyLength ps"
  by (simp add: validateParameters_ok limits unsigned_of_int take_bit_int_eq_self)

lemma hashWithReader_ok:
  assumes "hashWithReader idkey pw ps w = (Inr h, w')"
  obtains slt where "validateParameters ps = Inr ()" and "length slt = nat (SaltLength ps)"
    and "h = encodeHash ps slt
           (idkey pw slt (Iterations ps) (Memory ps) (Parallelism ps) (word_of_int (KeyLength ps)))"
    and "db w' = db w" and "env w' = env w"
    and "kdf w' = kdf w @ [(Iterations ps, Memory ps, Parallelism ps, word_of_int (KeyLength ps))]"
proof -
  obtain slt w1 where v: "validateParameters ps = Inr ()"
    and r: "rand_Read (nat (SaltLength ps)) w = (Some slt, w1)"
    and d: "deriveKey idkey pw slt ps (KeyLength ps) w1 =
        (idkey pw slt (Iterations ps) (Memory ps) (Parallelism ps) (word_of_int (KeyLength ps)), w')"
    and h: "h = encodeHash ps slt
        (idkey pw slt (Iterations ps) (Memory ps) (Parallelism ps) (word_of_int (KeyLength ps)))"
    using assms
    by (auto simp: hashWithReader_def deriveKey_def Let_def split: sum.splits prod.splits option.splits)
  have "db w1 = db w" "env w1 = env w" "kdf w1 = kdf w"
    using rand_Read_frame [of "nat (SaltLength ps)" w] r by simp_all
  with v r d h rand_Read_length [OF r] that [of slt] show thesis
    by (auto simp: deriveKey_def Let_def)
qed

lemma parse_hashWithReader:
  assumes "hashWithReader idkey pw ps w = (Inr h, w')" and "idkey_length idkey"
  obtains slt where "parse h = Inr \<lparr>parameters = ps, salt = slt,
      digest = idkey pw slt (Iterations ps) (Memory ps) (Parallelism ps) (word_of_int (KeyLength ps))\<rparr>"
    and "validateParameters ps = Inr ()"
proof -
  from assms(1) obtain slt where v: "validateParameters ps = Inr ()"
    and l: "length slt = nat (SaltLength ps)"
    and h: "h = encodeHash ps slt
           (idkey pw slt (Iterations ps) (Memory ps) (Parallelism ps) (word_of_int (KeyLength ps)))"
    by (rule hashWithReader_ok)
  have "SaltLength ps = int (length slt)"
    using v l by (simp add: validateParameters_ok limits)
  moreover have "KeyLength ps = int (length (idkey pw slt (Iterations ps) (Memory ps)
      (Parallelism ps) (word_of_int (KeyLength ps))))"
    using assms(2) keyLength_small [OF v] by (simp add: idkey_length_def)
  ultimately show thesis
    using v h that [of slt] parse_encodeHash by blast
qed

text \<open>Verifying: exactly one derivation on every path, within the limits.\<close>

definition bounded_call :: "kdf_call \<Rightarrow> bool" where
  "bounded_call c = (case c of (t, m, l, n) \<Rightarrow>
     MinIterations \<le> t \<and> t \<le> MaxIterations \<and> MinMemory \<le> m \<and> m \<le> MaxMemory \<and>
     MinParallelism \<le> l \<and> l \<le> MaxParallelism \<and> 16 \<le> n \<and> n \<le> 64)"

lemma verify_world:
  "snd (Verify idkey enc pw w) =
     w\<lparr>kdf := kdf w @
        [case parse enc of
           Inl _ \<Rightarrow> (DefaultIterations, DefaultMemory, DefaultParallelism, 32)
         | Inr p \<Rightarrow> (Iterations (parameters p), Memory (parameters p), Parallelism (parameters p),
                     word_of_int (KeyLength (parameters p)))]\<rparr>"
  by (simp add: Verify_def verifyWithDeriver_def deriveKey_def Let_def defaultParameters_def
      DefaultKeyLength_def parse_ok(3) split: sum.splits)

lemma verify_frame [frame]:
  "db (snd (Verify idkey enc pw w)) = db w" "env (snd (Verify idkey enc pw w)) = env w"
  "tick (snd (Verify idkey enc pw w)) = tick w"
  by (simp_all add: verify_world)

lemma verify_result:
  "fst (Verify idkey enc pw w) =
     (case parse enc of
        Inl e \<Rightarrow> Inl e
      | Inr p \<Rightarrow>
          if idkey pw (salt p) (Iterations (parameters p)) (Memory (parameters p))
               (Parallelism (parameters p)) (word_of_int (KeyLength (parameters p))) = digest p
          then Inr () else Inl ErrPassword)"
  by (simp add: Verify_def verifyWithDeriver_def deriveKey_def Let_def ConstantTimeCompare_def
      parse_ok(3) split: sum.splits)

lemma consume_world:
  "ConsumeUnknownUser idkey pw w =
     w\<lparr>kdf := kdf w @ [(DefaultIterations, DefaultMemory, DefaultParallelism, 32)]\<rparr>"
  by (simp add: ConsumeUnknownUser_def consumeUnknownUserWithDeriver_def deriveKey_def Let_def
      defaultParameters_def DefaultKeyLength_def)

lemma bounded_default: "bounded_call (DefaultIterations, DefaultMemory, DefaultParallelism, 32)"
  by (simp add: bounded_call_def limits)

lemma bounded_parsed:
  assumes "parse enc = Inr p"
  shows "bounded_call (Iterations (parameters p), Memory (parameters p), Parallelism (parameters p),
           word_of_int (KeyLength (parameters p)))"
proof -
  have v: "validateParameters (parameters p) = Inr ()" using parse_ok(1) [OF assms] .
  then have "16 \<le> KeyLength (parameters p)" "KeyLength (parameters p) \<le> 64"
    by (simp_all add: validateParameters_ok limits)
  then have "16 \<le> (word_of_int (KeyLength (parameters p)) :: 32 word)"
    and "(word_of_int (KeyLength (parameters p)) :: 32 word) \<le> 64"
    using keyLength_small [OF v] by (simp_all add: word_le_def)
  with v show ?thesis by (simp add: bounded_call_def validateParameters_ok)
qed

text \<open>What an accepted text is made of.\<close>

lemma parseUint_ok:
  "parseUint v bits = Inr n \<Longrightarrow> n < 2 ^ bits \<and> all_digits v \<and> n = digits_value v \<and>
     (length v > 1 \<longrightarrow> hd v \<noteq> CHR ''0'')"
  by (auto simp: parseUint_def ParseUint_def split: if_splits)

lemma parseUint_canonical: "parseUint v bits = Inr n \<Longrightarrow> dec_of_nat n = v"
  using parseUint_ok [of v bits n] dec_of_digits [of v] by simp

lemma b64_canonical:
  "b64_DecodeString StdAlphabet s = Some t \<Longrightarrow>
   b64_Encode StdAlphabet t = skip_breaks s"
  unfolding b64_DecodeString_def by (rule b64_Encode_quanta) (simp_all add: StdAlphabet_def)

lemma length_6: "length xs = 6 \<Longrightarrow> \<exists>a b c d e f. xs = [a, b, c, d, e, f]"
  by (auto simp: numeral_eq_Suc length_Suc_conv)

lemma length_3: "length xs = 3 \<Longrightarrow> \<exists>a b c. xs = [a, b, c]"
  by (auto simp: numeral_eq_Suc length_Suc_conv)

lemma parse_pieces:
  assumes "parse s = Inr p"
  obtains f3 f4 f5 m t l where
    "Split s (CHR ''$'') = [[], ''argon2id'', ''v=19'', f3, f4, f5]"
    "Split f3 (CHR '','') = [''m='' @ m, ''t='' @ t, ''p='' @ l]"
    "parseUint m 32 = Inr (unat (Memory (parameters p)))"
    "parseUint t 32 = Inr (unat (Iterations (parameters p)))"
    "parseUint l 8 = Inr (unat (Parallelism (parameters p)))"
    "b64_DecodeString StdAlphabet f4 = Some (salt p)"
    "b64_DecodeString StdAlphabet f5 = Some (digest p)"
proof -
  have "length (Split s (CHR ''$'')) = 6"
    using assms by (auto simp: parse_def Let_def split: if_splits)
  then obtain f0 f1 f2 f3 f4 f5 where sp: "Split s (CHR ''$'') = [f0, f1, f2, f3, f4, f5]"
    using length_6 by blast
  have "length (Split f3 (CHR '','')) = 3"
    using assms sp by (auto simp: parse_def Let_def split: if_splits)
  then obtain g0 g1 g2 where f3: "Split f3 (CHR '','') = [g0, g1, g2]"
    using length_3 by blast
  have "f0 = []" "f1 = ''argon2id''" "f2 = ''v=19''" "HasPrefix g0 ''m=''" "HasPrefix g1 ''t=''"
    "HasPrefix g2 ''p=''"
    using assms sp f3 by (auto simp: parse_def Let_def split: if_splits)
  moreover obtain m t l where
    "parseUint (drop 2 g0) 32 = Inr m" "parseUint (drop 2 g1) 32 = Inr t"
    "parseUint (drop 2 g2) 8 = Inr l"
    "b64_DecodeString StdAlphabet f4 = Some (salt p)"
    "b64_DecodeString StdAlphabet f5 = Some (digest p)"
    and "Memory (parameters p) = word_of_nat m" "Iterations (parameters p) = word_of_nat t"
      "Parallelism (parameters p) = word_of_nat l"
    using assms sp f3 by (auto simp: parse_def Let_def split: if_splits sum.splits option.splits)
  moreover from this have "m < 2 ^ 32" "t < 2 ^ 32" "l < 2 ^ 8"
    using parseUint_ok by blast+
  ultimately show thesis
    using that [of f3 f4 f5 "drop 2 g0" "drop 2 g1" "drop 2 g2"] sp f3
    by (auto simp: HasPrefix_iff unsigned_of_nat take_bit_nat_eq_self)
qed

text \<open>A verifier, for evaluating properties.\<close>

definition sample_verifier :: string where
  "sample_verifier = encodeHash defaultParameters (replicate 16 (CHR ''a'')) (replicate 32 (CHR ''b''))"

lemma sample_verifier_parse:
  "parse sample_verifier = Inr \<lparr>parameters = defaultParameters, salt = replicate 16 (CHR ''a''),
     digest = replicate 32 (CHR ''b'')\<rparr>"
  unfolding sample_verifier_def
  by (rule parse_encodeHash, simp) (simp_all add: defaultParameters_def limits)

lemma sample_verifier_ok: "IsArgon2id sample_verifier"
  by (simp add: IsArgon2id_def sample_verifier_parse)

section \<open>Properties\<close>

text \<open>
  C4.  A verifier that \<open>Hash\<close> prints parses back, is recognised as Argon2id, needs no rehash,
  and \<open>Verify\<close> accepts it for the password it was made from, in whatever world it is later
  checked.
\<close>

theorem Hash_Verify:
  assumes "idkey_length idkey" and "Hash idkey pw w = (Inr h, w')"
  shows "fst (Verify idkey h pw v) = Inr () \<and> IsArgon2id h \<and> \<not> NeedsRehash h"
  using assms(2,1) unfolding Hash_def
  by (rule parse_hashWithReader)
     (simp add: verify_result IsArgon2id_def NeedsRehash_def)

text \<open>A stand-in for Argon2id and a quiet process, on which the properties are evaluated.\<close>

definition toy_idkey :: argon2 where
  "toy_idkey p s t m l n = replicate (unat n) (if p = [] then CHR ''x'' else hd p)"

lemma toy_idkey_length: "idkey_length toy_idkey"
  by (simp add: idkey_length_def toy_idkey_def)

lemma toy_Hash:
  "Hash toy_idkey ''secret'' (calm_world empty_db) =
     (Inr (encodeHash defaultParameters (replicate 16 (char_of (0::nat))) (replicate 32 (CHR ''s''))),
      (calm_world empty_db)\<lparr>tick := 1, kdf := [(3, 65536, 4, 32)]\<rparr>)"
  by (simp add: Hash_def hashWithReader_def rand_Read_def calm_world_def calm_env_def
      deriveKey_def toy_idkey_def defaultParameters_def limits validateParameters_def Let_def)

theorem Hash_Verify_witness:
  "\<exists>h w'. Hash toy_idkey ''secret'' (calm_world empty_db) = (Inr h, w') \<and>
     fst (Verify toy_idkey h ''secret'' (calm_world empty_db)) = Inr () \<and> \<not> NeedsRehash h"
  using Hash_Verify [OF toy_idkey_length toy_Hash] toy_Hash by blast

text \<open>
  C5.  Every verification, whatever stored text and password it is given, pays for exactly one
  Argon2id derivation, whose memory, iterations, lanes and key length are within the limits of
  the package: neither a malformed nor a hostile verifier can skip the work or enlarge it.
  The dummy derivation for an unknown user costs one such derivation too, with the default
  parameters, and neither touches the tables.
\<close>

theorem Verify_work:
  "\<exists>c. bounded_call c \<and> snd (Verify idkey enc pw w) = w\<lparr>kdf := kdf w @ [c]\<rparr> \<and>
     bounded_call (DefaultIterations, DefaultMemory, DefaultParallelism, 32) \<and>
     ConsumeUnknownUser idkey pw w =
       w\<lparr>kdf := kdf w @ [(DefaultIterations, DefaultMemory, DefaultParallelism, 32)]\<rparr>"
proof (cases "parse enc")
  case (Inl e)
  then have "snd (Verify idkey enc pw w) =
      w\<lparr>kdf := kdf w @ [(DefaultIterations, DefaultMemory, DefaultParallelism, 32)]\<rparr>"
    by (simp add: verify_world)
  then show ?thesis using bounded_default consume_world by blast
next
  case (Inr p)
  then have "snd (Verify idkey enc pw w) =
      w\<lparr>kdf := kdf w @ [(Iterations (parameters p), Memory (parameters p),
        Parallelism (parameters p), word_of_int (KeyLength (parameters p)))]\<rparr>"
    by (simp add: verify_world)
  then show ?thesis using bounded_parsed [OF Inr] bounded_default consume_world by blast
qed

text \<open>
  C6.  The parser accepts one text per verifier only: printing what was parsed gives the stored
  text back, up to the line breaks that the base64 decoder skips.  In particular no leading
  zeros, signs, padding, trailing bits or reordered parameters are accepted.
\<close>

theorem parse_canonical:
  assumes "parse s = Inr p"
  shows "encodeHash (parameters p) (salt p) (digest p) = skip_breaks s"
proof -
  obtain f3 f4 f5 m t l where
    sp: "Split s (CHR ''$'') = [[], ''argon2id'', ''v=19'', f3, f4, f5]"
    and f3: "Split f3 (CHR '','') = [''m='' @ m, ''t='' @ t, ''p='' @ l]"
    and nums: "parseUint m 32 = Inr (unat (Memory (parameters p)))"
      "parseUint t 32 = Inr (unat (Iterations (parameters p)))"
      "parseUint l 8 = Inr (unat (Parallelism (parameters p)))"
    and b64: "b64_DecodeString StdAlphabet f4 = Some (salt p)"
      "b64_DecodeString StdAlphabet f5 = Some (digest p)"
    using assms by (rule parse_pieces)
  have "s = join_with (CHR ''$'') [[], ''argon2id'', ''v=19'', f3, f4, f5]"
    using join_Split [of "CHR ''$''" s] sp by simp
  moreover have "f3 = join_with (CHR '','') [''m='' @ m, ''t='' @ t, ''p='' @ l]"
    using join_Split [of "CHR '',''" f3] f3 by simp
  ultimately show ?thesis
    using nums [THEN parseUint_canonical] b64 [THEN b64_canonical]
    by (auto simp: encodeHash_def Version_def dec_19 simp del: skip_breaks_dec) (metis skip_breaks_dec)+
qed

theorem parse_canonical_witness:
  "encodeHash defaultParameters (replicate 16 (CHR ''a'')) (replicate 32 (CHR ''b'')) =
     skip_breaks sample_verifier"
  using parse_canonical [OF sample_verifier_parse] by simp

end
