(* ===== verification/Bootstrap.thy ===== *)
theory Bootstrap
  imports Password
begin

text \<open>
  \<open>src/pkg/userbootstrap/bootstrap.go\<close>: the transition from an appliance without users to one with a
  local administrator, kept in the singleton row of \<open>o_bootstrap_state\<close> and in a seal stored
  outside the database.  The seal is the interface \<open>Seal\<close> of the source: a record of two
  operations on the world.  Its contract is the locale \<open>seal_contract\<close>.
\<close>

section \<open>State\<close>

definition singletonID :: int where "singletonID = 1"

definition StatusPristine :: string where "StatusPristine = ''pristine''"
definition StatusInitialized :: string where "StatusInitialized = ''initialized''"
definition StatusRecovery :: string where "StatusRecovery = ''recovery''"

lemmas status_defs = StatusPristine_def StatusInitialized_def StatusRecovery_def

record State =
  InstallationID :: string
  Status :: string

definition zero_State :: State where
  "zero_State = \<lparr>InstallationID = [], Status = []\<rparr>"

definition Initialized :: "State \<Rightarrow> bool" where
  "Initialized state = (Status state = StatusInitialized)"

definition SetupRequired :: "State \<Rightarrow> bool" where
  "SetupRequired state = (Status state = StatusPristine)"

record 'w Seal =
  Seal_Load :: "'w \<Rightarrow> (error + string \<times> bool) \<times> 'w"
  Seal_Create :: "string \<Rightarrow> 'w \<Rightarrow> (error + unit) \<times> 'w"

section \<open>Installation ids\<close>

definition newInstallationID :: "'x world_scheme \<Rightarrow> (error + string) \<times> 'x world_scheme" where
  "newInstallationID w =
     (case rand_Read 16 w of
        (None, w1) \<Rightarrow> (Inl (Errorf ''generate installation id'' (DriverError ''rand'')), w1)
      | (Some v0, w1) \<Rightarrow>
          let v1 = v0[6 := char_of (code (v0 ! 6) mod 16 + 64)];
              v2 = v1[8 := char_of (code (v1 ! 8) mod 64 + 128)];
              e = hex_EncodeToString v2 in
          (Inr (take 8 e @ ''-'' @ take 4 (drop 8 e) @ ''-'' @ take 4 (drop 12 e) @ ''-'' @
                take 4 (drop 16 e) @ ''-'' @ take 12 (drop 20 e)), w1))"

definition validInstallationID :: "string \<Rightarrow> bool" where
  "validInstallationID v =
     (if length v \<noteq> 36 \<or> v ! 8 \<noteq> CHR ''-'' \<or> v ! 13 \<noteq> CHR ''-'' \<or> v ! 18 \<noteq> CHR ''-'' \<or> v ! 23 \<noteq> CHR ''-''
      then False
      else
      let compact = take 8 v @ take 4 (drop 9 v) @ take 4 (drop 14 v) @ take 4 (drop 19 v) @
                    take 12 (drop 24 v) in
      case hex_DecodeString compact of
        None \<Rightarrow> False
      | Some decoded \<Rightarrow> length decoded = 16 \<and> v ! 14 = CHR ''4'' \<and>
          (v ! 19 = CHR ''8'' \<or> v ! 19 = CHR ''9'' \<or> v ! 19 = CHR ''a'' \<or> v ! 19 = CHR ''b''))"

definition validStatus :: "string \<Rightarrow> bool" where
  "validStatus status =
     (status = StatusPristine \<or> status = StatusInitialized \<or> status = StatusRecovery)"

section \<open>Statements\<close>

definition withImmediateTransaction ::
  "('x world_scheme \<Rightarrow> (error + 'a) \<times> 'x world_scheme) \<Rightarrow> 'x world_scheme \<Rightarrow> (error + 'a) \<times> 'x world_scheme" where
  "withImmediateTransaction operation w =
     (case driver_call w of
        (Inl e, w1) \<Rightarrow> (Inl (Errorf ''acquire database connection'' e), w1)
      | (Inr _, w1) \<Rightarrow>
          Transaction (Errorf ''begin immediate transaction'') (Errorf ''commit immediate transaction'')
            operation w1)"

text \<open>\<open>SELECT installation_id, status FROM o_bootstrap_state WHERE id = 1\<close>\<close>

definition select_state :: "db \<Rightarrow> error + State \<times> db" where
  "select_state d =
     (case find (\<lambda>b. bs_ID b = singletonID) (o_bootstrap_state d) of
        None \<Rightarrow> Inl ErrNoRows
      | Some b \<Rightarrow> Inr (\<lparr>InstallationID = bs_InstallationID b, Status = bs_Status b\<rparr>, d))"

definition readState :: "'x world_scheme \<Rightarrow> (error + State \<times> bool) \<times> 'x world_scheme" where
  "readState w =
     (case in_tx BootstrapStateDBModel_TableName select_state w of
        (Inl e, w1) \<Rightarrow>
          if errors_Is e ErrNoRows then (Inr (zero_State, False), w1)
          else (Inl (Errorf ''read bootstrap state'' e), w1)
      | (Inr state, w1) \<Rightarrow> (Inr (state, True), w1))"

definition insertState ::
  "State \<Rightarrow> int option \<Rightarrow> time \<Rightarrow> 'x world_scheme \<Rightarrow> (error + unit) \<times> 'x world_scheme" where
  "insertState state adminUserID now w =
     (let initializedAt = (if Status state = StatusInitialized then Some now else None) in
      case in_tx BootstrapStateDBModel_TableName
        (\<lambda>d. if singletonID \<in> set (map bs_ID (o_bootstrap_state d))
             then Inl (unique_failed ''o_bootstrap_state.id'')
             else Inr ((), d\<lparr>o_bootstrap_state := o_bootstrap_state d @
               [\<lparr>bs_ID = singletonID, bs_InstallationID = InstallationID state,
                 bs_Status = Status state, bs_AdminUserID = adminUserID,
                 bs_InitializedAt = initializedAt, bs_CreatedAt = now, bs_UpdatedAt = now\<rparr>]\<rparr>)) w of
        (Inl e, w1) \<Rightarrow> (Inl (Errorf ''create bootstrap state'' e), w1)
      | (Inr _, w1) \<Rightarrow> (Inr (), w1))"

definition updateState ::
  "State \<Rightarrow> int option \<Rightarrow> time \<Rightarrow> 'x world_scheme \<Rightarrow> (error + unit) \<times> 'x world_scheme" where
  "updateState state adminUserID now w =
     (let initializedAt = (if Status state = StatusInitialized then Some now else None);
          hit = (\<lambda>b. bs_ID b = singletonID) in
      case in_tx BootstrapStateDBModel_TableName
        (\<lambda>d. Inr (RowsAffected hit (o_bootstrap_state d),
                 d\<lparr>o_bootstrap_state := update_where hit
                    (\<lambda>b. b\<lparr>bs_InstallationID := InstallationID state, bs_Status := Status state,
                           bs_AdminUserID := adminUserID, bs_InitializedAt := initializedAt,
                           bs_UpdatedAt := now\<rparr>) (o_bootstrap_state d)\<rparr>)) w of
        (Inl e, w1) \<Rightarrow> (Inl (Errorf ''update bootstrap state'' e), w1)
      | (Inr n, w1) \<Rightarrow>
          (case driver_call w1 of
             (Inl e, w2) \<Rightarrow> (Inl (Errorf ''read bootstrap state update result'' e), w2)
           | (Inr _, w2) \<Rightarrow> if n \<noteq> 1 then (Inl ErrInconsistentState, w2) else (Inr (), w2)))"

text \<open>\<open>SELECT COUNT(*), MIN(id) FROM o_users\<close>\<close>

definition userSummary :: "'x world_scheme \<Rightarrow> (error + int \<times> int option) \<times> 'x world_scheme" where
  "userSummary w =
     (case in_tx UserDBModel_TableName
        (\<lambda>d. Inr ((int (length (o_users d)),
                   if o_users d = [] then None else Some (Min (set (map u_Id (o_users d))))), d)) w of
        (Inl e, w1) \<Rightarrow> (Inl (Errorf ''read user summary'' e), w1)
      | (Inr r, w1) \<Rightarrow> (Inr r, w1))"

section \<open>Reconciling\<close>

text \<open>
  The closure of \<open>ReconcileState\<close> captures \<open>result\<close>, \<open>createSeal\<close> and \<open>recovery\<close>: it returns them.
\<close>

definition reconcile_tx ::
  "string \<Rightarrow> bool \<Rightarrow> string \<Rightarrow> 'x world_scheme \<Rightarrow> (error + State \<times> bool \<times> bool) \<times> 'x world_scheme" where
  "reconcile_tx sealID sealExists newID w =
     (case readState w of (Inl e, w1) \<Rightarrow> (Inl e, w1) | (Inr (marker, exists), w1) \<Rightarrow>
      case userSummary w1 of (Inl e, w2) \<Rightarrow> (Inl e, w2) | (Inr (userCount, firstUserID), w2) \<Rightarrow>
      case time_Now w2 of (now, w3) \<Rightarrow>
      if \<not> exists then
        (let (result, createSeal, recovery) =
           (if sealExists then (\<lparr>InstallationID = sealID, Status = StatusRecovery\<rparr>, False, True)
            else if userCount > 0 then (\<lparr>InstallationID = newID, Status = StatusInitialized\<rparr>, True, False)
            else (\<lparr>InstallationID = newID, Status = StatusPristine\<rparr>, False, False)) in
         case insertState result firstUserID now w3 of
           (Inl e, w4) \<Rightarrow> (Inl e, w4)
         | (Inr _, w4) \<Rightarrow> (Inr (result, createSeal, recovery), w4))
      else if \<not> validInstallationID (InstallationID marker) \<or> \<not> validStatus (Status marker) then
        (let result = \<lparr>InstallationID = (if sealExists then sealID else newID),
                       Status = StatusRecovery\<rparr> in
         case updateState result firstUserID now w3 of
           (Inl e, w4) \<Rightarrow> (Inl e, w4)
         | (Inr _, w4) \<Rightarrow> (Inr (result, False, True), w4))
      else
        (let (result, createSeal, recovery) =
           (if Status marker = StatusRecovery then (marker, False, True)
            else if Status marker = StatusPristine then
              (if sealExists then (marker\<lparr>Status := StatusRecovery\<rparr>, False, True)
               else if userCount > 0 then (marker\<lparr>Status := StatusInitialized\<rparr>, True, False)
               else (marker, False, False))
            else if Status marker = StatusInitialized then
              (if userCount = 0 then (marker\<lparr>Status := StatusRecovery\<rparr>, False, True)
               else if sealExists \<and> sealID \<noteq> InstallationID marker
                 then (marker\<lparr>Status := StatusRecovery\<rparr>, False, True)
               else if \<not> sealExists then (marker, True, False)
               else (marker, False, False))
            else (marker, False, False)) in
         if Status result \<noteq> Status marker then
           (case updateState result firstUserID now w3 of
              (Inl e, w4) \<Rightarrow> (Inl e, w4)
            | (Inr _, w4) \<Rightarrow> (Inr (result, createSeal, recovery), w4))
         else (Inr (result, createSeal, recovery), w3)))"

text \<open>
  \<open>ReconcileState\<close> returns the state together with \<open>ErrRecoveryRequired\<close> in recovery, so its
  result is a pair of a state and an optional error.
\<close>

definition ReconcileState ::
  "'x world_scheme Seal option \<Rightarrow> 'x world_scheme \<Rightarrow> (State \<times> error option) \<times> 'x world_scheme" where
  "ReconcileState seal w =
     (case seal of
        None \<Rightarrow> ((zero_State, Some (ErrorsNew ''bootstrap seal is required'')), w)
      | Some sl \<Rightarrow>
      case Seal_Load sl w of
        (Inl e, w1) \<Rightarrow> ((zero_State, Some (Errorf ''load bootstrap seal'' e)), w1)
      | (Inr (sealID, sealExists), w1) \<Rightarrow>
      case newInstallationID w1 of
        (Inl e, w2) \<Rightarrow> ((zero_State, Some e), w2)
      | (Inr newID, w2) \<Rightarrow>
      case withImmediateTransaction (reconcile_tx sealID sealExists newID) w2 of
        (Inl e, w3) \<Rightarrow> ((zero_State, Some e), w3)
      | (Inr (result, createSeal, recovery), w3) \<Rightarrow>
      case (if createSeal then Seal_Create sl (InstallationID result) w3 else (Inr (), w3)) of
        (Inl e, w4) \<Rightarrow> ((zero_State, Some (Errorf ''create bootstrap seal'' e)), w4)
      | (Inr _, w4) \<Rightarrow>
          if recovery then ((result, Some ErrRecoveryRequired), w4) else ((result, None), w4))"

section \<open>Creating the administrator\<close>

definition bootstrap_user :: "int \<Rightarrow> string \<Rightarrow> string \<Rightarrow> time \<Rightarrow> UserDBModel" where
  "bootstrap_user uid username hash now =
     zero_user\<lparr>u_Id := uid, u_Username := username, u_Password := hash, u_Role := ''admin'',
       u_CreatedAt := now, u_UpdatedAt := now\<rparr>"

definition insert_admin ::
  "string \<Rightarrow> string \<Rightarrow> time \<Rightarrow> 'x world_scheme \<Rightarrow> (error + int) \<times> 'x world_scheme" where
  "insert_admin username hash now w =
     in_tx UserDBModel_TableName
       (\<lambda>d. let uid = new_rowid (env w) UserDBModel_TableName d in
            if username \<in> set (map u_Username (o_users d))
            then Inl (unique_failed ''o_users.username'')
            else Inr (uid, d\<lparr>o_users := o_users d @ [bootstrap_user uid username hash now]\<rparr>)) w"

definition pristine_row :: "State \<Rightarrow> BootstrapStateDBModel \<Rightarrow> bool" where
  "pristine_row state b \<longleftrightarrow>
     bs_ID b = singletonID \<and> bs_InstallationID b = InstallationID state \<and> bs_Status b = StatusPristine"

text \<open>
  The closure of \<open>CreateAdmin\<close>: \<open>None\<close> is the \<open>outcome\<close> \<open>ErrAlreadyInitialized\<close> of a transaction
  that commits nothing, \<open>Some\<close> the new user's id.
\<close>

definition create_tx ::
  "State \<Rightarrow> string \<Rightarrow> string \<Rightarrow> (int \<Rightarrow> 'x world_scheme \<Rightarrow> (error + unit) \<times> 'x world_scheme) option \<Rightarrow>
   'x world_scheme \<Rightarrow> (error + int option) \<times> 'x world_scheme" where
  "create_tx state username hash beforeCommit w =
     (case readState w of (Inl e, w1) \<Rightarrow> (Inl e, w1) | (Inr (marker, exists), w1) \<Rightarrow>
      case userSummary w1 of (Inl e, w2) \<Rightarrow> (Inl e, w2) | (Inr (userCount, _), w2) \<Rightarrow>
      if \<not> exists \<or> Status marker \<noteq> StatusPristine \<or> InstallationID marker \<noteq> InstallationID state \<or>
         userCount \<noteq> 0
      then (Inr None, w2)
      else
      case time_Now w2 of (now, w3) \<Rightarrow>
      case insert_admin username hash now w3 of
        (Inl e, w4) \<Rightarrow> (Inl (Errorf ''create bootstrap administrator'' e), w4)
      | (Inr uid, w4) \<Rightarrow>
      case driver_call w4 of
        (Inl e, w5) \<Rightarrow> (Inl (Errorf ''read bootstrap administrator id'' e), w5)
      | (Inr _, w5) \<Rightarrow>
      if uid < 1 then (Inl (ErrorsNew ''read bootstrap administrator id: invalid id''), w5)
      else
      case (case beforeCommit of None \<Rightarrow> (Inr (), w5) | Some f \<Rightarrow> f uid w5) of
        (Inl e, w6) \<Rightarrow> (Inl (Errorf ''prepare administrator data'' e), w6)
      | (Inr _, w6) \<Rightarrow>
      case in_tx BootstrapStateDBModel_TableName
        (\<lambda>d. Inr (RowsAffected (pristine_row state) (o_bootstrap_state d),
                 d\<lparr>o_bootstrap_state := update_where (pristine_row state)
                    (\<lambda>b. b\<lparr>bs_Status := StatusInitialized, bs_AdminUserID := Some uid,
                           bs_InitializedAt := Some now, bs_UpdatedAt := now\<rparr>)
                    (o_bootstrap_state d)\<rparr>)) w6 of
        (Inl e, w7) \<Rightarrow> (Inl (Errorf ''seal bootstrap database state'' e), w7)
      | (Inr n, w7) \<Rightarrow>
      case driver_call w7 of
        (Inl e, w8) \<Rightarrow> (Inl (Errorf ''read bootstrap transition result'' e), w8)
      | (Inr _, w8) \<Rightarrow> if n \<noteq> 1 then (Inl ErrInconsistentState, w8) else (Inr (Some uid), w8))"

definition CreateAdmin ::
  "'x world_scheme Seal option \<Rightarrow> string \<Rightarrow> string \<Rightarrow>
   (int \<Rightarrow> 'x world_scheme \<Rightarrow> (error + unit) \<times> 'x world_scheme) option \<Rightarrow>
   'x world_scheme \<Rightarrow> (error + int) \<times> 'x world_scheme" where
  "CreateAdmin seal username passwordHash beforeCommit w =
     (if \<not> IsArgon2id passwordHash
      then (Inl (ErrorsNew ''bootstrap password must be an Argon2id verifier''), w)
      else
      case ReconcileState seal w of
        ((_, Some e), w1) \<Rightarrow> (Inl e, w1)
      | ((state, None), w1) \<Rightarrow>
      if Status state \<noteq> StatusPristine then (Inl ErrAlreadyInitialized, w1)
      else
      case withImmediateTransaction (create_tx state username passwordHash beforeCommit) w1 of
        (Inl e, w2) \<Rightarrow> (Inl e, w2)
      | (Inr None, w2) \<Rightarrow>
          (case ReconcileState seal w2 of
             ((_, Some e), w3) \<Rightarrow> (Inl e, w3)
           | ((_, None), w3) \<Rightarrow> (Inl ErrAlreadyInitialized, w3))
      | (Inr (Some createdUserID), w2) \<Rightarrow>
          (case seal of
             None \<Rightarrow> (Inl (ErrorsNew ''nil seal''), w2)
           | Some sl \<Rightarrow>
          case Seal_Create sl (InstallationID state) w2 of
            (Inl e, w3) \<Rightarrow> (Inl (Errorf ''create bootstrap seal after database commit'' e), w3)
          | (Inr _, w3) \<Rightarrow> (Inr createdUserID, w3)))"

section \<open>Lemmas\<close>

subsection \<open>Installation ids\<close>

lemma newInstallationID_shape:
  assumes "newInstallationID w = (Inr i, w')"
  obtains v where "length v = 16" and "code (v ! 6) div 16 = 4" and "code (v ! 8) div 64 = 2"
    and "i = take 8 (hex_EncodeToString v) @ ''-'' @ take 4 (drop 8 (hex_EncodeToString v)) @ ''-'' @
       take 4 (drop 12 (hex_EncodeToString v)) @ ''-'' @ take 4 (drop 16 (hex_EncodeToString v)) @
       ''-'' @ take 12 (drop 20 (hex_EncodeToString v))"
proof -
  obtain v0 where v0: "rand_Read 16 w = (Some v0, w')"
    and i: "i = (let v2 = v0[6 := char_of (code (v0 ! 6) mod 16 + 64),
                             8 := char_of (code (v0 ! 8) mod 64 + 128)];
                     e = hex_EncodeToString v2 in
                 take 8 e @ ''-'' @ take 4 (drop 8 e) @ ''-'' @ take 4 (drop 12 e) @ ''-'' @
                 take 4 (drop 16 e) @ ''-'' @ take 12 (drop 20 e))"
    using assms by (auto simp: newInstallationID_def Let_def split: prod.splits option.splits)
  have l: "length v0 = 16" using rand_Read_length [OF v0] .
  have "code (char_of (code c mod 16 + 64)) = code c mod 16 + 64"
    and "code (char_of (code c mod 64 + 128)) = code c mod 64 + 128" for c
    by (simp_all add: of_char_of)
  then show thesis
    using that [of "v0[6 := char_of (code (v0 ! 6) mod 16 + 64), 8 := char_of (code (v0 ! 8) mod 64 + 128)]"]
      l i by (simp add: Let_def nth_list_update)
qed

lemma uuid_text:
  assumes "length v = 16" and "code (v ! 6) div 16 = 4" and "code (v ! 8) div 64 = 2"
  shows "validInstallationID
     (take 8 (hex_EncodeToString v) @ ''-'' @ take 4 (drop 8 (hex_EncodeToString v)) @ ''-'' @
       take 4 (drop 12 (hex_EncodeToString v)) @ ''-'' @ take 4 (drop 16 (hex_EncodeToString v)) @
       ''-'' @ take 12 (drop 20 (hex_EncodeToString v)))"
proof -
  define e where "e = hex_EncodeToString v"
  have l: "length e = 32" by (simp add: e_def assms(1))
  have e12: "e ! 12 = CHR ''4''"
    using nth_hex_Encode [of 6 v] assms by (simp add: e_def hex_digits_def)
  have "code (v ! 8) div 16 \<in> {8, 9, 10, 11}"
    using assms(3) by auto
  then have e16: "e ! 16 \<in> {CHR ''8'', CHR ''9'', CHR ''a'', CHR ''b''}"
    using nth_hex_Encode [of 8 v] assms(1) by (auto simp: e_def hex_digits_def)
  have whole: "take 8 e @ take 4 (drop 8 e) @ take 4 (drop 12 e) @ take 4 (drop 16 e) @
      take 12 (drop 20 e) = e"
  proof -
    have "e = take 8 e @ take 4 (drop 8 e) @ take 4 (drop 4 (drop 8 e)) @
        take 4 (drop 4 (drop 4 (drop 8 e))) @ drop 4 (drop 4 (drop 4 (drop 8 e)))"
      by (simp only: append_take_drop_id)
    with l show ?thesis by simp
  qed
  show ?thesis
    using l e12 e16 whole hex_roundtrip [of v] assms(1)
    by (simp add: validInstallationID_def nth_append flip: e_def)
qed

lemma newInstallationID_valid: "newInstallationID w = (Inr i, w') \<Longrightarrow> validInstallationID i"
  by (erule newInstallationID_shape) (simp only: uuid_text)

lemma db_only_newID: "newInstallationID w = (r, w') \<Longrightarrow> db_only w w'"
  by (auto simp: newInstallationID_def Let_def split: prod.splits option.splits dest: db_only_rand)

lemma newID_db: "newInstallationID w = (r, w') \<Longrightarrow> db w' = db w"
  using rand_Read_frame(2) [of 16 w]
  by (auto simp: newInstallationID_def Let_def split: prod.splits option.splits)

subsection \<open>The transactions\<close>

text \<open>The marker of a database and the users it has.\<close>

definition state_only :: "db \<Rightarrow> db \<Rightarrow> bool" where
  "state_only d d' \<longleftrightarrow> d' = d\<lparr>o_bootstrap_state := o_bootstrap_state d'\<rparr> \<and> (wf_db d \<longrightarrow> wf_db d')"

lemma state_only_refl [simp]: "state_only d d"
  by (simp add: state_only_def)

lemma state_onlyD:
  assumes "state_only d d'"
  shows "o_users d' = o_users d" "migrated d' = migrated d" "wf_db d \<Longrightarrow> wf_db d'"
proof -
  have d': "d' = d\<lparr>o_bootstrap_state := o_bootstrap_state d'\<rparr>"
    using assms by (simp add: state_only_def)
  show "o_users d' = o_users d" "migrated d' = migrated d"
    by (subst d', simp)+
  show "wf_db d \<Longrightarrow> wf_db d'" using assms by (simp add: state_only_def)
qed

definition marker_of :: "db \<Rightarrow> State option" where
  "marker_of d = map_option (\<lambda>b. \<lparr>InstallationID = bs_InstallationID b, Status = bs_Status b\<rparr>)
     (find (\<lambda>b. bs_ID b = singletonID) (o_bootstrap_state d))"

lemma readState_ok:
  assumes "readState w = (Inr (m, ex), w')"
  shows "db w' = db w \<and> db_only w w' \<and> (case marker_of (db w) of None \<Rightarrow> m = zero_State \<and> \<not> ex | Some m' \<Rightarrow> m = m' \<and> ex)"
  using assms
  by (auto simp: readState_def in_tx_def select_state_def marker_of_def
           split: prod.splits sum.splits option.splits if_splits)

lemma userSummary_ok:
  assumes "userSummary w = (Inr (n, f), w')"
  shows "db w' = db w \<and> db_only w w' \<and> n = int (length (o_users (db w)))"
  using assms
  by (auto simp: userSummary_def in_tx_def split: prod.splits sum.splits option.splits if_splits)

lemma find_append_new: "\<forall>r \<in> set rows. \<not> P r \<Longrightarrow> P b \<Longrightarrow> find P (rows @ [b]) = Some b"
  by (induction rows) auto

lemma insertState_ok:
  assumes "insertState st f now w = (Inr (), w')"
  shows "marker_of (db w') = Some st \<and> state_only (db w) (db w') \<and> db_only w w'"
proof -
  define b where "b = \<lparr>bs_ID = singletonID, bs_InstallationID = InstallationID st,
      bs_Status = Status st, bs_AdminUserID = f,
      bs_InitializedAt = (if Status st = StatusInitialized then Some now else None),
      bs_CreatedAt = now, bs_UpdatedAt = now\<rparr>"
  have "singletonID \<notin> set (map bs_ID (o_bootstrap_state (db w)))"
    and w': "w' = w\<lparr>db := (db w)\<lparr>o_bootstrap_state := o_bootstrap_state (db w) @ [b]\<rparr>, tick := Suc (tick w)\<rparr>"
    using assms unfolding b_def
    by (auto simp: insertState_def in_tx_def Let_def split: prod.splits sum.splits option.splits if_splits)
  then have "\<forall>r \<in> set (o_bootstrap_state (db w)). bs_ID r \<noteq> singletonID"
    by force
  then have "find (\<lambda>b. bs_ID b = singletonID) (o_bootstrap_state (db w) @ [b]) = Some b"
    by (rule find_append_new) (simp add: b_def)
  moreover have "state_only (db w) (db w')"
    using w' \<open>singletonID \<notin> set (map bs_ID (o_bootstrap_state (db w)))\<close>
    by (simp add: state_only_def wf_db_def b_def singletonID_def del: set_map)
  ultimately show ?thesis using w' by (simp add: marker_of_def b_def)
qed

lemma find_update_where:
  assumes "find P rows = Some b" and "\<And>r. P r \<Longrightarrow> P (f r)"
  shows "find P (update_where P f rows) = Some (f b)"
  using assms by (induction rows) (auto simp: update_where_def split: if_splits)

lemma find_update_sub:
  assumes "find P rows = Some b" and "Q b" and "\<And>r. Q r \<Longrightarrow> P r" and "\<And>r. P (f r) = P r"
  shows "find P (update_where Q f rows) = Some (f b)"
  using assms by (induction rows) (auto simp: update_where_def split: if_splits)

lemma updateState_ok:
  assumes "updateState st f now w = (Inr (), w')" and "marker_of (db w) \<noteq> None"
  shows "marker_of (db w') = Some st \<and> state_only (db w) (db w') \<and> db_only w w'"
proof -
  from assms(2) obtain b where b: "find (\<lambda>b. bs_ID b = singletonID) (o_bootstrap_state (db w)) = Some b"
    by (auto simp: marker_of_def)
  define g where "g = (\<lambda>b :: BootstrapStateDBModel. b\<lparr>bs_InstallationID := InstallationID st,
      bs_Status := Status st, bs_AdminUserID := f,
      bs_InitializedAt := (if Status st = StatusInitialized then Some now else None),
      bs_UpdatedAt := now\<rparr>)"
  obtain k where w': "w' = w\<lparr>db := (db w)\<lparr>o_bootstrap_state :=
        update_where (\<lambda>b. bs_ID b = singletonID) g (o_bootstrap_state (db w))\<rparr>, tick := k\<rparr>"
    using assms(1) unfolding g_def
    by (auto simp: updateState_def in_tx_def driver_call_def Let_def
             split: prod.splits sum.splits option.splits if_splits)
  have g: "bs_ID (g b) = bs_ID b \<and> bs_InstallationID (g b) = InstallationID st \<and> bs_Status (g b) = Status st" for b
    by (simp add: g_def)
  have "state_only (db w) (db w')"
    using w' g by (simp add: state_only_def wf_db_def del: set_map)
  then show ?thesis
    using w' g find_update_where [OF b, of g] by (simp add: marker_of_def)
qed

text \<open>
  The decision of \<open>reconcile_tx\<close> as a function of what it reads: the marker, the number of users
  and the seal.
\<close>

definition decide :: "State option \<Rightarrow> nat \<Rightarrow> string option \<Rightarrow> string \<Rightarrow> State \<times> bool" where
  "decide m n s newID =
     (case m of
        None \<Rightarrow>
          (case s of
             Some i \<Rightarrow> (\<lparr>InstallationID = i, Status = StatusRecovery\<rparr>, False)
           | None \<Rightarrow> if 0 < n then (\<lparr>InstallationID = newID, Status = StatusInitialized\<rparr>, True)
                     else (\<lparr>InstallationID = newID, Status = StatusPristine\<rparr>, False))
      | Some st \<Rightarrow>
          if \<not> validInstallationID (InstallationID st) \<or> \<not> validStatus (Status st)
          then (\<lparr>InstallationID = (case s of None \<Rightarrow> newID | Some i \<Rightarrow> i), Status = StatusRecovery\<rparr>, False)
          else if Status st = StatusPristine \<and> s = None
            then if 0 < n then (st\<lparr>Status := StatusInitialized\<rparr>, True) else (st, False)
          else if Status st = StatusInitialized \<and> 0 < n \<and> (s = None \<or> s = Some (InstallationID st))
            then (st, s = None)
          else (st\<lparr>Status := StatusRecovery\<rparr>, False))"

lemma State_eta: "Status m = StatusRecovery \<Longrightarrow> m\<lparr>Status := StatusRecovery\<rparr> = m"
  by simp

lemma reconcile_tx_ok:
  assumes "reconcile_tx sid (sealed \<noteq> None) newID w = (Inr (res, cr, rec), w')"
    and "\<And>i. sealed = Some i \<Longrightarrow> sid = i"
  shows "(res, cr) = decide (marker_of (db w)) (length (o_users (db w))) sealed newID
    \<and> rec = (Status res = StatusRecovery) \<and> marker_of (db w') = Some res
    \<and> state_only (db w) (db w') \<and> db_only w w'"
proof -
  obtain m ex w1 where r: "readState w = (Inr (m, ex), w1)"
    using assms(1) by (auto simp: reconcile_tx_def split: prod.splits sum.splits)
  obtain n f w2 where u: "userSummary w1 = (Inr (n, f), w2)"
    using assms(1) r by (auto simp: reconcile_tx_def split: prod.splits sum.splits)
  obtain now w3 where t: "time_Now w2 = (now, w3)" by fastforce
  note rest = assms(1) [unfolded reconcile_tx_def, simplified r u t prod.case sum.case]
  have w3: "db w3 = db w" "db_only w w3" and n: "n = int (length (o_users (db w)))"
    using readState_ok [OF r] userSummary_ok [OF u] t db_only_trans db_only_now [OF t]
    by (auto simp: time_Now_def) blast+
  show ?thesis
  proof (cases "marker_of (db w)")
    case None
    then have "\<not> ex" using readState_ok [OF r] by simp
    with rest None assms(2) n show ?thesis
      using insertState_ok [of _ f now w3 w'] w3 db_only_trans [OF w3(2)]
      by (cases sealed) (auto simp: decide_def status_defs Let_def split: if_splits sum.splits prod.splits)
  next
    case (Some st)
    then have ex: "ex" "m = st" using readState_ok [OF r] by simp_all
    have upd: "marker_of (db w') = Some x \<and> state_only (db w) (db w') \<and> db_only w w'"
      if "updateState x f now w3 = (Inr (), w')" for x
      using updateState_ok [OF that] Some w3 db_only_trans [OF w3(2)] by simp
    show ?thesis
      using rest ex Some assms(2) n upd w3
      by (cases sealed) (auto simp: decide_def status_defs Let_def validStatus_def
          split: if_splits sum.splits prod.splits)
  qed
qed


lemma withImmediateTransaction_ok:
  assumes "withImmediateTransaction op w = (Inr r, w')"
  obtains w1 w2 where "db_only w w1" and "op w1 = (Inr r, w2)" and "db_only w2 w'"
    and "db w' = db w2" and "quiet w \<longrightarrow> db w1 = db w"
proof -
  obtain u where u: "driver_call w = (Inr (), u)"
    and t: "Transaction (Errorf ''begin immediate transaction'')
       (Errorf ''commit immediate transaction'') op u = (Inr r, w')"
    using assms by (auto simp: withImmediateTransaction_def split: prod.splits sum.splits)
  from t obtain w2 where w2: "op ((interfered u)\<lparr>tick := Suc (tick u)\<rparr>) = (Inr r, w2)"
    and w': "w' = w2\<lparr>tick := Suc (tick w2)\<rparr>"
    by (rule Transaction_ok)
  have o: "db_only w u" using u by (rule db_only_driver)
  have "quiet u = quiet w" "db u = db w"
    using u driver_call_frame [of w] by (auto simp: quiet_def)
  then show thesis
    using that [OF _ w2] w' db_only_trans [OF o] by simp
qed

text \<open>In a world without faults the transaction always commits.\<close>

lemma withImmediateTransaction_quiet:
  assumes "quiet w" and "op (w\<lparr>tick := Suc (Suc (tick w))\<rparr>) = (r, w2)" and "quiet w2"
  shows "withImmediateTransaction op w =
    (r, if isl r then w2\<lparr>db := db w\<rparr> else w2\<lparr>tick := Suc (tick w2)\<rparr>)"
  using assms
  by (simp add: withImmediateTransaction_def driver_call_quiet Transaction_run)

lemma newInstallationID_total:
  "rng_ok (env w) \<Longrightarrow> \<exists>i. newInstallationID w = (Inr i, w\<lparr>tick := Suc (tick w)\<rparr>)"
  using rand_Read_total [of w 16] by (auto simp: newInstallationID_def Let_def)

lemma readState_ready:
  "ready w \<Longrightarrow> \<exists>m ex. readState w = (Inr (m, ex), w\<lparr>tick := Suc (tick w)\<rparr>)"
  by (cases "find (\<lambda>b. bs_ID b = singletonID) (o_bootstrap_state (db w))")
     (auto simp: readState_def select_state_def sql)

lemma userSummary_ready:
  "ready w \<Longrightarrow> \<exists>n f. userSummary w = (Inr (n, f), w\<lparr>tick := Suc (tick w)\<rparr>)"
  by (simp add: userSummary_def sql)

lemma insertState_ready:
  "ready w \<Longrightarrow> marker_of (db w) = None \<Longrightarrow> \<exists>w'. insertState st f now w = (Inr (), w')"
  by (auto simp: insertState_def Let_def sql marker_of_def find_None_iff)

lemma updateState_ready:
  assumes "ready w" and "marker_of (db w) \<noteq> None" and "wf_db (db w)"
  shows "\<exists>w'. updateState st f now w = (Inr (), w')"
proof -
  obtain b where b: "b \<in> set (o_bootstrap_state (db w))" "bs_ID b = singletonID"
    using assms(2) by (auto simp: marker_of_def find_Some_iff) (metis nth_mem)
  have "RowsAffected (\<lambda>q. bs_ID q = bs_ID b \<and> True) (o_bootstrap_state (db w)) = 1"
    using RowsAffected_unique [of bs_ID "o_bootstrap_state (db w)" b "\<lambda>_. True"] b assms(3)
    by (simp add: wf_db_def)
  with b assms(1) show ?thesis
    by (simp add: updateState_def Let_def sql)
qed

lemma reconcile_tx_ready:
  assumes "ready w" and "wf_db (db w)"
  shows "\<exists>r w'. reconcile_tx sid se newID w = (Inr r, w')"
proof -
  obtain m ex where r: "readState w = (Inr (m, ex), w\<lparr>tick := Suc (tick w)\<rparr>)"
    using readState_ready [OF assms(1)] by blast
  obtain n f where u: "userSummary (w\<lparr>tick := Suc (tick w)\<rparr>) = (Inr (n, f), w\<lparr>tick := Suc (Suc (tick w))\<rparr>)"
    using userSummary_ready [of "w\<lparr>tick := Suc (tick w)\<rparr>"] assms(1) by auto
  define w3 where "w3 = w\<lparr>tick := Suc (Suc (Suc (tick w)))\<rparr>"
  have t: "time_Now (w\<lparr>tick := Suc (Suc (tick w))\<rparr>) = (clock (env w) (Suc (Suc (tick w))), w3)"
    by (simp add: time_Now_def w3_def)
  have w3: "ready w3" "db w3 = db w" using assms(1) by (simp_all add: w3_def)
  have "\<exists>w'. insertState st f now w3 = (Inr (), w')" if "\<not> ex" for st now
    using insertState_ready [OF w3(1)] w3(2) readState_ok [OF r] that
    by (auto split: option.splits)
  then obtain I where I: "\<And>st now. \<not> ex \<Longrightarrow> insertState st f now w3 = (Inr (), I st now)"
    by metis
  have "\<exists>w'. updateState st f now w3 = (Inr (), w')" if "ex" for st now
    using updateState_ready [OF w3(1)] w3(2) readState_ok [OF r] that assms(2)
    by (auto split: option.splits)
  then obtain U where U: "\<And>st now. ex \<Longrightarrow> updateState st f now w3 = (Inr (), U st now)"
    by metis
  have "\<not> isl (fst (reconcile_tx sid se newID w))"
    unfolding reconcile_tx_def r u t prod.case sum.case
    by (cases ex) (simp_all add: Let_def I U split: prod.splits)
  then show ?thesis
    by (cases "reconcile_tx sid se newID w", cases "fst (reconcile_tx sid se newID w)") auto
qed

lemma ReconcileState_steps:
  assumes "ReconcileState (Some sl) w = ((res, e), w')"
  obtains (failed) "res = zero_State" and "e \<noteq> None"
  | (ran) sid se u newID v cr rec w2 where "Seal_Load sl w = (Inr (sid, se), u)"
    and "newInstallationID u = (Inr newID, v)"
    and "withImmediateTransaction (reconcile_tx sid se newID) v = (Inr (res, cr, rec), w2)"
    and "if cr then Seal_Create sl (InstallationID res) w2 = (Inr (), w') else w' = w2"
    and "e = (if rec then Some ErrRecoveryRequired else None)"
  using assms by (auto simp: ReconcileState_def split: if_splits prod.splits sum.splits)

text \<open>A commit of \<open>create_tx\<close> that creates the administrator.\<close>

lemma insert_admin_ok:
  assumes "insert_admin un h now w = (Inr uid, w')" and "o_users (db w) = []"
  shows "db w' = (db w)\<lparr>o_users := [bootstrap_user uid un h now]\<rparr> \<and> db_only w w'"
  using assms
  by (auto simp: insert_admin_def in_tx_def Let_def split: option.splits if_splits sum.splits prod.splits)

lemma create_tx_ok:
  assumes "create_tx st un h bc w = (Inr (Some uid), w')"
    and "\<And>f uid u r u'. bc = Some f \<Longrightarrow> f uid u = (r, u') \<Longrightarrow> db u' = db u"
  obtains now u v where "o_users (db w) = []"
    and "marker_of (db w) = Some \<lparr>InstallationID = InstallationID st, Status = StatusPristine\<rparr>"
    and "1 \<le> uid" and "o_users (db w') = [bootstrap_user uid un h now]"
    and "marker_of (db w') = Some \<lparr>InstallationID = InstallationID st, Status = StatusInitialized\<rparr>"
    and "db_only w u" and "(case bc of None \<Rightarrow> (Inr (), u) | Some f \<Rightarrow> f uid u) = (Inr (), v)"
    and "db_only v w'"
proof -
  obtain m ex w1 where r: "readState w = (Inr (m, ex), w1)"
    using assms(1) by (auto simp: create_tx_def split: prod.splits sum.splits)
  obtain n f w2 where s: "userSummary w1 = (Inr (n, f), w2)"
    using assms(1) r by (auto simp: create_tx_def split: prod.splits sum.splits)
  obtain now w3 where t: "time_Now w2 = (now, w3)" by fastforce
  note rest = assms(1) [unfolded create_tx_def, simplified r s t prod.case sum.case]
  have w3: "db w3 = db w" "db_only w w3" and n: "n = int (length (o_users (db w)))"
    using readState_ok [OF r] userSummary_ok [OF s] t db_only_trans db_only_now [OF t]
    by (auto simp: time_Now_def) blast+
  have g: "ex" "Status m = StatusPristine" "InstallationID m = InstallationID st" "n = 0"
    using rest by (auto split: if_splits)
  have m: "marker_of (db w) = Some \<lparr>InstallationID = InstallationID st, Status = StatusPristine\<rparr>"
    using readState_ok [OF r] g by (auto split: option.splits)
  have e: "o_users (db w) = []" using n g by simp
  obtain w4 w5 w6 k where w4: "insert_admin un h now w3 = (Inr uid, w4)" and w5: "driver_call w4 = (Inr (), w5)"
    and w6: "(case bc of None \<Rightarrow> (Inr (), w5) | Some f \<Rightarrow> f uid w5) = (Inr (), w6)" and uid: "1 \<le> uid"
    and w': "w' = w6\<lparr>db := (db w6)\<lparr>o_bootstrap_state := update_where (pristine_row st)
                    (\<lambda>b. b\<lparr>bs_Status := StatusInitialized, bs_AdminUserID := Some uid,
                           bs_InitializedAt := Some now, bs_UpdatedAt := now\<rparr>)
                    (o_bootstrap_state (db w6))\<rparr>, tick := k\<rparr>"
    using rest g
    by (auto simp: in_tx_def driver_call_def [of "_\<lparr>db := _, tick := _\<rparr>"]
             split: prod.splits sum.splits if_splits option.splits)
  have i: "db w4 = (db w)\<lparr>o_users := [bootstrap_user uid un h now]\<rparr>" "db_only w3 w4"
    using insert_admin_ok [OF w4] e w3 by simp_all
  have "db w5 = db w4" using driver_call_frame(2) [of w4] w5 by simp
  moreover have "db w6 = db w5" using w6 assms(2) by (auto split: option.splits)
  ultimately have d6: "db w6 = (db w)\<lparr>o_users := [bootstrap_user uid un h now]\<rparr>" using i by simp
  obtain b where b: "find (\<lambda>b. bs_ID b = singletonID) (o_bootstrap_state (db w)) = Some b"
    "bs_InstallationID b = InstallationID st" "bs_Status b = StatusPristine"
    using m by (auto simp: marker_of_def)
  have "pristine_row st b" using b by (auto simp: pristine_row_def find_Some_iff)
  then have "find (\<lambda>b. bs_ID b = singletonID) (update_where (pristine_row st)
      (\<lambda>b. b\<lparr>bs_Status := StatusInitialized, bs_AdminUserID := Some uid,
             bs_InitializedAt := Some now, bs_UpdatedAt := now\<rparr>) (o_bootstrap_state (db w))) =
      Some (b\<lparr>bs_Status := StatusInitialized, bs_AdminUserID := Some uid,
             bs_InitializedAt := Some now, bs_UpdatedAt := now\<rparr>)"
    by (rule find_update_sub [OF b(1)]) (simp_all add: pristine_row_def)
  then have "marker_of (db w') = Some \<lparr>InstallationID = InstallationID st, Status = StatusInitialized\<rparr>"
    using w' d6 b by (simp add: marker_of_def)
  moreover have "db_only w w5"
    using w3(2) i(2) db_only_driver [OF w5] db_only_trans by blast
  ultimately show thesis
    using that [OF e m uid _ _ _ w6, of now] w' d6 by simp
qed

lemma create_tx_ready:
  assumes "ready w" and "wf_db (db w)" and "o_users (db w) = []"
    and "marker_of (db w) = Some \<lparr>InstallationID = InstallationID st, Status = StatusPristine\<rparr>"
    and "\<And>d. 1 \<le> new_rowid (env w) UserDBModel_TableName d"
  shows "\<exists>uid w'. create_tx st un h None w = (Inr (Some uid), w') \<and> env w' = env w"
proof -
  obtain b where b: "b \<in> set (o_bootstrap_state (db w))" "bs_ID b = singletonID" "pristine_row st b"
    using assms(4) by (auto simp: marker_of_def find_Some_iff pristine_row_def) (metis nth_mem)
  have "RowsAffected (\<lambda>q. bs_ID q = bs_ID b \<and> bs_InstallationID q = InstallationID st \<and>
      bs_Status q = StatusPristine) (o_bootstrap_state (db w)) = 1"
    using RowsAffected_unique [OF _ b(1), of bs_ID] b assms(2) by (simp add: wf_db_def pristine_row_def)
  then have rows: "RowsAffected (pristine_row st) (o_bootstrap_state (db w)) = 1"
    using b(2) by (simp add: pristine_row_def [abs_def])
  obtain fb where "find (\<lambda>b. bs_ID b = singletonID) (o_bootstrap_state (db w)) = Some fb"
    "bs_InstallationID fb = InstallationID st" "bs_Status fb = StatusPristine"
    using assms(4) by (auto simp: marker_of_def)
  then have r: "readState w = (Inr (\<lparr>InstallationID = InstallationID st, Status = StatusPristine\<rparr>, True),
      w\<lparr>tick := Suc (tick w)\<rparr>)"
    using assms(1) by (simp add: readState_def select_state_def sql)
  have "1 \<le> new_rowid (env w) UserDBModel_TableName (db w)" by (rule assms(5))
  then show ?thesis
    using assms(1,3) rows
    by (simp add: create_tx_def r userSummary_def sql time_Now_def insert_admin_def Let_def)
qed

section \<open>The seal's contract\<close>

text \<open>
  What \<open>userbootstrap\<close> relies on: a seal store has a content, an installation id or nothing, that
  database work does not touch; while the store is sound, \<open>Load\<close> reports the content and \<open>Create\<close>
  fills an empty store, accepts the id it already holds and never replaces another one.
\<close>

text \<open>What a local resource callback may do: anything but touch the tables or the seal.\<close>

definition keeps ::
  "('x world_scheme \<Rightarrow> string option) \<Rightarrow> ('x world_scheme \<Rightarrow> bool) \<Rightarrow> (int \<Rightarrow> 'x world_scheme \<Rightarrow> (error + unit) \<times> 'x world_scheme) option \<Rightarrow> bool" where
  "keeps content sound bc \<longleftrightarrow> (\<forall>f uid u r u'. bc = Some f \<and> f uid u = (r, u') \<longrightarrow>
     db u' = db u \<and> env u' = env u \<and> content u' = content u \<and> (sound u \<longrightarrow> sound u'))"

locale seal_contract =
  fixes sl :: "'x world_scheme Seal"
    and content :: "'x world_scheme \<Rightarrow> string option"
    and sound :: "'x world_scheme \<Rightarrow> bool"
  assumes db_indep: "db_only w w' \<Longrightarrow> content w' = content w \<and> sound w' = sound w"
    and load_spec: "sound w \<Longrightarrow>
      \<exists>w'. Seal_Load sl w = (Inr (case content w of None \<Rightarrow> ([], False) | Some i \<Rightarrow> (i, True)), w') \<and>
        content w' = content w \<and> sound w' \<and> db w' = db w \<and> env w' = env w"
    and create_new: "sound w \<Longrightarrow> content w = None \<Longrightarrow> validInstallationID i \<Longrightarrow>
      \<exists>w'. Seal_Create sl i w = (Inr (), w') \<and> content w' = Some i \<and> sound w' \<and> db w' = db w \<and> env w' = env w"
    and create_old: "sound w \<Longrightarrow> content w = Some j \<Longrightarrow> validInstallationID i \<Longrightarrow>
      \<exists>r w'. Seal_Create sl i w = (r, w') \<and> (r = Inr () \<longleftrightarrow> i = j) \<and>
        content w' = Some j \<and> sound w' \<and> db w' = db w \<and> env w' = env w"
begin

text \<open>A run of \<open>ReconcileState\<close> that gets past its transaction, in any environment.\<close>

lemma reconcile_cases:
  assumes "sound w" and "ReconcileState (Some sl) w = ((res, e), w')"
  obtains (failed) "res = zero_State" and "e \<noteq> None"
  | (ran) newID d1 w2 cr where "validInstallationID newID"
    and "(res, cr) = decide (marker_of d1) (length (o_users d1)) (content w) newID"
    and "e = (if Status res = StatusRecovery then Some ErrRecoveryRequired else None)"
    and "marker_of (db w2) = Some res" and "state_only d1 (db w2)" and "env w2 = env w"
    and "content w2 = content w" and "sound w2" and "quiet w \<longrightarrow> d1 = db w"
    and "if cr then Seal_Create sl (InstallationID res) w2 = (Inr (), w') else w' = w2"
  using assms(2)
proof (cases rule: ReconcileState_steps)
  case failed
  then show thesis by (rule that(1))
next
  case (ran sid se u newID v cr rec w2)
  have se: "se = (content w \<noteq> None)" and sid: "\<And>i. content w = Some i \<Longrightarrow> sid = i"
    and u: "content u = content w" "sound u" "db u = db w" "env u = env w"
    using load_spec [OF assms(1)] ran(1) by (auto split: option.splits)
  have v: "db_only u v" "db v = db u" using ran(2) by (auto intro: db_only_newID newID_db)
  obtain x1 x2 where x: "db_only v x1" "reconcile_tx sid se newID x1 = (Inr (res, cr, rec), x2)"
    "db_only x2 w2" "db w2 = db x2" "quiet v \<longrightarrow> db x1 = db v"
    using ran(3) by (rule withImmediateTransaction_ok)
  note y = reconcile_tx_ok [OF x(2) [unfolded se] sid]
  have o: "db_only u w2" using v(1) x(1,3) y db_only_trans by blast
  then have "content w2 = content w" "sound w2" "env w2 = env w"
    using db_indep [OF o] u db_onlyD(1) [OF o] by simp_all
  moreover have "db x1 = db w" if "quiet w"
    using x(5) v that u db_onlyD(1) [OF v(1)] by (simp add: quiet_def)
  ultimately show thesis
    using that(2) [of newID cr "db x1" w2] newInstallationID_valid [OF ran(2)] ran(4,5) x(4) y by auto
qed

text \<open>The four rows of the decision table.\<close>

lemma decide_create: "decide m n s newID = (res, True) \<Longrightarrow> validInstallationID newID \<Longrightarrow>
    s = None \<and> validInstallationID (InstallationID res) \<and> Status res = StatusInitialized"
  by (auto simp: decide_def status_defs split: option.splits if_splits)

lemma reconcile_ready:
  assumes "ready w" and "wf_db (db w)" and "sound w" and "rng_ok (env w)"
  shows "\<exists>newID res cr w'. validInstallationID newID
    \<and> (res, cr) = decide (marker_of (db w)) (length (o_users (db w))) (content w) newID
    \<and> ReconcileState (Some sl) w =
        ((res, if Status res = StatusRecovery then Some ErrRecoveryRequired else None), w')
    \<and> marker_of (db w') = Some res \<and> state_only (db w) (db w') \<and> ready w' \<and> sound w' \<and> env w' = env w
    \<and> content w' = (if cr then Some (InstallationID res) else content w)"
proof -
  obtain sid u where u: "Seal_Load sl w = (Inr (sid, content w \<noteq> None), u)"
    "\<And>i. content w = Some i \<Longrightarrow> sid = i" "content u = content w" "sound u" "db u = db w" "env u = env w"
    using load_spec [OF assms(3)] by (cases "content w") auto
  obtain newID v where new: "newInstallationID u = (Inr newID, v)" and v: "db_only u v" "db v = db u"
    using newInstallationID_total [of u] assms(4) u(6) by fastforce
  define v2 where "v2 = v\<lparr>tick := Suc (Suc (tick v))\<rparr>"
  have v2: "ready v2" "wf_db (db v2)" "db v2 = db w" "db_only u v2" "quiet v"
    using assms(1,2) u v db_onlyD(1) [OF v(1)] db_only_trans [OF v(1)]
    by (simp_all add: v2_def ready_def quiet_def)
  obtain res cr rec x2 where x: "reconcile_tx sid (content w \<noteq> None) newID v2 = (Inr (res, cr, rec), x2)"
    using reconcile_tx_ready [OF v2(1,2)] by (metis prod_cases3)
  note y = reconcile_tx_ok [OF x u(2)]
  define w2 where "w2 = x2\<lparr>tick := Suc (tick x2)\<rparr>"
  have "db_only u x2" using v2(4) y by (blast intro: db_only_trans)
  then have o: "db_only u w2" unfolding w2_def by (rule db_only_trans) simp
  have w2: "content w2 = content w" "sound w2" "env w2 = env w"
    using db_indep [OF o] u db_onlyD(1) [OF o] by simp_all
  have q: "quiet x2" using w2(3) assms(1) by (simp add: w2_def ready_def quiet_def)
  have tx: "withImmediateTransaction (reconcile_tx sid (content w \<noteq> None) newID) v =
      (Inr (res, cr, rec), w2)"
    using withImmediateTransaction_quiet [of v "reconcile_tx sid (content w \<noteq> None) newID"]
      v2(5) x q by (simp add: w2_def v2_def)
  have dbw2: "marker_of (db w2) = Some res" "state_only (db w) (db w2)"
    using y v2(3) by (simp_all add: w2_def)
  have val: "validInstallationID newID" using newInstallationID_valid [OF new] .
  have dec: "(res, cr) = decide (marker_of (db w)) (length (o_users (db w))) (content w) newID"
    using y v2(3) by simp
  obtain w' where w': "(if cr then Seal_Create sl (InstallationID res) w2 else (Inr (), w2)) = (Inr (), w')"
    "content w' = (if cr then Some (InstallationID res) else content w)" "sound w'" "db w' = db w2"
    "env w' = env w2"
    using decide_create [of _ _ _ newID res] dec val create_new [OF w2(2), of "InstallationID res"] w2
    by (cases cr) auto
  have "ReconcileState (Some sl) w =
      ((res, if Status res = StatusRecovery then Some ErrRecoveryRequired else None), w')"
    using u(1) new tx w'(1) y by (simp add: ReconcileState_def)
  moreover have "ready w'"
    using assms(1) w' w2(3) dbw2 state_onlyD(2) by (auto simp: ready_def quiet_def)
  ultimately show ?thesis
    using val dec w' w2(3) dbw2 by metis
qed

text \<open>Sealed means closed, whatever the database holds and does.\<close>

lemma decide_sealed: "decide m n (Some i) newID = (res, cr) \<Longrightarrow> Status res \<noteq> StatusPristine"
  by (auto simp: decide_def status_defs split: option.splits if_splits)

lemma decide_pristine:
  "decide m n s newID = (res, cr) \<Longrightarrow> Status res = StatusPristine \<Longrightarrow> validInstallationID newID \<Longrightarrow>
   s = None \<and> n = 0 \<and> \<not> cr \<and> validInstallationID (InstallationID res)"
  by (auto simp: decide_def status_defs split: option.splits if_splits)

lemma zero_State_status [simp]: "Status zero_State \<noteq> StatusPristine"
  by (simp add: zero_State_def status_defs)

lemma reconcile_sealed:
  assumes "sound w" and "content w = Some i" and "ReconcileState (Some sl) w = ((res, e), w')"
  shows "Status res \<noteq> StatusPristine"
  using assms(1,3)
proof (cases rule: reconcile_cases)
  case (ran newID d1 w2 cr)
  then show ?thesis using decide_sealed assms(2) by metis
qed simp

lemma create_sealed:
  assumes "sound w" and "content w = Some i"
  shows "isl (fst (CreateAdmin (Some sl) un h bc w))"
proof -
  obtain res e w' where r: "ReconcileState (Some sl) w = ((res, e), w')" by (metis prod_cases3 surj_pair)
  show ?thesis
    using reconcile_sealed [OF assms r] by (cases e) (simp_all add: CreateAdmin_def r)
qed

lemma create_once:
  assumes "sound w" and "keeps content sound bc" and "CreateAdmin (Some sl) un h bc w = (Inr uid, w')"
  shows "IsArgon2id h \<and> 1 \<le> uid \<and> content w = None \<and>
    (\<exists>i now. content w' = Some i \<and> sound w' \<and> o_users (db w') = [bootstrap_user uid un h now] \<and>
       marker_of (db w') = Some \<lparr>InstallationID = i, Status = StatusInitialized\<rparr>)"
proof -
  obtain st w1 w2 where a: "IsArgon2id h" and r: "ReconcileState (Some sl) w = ((st, None), w1)"
    and p: "Status st = StatusPristine"
    and t: "withImmediateTransaction (create_tx st un h bc) w1 = (Inr (Some uid), w2)"
    and c: "Seal_Create sl (InstallationID st) w2 = (Inr (), w')"
    using assms(3)
    by (auto simp: CreateAdmin_def split: if_splits prod.splits option.splits sum.splits)
  from assms(1) r have w1: "content w1 = content w \<and> sound w1 \<and> content w = None \<and>
    validInstallationID (InstallationID st)"
  proof (cases rule: reconcile_cases)
    case (ran newID d1 w2 cr)
    then show ?thesis using decide_pristine [OF ran(2) [symmetric] p ran(1)] by simp
  qed simp
  from t obtain x1 x2 where x: "db_only w1 x1" "create_tx st un h bc x1 = (Inr (Some uid), x2)"
    "db_only x2 w2" "db w2 = db x2" by (rule withImmediateTransaction_ok)
  from x(2) obtain now u v where y: "1 \<le> uid" "o_users (db x2) = [bootstrap_user uid un h now]"
    "marker_of (db x2) = Some \<lparr>InstallationID = InstallationID st, Status = StatusInitialized\<rparr>"
    "db_only x1 u" "(case bc of None \<Rightarrow> (Inr (), u) | Some f \<Rightarrow> f uid u) = (Inr (), v)" "db_only v x2"
    by (rule create_tx_ok) (use assms(2) in \<open>auto simp: keeps_def\<close>)
  have u: "content u = None" "sound u"
    using w1 db_indep [OF db_only_trans [OF x(1) y(4)]] by simp_all
  have "content v = None \<and> sound v"
    using y(5) u assms(2) by (auto simp: keeps_def split: option.splits)
  then have "content w2 = None" "sound w2"
    using db_indep [OF db_only_trans [OF y(6) x(3)]] by simp_all
  then have "content w' = Some (InstallationID st)" "sound w'" "db w' = db w2"
    using create_new [of w2 "InstallationID st"] w1 c by auto
  with a y x(4) w1 show ?thesis by auto
qed

lemma create_succeeds:
  assumes "ready w" and "wf_db (db w)" and "sound w" and "rng_ok (env w)" and "content w = None"
    and "o_users (db w) = []" and "IsArgon2id h"
    and "marker_of (db w) = None \<or> (\<exists>i. validInstallationID i \<and>
           marker_of (db w) = Some \<lparr>InstallationID = i, Status = StatusPristine\<rparr>)"
    and "\<And>d. 1 \<le> new_rowid (env w) UserDBModel_TableName d"
  shows "\<exists>uid w'. CreateAdmin (Some sl) un h None w = (Inr uid, w')"
proof -
  obtain newID res cr w1 where r: "validInstallationID newID"
    "(res, cr) = decide (marker_of (db w)) (length (o_users (db w))) (content w) newID"
    "ReconcileState (Some sl) w =
        ((res, if Status res = StatusRecovery then Some ErrRecoveryRequired else None), w1)"
    "marker_of (db w1) = Some res" "state_only (db w) (db w1)" "ready w1" "sound w1" "env w1 = env w"
    "content w1 = (if cr then Some (InstallationID res) else content w)"
    using reconcile_ready [OF assms(1-4)] by blast
  have p: "Status res = StatusPristine" "cr = False" "validInstallationID (InstallationID res)"
    using r(1,2) assms(5,6,8) by (auto simp: decide_def status_defs validStatus_def split: if_splits)
  define w1' where "w1' = w1\<lparr>tick := Suc (Suc (tick w1))\<rparr>"
  have "\<lparr>InstallationID = InstallationID res, Status = StatusPristine\<rparr> = res" using p(1) by simp
  then obtain uid w2 where t: "create_tx res un h None w1' = (Inr (Some uid), w2)" and e: "env w2 = env w1'"
    using create_tx_ready [of w1' res un h] r(4-8) assms(2,6,9) state_onlyD [OF r(5)]
    by (auto simp: w1'_def)
  define w3 where "w3 = w2\<lparr>tick := Suc (tick w2)\<rparr>"
  have "quiet w2" using r(6) e by (simp add: w1'_def ready_def quiet_def)
  then have tx: "withImmediateTransaction (create_tx res un h None) w1 = (Inr (Some uid), w3)"
    using withImmediateTransaction_quiet [of w1 "create_tx res un h None"] t r(6)
    by (simp add: w1'_def w3_def)
  obtain u v where uv: "db_only w1' u" "(Inr () :: error + unit, u) = (Inr (), v)" "db_only v w2"
    using t by (rule create_tx_ok) simp_all
  have "db_only w1 w3"
    using uv db_only_trans [OF db_only_trans [of w1 w1' u]] db_only_trans [of w1 w2 w3]
    by (auto simp: w1'_def w3_def)
  then have "content w3 = None" "sound w3"
    using db_indep r(7,9) p(2) assms(5) by fastforce+
  then obtain w4 where "Seal_Create sl (InstallationID res) w3 = (Inr (), w4)"
    using create_new p(3) by blast
  then show ?thesis
    using assms(7) r(3) p(1) tx by (simp add: CreateAdmin_def status_defs)
qed

end

end
