(* ===== verification/Sessions.thy ===== *)
theory Sessions
  imports Tokens Bootstrap "HOL-Library.Product_Lexorder"
begin

text \<open>
  \<open>src/service/session.go\<close> and \<open>src/service/session_issue.go\<close>: refresh sessions and their rotation, the
  credential generation of a user, the access-token denylist, login lockout, the audit trail and
  the pruning of all of them.  The receiver \<open>u *userService\<close> is an optional record (\<open>None\<close> is a nil
  pointer); the tables it points to are those of the world.
\<close>

section \<open>Constants and records\<close>

definition loginFailureLimit :: int where "loginFailureLimit = 5"
definition loginLockoutWindow :: duration where "loginLockoutWindow = hour"
definition loginLockoutLength :: duration where "loginLockoutLength = 15 * minute"
definition loginAttemptRetention :: duration where "loginAttemptRetention = 24 * hour"
definition credentialEventRetention :: duration where "credentialEventRetention = 180 * 24 * hour"
definition credentialEventCap :: int where "credentialEventCap = 100"
definition refreshSessionCap :: nat where "refreshSessionCap = 256"
definition revokedAccessCap :: nat where "revokedAccessCap = 1024"

record userService =
  us_privateKey :: "PrivateKey option"
  us_publicKey :: "PublicKey option"
  us_db :: bool
  us_initializationState :: State

record AuthenticatedSession =
  as_UserID :: int
  as_Username :: string
  as_TokenID :: string
  as_Expires :: time

record IssuedSession =
  is_User :: UserDBModel
  is_SessionID :: string
  is_AccessToken :: string
  is_RefreshToken :: string
  is_IssuedAt :: time
  is_ExpiresAt :: time

definition unavailable :: "userService option \<Rightarrow> bool" where
  "unavailable u = (case u of None \<Rightarrow> True | Some s \<Rightarrow> \<not> us_db s)"

definition LoginAttemptKey :: "string \<Rightarrow> string \<Rightarrow> string" where
  "LoginAttemptKey namespace val = namespace @ '':'' @ val"

text \<open>\<open>errors.Join\<close> drops nil errors and is nil when nothing is left.\<close>

definition errors_Join :: "error option list \<Rightarrow> error option" where
  "errors_Join es = (case List.map_filter id es of [] \<Rightarrow> None | xs \<Rightarrow> Some (Join xs))"

definition err_of :: "error + 'a \<Rightarrow> error option" where
  "err_of r = (case r of Inl e \<Rightarrow> Some e | Inr _ \<Rightarrow> None)"

definition of_err :: "error option \<Rightarrow> error + unit" where
  "of_err e = (case e of Some x \<Rightarrow> Inl x | None \<Rightarrow> Inr ())"

text \<open>The text of an error, and the filter for databases that predate the session tables.\<close>

fun error_text :: "error \<Rightarrow> string" where
  "error_text (DriverError m) = m"
| "error_text (ErrorsNew m) = m"
| "error_text (Errorf m e) = m @ '': '' @ error_text e"
| "error_text (Join es) = concat (map error_text es)"
| "error_text _ = []"

definition ignoreMissingAuthTable :: "error option \<Rightarrow> error option" where
  "ignoreMissingAuthTable err =
     (case err of
        None \<Rightarrow> None
      | Some e \<Rightarrow>
          if Contains (error_text e) ''no such table'' \<or> Contains (error_text e) ''no such column''
          then None else Some e)"

text \<open>A statement on a column that legacy databases lack.\<close>

definition with_version :: "(db \<Rightarrow> error + 'a) \<Rightarrow> db \<Rightarrow> error + 'a" where
  "with_version f d =
     (if has_token_version d then f d else Inl (DriverError ''no such column: token_version''))"

section \<open>Refresh sessions\<close>

definition new_session :: "string \<Rightarrow> int \<Rightarrow> string \<Rightarrow> time \<Rightarrow> time \<Rightarrow> RefreshSessionDBModel" where
  "new_session sessionID userID sha issuedAt expiresAt =
     \<lparr>rs_ID = sessionID, rs_UserID = userID, rs_TokenSHA256 = sha, rs_IssuedAt = issuedAt,
      rs_ExpiresAt = expiresAt, rs_UsedAt = None, rs_ReplacedBy = [], rs_RevokedAt = None,
      rs_RevokeReason = []\<rparr>"

definition insert_session :: "RefreshSessionDBModel \<Rightarrow> db \<Rightarrow> error + unit \<times> db" where
  "insert_session r d =
     (if rs_ID r \<in> set (map rs_ID (o_refresh_sessions d))
      then Inl (unique_failed ''o_refresh_sessions.id'')
      else if rs_TokenSHA256 r \<in> set (map rs_TokenSHA256 (o_refresh_sessions d))
      then Inl (unique_failed ''o_refresh_sessions.token_sha256'')
      else Inr ((), d\<lparr>o_refresh_sessions := o_refresh_sessions d @ [r]\<rparr>))"

definition CreateRefreshSession ::
  "userService option \<Rightarrow> int \<Rightarrow> string \<Rightarrow> time \<Rightarrow> time \<Rightarrow> string \<Rightarrow> 'x world_scheme \<Rightarrow>
   (error + unit) \<times> 'x world_scheme" where
  "CreateRefreshSession u userID tokenSHA256 issuedAt expiresAt sessionID w =
     (if unavailable u then (Inl (ErrorsNew ''session store is unavailable''), w)
      else if userID < 1 \<or> tokenSHA256 = [] \<or> sessionID = []
      then (Inl (ErrorsNew ''invalid refresh session''), w)
      else autocommit RefreshSessionDBModel_TableName
             (insert_session (new_session sessionID userID tokenSHA256 issuedAt expiresAt)) w)"

definition update_sessions ::
  "(RefreshSessionDBModel \<Rightarrow> bool) \<Rightarrow> (RefreshSessionDBModel \<Rightarrow> RefreshSessionDBModel) \<Rightarrow> db \<Rightarrow> error + int \<times> db" where
  "update_sessions P f d =
     Inr (RowsAffected P (o_refresh_sessions d),
          d\<lparr>o_refresh_sessions := update_where P f (o_refresh_sessions d)\<rparr>)"

definition revoke_row :: "time \<Rightarrow> string \<Rightarrow> RefreshSessionDBModel \<Rightarrow> RefreshSessionDBModel" where
  "revoke_row now reason r = r\<lparr>rs_RevokedAt := Some now, rs_RevokeReason := reason\<rparr>"

definition revokeUserSessions ::
  "int \<Rightarrow> time \<Rightarrow> string \<Rightarrow> 'x world_scheme \<Rightarrow> (error + unit) \<times> 'x world_scheme" where
  "revokeUserSessions userID now reason w =
     (case autocommit RefreshSessionDBModel_TableName
        (update_sessions (\<lambda>r. rs_UserID r = userID \<and> rs_RevokedAt r = None) (revoke_row now reason)) w of
        (Inl e, w1) \<Rightarrow> (Inl (Errorf ''revoke user refresh sessions'' e), w1)
      | (Inr _, w1) \<Rightarrow> (Inr (), w1))"

definition RevokeRefreshSession ::
  "userService option \<Rightarrow> string \<Rightarrow> string \<Rightarrow> 'x world_scheme \<Rightarrow> (error + unit) \<times> 'x world_scheme" where
  "RevokeRefreshSession u sessionID reason w =
     (if unavailable u \<or> sessionID = [] then (Inl (ErrorsNew ''invalid refresh session''), w)
      else
      case time_Now w of (now, w1) \<Rightarrow>
      case autocommit RefreshSessionDBModel_TableName
        (update_sessions (\<lambda>r. rs_ID r = sessionID \<and> rs_RevokedAt r = None) (revoke_row now reason)) w1 of
        (Inl e, w2) \<Rightarrow> (Inl e, w2)
      | (Inr _, w2) \<Rightarrow> (Inr (), w2))"

definition RevokeUserRefreshSession ::
  "userService option \<Rightarrow> int \<Rightarrow> string \<Rightarrow> string \<Rightarrow> 'x world_scheme \<Rightarrow> (error + unit) \<times> 'x world_scheme" where
  "RevokeUserRefreshSession u userID sessionID reason w =
     (if unavailable u \<or> userID < 1 \<or> sessionID = []
      then (Inl (ErrorsNew ''invalid session revocation''), w)
      else
      case time_Now w of (now, w1) \<Rightarrow>
      case autocommit RefreshSessionDBModel_TableName
        (update_sessions (\<lambda>r. rs_ID r = sessionID \<and> rs_UserID r = userID \<and> rs_RevokedAt r = None)
           (revoke_row now reason)) w1 of
        (Inl e, w2) \<Rightarrow> (Inl e, w2)
      | (Inr _, w2) \<Rightarrow> (Inr (), w2))"

definition RevokeAllUserSessions ::
  "userService option \<Rightarrow> int \<Rightarrow> string \<Rightarrow> 'x world_scheme \<Rightarrow> (error + unit) \<times> 'x world_scheme" where
  "RevokeAllUserSessions u userID reason w =
     (if unavailable u \<or> userID < 1 then (Inl (ErrorsNew ''invalid user session revocation''), w)
      else case time_Now w of (now, w1) \<Rightarrow> revokeUserSessions userID now reason w1)"

section \<open>Credential generation and denylist\<close>

definition bump_version :: "int \<Rightarrow> time \<Rightarrow> db \<Rightarrow> error + unit \<times> db" where
  "bump_version userID now = with_version (\<lambda>d.
     Inr ((), d\<lparr>o_users := update_where (\<lambda>r. u_Id r = userID)
                 (\<lambda>r. r\<lparr>u_TokenVersion := u_TokenVersion r + 1, u_UpdatedAt := now\<rparr>) (o_users d)\<rparr>))"

definition first_user :: "(UserDBModel \<Rightarrow> bool) \<Rightarrow> db \<Rightarrow> error + UserDBModel \<times> db" where
  "first_user P d = (case First u_Id P (o_users d) of Inl e \<Rightarrow> Inl e | Inr r \<Rightarrow> Inr (r, d))"

definition bump_tx :: "int \<Rightarrow> 'x world_scheme \<Rightarrow> (error + int) \<times> 'x world_scheme" where
  "bump_tx userID w =
     (case time_Now w of (now, w1) \<Rightarrow>
      case in_tx UserDBModel_TableName (bump_version userID now) w1 of
        (Inl e, w2) \<Rightarrow> (Inl (Errorf ''advance user token version'' e), w2)
      | (Inr _, w2) \<Rightarrow>
      case in_tx UserDBModel_TableName (with_version (first_user (\<lambda>r. u_Id r = userID))) w2 of
        (Inl e, w3) \<Rightarrow> (Inl (Errorf ''read user token version'' e), w3)
      | (Inr user, w3) \<Rightarrow> (Inr (u_TokenVersion user), w3))"

definition BumpTokenVersion ::
  "userService option \<Rightarrow> int \<Rightarrow> 'x world_scheme \<Rightarrow> (error + int) \<times> 'x world_scheme" where
  "BumpTokenVersion u userID w =
     (if unavailable u \<or> userID < 1 then (Inl (ErrorsNew ''invalid token version bump''), w)
      else Transaction id id (bump_tx userID) w)"

definition GetUserTokenVersion ::
  "userService option \<Rightarrow> int \<Rightarrow> 'x world_scheme \<Rightarrow> (string \<times> int \<times> bool) \<times> 'x world_scheme" where
  "GetUserTokenVersion u userID w =
     (if unavailable u \<or> userID < 1 then (([], 0, False), w)
      else case autocommit UserDBModel_TableName (with_version (first_user (\<lambda>r. u_Id r = userID))) w of
             (Inl _, w1) \<Rightarrow> (([], 0, False), w1)
           | (Inr user, w1) \<Rightarrow> ((u_Username user, u_TokenVersion user, True), w1))"

text \<open>\<open>INSERT \<dots> ON CONFLICT (jti) DO NOTHING\<close>\<close>

definition RevokeAccessToken ::
  "userService option \<Rightarrow> string \<Rightarrow> int \<Rightarrow> time \<Rightarrow> 'x world_scheme \<Rightarrow> (error + unit) \<times> 'x world_scheme" where
  "RevokeAccessToken u tokenID userID expiresAt w =
     (if unavailable u \<or> tokenID = [] \<or> userID < 1
      then (Inl (ErrorsNew ''invalid access token revocation''), w)
      else autocommit RevokedAccessTokenDBModel_TableName
             (\<lambda>d. if tokenID \<in> set (map ra_JTI (o_revoked_access_tokens d)) then Inr ((), d)
                  else Inr ((), d\<lparr>o_revoked_access_tokens := o_revoked_access_tokens d @
                         [\<lparr>ra_JTI = tokenID, ra_UserID = userID, ra_ExpiresAt = expiresAt\<rparr>]\<rparr>)) w)"

definition IsAccessTokenRevoked ::
  "userService option \<Rightarrow> string \<Rightarrow> 'x world_scheme \<Rightarrow> (error + bool) \<times> 'x world_scheme" where
  "IsAccessTokenRevoked u tokenID w =
     (if unavailable u \<or> tokenID = []
      then (Inl (ErrorsNew ''access token revocation store is unavailable''), w)
      else case autocommit RevokedAccessTokenDBModel_TableName
             (\<lambda>d. Inr (RowsAffected (\<lambda>r. ra_JTI r = tokenID) (o_revoked_access_tokens d), d)) w of
             (Inl e, w1) \<Rightarrow> (Inl e, w1)
           | (Inr count, w1) \<Rightarrow> (Inr (count > 0), w1))"

definition LogoutSession ::
  "userService option \<Rightarrow> int \<Rightarrow> string \<Rightarrow> time \<Rightarrow> 'x world_scheme \<Rightarrow> (error + unit) \<times> 'x world_scheme" where
  "LogoutSession u userID sessionID accessExpires w =
     (if unavailable u \<or> userID < 1 \<or> sessionID = []
      then (Inl (ErrorsNew ''invalid session logout''), w)
      else
      case RevokeUserRefreshSession u userID sessionID ''logout'' w of (revokeErr, w1) \<Rightarrow>
      case RevokeAccessToken u sessionID userID accessExpires w1 of (accessErr, w2) \<Rightarrow>
      (of_err (errors_Join [err_of revokeErr, err_of accessErr]), w2))"

definition LogoutAllSessions ::
  "userService option \<Rightarrow> int \<Rightarrow> 'x world_scheme \<Rightarrow> (error + unit) \<times> 'x world_scheme" where
  "LogoutAllSessions u userID w =
     (if unavailable u \<or> userID < 1 then (Inl (ErrorsNew ''invalid session logout''), w)
      else
      case BumpTokenVersion u userID w of
        (Inl e, w1) \<Rightarrow> (Inl e, w1)
      | (Inr _, w1) \<Rightarrow> RevokeAllUserSessions u userID ''logout-all'' w1)"

section \<open>Rotation\<close>

text \<open>
  The closure returns, with an error, the user whose session was presented twice: the captured
  variables \<open>reused\<close> and \<open>reusedUserID\<close>.
\<close>

definition rotate_tx ::
  "string \<Rightarrow> string \<Rightarrow> string \<Rightarrow> time \<Rightarrow> time \<Rightarrow> time \<Rightarrow> 'x world_scheme \<Rightarrow>
   ((error \<times> int option) + RefreshSessionDBModel) \<times> 'x world_scheme" where
  "rotate_tx presentedSHA256 replacementID replacementSHA256 issuedAt expiresAt now w =
     (case in_tx RefreshSessionDBModel_TableName
        (\<lambda>d. case First rs_ID (\<lambda>r. rs_TokenSHA256 r = presentedSHA256) (o_refresh_sessions d) of
               Inl e \<Rightarrow> Inl e | Inr r \<Rightarrow> Inr (r, d)) w of
        (Inl e, w1) \<Rightarrow>
          if errors_Is e ErrRecordNotFound then (Inl (ErrInvalidRefreshSession, None), w1)
          else (Inl (Errorf ''load refresh session'' e, None), w1)
      | (Inr current, w1) \<Rightarrow>
      if rs_RevokedAt current \<noteq> None \<or> \<not> now < rs_ExpiresAt current
      then (Inl (ErrInvalidRefreshSession, None), w1)
      else if rs_UsedAt current \<noteq> None
      then (Inl (ErrRefreshSessionReused, Some (rs_UserID current)), w1)
      else
      case in_tx RefreshSessionDBModel_TableName
        (update_sessions (\<lambda>r. rs_ID r = rs_ID current \<and> rs_UsedAt r = None)
           (\<lambda>r. r\<lparr>rs_UsedAt := Some now, rs_ReplacedBy := replacementID\<rparr>)) w1 of
        (Inl e, w2) \<Rightarrow> (Inl (Errorf ''consume refresh session'' e, None), w2)
      | (Inr n, w2) \<Rightarrow>
      if n \<noteq> 1 then (Inl (ErrInvalidRefreshSession, None), w2)
      else
      case in_tx RefreshSessionDBModel_TableName
        (insert_session (new_session replacementID (rs_UserID current) replacementSHA256 issuedAt expiresAt)) w2 of
        (Inl e, w3) \<Rightarrow> (Inl (e, None), w3)
      | (Inr _, w3) \<Rightarrow>
          (Inr (current\<lparr>rs_UsedAt := Some now, rs_ReplacedBy := replacementID\<rparr>), w3))"

definition RotateRefreshSession ::
  "userService option \<Rightarrow> string \<Rightarrow> string \<Rightarrow> string \<Rightarrow> time \<Rightarrow> time \<Rightarrow> time \<Rightarrow> 'x world_scheme \<Rightarrow>
   (error + RefreshSessionDBModel) \<times> 'x world_scheme" where
  "RotateRefreshSession u presentedSHA256 replacementID replacementSHA256 issuedAt expiresAt now w =
     (if unavailable u \<or> presentedSHA256 = [] \<or> replacementID = [] \<or> replacementSHA256 = []
      then (Inl ErrInvalidRefreshSession, w)
      else
      case Transaction (\<lambda>e. (e, None)) (\<lambda>e. (e, None))
        (rotate_tx presentedSHA256 replacementID replacementSHA256 issuedAt expiresAt now) w of
        (Inl (err, Some reusedUserID), w1) \<Rightarrow>
          (case revokeUserSessions reusedUserID now ''refresh token reuse detected'' w1 of (revokeErr, w2) \<Rightarrow>
           case BumpTokenVersion u reusedUserID w2 of (bumpErr, w3) \<Rightarrow>
           case errors_Join [err_of revokeErr, err_of bumpErr] of
             Some e \<Rightarrow> (Inl e, w3)
           | None \<Rightarrow> (Inl ErrRefreshSessionReused, w3))
      | (Inl (err, None), w1) \<Rightarrow> (Inl err, w1)
      | (Inr current, w1) \<Rightarrow> (Inr current, w1))"

section \<open>Login lockout\<close>

definition first_attempt :: "string \<Rightarrow> db \<Rightarrow> error + LoginAttemptDBModel \<times> db" where
  "first_attempt key d =
     (case First la_Key (\<lambda>r. la_Key r = key) (o_login_attempts d) of Inl e \<Rightarrow> Inl e | Inr r \<Rightarrow> Inr (r, d))"

definition CheckLoginLockout ::
  "userService option \<Rightarrow> string \<Rightarrow> time \<Rightarrow> 'x world_scheme \<Rightarrow> (bool \<times> duration) \<times> 'x world_scheme" where
  "CheckLoginLockout u key now w =
     (if unavailable u \<or> key = [] then ((False, 0), w)
      else case autocommit LoginAttemptDBModel_TableName (first_attempt key) w of
             (Inl _, w1) \<Rightarrow> ((False, 0), w1)
           | (Inr attempt, w1) \<Rightarrow>
               (case la_LockedUntil attempt of
                  Some until \<Rightarrow> if now < until then ((True, until - now), w1) else ((False, 0), w1)
                | None \<Rightarrow> ((False, 0), w1)))"

text \<open>What one more failure makes of an attempt row that is not locked, and what it reports.\<close>

definition count_failure :: "LoginAttemptDBModel \<Rightarrow> time \<Rightarrow> LoginAttemptDBModel \<times> bool \<times> duration" where
  "count_failure attempt now =
     (let a1 = (if la_WindowStartedAt attempt = zero_time \<or> now - la_WindowStartedAt attempt > loginLockoutWindow
                then attempt\<lparr>la_Failures := 0, la_WindowStartedAt := now, la_LockedUntil := None\<rparr> else attempt);
          a2 = a1\<lparr>la_Failures := la_Failures a1 + 1\<rparr> in
      if la_Failures a2 \<ge> loginFailureLimit
      then (a2\<lparr>la_LockedUntil := Some (now + loginLockoutLength)\<rparr>, True, loginLockoutLength)
      else (a2, False, 0))"

definition failure_tx :: "string \<Rightarrow> time \<Rightarrow> 'x world_scheme \<Rightarrow> (error + bool \<times> duration) \<times> 'x world_scheme" where
  "failure_tx key now w =
     (case (case in_tx LoginAttemptDBModel_TableName (first_attempt key) w of
              (Inr attempt, w1) \<Rightarrow> (Inr attempt, w1)
            | (Inl e, w1) \<Rightarrow>
                if \<not> errors_Is e ErrRecordNotFound then (Inl e, w1)
                else
                let fresh = \<lparr>la_Key = key, la_Failures = 0, la_WindowStartedAt = now, la_LockedUntil = None\<rparr> in
                (case in_tx LoginAttemptDBModel_TableName
                   (\<lambda>d. if key \<in> set (map la_Key (o_login_attempts d))
                        then Inl (unique_failed ''o_login_attempts.key'')
                        else Inr ((), d\<lparr>o_login_attempts := o_login_attempts d @ [fresh]\<rparr>)) w1 of
                   (Inl e, w2) \<Rightarrow> (Inl e, w2) | (Inr _, w2) \<Rightarrow> (Inr fresh, w2))) of
        (Inl e, w2) \<Rightarrow> (Inl e, w2)
      | (Inr attempt, w2) \<Rightarrow>
      if (case la_LockedUntil attempt of Some until \<Rightarrow> now < until | None \<Rightarrow> False)
      then (Inr (True, the (la_LockedUntil attempt) - now), w2)
      else
      case count_failure attempt now of (counted, locked, retryAfter) \<Rightarrow>
      case in_tx LoginAttemptDBModel_TableName
        (\<lambda>d. Inr ((), d\<lparr>o_login_attempts := save_row la_Key counted (o_login_attempts d)\<rparr>)) w2 of
        (Inl e, w3) \<Rightarrow> (Inl e, w3)
      | (Inr _, w3) \<Rightarrow> (Inr (locked, retryAfter), w3))"

definition RecordLoginFailure ::
  "userService option \<Rightarrow> string \<Rightarrow> time \<Rightarrow> 'x world_scheme \<Rightarrow> (error + bool \<times> duration) \<times> 'x world_scheme" where
  "RecordLoginFailure u key now w =
     (if unavailable u \<or> key = [] then (Inl (ErrorsNew ''login attempt store is unavailable''), w)
      else Transaction id id (failure_tx key now) w)"

definition RecordLoginSuccess :: "userService option \<Rightarrow> string \<Rightarrow> 'x world_scheme \<Rightarrow> 'x world_scheme" where
  "RecordLoginSuccess u key w =
     (if unavailable u \<or> key = [] then w
      else snd (autocommit LoginAttemptDBModel_TableName
             (\<lambda>d. Inr ((), d\<lparr>o_login_attempts := delete_where (\<lambda>r. la_Key r = key) (o_login_attempts d)\<rparr>)) w))"

section \<open>The audit trail\<close>

definition GetInitializationState :: "userService \<Rightarrow> error option \<Rightarrow> error + State" where
  "GetInitializationState u ctxErr =
     (case ctxErr of Some e \<Rightarrow> Inl e | None \<Rightarrow> Inr (us_initializationState u))"

definition insert_event ::
  "(string \<Rightarrow> db \<Rightarrow> int) \<Rightarrow> CredentialEventDBModel \<Rightarrow> db \<Rightarrow> error + unit \<times> db" where
  "insert_event rowid ev d =
     Inr ((), d\<lparr>o_credential_events := o_credential_events d @
                 [ev\<lparr>ce_ID := rowid CredentialEventDBModel_TableName d\<rparr>]\<rparr>)"

definition LogCredentialEvent ::
  "userService option \<Rightarrow> int \<Rightarrow> string \<Rightarrow> bool \<Rightarrow> string \<Rightarrow> string \<Rightarrow> 'x world_scheme \<Rightarrow> 'x world_scheme" where
  "LogCredentialEvent u actorUserID eventType success source detail w =
     (if unavailable u \<or> eventType = [] then w
      else
      let installationID = (case GetInitializationState (the u) None of
                              Inr state \<Rightarrow> InstallationID state | Inl _ \<Rightarrow> []) in
      case time_Now w of (now, w1) \<Rightarrow>
      snd (autocommit CredentialEventDBModel_TableName
        (insert_event (new_rowid (env w1))
          \<lparr>ce_ID = 0, ce_OccurredAt = now, ce_InstallationID = installationID, ce_ActorUserID = actorUserID,
           ce_EventType = eventType, ce_Success = success, ce_Source = source, ce_Detail = detail\<rparr>) w1))"

definition ListCredentialEvents ::
  "userService option \<Rightarrow> int \<Rightarrow> int \<Rightarrow> 'x world_scheme \<Rightarrow> CredentialEventDBModel list \<times> 'x world_scheme" where
  "ListCredentialEvents u actorUserID limit w =
     (if unavailable u then ([], w)
      else
      let n = (if limit \<le> 0 \<or> limit > credentialEventCap then credentialEventCap else limit) in
      case autocommit CredentialEventDBModel_TableName
        (\<lambda>d. Inr (take (nat n) (rev (sort_key ce_ID
                   (filter (\<lambda>r. actorUserID > 0 \<longrightarrow> ce_ActorUserID r = actorUserID) (o_credential_events d)))), d)) w of
        (Inl _, w1) \<Rightarrow> ([], w1)
      | (Inr evs, w1) \<Rightarrow> (evs, w1))"

section \<open>Pruning\<close>

text \<open>
  The rows a \<open>SELECT \<dots> ORDER BY key DESC LIMIT n\<close> keeps; SQLite evaluates the subquery of the
  \<open>DELETE\<close> on the table as it was before the first row goes.
\<close>

definition top_rows :: "nat \<Rightarrow> ('r \<Rightarrow> 'k::linorder) \<Rightarrow> 'r list \<Rightarrow> 'r list" where
  "top_rows n key rows = take n (rev (sort_key key rows))"

definition cap_sessions :: "RefreshSessionDBModel list \<Rightarrow> RefreshSessionDBModel list" where
  "cap_sessions rows =
     delete_where (\<lambda>r. rs_ID r \<notin> set (map rs_ID (top_rows refreshSessionCap (\<lambda>q. (rs_IssuedAt q, rs_ID q))
        (filter (\<lambda>q. rs_UserID q = rs_UserID r) rows)))) rows"

definition cap_revoked :: "RevokedAccessTokenDBModel list \<Rightarrow> RevokedAccessTokenDBModel list" where
  "cap_revoked rows =
     delete_where (\<lambda>r. ra_JTI r \<notin> set (map ra_JTI (top_rows revokedAccessCap ra_ExpiresAt
        (filter (\<lambda>q. ra_UserID q = ra_UserID r) rows)))) rows"

definition exec_ignored :: "string \<Rightarrow> (db \<Rightarrow> db) \<Rightarrow> 'x world_scheme \<Rightarrow> 'x world_scheme" where
  "exec_ignored tbl f w = snd (autocommit tbl (\<lambda>d. Inr ((), f d)) w)"

definition PruneAuthState :: "userService option \<Rightarrow> time \<Rightarrow> 'x world_scheme \<Rightarrow> 'x world_scheme" where
  "PruneAuthState u now w =
     (if unavailable u then w
      else
      let w1 = exec_ignored RevokedAccessTokenDBModel_TableName
                 (\<lambda>d. d\<lparr>o_revoked_access_tokens := delete_where (\<lambda>r. ra_ExpiresAt r < now) (o_revoked_access_tokens d)\<rparr>) w;
          w2 = exec_ignored RefreshSessionDBModel_TableName
                 (\<lambda>d. d\<lparr>o_refresh_sessions := delete_where (\<lambda>r. rs_ExpiresAt r < now) (o_refresh_sessions d)\<rparr>) w1;
          w3 = exec_ignored LoginAttemptDBModel_TableName
                 (\<lambda>d. d\<lparr>o_login_attempts := delete_where (\<lambda>r. la_WindowStartedAt r < now - loginAttemptRetention \<and>
                        (case la_LockedUntil r of None \<Rightarrow> True | Some until \<Rightarrow> until < now)) (o_login_attempts d)\<rparr>) w2;
          w4 = exec_ignored CredentialEventDBModel_TableName
                 (\<lambda>d. d\<lparr>o_credential_events := delete_where (\<lambda>r. ce_OccurredAt r < now - credentialEventRetention)
                        (o_credential_events d)\<rparr>) w3;
          w5 = exec_ignored RefreshSessionDBModel_TableName
                 (\<lambda>d. d\<lparr>o_refresh_sessions := cap_sessions (o_refresh_sessions d)\<rparr>) w4 in
      exec_ignored RevokedAccessTokenDBModel_TableName
        (\<lambda>d. d\<lparr>o_revoked_access_tokens := cap_revoked (o_revoked_access_tokens d)\<rparr>) w5)"

section \<open>Issuing\<close>

definition publicKeyFunc :: "userService option \<Rightarrow> error + PublicKey option" where
  "publicKeyFunc u =
     (case u of
        None \<Rightarrow> Inl (ErrorsNew ''signing key is unavailable'')
      | Some s \<Rightarrow>
          if us_publicKey s = None then Inl (ErrorsNew ''signing key is unavailable'')
          else Inr (us_publicKey s))"

definition issueSessionPair ::
  "jwtlib \<Rightarrow> userService \<Rightarrow> UserDBModel \<Rightarrow> time \<Rightarrow> 'x world_scheme \<Rightarrow> (error + IssuedSession) \<times> 'x world_scheme" where
  "issueSessionPair lib u user now w =
     (case NewTokenID w of (Inl e, w1) \<Rightarrow> (Inl e, w1) | (Inr sessionID, w1) \<Rightarrow>
      case MintAccessToken lib (u_Username user) (u_Id user) (u_TokenVersion user) sessionID (us_privateKey u) w1 of
        (Inl _, w2) \<Rightarrow> (Inl ErrRefreshSigning, w2)
      | (Inr access, w2) \<Rightarrow>
      case MintRefreshToken lib (u_Username user) (u_Id user) (u_TokenVersion user) sessionID (us_privateKey u) w2 of
        (Inl _, w3) \<Rightarrow> (Inl ErrRefreshSigning, w3)
      | (Inr refresh, w3) \<Rightarrow>
      case CreateRefreshSession (Some u) (u_Id user) (TokenSHA256 refresh) now (now + RefreshTokenLifetime) sessionID w3 of
        (Inl e, w4) \<Rightarrow> (Inl e, w4)
      | (Inr _, w4) \<Rightarrow>
          (Inr \<lparr>is_User = user, is_SessionID = sessionID, is_AccessToken = access, is_RefreshToken = refresh,
                is_IssuedAt = now, is_ExpiresAt = now + AccessTokenLifetime\<rparr>, w4))"

definition IssueLoginSession ::
  "jwtlib \<Rightarrow> userService option \<Rightarrow> int \<Rightarrow> time \<Rightarrow> 'x world_scheme \<Rightarrow> (error + IssuedSession) \<times> 'x world_scheme" where
  "IssueLoginSession lib u userID now w =
     (if unavailable u \<or> userID < 1 then (Inl (ErrorsNew ''invalid login session request''), w)
      else
      case autocommit UserDBModel_TableName (first_user (\<lambda>r. u_Id r = userID)) w of
        (Inl e, w1) \<Rightarrow> (Inl (Errorf ''load user for session issuance'' e), w1)
      | (Inr user, w1) \<Rightarrow>
      case issueSessionPair lib (the u) user now w1 of
        (Inl e, w2) \<Rightarrow> (Inl e, w2)
      | (Inr issued, w2) \<Rightarrow> (Inr issued, PruneAuthState u now w2))"

text \<open>A counted failure followed by the rejection \<open>err\<close>, or the store's own error.\<close>

definition reject_counted ::
  "userService option \<Rightarrow> string \<Rightarrow> time \<Rightarrow> error \<Rightarrow> 'x world_scheme \<Rightarrow> (error + 'a) \<times> 'x world_scheme" where
  "reject_counted u lockKey now err w =
     (case RecordLoginFailure u lockKey now w of (Inl e, w1) \<Rightarrow> (Inl e, w1) | (Inr _, w1) \<Rightarrow> (Inl err, w1))"

definition IssueRefreshedTokens ::
  "jwtlib \<Rightarrow> userService option \<Rightarrow> string \<Rightarrow> time \<Rightarrow> 'x world_scheme \<Rightarrow> (error + IssuedSession) \<times> 'x world_scheme" where
  "IssueRefreshedTokens lib u presented now w =
     (if unavailable u \<or> presented = [] then (Inl ErrInvalidRefreshSession, w)
      else if us_privateKey (the u) = None \<or> us_publicKey (the u) = None then (Inl ErrRefreshSigning, w)
      else
      case ValidateSessionRefreshToken lib presented (Some (publicKeyFunc u)) w of
        (Inl _, w1) \<Rightarrow> (Inl ErrInvalidRefreshSession, w1)
      | (Inr claims, w1) \<Rightarrow>
      let lockKey = LoginAttemptKey ''refresh'' (Itoa (UserID claims)) in
      case CheckLoginLockout u lockKey now w1 of ((locked, _), w2) \<Rightarrow>
      if locked then (Inl ErrRateLimitLocked, w2)
      else
      case autocommit UserDBModel_TableName (first_user (\<lambda>r. u_Id r = UserID claims)) w2 of
        (Inl _, w3) \<Rightarrow> reject_counted u lockKey now ErrInvalidRefreshSession w3
      | (Inr user, w3) \<Rightarrow>
      if u_Username user \<noteq> Username claims \<or> u_TokenVersion user \<noteq> TokenVersion claims
      then reject_counted u lockKey now ErrInvalidRefreshSession w3
      else
      case NewTokenID w3 of
        (Inl _, w4) \<Rightarrow> (Inl ErrInvalidRefreshSession, w4)
      | (Inr replacementID, w4) \<Rightarrow>
      case MintRefreshToken lib (u_Username user) (u_Id user) (u_TokenVersion user) replacementID (us_privateKey (the u)) w4 of
        (Inl _, w5) \<Rightarrow> (Inl ErrRefreshSigning, w5)
      | (Inr replacementRefresh, w5) \<Rightarrow>
      case MintAccessToken lib (u_Username user) (u_Id user) (u_TokenVersion user) replacementID (us_privateKey (the u)) w5 of
        (Inl _, w6) \<Rightarrow> (Inl ErrRefreshSigning, w6)
      | (Inr replacementAccess, w6) \<Rightarrow>
      case RotateRefreshSession u (TokenSHA256 presented) replacementID (TokenSHA256 replacementRefresh)
             now (now + RefreshTokenLifetime) now w6 of
        (Inl err, w7) \<Rightarrow>
          if errors_Is err ErrRefreshSessionReused then (Inl ErrRefreshSessionReused, w7)
          else if errors_Is err ErrInvalidRefreshSession
          then reject_counted u lockKey now ErrInvalidRefreshSession w7
          else (Inl err, w7)
      | (Inr _, w7) \<Rightarrow>
          (Inr \<lparr>is_User = user, is_SessionID = replacementID, is_AccessToken = replacementAccess,
                is_RefreshToken = replacementRefresh, is_IssuedAt = now, is_ExpiresAt = now + AccessTokenLifetime\<rparr>,
           PruneAuthState u now (RecordLoginSuccess u lockKey w7)))"

end
