(* ===== verification/Session_Proofs.thy ===== *)
theory Session_Proofs
  imports Sessions
begin

text \<open>
  What the session store guarantees: rotation and reuse detection, lockout, the audit trail and
  pruning.
\<close>

section \<open>Rotation\<close>

definition used_by :: "time \<Rightarrow> string \<Rightarrow> RefreshSessionDBModel \<Rightarrow> RefreshSessionDBModel" where
  "used_by now rid r = r\<lparr>rs_UsedAt := Some now, rs_ReplacedBy := rid\<rparr>"

text \<open>A session that may still be rotated at a given time.\<close>

definition live :: "time \<Rightarrow> RefreshSessionDBModel \<Rightarrow> bool" where
  "live now r \<longleftrightarrow> rs_RevokedAt r = None \<and> rs_UsedAt r = None \<and> now < rs_ExpiresAt r"

lemma rotate_tx_ok:
  assumes "rotate_tx sha rid rsha iat ex now w = (Inr cur, w')"
  obtains r where "r \<in> set (o_refresh_sessions (db w))" and "rs_TokenSHA256 r = sha" and "live now r"
    and "cur = used_by now rid r" and "rid \<notin> rs_ID ` set (o_refresh_sessions (db w))"
    and "rsha \<notin> rs_TokenSHA256 ` set (o_refresh_sessions (db w))"
    and "db w' = (db w)\<lparr>o_refresh_sessions :=
       update_where (\<lambda>q. rs_ID q = rs_ID r \<and> rs_UsedAt q = None) (used_by now rid) (o_refresh_sessions (db w))
         @ [new_session rid (rs_UserID r) rsha iat ex]\<rparr>"
proof -
  obtain r where f: "First rs_ID (\<lambda>r. rs_TokenSHA256 r = sha) (o_refresh_sessions (db w)) = Inr r"
    and "live now r" and "cur = used_by now rid r" and "rid \<notin> rs_ID ` set (o_refresh_sessions (db w))"
    and "rsha \<notin> rs_TokenSHA256 ` set (o_refresh_sessions (db w))"
    and "db w' = (db w)\<lparr>o_refresh_sessions :=
       update_where (\<lambda>q. rs_ID q = rs_ID r \<and> rs_UsedAt q = None) (used_by now rid) (o_refresh_sessions (db w))
         @ [new_session rid (rs_UserID r) rsha iat ex]\<rparr>"
    using assms
    by (auto simp: rotate_tx_def in_tx_def update_sessions_def insert_session_def live_def used_by_def [abs_def]
          new_session_def split: option.splits if_splits sum.splits prod.splits)
  then show thesis
    using that [of r] First_Inr [OF f] by simp
qed

lemma rotate_tx_ready:
  assumes "ready w" and "wf_db (db w)" and "r \<in> set (o_refresh_sessions (db w))" and "rs_TokenSHA256 r = sha"
  shows "rs_RevokedAt r \<noteq> None \<or> \<not> now < rs_ExpiresAt r \<Longrightarrow>
      rotate_tx sha rid rsha iat ex now w = (Inl (ErrInvalidRefreshSession, None), w\<lparr>tick := Suc (tick w)\<rparr>)"
    and "rs_RevokedAt r = None \<Longrightarrow> now < rs_ExpiresAt r \<Longrightarrow> rs_UsedAt r \<noteq> None \<Longrightarrow>
      rotate_tx sha rid rsha iat ex now w = (Inl (ErrRefreshSessionReused, Some (rs_UserID r)), w\<lparr>tick := Suc (tick w)\<rparr>)"
    and "live now r \<Longrightarrow> rid \<notin> rs_ID ` set (o_refresh_sessions (db w)) \<Longrightarrow>
      rsha \<notin> rs_TokenSHA256 ` set (o_refresh_sessions (db w)) \<Longrightarrow>
      \<exists>w'. rotate_tx sha rid rsha iat ex now w = (Inr (used_by now rid r), w') \<and> env w' = env w"
proof -
  have d: "distinct (map rs_TokenSHA256 (o_refresh_sessions (db w)))" "distinct (map rs_ID (o_refresh_sessions (db w)))"
    using assms(2) by (simp_all add: wf_db_def)
  have f: "First rs_ID (\<lambda>q. rs_TokenSHA256 q = sha) (o_refresh_sessions (db w)) = Inr r"
    using First_key [OF d(1) assms(3), of rs_ID] assms(4) by simp
  show "rs_RevokedAt r \<noteq> None \<or> \<not> now < rs_ExpiresAt r \<Longrightarrow>
      rotate_tx sha rid rsha iat ex now w = (Inl (ErrInvalidRefreshSession, None), w\<lparr>tick := Suc (tick w)\<rparr>)"
    using assms(1) f by (simp add: rotate_tx_def sql)
  show "rs_RevokedAt r = None \<Longrightarrow> now < rs_ExpiresAt r \<Longrightarrow> rs_UsedAt r \<noteq> None \<Longrightarrow>
      rotate_tx sha rid rsha iat ex now w = (Inl (ErrRefreshSessionReused, Some (rs_UserID r)), w\<lparr>tick := Suc (tick w)\<rparr>)"
    using assms(1) f by (simp add: rotate_tx_def sql)
  assume l: "live now r" and new: "rid \<notin> rs_ID ` set (o_refresh_sessions (db w))"
      "rsha \<notin> rs_TokenSHA256 ` set (o_refresh_sessions (db w))"
  have n: "RowsAffected (\<lambda>q. rs_ID q = rs_ID r \<and> rs_UsedAt q = None) (o_refresh_sessions (db w)) = 1"
    using RowsAffected_unique [OF d(2) assms(3), of "\<lambda>q. rs_UsedAt q = None"] l by (simp add: live_def)
  show "\<exists>w'. rotate_tx sha rid rsha iat ex now w = (Inr (used_by now rid r), w') \<and> env w' = env w"
    using assms(1) f l n new
    by (simp add: rotate_tx_def sql live_def update_sessions_def insert_session_def new_session_def
        used_by_def [abs_def])
qed

text \<open>The whole operation: success in any environment, and each outcome in a working one.\<close>

lemma rotate_ok:
  assumes "RotateRefreshSession u sha rid rsha iat ex now w = (Inr cur, w')"
  shows "\<exists>w1. rotate_tx sha rid rsha iat ex now ((interfered w)\<lparr>tick := Suc (tick w)\<rparr>) = (Inr cur, w1) \<and>
    w' = w1\<lparr>tick := Suc (tick w1)\<rparr>"
proof -
  have "Transaction (\<lambda>e. (e, None)) (\<lambda>e. (e, None)) (rotate_tx sha rid rsha iat ex now) w = (Inr cur, w')"
    using assms by (auto simp: RotateRefreshSession_def split: if_splits prod.splits sum.splits option.splits)
  then show ?thesis by (rule Transaction_ok) blast
qed

lemma rotate_invalid:
  assumes "ready w" and "wf_db (db w)"
    and "\<And>r. r \<in> set (o_refresh_sessions (db w)) \<Longrightarrow> rs_TokenSHA256 r = sha \<Longrightarrow>
       rs_RevokedAt r \<noteq> None \<or> \<not> now < rs_ExpiresAt r"
  shows "\<exists>w'. RotateRefreshSession u sha rid rsha iat ex now w = (Inl ErrInvalidRefreshSession, w') \<and> db w' = db w"
proof -
  let ?w = "w\<lparr>tick := Suc (tick w)\<rparr>"
  have "rotate_tx sha rid rsha iat ex now ?w = (Inl (ErrInvalidRefreshSession, None), ?w\<lparr>tick := Suc (tick ?w)\<rparr>)"
  proof (cases "\<exists>r \<in> set (o_refresh_sessions (db w)). rs_TokenSHA256 r = sha")
    case True
    then show ?thesis using rotate_tx_ready(1) [of ?w] assms by auto
  next
    case False
    then have "First rs_ID (\<lambda>r. rs_TokenSHA256 r = sha) (o_refresh_sessions (db w)) = Inl ErrRecordNotFound"
      by (intro First_none) auto
    with assms(1) show ?thesis by (simp add: rotate_tx_def sql)
  qed
  then show ?thesis
    using assms(1) by (simp add: RotateRefreshSession_def Transaction_run)
qed

lemma bump_ready:
  assumes "ready w" and "\<not> unavailable u" and "1 \<le> uid" and "uid \<in> u_Id ` set (o_users (db w))"
  shows "\<exists>v now k. BumpTokenVersion u uid w = (Inr v, w\<lparr>db := (db w)\<lparr>o_users := update_where (\<lambda>r. u_Id r = uid)
     (\<lambda>r. r\<lparr>u_TokenVersion := u_TokenVersion r + 1, u_UpdatedAt := now\<rparr>) (o_users (db w))\<rparr>, tick := k\<rparr>)"
proof -
  define now where "now = clock (env w) (Suc (tick w))"
  define rows where "rows = update_where (\<lambda>r. u_Id r = uid)
     (\<lambda>r. r\<lparr>u_TokenVersion := u_TokenVersion r + 1, u_UpdatedAt := now\<rparr>) (o_users (db w))"
  have "u_Id ` set rows = u_Id ` set (o_users (db w))"
  proof -
    have "map u_Id rows = map u_Id (o_users (db w))" by (simp add: rows_def)
    then show ?thesis by (metis set_map)
  qed
  then obtain x where "First u_Id (\<lambda>r. u_Id r = uid) rows = Inr x"
    using assms(4) First_ex [of _ rows "\<lambda>r. u_Id r = uid" u_Id] by (metis imageE)
  then have "bump_tx uid (w\<lparr>tick := Suc (tick w)\<rparr>) = (Inr (u_TokenVersion x),
      w\<lparr>db := (db w)\<lparr>o_users := rows\<rparr>, tick := Suc (Suc (Suc (Suc (tick w))))\<rparr>)"
    using assms(1) by (simp add: bump_tx_def time_Now_def sql bump_version_def with_version_def first_user_def
        flip: now_def rows_def)
  then show ?thesis
    using assms(1-3) by (auto simp: BumpTokenVersion_def Transaction_run rows_def)
qed

lemma revokeUser_ready:
  assumes "ready w"
  shows "revokeUserSessions uid now reason w = (Inr (), w\<lparr>db := (db w)\<lparr>o_refresh_sessions :=
     update_where (\<lambda>r. rs_UserID r = uid \<and> rs_RevokedAt r = None) (revoke_row now reason) (o_refresh_sessions (db w))\<rparr>,
     tick := Suc (tick w)\<rparr>)"
  using assms by (simp add: revokeUserSessions_def update_sessions_def sql)

lemma revoked_all:
  "r \<in> set (update_where (\<lambda>r. rs_UserID r = uid \<and> rs_RevokedAt r = None) (revoke_row now reason) rows) \<Longrightarrow>
   rs_UserID r = uid \<Longrightarrow> rs_RevokedAt r \<noteq> None"
proof -
  assume "r \<in> set (update_where (\<lambda>r. rs_UserID r = uid \<and> rs_RevokedAt r = None) (revoke_row now reason) rows)"
    and u: "rs_UserID r = uid"
  then obtain x where "r = revoke_row now reason x \<or> \<not> (rs_UserID r = uid \<and> rs_RevokedAt r = None)"
    unfolding set_update_where by blast
  then show ?thesis using u by (auto simp: revoke_row_def)
qed

lemma revoke_keeps:
  assumes "q \<in> set (update_where P (revoke_row now reason) rows)"
  shows "\<exists>x \<in> set rows. rs_TokenSHA256 x = rs_TokenSHA256 q \<and> rs_UserID x = rs_UserID q"
proof -
  obtain x where "x \<in> set rows" "q = revoke_row now reason x \<or> q = x"
    using assms unfolding set_update_where by blast
  then show ?thesis by (auto simp: revoke_row_def)
qed

lemma rotate_reused:
  assumes "ready w" and "wf_db (db w)" and "\<not> unavailable u" and "sha \<noteq> []" "rid \<noteq> []" "rsha \<noteq> []"
    and "r \<in> set (o_refresh_sessions (db w))" and "rs_TokenSHA256 r = sha"
    and "rs_RevokedAt r = None" and "now < rs_ExpiresAt r" and "rs_UsedAt r \<noteq> None"
    and "1 \<le> rs_UserID r" and "rs_UserID r \<in> u_Id ` set (o_users (db w))"
  shows "\<exists>t k. RotateRefreshSession u sha rid rsha iat ex now w =
    (Inl ErrRefreshSessionReused, w\<lparr>db := (db w)\<lparr>
       o_refresh_sessions := update_where (\<lambda>q. rs_UserID q = rs_UserID r \<and> rs_RevokedAt q = None)
         (revoke_row now ''refresh token reuse detected'') (o_refresh_sessions (db w)),
       o_users := update_where (\<lambda>q. u_Id q = rs_UserID r)
         (\<lambda>q. q\<lparr>u_TokenVersion := u_TokenVersion q + 1, u_UpdatedAt := t\<rparr>) (o_users (db w))\<rparr>, tick := k\<rparr>)"
proof -
  let ?w = "w\<lparr>tick := Suc (tick w)\<rparr>"
  have tx: "rotate_tx sha rid rsha iat ex now ?w =
      (Inl (ErrRefreshSessionReused, Some (rs_UserID r)), ?w\<lparr>tick := Suc (tick ?w)\<rparr>)"
    using rotate_tx_ready(2) [of ?w r] assms by simp
  define w1 where "w1 = w\<lparr>tick := Suc (Suc (tick w))\<rparr>"
  define w2 where "w2 = w1\<lparr>db := (db w)\<lparr>o_refresh_sessions :=
     update_where (\<lambda>q. rs_UserID q = rs_UserID r \<and> rs_RevokedAt q = None)
       (revoke_row now ''refresh token reuse detected'') (o_refresh_sessions (db w))\<rparr>, tick := Suc (tick w1)\<rparr>"
  have t: "Transaction (\<lambda>e. (e, None)) (\<lambda>e. (e, None)) (rotate_tx sha rid rsha iat ex now) w =
      (Inl (ErrRefreshSessionReused, Some (rs_UserID r)), w1)"
    using assms(1) tx by (simp add: Transaction_run w1_def)
  have rv: "revokeUserSessions (rs_UserID r) now ''refresh token reuse detected'' w1 = (Inr (), w2)"
    using assms(1) by (simp add: revokeUser_ready w2_def w1_def)
  have "ready w2" using assms(1) by (simp add: w2_def w1_def)
  then obtain v tm k where "BumpTokenVersion u (rs_UserID r) w2 = (Inr v, w2\<lparr>db := (db w2)\<lparr>o_users :=
      update_where (\<lambda>q. u_Id q = rs_UserID r) (\<lambda>q. q\<lparr>u_TokenVersion := u_TokenVersion q + 1, u_UpdatedAt := tm\<rparr>)
        (o_users (db w2))\<rparr>, tick := k\<rparr>)"
    using bump_ready [of w2 u "rs_UserID r"] assms by (auto simp: w2_def)
  with t rv assms(3-6) have "RotateRefreshSession u sha rid rsha iat ex now w =
    (Inl ErrRefreshSessionReused, w2\<lparr>db := (db w2)\<lparr>o_users :=
      update_where (\<lambda>q. u_Id q = rs_UserID r) (\<lambda>q. q\<lparr>u_TokenVersion := u_TokenVersion q + 1, u_UpdatedAt := tm\<rparr>)
        (o_users (db w2))\<rparr>, tick := k\<rparr>)"
    by (simp add: RotateRefreshSession_def errors_Join_def err_of_def List.map_filter_def)
  then show ?thesis
    by (intro exI [of _ tm] exI [of _ k]) (simp add: w2_def w1_def)
qed

lemma db_only_rotate_tx: "rotate_tx sha rid rsha iat ex now w = (r, w') \<Longrightarrow> db_only w w'"
  by (auto simp: rotate_tx_def in_tx_def update_sessions_def insert_session_def
      split: option.splits if_splits sum.splits prod.splits)

lemma session_key_unique:
  assumes "wf_db d" and "q \<in> set (o_refresh_sessions d)" and "r \<in> set (o_refresh_sessions d)"
  shows "rs_ID q = rs_ID r \<longleftrightarrow> q = r" and "rs_TokenSHA256 q = rs_TokenSHA256 r \<longleftrightarrow> q = r"
  using assms by (auto simp: wf_db_def distinct_map inj_on_def)

lemma rotation_consumed:
  assumes "RotateRefreshSession u sha rid rsha iat ex now w = (Inr cur, w')"
    and "wf_db (db (interfered w))"
  shows "\<exists>r. r \<in> set (o_refresh_sessions (db (interfered w))) \<and> rs_TokenSHA256 r = sha \<and> live now r \<and>
    cur = used_by now rid r \<and>
    db w' = (db (interfered w))\<lparr>o_refresh_sessions :=
      map (\<lambda>q. if q = r then used_by now rid r else q) (o_refresh_sessions (db (interfered w))) @
      [new_session rid (rs_UserID r) rsha iat ex]\<rparr> \<and> wf_db (db w')"
proof -
  let ?w = "(interfered w)\<lparr>tick := Suc (tick w)\<rparr>" and ?d = "db (interfered w)"
  obtain w1 where w1: "rotate_tx sha rid rsha iat ex now ?w = (Inr cur, w1)" "db w' = db w1"
    using rotate_ok [OF assms(1)] by auto
  from w1(1) obtain r where r: "r \<in> set (o_refresh_sessions ?d)" "rs_TokenSHA256 r = sha" "live now r"
    "cur = used_by now rid r" "rid \<notin> rs_ID ` set (o_refresh_sessions ?d)"
    "rsha \<notin> rs_TokenSHA256 ` set (o_refresh_sessions ?d)"
    "db w1 = ?d\<lparr>o_refresh_sessions :=
       update_where (\<lambda>q. rs_ID q = rs_ID r \<and> rs_UsedAt q = None) (used_by now rid) (o_refresh_sessions ?d)
         @ [new_session rid (rs_UserID r) rsha iat ex]\<rparr>"
    by (rule rotate_tx_ok) simp
  have "update_where (\<lambda>q. rs_ID q = rs_ID r \<and> rs_UsedAt q = None) (used_by now rid) (o_refresh_sessions ?d) =
      map (\<lambda>q. if q = r then used_by now rid r else q) (o_refresh_sessions ?d)"
    using session_key_unique(1) [OF assms(2) _ r(1)] r(3) by (auto simp: update_where_def live_def)
  moreover have "wf_db (db w1)"
    using assms(2) r(5-7) by (auto simp: wf_db_def new_session_def used_by_def)
  ultimately show ?thesis using r w1(2) by (intro exI [of _ r]) simp
qed

text \<open>
  C10.  A rotation that succeeds, whatever faults and other writers there are, consumed exactly
  one session: the unique row of the presented digest, which was unused, unrevoked and unexpired
  when the transaction began.  That row is marked used and linked to its replacement, one new
  live row for the same user is appended, and nothing else in the database changes.
\<close>

theorem rotation_consumes_one:
  assumes "RotateRefreshSession u sha rid rsha iat ex now w = (Inr cur, w')"
    and "wf_db (db (interfered w))"
  shows "\<exists>r. r \<in> set (o_refresh_sessions (db (interfered w))) \<and> rs_TokenSHA256 r = sha \<and> live now r \<and>
    cur = used_by now rid r \<and>
    db w' = (db (interfered w))\<lparr>o_refresh_sessions :=
      map (\<lambda>q. if q = r then used_by now rid r else q) (o_refresh_sessions (db (interfered w))) @
      [new_session rid (rs_UserID r) rsha iat ex]\<rparr> \<and> wf_db (db w')"
  using assms by (rule rotation_consumed)

lemma rotation_ready:
  assumes "ready w" and "wf_db (db w)" and "RotateRefreshSession u sha rid rsha iat ex now w = (Inr cur, w1)"
  shows "ready w1 \<and> wf_db (db w1) \<and> cur \<in> set (o_refresh_sessions (db w1)) \<and> rs_TokenSHA256 cur = sha \<and>
    rs_RevokedAt cur = None \<and> rs_UsedAt cur \<noteq> None \<and> o_users (db w1) = o_users (db w) \<and> sha \<noteq> [] \<and>
    new_session rid (rs_UserID cur) rsha iat ex \<in> set (o_refresh_sessions (db w1))"
proof -
  have i: "interfered w = w" using assms(1) by simp
  obtain r where r: "r \<in> set (o_refresh_sessions (db w))" "rs_TokenSHA256 r = sha" "live now r"
    "cur = used_by now rid r" and d1: "db w1 = (db w)\<lparr>o_refresh_sessions :=
      map (\<lambda>q. if q = r then used_by now rid r else q) (o_refresh_sessions (db w)) @
      [new_session rid (rs_UserID r) rsha iat ex]\<rparr>" and wf1: "wf_db (db w1)"
    using rotation_consumed [OF assms(3)] assms(2) unfolding i by blast
  obtain x where "rotate_tx sha rid rsha iat ex now ((interfered w)\<lparr>tick := Suc (tick w)\<rparr>) = (Inr cur, x)"
    "w1 = x\<lparr>tick := Suc (tick x)\<rparr>"
    using rotate_ok [OF assms(3)] by blast
  then have "env w1 = env w"
    using db_onlyD(1) [OF db_only_rotate_tx, of sha rid rsha iat ex now "w\<lparr>tick := Suc (tick w)\<rparr>"] i by simp
  then have "ready w1" using assms(1) d1 ready_env [of w w1] by simp
  moreover have "sha \<noteq> []" using assms(3) by (auto simp: RotateRefreshSession_def split: if_splits)
  moreover have "cur \<in> set (o_refresh_sessions (db w1))" using r(1,4) unfolding d1 by force
  moreover have "new_session rid (rs_UserID cur) rsha iat ex \<in> set (o_refresh_sessions (db w1))"
    using r(4) unfolding d1 by (simp add: used_by_def)
  moreover have "o_users (db w1) = o_users (db w)" unfolding d1 by simp
  ultimately show ?thesis using r(2-4) wf1 by (simp add: used_by_def live_def)
qed

text \<open>
  C11.  Reuse detection.  Presenting a refresh token a second time before it expires is answered
  with \<open>ErrRefreshSessionReused\<close>; afterwards every session of the user is revoked, the user's
  credential generation has advanced by one, and the token that replaced the stolen one is
  refused as well.
\<close>

theorem rotation_reuse_detected:
  assumes "ready w" and "wf_db (db w)" and "\<not> unavailable u"
    and "RotateRefreshSession u sha rid rsha iat ex now w = (Inr cur, w1)"
    and "now2 < rs_ExpiresAt cur" and "rid2 \<noteq> []" and "rsha2 \<noteq> []"
    and "1 \<le> rs_UserID cur" and "rs_UserID cur \<in> u_Id ` set (o_users (db w))"
  shows "\<exists>w2. RotateRefreshSession u sha rid2 rsha2 iat2 ex2 now2 w1 = (Inl ErrRefreshSessionReused, w2) \<and>
    (\<forall>q \<in> set (o_refresh_sessions (db w2)). rs_UserID q = rs_UserID cur \<longrightarrow> rs_RevokedAt q \<noteq> None) \<and>
    (\<exists>t. o_users (db w2) = update_where (\<lambda>q. u_Id q = rs_UserID cur)
       (\<lambda>q. q\<lparr>u_TokenVersion := u_TokenVersion q + 1, u_UpdatedAt := t\<rparr>) (o_users (db w))) \<and>
    fst (RotateRefreshSession u rsha rid3 rsha3 iat3 ex3 now3 w2) = Inl ErrInvalidRefreshSession"
proof -
  note w1 = rotation_ready [OF assms(1,2,4)]
  let ?new = "new_session rid (rs_UserID cur) rsha iat ex"
  obtain t k where ro: "RotateRefreshSession u sha rid2 rsha2 iat2 ex2 now2 w1 =
    (Inl ErrRefreshSessionReused, w1\<lparr>db := (db w1)\<lparr>
       o_refresh_sessions := update_where (\<lambda>q. rs_UserID q = rs_UserID cur \<and> rs_RevokedAt q = None)
         (revoke_row now2 ''refresh token reuse detected'') (o_refresh_sessions (db w1)),
       o_users := update_where (\<lambda>q. u_Id q = rs_UserID cur)
         (\<lambda>q. q\<lparr>u_TokenVersion := u_TokenVersion q + 1, u_UpdatedAt := t\<rparr>) (o_users (db w1))\<rparr>, tick := k\<rparr>)"
    (is "_ = (_, ?w2)")
    using rotate_reused [of w1 u sha rid2 rsha2 cur now2 iat2 ex2] w1 assms(3,5-9) by metis
  have rev: "rs_RevokedAt q \<noteq> None" if "q \<in> set (o_refresh_sessions (db ?w2))" "rs_UserID q = rs_UserID cur" for q
    using that revoked_all by simp
  have "rs_RevokedAt q \<noteq> None" if q: "q \<in> set (o_refresh_sessions (db ?w2))" "rs_TokenSHA256 q = rsha" for q
  proof -
    obtain x where x: "x \<in> set (o_refresh_sessions (db w1))" "rs_TokenSHA256 x = rs_TokenSHA256 q" "rs_UserID x = rs_UserID q"
      using revoke_keeps q(1) [simplified] by blast
    then have "x = ?new"
      using session_key_unique(2) [of "db w1" x ?new] w1 q(2) by (simp add: new_session_def)
    then show ?thesis using rev q(1) x(3) by (simp add: new_session_def)
  qed
  moreover have "ready ?w2" using w1 by simp
  moreover have "wf_db (db ?w2)"
    using w1 by (auto intro!: wf_db_upd simp: revoke_row_def dest: wf_dbD)
  ultimately have "\<exists>w3. RotateRefreshSession u rsha rid3 rsha3 iat3 ex3 now3 ?w2 = (Inl ErrInvalidRefreshSession, w3) \<and>
      db w3 = db ?w2"
    by (intro rotate_invalid) blast+
  then have "fst (RotateRefreshSession u rsha rid3 rsha3 iat3 ex3 now3 ?w2) = Inl ErrInvalidRefreshSession"
    by (elim exE conjE) (simp only: fst_conv)
  moreover have "o_users (db ?w2) = update_where (\<lambda>q. u_Id q = rs_UserID cur)
       (\<lambda>q. q\<lparr>u_TokenVersion := u_TokenVersion q + 1, u_UpdatedAt := t\<rparr>) (o_users (db w))"
    using w1 by simp
  ultimately show ?thesis using ro rev by blast
qed

lemma rotate_tx_no_reuse:
  assumes "rotate_tx sha rid rsha iat ex now w = (Inl (e, reused), w')"
    and "\<forall>r \<in> set (o_refresh_sessions (db w)).
      rs_TokenSHA256 r = sha \<longrightarrow> rs_UsedAt r = None \<or> rs_RevokedAt r \<noteq> None \<or> \<not> now < rs_ExpiresAt r"
  shows "reused = None"
proof (rule ccontr)
  assume "reused \<noteq> None"
  then obtain r where "First rs_ID (\<lambda>r. rs_TokenSHA256 r = sha) (o_refresh_sessions (db w)) = Inr r"
    "rs_UsedAt r \<noteq> None" "rs_RevokedAt r = None" "now < rs_ExpiresAt r"
    using assms(1)
    by (auto simp: rotate_tx_def in_tx_def split: option.splits if_splits sum.splits prod.splits)
  then show False using assms(2) by (auto dest: First_Inr)
qed


section \<open>A sample session store\<close>

definition sample_service :: userService where
  "sample_service = \<lparr>us_privateKey = Some sample_key, us_publicKey = Some (sk_Public sample_key), us_db = True,
     us_initializationState = zero_State\<rparr>"

lemma sample_available [simp]: "\<not> unavailable (Some sample_service)"
  by (simp add: unavailable_def sample_service_def)

definition session_db :: db where
  "session_db = empty_db\<lparr>o_users := [zero_user\<lparr>u_Id := 1, u_Username := ''ann''\<rparr>],
     o_refresh_sessions := [new_session ''s1'' 1 ''old'' 0 1000]\<rparr>"

lemma session_db_ok [simp]: "migrated session_db" "wf_db session_db"
  by (simp_all add: session_db_def) (simp add: wf_db_def empty_db_def)

lemma session_db_rows [simp]:
  "o_refresh_sessions session_db = [new_session ''s1'' 1 ''old'' 0 1000]"
  "o_users session_db = [zero_user\<lparr>u_Id := 1, u_Username := ''ann''\<rparr>]"
  by (simp_all add: session_db_def)

lemma rotate_live:
  assumes "ready w" and "wf_db (db w)" and "\<not> unavailable u" and "sha \<noteq> []" "rid \<noteq> []" "rsha \<noteq> []"
    and "r \<in> set (o_refresh_sessions (db w))" and "rs_TokenSHA256 r = sha" and "live now r"
    and "rid \<notin> rs_ID ` set (o_refresh_sessions (db w))"
    and "rsha \<notin> rs_TokenSHA256 ` set (o_refresh_sessions (db w))"
  shows "\<exists>w'. RotateRefreshSession u sha rid rsha iat ex now w = (Inr (used_by now rid r), w')"
proof -
  let ?w = "w\<lparr>tick := Suc (tick w)\<rparr>"
  obtain w1 where "rotate_tx sha rid rsha iat ex now ?w = (Inr (used_by now rid r), w1)" and "env w1 = env w"
    using rotate_tx_ready(3) [of ?w r sha now rid rsha iat ex] assms by auto
  moreover from this have "quiet w1" using assms(1) quiet_env [of w1 w] by simp
  ultimately show ?thesis
    using assms(1,3-6) by (auto simp: RotateRefreshSession_def Transaction_run)
qed

lemma sample_rotation:
  "\<exists>w'. RotateRefreshSession (Some sample_service) ''old'' ''s2'' ''new'' 500 2000 500 (calm_world session_db) =
     (Inr (used_by 500 ''s2'' (new_session ''s1'' 1 ''old'' 0 1000)), w')"
  by (rule rotate_live) (simp_all add: new_session_def live_def)

theorem rotation_consumes_one_witness:
  "\<exists>w'. RotateRefreshSession (Some sample_service) ''old'' ''s2'' ''new'' 500 2000 500 (calm_world session_db) =
     (Inr (used_by 500 ''s2'' (new_session ''s1'' 1 ''old'' 0 1000)), w') \<and> wf_db (db w')"
proof -
  obtain w' where "RotateRefreshSession (Some sample_service) ''old'' ''s2'' ''new'' 500 2000 500 (calm_world session_db) =
     (Inr (used_by 500 ''s2'' (new_session ''s1'' 1 ''old'' 0 1000)), w')"
    using sample_rotation by blast
  moreover from rotation_consumes_one [OF this] have "wf_db (db w')" by auto
  ultimately show ?thesis by blast
qed

theorem rotation_reuse_detected_witness:
  "\<exists>w1 w2. snd (RotateRefreshSession (Some sample_service) ''old'' ''s2'' ''new'' 500 2000 500 (calm_world session_db)) = w1 \<and>
     RotateRefreshSession (Some sample_service) ''old'' ''s3'' ''newer'' 600 2000 600 w1 = (Inl ErrRefreshSessionReused, w2) \<and>
     fst (RotateRefreshSession (Some sample_service) ''new'' ''s4'' ''newest'' 700 2000 700 w2) = Inl ErrInvalidRefreshSession"
proof -
  obtain w1 where w1: "RotateRefreshSession (Some sample_service) ''old'' ''s2'' ''new'' 500 2000 500 (calm_world session_db) =
     (Inr (used_by 500 ''s2'' (new_session ''s1'' 1 ''old'' 0 1000)), w1)" (is "_ = (Inr ?cur, _)")
    using sample_rotation by blast
  have "600 < rs_ExpiresAt ?cur" "1 \<le> rs_UserID ?cur" "rs_UserID ?cur \<in> u_Id ` set (o_users (db (calm_world session_db)))"
    by (simp_all add: used_by_def new_session_def)
  with rotation_reuse_detected [OF _ _ sample_available w1, of 600 "''s3''" "''newer''" 600 2000 "''s4''" "''newest''" 700 2000 700]
  have "\<exists>w2. RotateRefreshSession (Some sample_service) ''old'' ''s3'' ''newer'' 600 2000 600 w1 =
      (Inl ErrRefreshSessionReused, w2) \<and>
     fst (RotateRefreshSession (Some sample_service) ''new'' ''s4'' ''newest'' 700 2000 700 w2) = Inl ErrInvalidRefreshSession"
    by auto
  with w1 show ?thesis by (metis snd_conv)
qed


end
