(* ===== verification/Lockout.thy ===== *)
theory Lockout
  imports Session_Proofs
begin

text \<open>
  Login lockout: the counter that one key of \<open>o_login_attempts\<close> implements, and what the store's
  operations do to it.
\<close>

section \<open>The counter of one key\<close>

definition attempt_of :: "string \<Rightarrow> db \<Rightarrow> LoginAttemptDBModel option" where
  "attempt_of key d = find (\<lambda>r. la_Key r = key) (o_login_attempts d)"

definition locked_at :: "LoginAttemptDBModel option \<Rightarrow> time \<Rightarrow> bool" where
  "locked_at a now = (case a of None \<Rightarrow> False
     | Some r \<Rightarrow> (case la_LockedUntil r of None \<Rightarrow> False | Some until \<Rightarrow> now < until))"

definition lock_left :: "LoginAttemptDBModel option \<Rightarrow> time \<Rightarrow> duration" where
  "lock_left a now = (if locked_at a now then the (la_LockedUntil (the a)) - now else 0)"

definition fresh_attempt :: "string \<Rightarrow> time \<Rightarrow> LoginAttemptDBModel" where
  "fresh_attempt key now = \<lparr>la_Key = key, la_Failures = 0, la_WindowStartedAt = now, la_LockedUntil = None\<rparr>"

text \<open>One failure at a time: a locked counter only reports, another one counts.\<close>

definition fail_step ::
  "string \<Rightarrow> LoginAttemptDBModel option \<Rightarrow> time \<Rightarrow> LoginAttemptDBModel \<times> bool \<times> duration" where
  "fail_step key a now =
     (if locked_at a now then (the a, True, lock_left a now)
      else count_failure (case a of None \<Rightarrow> fresh_attempt key now | Some r \<Rightarrow> r) now)"

fun fail_run ::
  "string \<Rightarrow> LoginAttemptDBModel option \<Rightarrow> time list \<Rightarrow> (bool \<times> duration) list \<times> LoginAttemptDBModel option" where
  "fail_run key a [] = ([], a)"
| "fail_run key a (t # ts) =
     (case fail_step key a t of (r, reply) \<Rightarrow>
      case fail_run key (Some r) ts of (replies, b) \<Rightarrow> (reply # replies, b))"

fun record_failures ::
  "userService option \<Rightarrow> string \<Rightarrow> time list \<Rightarrow> 'x world_scheme \<Rightarrow> (error + bool \<times> duration) list \<times> 'x world_scheme" where
  "record_failures u key [] w = ([], w)"
| "record_failures u key (t # ts) w =
     (case RecordLoginFailure u key t w of (r, w1) \<Rightarrow>
      case record_failures u key ts w1 of (rs, w2) \<Rightarrow> (r # rs, w2))"

section \<open>The store implements the counters\<close>

lemma attempt_First:
  assumes "wf_db d"
  shows "First la_Key (\<lambda>r. la_Key r = key) (o_login_attempts d) =
     (case attempt_of key d of None \<Rightarrow> Inl ErrRecordNotFound | Some r \<Rightarrow> Inr r)"
proof (cases "attempt_of key d")
  case None
  then have "\<forall>r \<in> set (o_login_attempts d). la_Key r \<noteq> key" by (auto simp: attempt_of_def find_None_iff)
  then show ?thesis using None by (simp add: First_none)
next
  case (Some r)
  then have "r \<in> set (o_login_attempts d)" "la_Key r = key"
    by (auto simp: attempt_of_def find_Some_iff)
  then show ?thesis using Some First_key [OF wf_dbD(5) [OF assms], of r la_Key] by simp
qed

lemma attempt_key: "attempt_of key d = Some r \<Longrightarrow> la_Key r = key \<and> r \<in> set (o_login_attempts d)"
  by (auto simp: attempt_of_def find_Some_iff)

lemma find_append: "find P (xs @ ys) = (case find P xs of None \<Rightarrow> find P ys | Some x \<Rightarrow> Some x)"
  by (induction xs) auto

lemma find_replaced:
  "find (\<lambda>r. key r = key x) (update_where (\<lambda>q. key q = key x) (\<lambda>_. x) rows) =
     (if key x \<in> set (map key rows) then Some x else None)"
  "k \<noteq> key x \<Longrightarrow> find (\<lambda>r. key r = k) (update_where (\<lambda>q. key q = key x) (\<lambda>_. x) rows) = find (\<lambda>r. key r = k) rows"
  unfolding update_where_def by (induction rows) auto

lemma find_absent: "k \<notin> set (map key rows) \<Longrightarrow> find (\<lambda>r. key r = k) rows = None"
  by (induction rows) auto

lemma find_save_row:
  "find (\<lambda>r. key r = k) (save_row key x rows) = (if key x = k then Some x else find (\<lambda>r. key r = k) rows)"
  using find_absent [of k key rows] find_replaced [where key = key and x = x and rows = rows]
  by (auto simp: save_row_def find_append split: option.split)

lemma count_key: "la_Key (fst (count_failure r now)) = la_Key r"
  by (simp add: count_failure_def Let_def)

lemma save_row_fresh: "key x \<notin> key ` set rows \<Longrightarrow> key y = key x \<Longrightarrow> save_row key y (rows @ [x]) = save_row key y rows"
proof -
  assume new: "key x \<notin> key ` set rows" and y: "key y = key x"
  then have "update_where (\<lambda>q. key q = key y) (\<lambda>_. y) rows = rows"
    by (intro update_where_none) (metis imageI)
  with new y show ?thesis by (simp add: save_row_def) (simp add: update_where_def)
qed

lemma same_attempts [simp]: "w\<lparr>db := (db w)\<lparr>o_login_attempts := o_login_attempts (db w)\<rparr>, tick := k\<rparr> = w\<lparr>tick := k\<rparr>"
  by simp

text \<open>What the operations make of the counters, in a working world.\<close>

lemma failure_tx_ready:
  assumes "ready w" and "wf_db (db w)"
  shows "\<exists>k. failure_tx key now w = (Inr (snd (fail_step key (attempt_of key (db w)) now)),
     w\<lparr>db := (db w)\<lparr>o_login_attempts := save_row la_Key (fst (fail_step key (attempt_of key (db w)) now)) (o_login_attempts (db w))\<rparr>,
       tick := k\<rparr>)"
proof (cases "attempt_of key (db w)")
  case None
  then have new: "key \<notin> la_Key ` set (o_login_attempts (db w))"
    by (auto simp: attempt_of_def find_None_iff)
  obtain c l t where c: "count_failure (fresh_attempt key now) now = (c, l, t)" by (metis prod_cases3)
  then have "la_Key c = key" using count_key [of "fresh_attempt key now" now] by (simp add: fresh_attempt_def)
  then have "save_row la_Key c (o_login_attempts (db w) @ [fresh_attempt key now]) = save_row la_Key c (o_login_attempts (db w))"
    using new by (intro save_row_fresh) (simp_all add: fresh_attempt_def)
  with None c new assms show ?thesis
    by (simp add: failure_tx_def sql first_attempt_def attempt_First fail_step_def locked_at_def fresh_attempt_def Let_def) blast
next
  case (Some r)
  note r = attempt_key [OF Some]
  show ?thesis
  proof (cases "locked_at (Some r) now")
    case True
    have "save_row la_Key r (o_login_attempts (db w)) = o_login_attempts (db w)"
      using r wf_dbD(5) [OF assms(2)]
      by (auto simp: save_row_def update_where_def distinct_map inj_on_def intro!: map_idI)
    moreover obtain until where "la_LockedUntil r = Some until" "now < until"
      using True by (auto simp: locked_at_def split: option.splits)
    ultimately show ?thesis using True Some assms
      by (simp add: failure_tx_def sql first_attempt_def attempt_First fail_step_def lock_left_def) blast
  next
    case False
    then have "\<not> (case la_LockedUntil r of None \<Rightarrow> False | Some until \<Rightarrow> now < until)"
      by (simp add: locked_at_def)
    moreover obtain c l t where "count_failure r now = (c, l, t)" by (metis prod_cases3)
    ultimately show ?thesis using False Some assms
      by (simp add: failure_tx_def sql first_attempt_def attempt_First fail_step_def) blast
  qed
qed

lemma failure_counted:
  assumes "ready w" and "wf_db (db w)" and "\<not> unavailable u" and "key \<noteq> []"
  shows "\<exists>w'. RecordLoginFailure u key now w = (Inr (snd (fail_step key (attempt_of key (db w)) now)), w') \<and>
      ready w' \<and> wf_db (db w') \<and>
      (\<lambda>k. attempt_of k (db w')) = (\<lambda>k. attempt_of k (db w))(key := Some (fst (fail_step key (attempt_of key (db w)) now))) \<and>
      db w' = (db w)\<lparr>o_login_attempts := o_login_attempts (db w')\<rparr>"
proof -
  let ?r = "fst (fail_step key (attempt_of key (db w)) now)"
  have key: "la_Key ?r = key"
    using attempt_key [of key "db w"]
    by (auto simp: fail_step_def locked_at_def count_key fresh_attempt_def split: option.splits)
  let ?d = "(db w)\<lparr>o_login_attempts := save_row la_Key ?r (o_login_attempts (db w))\<rparr>"
  obtain k where "failure_tx key now (w\<lparr>tick := Suc (tick w)\<rparr>) =
      (Inr (snd (fail_step key (attempt_of key (db w)) now)), w\<lparr>db := ?d, tick := k\<rparr>)"
    using failure_tx_ready [of "w\<lparr>tick := Suc (tick w)\<rparr>" key now] assms(1,2) by auto
  then have "RecordLoginFailure u key now w =
      (Inr (snd (fail_step key (attempt_of key (db w)) now)), w\<lparr>db := ?d, tick := Suc k\<rparr>)"
    using assms by (simp add: RecordLoginFailure_def Transaction_run)
  moreover have "wf_db ?d"
    using assms(2) by (intro wf_db_upd map_save_row) (simp_all add: wf_dbD)
  moreover have "attempt_of j ?d = ((\<lambda>j. attempt_of j (db w))(key := Some ?r)) j" for j
    using key by (simp add: attempt_of_def find_save_row)
  ultimately show ?thesis using assms(1)
    by (intro exI [of _ "w\<lparr>db := ?d, tick := Suc k\<rparr>"]) auto
qed

lemma lockout_checked:
  assumes "ready w" and "wf_db (db w)" and "\<not> unavailable u" and "key \<noteq> []"
  shows "fst (CheckLoginLockout u key now w) = (locked_at (attempt_of key (db w)) now, lock_left (attempt_of key (db w)) now)"
  using assms
  by (simp add: CheckLoginLockout_def sql first_attempt_def attempt_First locked_at_def lock_left_def split: option.splits)

lemma success_cleared:
  assumes "ready w" and "\<not> unavailable u" and "key \<noteq> []"
  shows "(\<lambda>k. attempt_of k (db (RecordLoginSuccess u key w))) = (\<lambda>k. attempt_of k (db w))(key := None)"
proof -
  have "find (\<lambda>r. la_Key r = key) (delete_where (\<lambda>r. la_Key r = key) rows) = None" for rows :: "LoginAttemptDBModel list"
    by (simp add: find_None_iff)
  moreover have "k \<noteq> key \<Longrightarrow>
      find (\<lambda>r. la_Key r = k) (delete_where (\<lambda>r. la_Key r = key) rows) = find (\<lambda>r. la_Key r = k) rows"
    for k and rows :: "LoginAttemptDBModel list"
    unfolding delete_where_def by (induction rows) auto
  ultimately show ?thesis
    using assms by (simp add: RecordLoginSuccess_def sql attempt_of_def fun_eq_iff)
qed

text \<open>
  C13.  The lockout table is a set of independent counters.  Recording a failure on a key makes
  the counter of that key take one step of \<open>fail_step\<close> and reports the step's answer, leaves the
  counter of every other key and every other table alone; checking reports the time left of the
  key's lock, and a success removes the key's counter and no other.
\<close>

theorem RecordLoginFailure_counters:
  assumes "ready w" and "wf_db (db w)" and "\<not> unavailable u" and "key \<noteq> []"
  shows "(\<exists>w'. RecordLoginFailure u key now w = (Inr (snd (fail_step key (attempt_of key (db w)) now)), w') \<and>
      ready w' \<and> wf_db (db w') \<and>
      (\<lambda>k. attempt_of k (db w')) = (\<lambda>k. attempt_of k (db w))(key := Some (fst (fail_step key (attempt_of key (db w)) now))) \<and>
      db w' = (db w)\<lparr>o_login_attempts := o_login_attempts (db w')\<rparr>) \<and>
    fst (CheckLoginLockout u key now w) = (locked_at (attempt_of key (db w)) now, lock_left (attempt_of key (db w)) now) \<and>
    (\<lambda>k. attempt_of k (db (RecordLoginSuccess u key w))) = (\<lambda>k. attempt_of k (db w))(key := None)"
  using failure_counted [OF assms] lockout_checked [OF assms] success_cleared [OF assms(1,3,4)] by blast

section \<open>Five failures\<close>

lemma failures_run:
  assumes "ready w" and "wf_db (db w)" and "\<not> unavailable u" and "key \<noteq> []"
  shows "\<exists>w'. record_failures u key ts w = (map Inr (fst (fail_run key (attempt_of key (db w)) ts)), w') \<and>
     ready w' \<and> wf_db (db w') \<and> attempt_of key (db w') = snd (fail_run key (attempt_of key (db w)) ts)"
  using assms(1,2)
proof (induction ts arbitrary: w)
  case (Cons t ts)
  obtain w1 where "RecordLoginFailure u key t w = (Inr (snd (fail_step key (attempt_of key (db w)) t)), w1)"
    "ready w1" "wf_db (db w1)" "attempt_of key (db w1) = Some (fst (fail_step key (attempt_of key (db w)) t))"
    using failure_counted [OF Cons.prems assms(3,4), of t] by (metis fun_upd_same)
  moreover obtain w2 where "record_failures u key ts w1 = (map Inr (fst (fail_run key (attempt_of key (db w1)) ts)), w2)"
    "ready w2" "wf_db (db w2)" "attempt_of key (db w2) = snd (fail_run key (attempt_of key (db w1)) ts)"
    using Cons.IH [OF calculation(2,3)] by blast
  ultimately show ?case by (simp split: prod.splits)
qed simp

lemma fail_step_count:
  "\<not> locked_at (Some r) t \<Longrightarrow> la_WindowStartedAt r \<noteq> zero_time \<Longrightarrow> t - la_WindowStartedAt r \<le> loginLockoutWindow \<Longrightarrow>
   fail_step key (Some r) t =
     (if la_Failures r + 1 \<ge> loginFailureLimit
      then (r\<lparr>la_Failures := la_Failures r + 1, la_LockedUntil := Some (t + loginLockoutLength)\<rparr>, True, loginLockoutLength)
      else (r\<lparr>la_Failures := la_Failures r + 1\<rparr>, False, 0))"
  by (simp add: fail_step_def count_failure_def Let_def)

lemma fail_step_first: "fail_step key None t = (\<lparr>la_Key = key, la_Failures = 1, la_WindowStartedAt = t, la_LockedUntil = None\<rparr>, False, 0)"
  by (simp add: fail_step_def locked_at_def count_failure_def fresh_attempt_def Let_def loginFailureLimit_def loginLockoutWindow_def
      hour_def second_def)

lemma five_failures:
  assumes "zero_time < t1" "t1 \<le> t2" "t2 \<le> t3" "t3 \<le> t4" "t4 \<le> t5" "t5 - t1 \<le> hour"
  shows "fail_run key None [t1, t2, t3, t4, t5] =
    ([(False, 0), (False, 0), (False, 0), (False, 0), (True, 15 * minute)],
     Some \<lparr>la_Key = key, la_Failures = 5, la_WindowStartedAt = t1, la_LockedUntil = Some (t5 + 15 * minute)\<rparr>)"
  using assms
  by (simp add: fail_step_first fail_step_count locked_at_def loginLockoutWindow_def loginFailureLimit_def loginLockoutLength_def)


text \<open>
  C15.  The counter is not reset when a lock ends: while the hour that the first failure opened
  still runs, one single further failure locks the key for another 15 minutes.
\<close>

theorem single_failure_relocks:
  assumes "ready w" and "wf_db (db w)" and "\<not> unavailable u" and "key \<noteq> []" and "attempt_of key (db w) = None"
    and "zero_time < t1" "t1 \<le> t2" "t2 \<le> t3" "t3 \<le> t4" "t4 \<le> t5"
    and "t5 + 15 * minute \<le> t6" "t6 - t1 \<le> hour"
  shows "\<exists>w'. record_failures u key [t1, t2, t3, t4, t5, t6] w =
      (map Inr [(False, 0), (False, 0), (False, 0), (False, 0), (True, 15 * minute), (True, 15 * minute)], w')"
proof -
  have "t5 - t1 \<le> hour" using assms(11,12) by (simp add: minute_def second_def)
  moreover have "fail_run key a (ts @ [t]) = (fst (fail_run key a ts) @ [snd (fail_step key (snd (fail_run key a ts)) t)],
      Some (fst (fail_step key (snd (fail_run key a ts)) t)))" for a ts t
    by (induction ts arbitrary: a) (simp_all split: prod.splits)
  from this [of None "[t1, t2, t3, t4, t5]" t6] five_failures [OF assms(6-10) calculation]
  have "fst (fail_run key None [t1, t2, t3, t4, t5, t6]) =
      [(False, 0), (False, 0), (False, 0), (False, 0), (True, 15 * minute), (True, 15 * minute)]"
    using assms(6,11,12)
    by (simp add: fail_step_count locked_at_def loginLockoutWindow_def loginFailureLimit_def loginLockoutLength_def)
  then show ?thesis
    using failures_run [OF assms(1-4), of "[t1, t2, t3, t4, t5, t6]"] unfolding assms(5) by auto
qed

section \<open>At a concrete time\<close>

lemma no_attempts: "attempt_of key session_db = None"
  by (simp add: attempt_of_def session_db_def empty_db_def)

lemma sample_key_fresh:
  "ready (calm_world session_db)" "wf_db (db (calm_world session_db))" "\<not> unavailable (Some sample_service)"
  "''login:ann'' \<noteq> []" "attempt_of ''login:ann'' (db (calm_world session_db)) = None" "zero_time < 0"
  by (simp_all add: no_attempts zero_time_def)

theorem RecordLoginFailure_counters_witness:
  "\<exists>w'. RecordLoginFailure (Some sample_service) ''login:ann'' 7 (calm_world session_db) = (Inr (False, 0), w')"
  using RecordLoginFailure_counters [OF sample_key_fresh(1-4), of 7]
  by (auto simp: no_attempts fail_step_first)


theorem single_failure_relocks_witness:
  "\<exists>w'. record_failures (Some sample_service) ''login:ann'' [0, 1, 2, 3, 4, 20 * minute] (calm_world session_db) =
      (map Inr [(False, 0), (False, 0), (False, 0), (False, 0), (True, 15 * minute), (True, 15 * minute)], w')"
  by (rule single_failure_relocks [OF sample_key_fresh]) (simp_all add: minute_def hour_def second_def)

end
