(* ===== verification/Pruning.thy ===== *)
theory Pruning
  imports Lockout
begin

text \<open>
  Bounded growth: what \<open>PruneAuthState\<close> removes and what it never removes, and the bounds of the
  audit listing.
\<close>

section \<open>Keeping the greatest rows\<close>

lemma set_top_rows: "set (top_rows n key rows) \<subseteq> set rows"
  unfolding top_rows_def by (metis set_rev set_sort set_take_subset)

lemma length_top_rows: "length (top_rows n key rows) = min n (length rows)"
  by (simp add: top_rows_def min.commute)

lemma top_rows_all: "length rows \<le> n \<Longrightarrow> set (top_rows n key rows) = set rows"
  by (simp add: top_rows_def)

text \<open>A row outside the top is not greater than any row inside.\<close>

lemma top_rows_greatest:
  assumes "r \<in> set (top_rows n key rows)" and "q \<in> set rows" and "q \<notin> set (top_rows n key rows)"
  shows "key q \<le> key r"
proof -
  let ?s = "rev (sort_key key rows)"
  have s: "sorted_wrt (\<lambda>x y. key y \<le> key x) ?s"
    using sorted_sort_key [of key rows] by (simp add: sorted_wrt_rev sorted_map)
  have "q \<in> set ?s" using assms(2) by simp
  then have "q \<in> set (drop n ?s)"
    using assms(3) unfolding top_rows_def by (metis Un_iff append_take_drop_id set_append)
  moreover have "r \<in> set (take n ?s)" using assms(1) by (simp add: top_rows_def)
  moreover have "sorted_wrt (\<lambda>x y. key y \<le> key x) (take n ?s @ drop n ?s)" using s by simp
  ultimately show ?thesis unfolding sorted_wrt_append by blast
qed

text \<open>The two capping statements are one: per owner, the greatest \<open>n\<close> rows stay.\<close>

definition cap_rows ::
  "nat \<Rightarrow> ('r \<Rightarrow> int) \<Rightarrow> ('r \<Rightarrow> 'k::linorder) \<Rightarrow> ('r \<Rightarrow> string) \<Rightarrow> 'r list \<Rightarrow> 'r list" where
  "cap_rows n owner key ident rows =
     filter (\<lambda>r. ident r \<in> ident ` set (top_rows n key (filter (\<lambda>q. owner q = owner r) rows))) rows"

lemma cap_sessions_rows:
  "cap_sessions = cap_rows refreshSessionCap rs_UserID (\<lambda>q. (rs_IssuedAt q, rs_ID q)) rs_ID"
  by (simp add: cap_sessions_def cap_rows_def delete_where_def fun_eq_iff)

lemma cap_revoked_rows: "cap_revoked = cap_rows revokedAccessCap ra_UserID ra_ExpiresAt ra_JTI"
  by (simp add: cap_revoked_def cap_rows_def delete_where_def fun_eq_iff)

lemma cap_rows_set:
  assumes "distinct (map ident rows)"
  shows "set (cap_rows n owner key ident rows) =
     {r \<in> set rows. r \<in> set (top_rows n key (filter (\<lambda>q. owner q = owner r) rows))}"
proof -
  have "ident r \<in> ident ` set (top_rows n key (filter P rows)) \<longleftrightarrow> r \<in> set (top_rows n key (filter P rows))"
    if "r \<in> set rows" for r P
    using that assms set_top_rows [of n key "filter P rows"] by (auto simp: distinct_map inj_on_def)
  then show ?thesis by (auto simp: cap_rows_def)
qed

lemma cap_rows_owner:
  assumes "distinct (map ident rows)"
  shows "set (filter (\<lambda>r. owner r = x) (cap_rows n owner key ident rows)) =
     set (top_rows n key (filter (\<lambda>r. owner r = x) rows))"
  using set_top_rows [of n key "filter (\<lambda>r. owner r = x) rows"]
  by (auto simp: cap_rows_set [OF assms])

lemma cap_rows_bound:
  assumes "distinct (map ident rows)"
  shows "length (filter (\<lambda>r. owner r = x) (cap_rows n owner key ident rows)) \<le> n"
proof -
  let ?f = "filter (\<lambda>r. owner r = x) (cap_rows n owner key ident rows)"
  have "distinct ?f" using assms by (simp add: cap_rows_def distinct_map)
  then have "length ?f = card (set (top_rows n key (filter (\<lambda>r. owner r = x) rows)))"
    using cap_rows_owner [OF assms, of owner x n key] distinct_card by metis
  also have "\<dots> \<le> length (top_rows n key (filter (\<lambda>r. owner r = x) rows))" by (rule card_length)
  finally show ?thesis by (simp add: length_top_rows)
qed

lemma cap_rows_newest:
  assumes "distinct (map ident rows)" and "r \<in> set (cap_rows n owner key ident rows)"
    and "q \<in> set rows" and "q \<notin> set (cap_rows n owner key ident rows)" and "owner q = owner r"
  shows "key q \<le> key r"
  using assms by (auto simp: cap_rows_set intro!: top_rows_greatest [of r n key "filter (\<lambda>p. owner p = owner r) rows"])

lemma cap_rows_small:
  assumes "distinct (map ident rows)" and "r \<in> set rows" and "length (filter (\<lambda>q. owner q = owner r) rows) \<le> n"
  shows "r \<in> set (cap_rows n owner key ident rows)"
  using assms by (simp add: cap_rows_set top_rows_all)

section \<open>Pruning in a working world\<close>

definition unexpired_sessions :: "time \<Rightarrow> db \<Rightarrow> RefreshSessionDBModel list" where
  "unexpired_sessions now d = delete_where (\<lambda>r. rs_ExpiresAt r < now) (o_refresh_sessions d)"

definition unexpired_revocations :: "time \<Rightarrow> db \<Rightarrow> RevokedAccessTokenDBModel list" where
  "unexpired_revocations now d = delete_where (\<lambda>r. ra_ExpiresAt r < now) (o_revoked_access_tokens d)"

definition pruned :: "time \<Rightarrow> db \<Rightarrow> db" where
  "pruned now d =
     d\<lparr>o_login_attempts := delete_where (\<lambda>r. la_WindowStartedAt r < now - loginAttemptRetention \<and>
          (case la_LockedUntil r of None \<Rightarrow> True | Some until \<Rightarrow> until < now)) (o_login_attempts d),
       o_credential_events := delete_where (\<lambda>r. ce_OccurredAt r < now - credentialEventRetention) (o_credential_events d),
       o_refresh_sessions := cap_sessions (unexpired_sessions now d),
       o_revoked_access_tokens := cap_revoked (unexpired_revocations now d)\<rparr>"

lemma exec_ignored_ready:
  "ready w \<Longrightarrow> tbl \<in> set (schema (db w)) \<Longrightarrow> exec_ignored tbl f w = w\<lparr>db := f (db w), tick := Suc (tick w)\<rparr>"
  by (simp add: exec_ignored_def sql)

lemma prune_ready:
  assumes "ready w" and "\<not> unavailable u"
  shows "\<exists>k. PruneAuthState u now w = w\<lparr>db := pruned now (db w), tick := k\<rparr>"
  using assms
  by (simp add: PruneAuthState_def Let_def exec_ignored_ready pruned_def unexpired_sessions_def unexpired_revocations_def)
    blast

lemma pruned_users [simp]: "o_users (pruned now d) = o_users d" "migrated (pruned now d) = migrated d"
  by (simp_all add: pruned_def)

lemma pruned_sub:
  "set (o_refresh_sessions (pruned now d)) \<subseteq> set (o_refresh_sessions d)"
  "set (o_revoked_access_tokens (pruned now d)) \<subseteq> set (o_revoked_access_tokens d)"
  by (auto simp: pruned_def unexpired_sessions_def unexpired_revocations_def cap_sessions_def cap_revoked_def)

lemma unexpired_distinct:
  assumes "wf_db d"
  shows "distinct (map rs_ID (unexpired_sessions now d))" "distinct (map ra_JTI (unexpired_revocations now d))"
  using assms by (simp_all add: unexpired_sessions_def unexpired_revocations_def distinct_delete_where wf_dbD)

lemma filter_unexpired:
  "filter (\<lambda>r. rs_UserID r = x) (unexpired_sessions now d) =
     filter (\<lambda>r. rs_UserID r = x \<and> now \<le> rs_ExpiresAt r) (o_refresh_sessions d)"
  "filter (\<lambda>r. ra_UserID r = x) (unexpired_revocations now d) =
     filter (\<lambda>r. ra_UserID r = x \<and> now \<le> ra_ExpiresAt r) (o_revoked_access_tokens d)"
  by (simp_all add: unexpired_sessions_def unexpired_revocations_def delete_where_def not_less conj_commute)

lemma set_unexpired:
  "set (unexpired_sessions now d) = {r \<in> set (o_refresh_sessions d). now \<le> rs_ExpiresAt r}"
  "set (unexpired_revocations now d) = {r \<in> set (o_revoked_access_tokens d). now \<le> ra_ExpiresAt r}"
  by (auto simp: unexpired_sessions_def unexpired_revocations_def)

lemma find_filter: "find P xs = Some x \<Longrightarrow> Q x \<Longrightarrow> find P (filter Q xs) = Some x"
  by (induction xs) (auto split: if_splits)

lemma lock_survives:
  assumes "locked_at (attempt_of key d) now"
  shows "attempt_of key (pruned now d) = attempt_of key d"
proof -
  obtain r until where r: "find (\<lambda>r. la_Key r = key) (o_login_attempts d) = Some r" "la_LockedUntil r = Some until" "now < until"
    using assms by (auto simp: locked_at_def attempt_of_def split: option.splits)
  then show ?thesis
    by (simp add: attempt_of_def pruned_def delete_where_def find_filter)
qed


text \<open>
  C19.  The audit listing is bounded and newest first: at most \<open>limit\<close> and at most 100 events, only
  the actor's own when an actor is given, in descending order of their ids, and an event that is left
  out is not newer than any that is listed.
\<close>

theorem ListCredentialEvents_newest:
  assumes "ListCredentialEvents u actor limit w = (evs, w')" and "evs \<noteq> []"
  shows "length evs \<le> 100 \<and> (0 < limit \<longrightarrow> int (length evs) \<le> limit) \<and>
    set evs \<subseteq> set (o_credential_events (db (interfered w))) \<and>
    (0 < actor \<longrightarrow> (\<forall>e \<in> set evs. ce_ActorUserID e = actor)) \<and>
    sorted_wrt (\<lambda>x y. ce_ID y \<le> ce_ID x) evs \<and>
    (\<forall>e \<in> set evs. \<forall>q \<in> set (o_credential_events (db (interfered w))).
       (0 < actor \<longrightarrow> ce_ActorUserID q = actor) \<and> q \<notin> set evs \<longrightarrow> ce_ID q \<le> ce_ID e)"
proof -
  define n where "n = (if limit \<le> 0 \<or> limit > credentialEventCap then credentialEventCap else limit)"
  define rows where "rows = filter (\<lambda>r. actor > 0 \<longrightarrow> ce_ActorUserID r = actor) (o_credential_events (db (interfered w)))"
  have e: "evs = top_rows (nat n) ce_ID rows"
    using assms
    by (auto simp: ListCredentialEvents_def n_def rows_def top_rows_def Let_def
        split: if_splits prod.splits sum.splits dest!: autocommit_ok)
  have "sorted_wrt (\<lambda>x y. ce_ID y \<le> ce_ID x) evs"
    unfolding e top_rows_def using sorted_sort_key [of ce_ID rows]
    by (intro sorted_wrt_take) (simp add: sorted_wrt_rev sorted_map)
  moreover have "length evs \<le> nat n" by (simp add: e length_top_rows)
  moreover have "set evs \<subseteq> set rows" unfolding e by (rule set_top_rows)
  moreover have "ce_ID q \<le> ce_ID x" if "x \<in> set evs" "q \<in> set rows" "q \<notin> set evs" for x q
    using that unfolding e by (rule top_rows_greatest)
  ultimately show ?thesis
    unfolding rows_def n_def by (auto simp: credentialEventCap_def split: if_splits)
qed

section \<open>At a concrete store\<close>


definition event_db :: db where
  "event_db = empty_db\<lparr>o_credential_events :=
     [\<lparr>ce_ID = 1, ce_OccurredAt = 0, ce_InstallationID = [], ce_ActorUserID = 1, ce_EventType = ''logout'',
       ce_Success = True, ce_Source = [], ce_Detail = []\<rparr>]\<rparr>"

theorem ListCredentialEvents_newest_witness:
  "\<exists>evs w'. ListCredentialEvents (Some sample_service) 1 0 (calm_world event_db) = (evs, w') \<and> length evs = 1 \<and>
     (\<forall>e \<in> set evs. ce_ActorUserID e = 1)"
proof -
  obtain evs w' where l: "ListCredentialEvents (Some sample_service) 1 0 (calm_world event_db) = (evs, w')" by fastforce
  moreover from l have "length evs = 1"
    by (auto simp: ListCredentialEvents_def sql event_db_def credentialEventCap_def)
  moreover from this have "evs \<noteq> []" by auto
  ultimately show ?thesis using ListCredentialEvents_newest [OF l] by auto
qed

end
