(* ===== verification/Files.thy ===== *)
theory Files
  imports Store Go_Encoding
begin

unbundle bit_operations_syntax

text \<open>
  The part of the operating system that the file-handling packages use: Go's lexical path
  functions, and a file system of inodes and directory entries with the calls that \<open>os\<close>,
  \<open>os.Root\<close> and \<open>golang.org/x/sys/unix\<close> make.  Between two calls other processes may change the
  file system in any way (\<open>fs_interfere\<close>), and any call may fail (\<open>sys_fault\<close>).  An open file is
  the number of its inode: it stays valid when its name is replaced or removed.
\<close>

section \<open>Paths\<close>

definition IsAbs :: "string \<Rightarrow> bool" where
  "IsAbs p = HasPrefix p ''/''"

fun clean_step :: "bool \<Rightarrow> string list \<Rightarrow> string \<Rightarrow> string list" where
  "clean_step rooted stack c =
     (if c = [] \<or> c = ''.'' then stack
      else if c = ''..'' then
        (case stack of
           [] \<Rightarrow> if rooted then [] else [''..'']
         | s # ss \<Rightarrow> if s = ''..'' then ''..'' # stack else ss)
      else c # stack)"

definition Clean :: "string \<Rightarrow> string" where
  "Clean p =
     (let rooted = IsAbs p;
          body = join_with (CHR ''/'') (rev (foldl (clean_step rooted) [] (Split p (CHR ''/'')))) in
      if rooted then CHR ''/'' # body else if body = [] then ''.'' else body)"

text \<open>\<open>filepath.Join\<close> of two elements: empty elements are ignored.\<close>

definition path_Join :: "string \<Rightarrow> string \<Rightarrow> string" where
  "path_Join a b =
     (if a = [] then (if b = [] then [] else Clean b)
      else if b = [] then Clean a else Clean (a @ CHR ''/'' # b))"

definition path_Dir :: "string \<Rightarrow> string" where
  "path_Dir p = Clean (rev (dropWhile (\<lambda>c. c \<noteq> CHR ''/'') (rev p)))"

definition path_Base :: "string \<Rightarrow> string" where
  "path_Base p =
     (if p = [] then ''.''
      else let q = rev (dropWhile (\<lambda>c. c = CHR ''/'') (rev p)) in
           if q = [] then ''/'' else rev (takeWhile (\<lambda>c. c \<noteq> CHR ''/'') (rev q)))"

section \<open>Inodes\<close>

datatype kind = Regular | Directory | Symlink | Special

record inode =
  i_kind :: kind
  i_perm :: nat
  i_uid :: int
  i_nlink :: nat
  i_data :: string

text \<open>\<open>flocks\<close> maps an inode to the open file that holds its exclusive \<open>flock\<close>.\<close>

record fs =
  inodes :: "nat \<Rightarrow> inode option"
  dirents :: "nat \<Rightarrow> (string \<times> nat) list"
  next_ino :: nat
  flocks :: "nat \<Rightarrow> nat option"

definition entries :: "fs \<Rightarrow> nat \<Rightarrow> string \<Rightarrow> nat option" where
  "entries f d name = map_of (dirents f d) name"

definition add_entry :: "nat \<Rightarrow> string \<Rightarrow> nat \<Rightarrow> fs \<Rightarrow> fs" where
  "add_entry d name i f = f\<lparr>dirents := (dirents f)(d := (name, i) # dirents f d)\<rparr>"

definition del_entry :: "nat \<Rightarrow> string \<Rightarrow> fs \<Rightarrow> fs" where
  "del_entry d name f = f\<lparr>dirents := (dirents f)(d := filter (\<lambda>e. fst e \<noteq> name) (dirents f d))\<rparr>"

definition root_ino :: nat where "root_ino = 0"

text \<open>\<open>os.FileInfo\<close>; \<open>os.SameFile\<close> compares inode numbers.\<close>

record FileInfo =
  fi_ino :: nat
  fi_node :: inode

definition SameFile :: "FileInfo \<Rightarrow> FileInfo \<Rightarrow> bool" where
  "SameFile a b = (fi_ino a = fi_ino b)"

definition IsRegular :: "FileInfo \<Rightarrow> bool" where
  "IsRegular i = (i_kind (fi_node i) = Regular)"

definition IsDir :: "FileInfo \<Rightarrow> bool" where
  "IsDir i = (i_kind (fi_node i) = Directory)"

definition IsSymlink :: "FileInfo \<Rightarrow> bool" where
  "IsSymlink i = (i_kind (fi_node i) = Symlink)"

definition Perm :: "FileInfo \<Rightarrow> nat" where
  "Perm i = i_perm (fi_node i)"

definition FileUID :: "FileInfo \<Rightarrow> int" where
  "FileUID i = i_uid (fi_node i)"

section \<open>Name resolution\<close>

text \<open>
  A walk keeps the names and inodes from the root to where it is, so \<open>..\<close> is one step back.  A
  symbolic link in the middle is always followed, a final one when \<open>follow\<close> says so; the kernel
  gives up after 40 links.
\<close>

definition cur_ino :: "(string \<times> nat) list \<Rightarrow> nat" where
  "cur_ino st = (case st of [] \<Rightarrow> root_ino | (_, i) # _ \<Rightarrow> i)"

definition is_dir :: "fs \<Rightarrow> nat \<Rightarrow> bool" where
  "is_dir f i = (case inodes f i of None \<Rightarrow> False | Some n \<Rightarrow> i_kind n = Directory)"

function walk :: "fs \<Rightarrow> bool \<Rightarrow> nat \<Rightarrow> (string \<times> nat) list \<Rightarrow> string list \<Rightarrow> error + (string \<times> nat) list" where
  "walk f follow fuel st [] = Inr st"
| "walk f follow fuel st (c # cs) =
     (if c = [] \<or> c = ''.'' then walk f follow fuel st cs
      else if c = ''..'' then walk f follow fuel (tl st) cs
      else if \<not> is_dir f (cur_ino st) then Inl (DriverError ''not a directory'')
      else
      case entries f (cur_ino st) c of
        None \<Rightarrow> Inl ErrNotExist
      | Some i \<Rightarrow>
      case inodes f i of
        None \<Rightarrow> Inl ErrNotExist
      | Some n \<Rightarrow>
          if i_kind n = Symlink \<and> (cs \<noteq> [] \<or> follow)
          then (case fuel of
                  0 \<Rightarrow> Inl (DriverError ''too many levels of symbolic links'')
                | Suc fuel' \<Rightarrow>
                    walk f follow fuel' (if IsAbs (i_data n) then [] else st)
                      (Split (i_data n) (CHR ''/'') @ cs))
          else walk f follow fuel ((c, i) # st) cs)"
  by pat_completeness auto
termination
  by (relation "inv_image (less_than <*lex*> less_than) (\<lambda>(f, follow, fuel, st, cs). (fuel, length cs))") auto

definition resolve :: "fs \<Rightarrow> bool \<Rightarrow> string \<Rightarrow> error + (string \<times> nat) list" where
  "resolve f follow p = walk f follow 40 [] (Split p (CHR ''/''))"

text \<open>The directory and the name that a path denotes, for calls that create or remove names.\<close>

definition resolve_parent :: "fs \<Rightarrow> string \<Rightarrow> error + nat \<times> string" where
  "resolve_parent f p =
     (let cs = filter (\<lambda>c. c \<noteq> []) (Split p (CHR ''/'')) in
      if cs = [] then Inl ErrExist
      else (case walk f True 40 [] (butlast cs) of
              Inl e \<Rightarrow> Inl e
            | Inr st \<Rightarrow> if is_dir f (cur_ino st) then Inr (cur_ino st, last cs)
                        else Inl (DriverError ''not a directory'')))"

definition info :: "fs \<Rightarrow> nat \<Rightarrow> error + FileInfo" where
  "info f i = (case inodes f i of None \<Rightarrow> Inl ErrNotExist | Some n \<Rightarrow> Inr \<lparr>fi_ino = i, fi_node = n\<rparr>)"

section \<open>The process\<close>

text \<open>
  \<open>cwd\<close> is the working directory, \<open>temp_names\<close> the random suffixes \<open>os.CreateTemp\<close> tries.
\<close>

record sysenv =
  sys_fault :: "nat \<Rightarrow> string option"
  fs_interfere :: "nat \<Rightarrow> fs \<Rightarrow> fs"
  euid :: int
  umask :: nat
  cwd :: string
  temp_names :: "nat \<Rightarrow> nat \<Rightarrow> string"

record fs_world = world +
  files :: fs
  sys :: sysenv

type_synonym ('a, 'x) sysop = "'x fs_world_scheme \<Rightarrow> (error + 'a) \<times> 'x fs_world_scheme"

definition sys_call :: "(fs \<Rightarrow> error + 'a \<times> fs) \<Rightarrow> ('a, 'x) sysop" where
  "sys_call f w =
     (let g = fs_interfere (sys w) (tick w) (files w); w1 = w\<lparr>files := g, tick := Suc (tick w)\<rparr> in
      case sys_fault (sys w) (tick w) of
        Some m \<Rightarrow> (Inl (DriverError m), w1)
      | None \<Rightarrow> (case f g of Inl e \<Rightarrow> (Inl e, w1) | Inr (r, g') \<Rightarrow> (Inr r, w1\<lparr>files := g'\<rparr>)))"

definition mode_bits :: "'x fs_world_scheme \<Rightarrow> nat \<Rightarrow> nat" where
  "mode_bits w perm = perm AND (511 - (umask (sys w) AND 511))"

definition os_IsNotExist :: "error \<Rightarrow> bool" where
  "os_IsNotExist e = (e = ErrNotExist)"

definition os_IsExist :: "error \<Rightarrow> bool" where
  "os_IsExist e = (e = ErrExist)"

section \<open>Calls\<close>

definition os_Lstat :: "string \<Rightarrow> (FileInfo, 'x) sysop" where
  "os_Lstat p = sys_call (\<lambda>f. case resolve f False p of
     Inl e \<Rightarrow> Inl e | Inr st \<Rightarrow> (case info f (cur_ino st) of Inl e \<Rightarrow> Inl e | Inr i \<Rightarrow> Inr (i, f)))"

definition file_Stat :: "nat \<Rightarrow> (FileInfo, 'x) sysop" where
  "file_Stat h = sys_call (\<lambda>f. case info f h of Inl e \<Rightarrow> Inl e | Inr i \<Rightarrow> Inr (i, f))"

text \<open>Opening for reading, with or without \<open>O_NOFOLLOW\<close>.\<close>

definition open_read :: "bool \<Rightarrow> string \<Rightarrow> (nat, 'x) sysop" where
  "open_read nofollow p = sys_call (\<lambda>f. case resolve f (\<not> nofollow) p of
     Inl e \<Rightarrow> Inl e
   | Inr st \<Rightarrow>
       (case inodes f (cur_ino st) of
          None \<Rightarrow> Inl ErrNotExist
        | Some n \<Rightarrow> if i_kind n = Symlink then Inl (DriverError ''too many levels of symbolic links'')
                    else Inr (cur_ino st, f)))"

definition add_node :: "nat \<Rightarrow> string \<Rightarrow> inode \<Rightarrow> fs \<Rightarrow> fs" where
  "add_node d name n f =
     (add_entry d name (next_ino f) f)\<lparr>inodes := (inodes f)(next_ino f := Some n),
       next_ino := Suc (next_ino f)\<rparr>"

text \<open>
  Opening for writing with \<open>O_CREAT\<close>: an existing regular file is opened (a final symbolic link
  is an error under \<open>O_NOFOLLOW\<close> and is followed otherwise), \<open>O_EXCL\<close> refuses every existing name.
\<close>

definition open_create :: "bool \<Rightarrow> bool \<Rightarrow> string \<Rightarrow> nat \<Rightarrow> (nat, 'x) sysop" where
  "open_create nofollow excl p perm w = sys_call (\<lambda>f. case resolve_parent f p of
     Inl e \<Rightarrow> Inl e
   | Inr (d, name) \<Rightarrow>
       (case entries f d name of
          None \<Rightarrow> Inr (next_ino f, add_node d name
            \<lparr>i_kind = Regular, i_perm = mode_bits w perm, i_uid = euid (sys w), i_nlink = 1, i_data = []\<rparr> f)
        | Some _ \<Rightarrow>
            if excl then Inl ErrExist
            else (case resolve f (\<not> nofollow) p of
                    Inl e \<Rightarrow> Inl e
                  | Inr st \<Rightarrow>
                      (case inodes f (cur_ino st) of
                         None \<Rightarrow> Inl ErrNotExist
                       | Some n \<Rightarrow>
                           if i_kind n = Symlink then Inl (DriverError ''too many levels of symbolic links'')
                           else if i_kind n = Directory then Inl (DriverError ''is a directory'')
                           else Inr (cur_ino st, f))))) w"

text \<open>\<open>io.ReadAll (io.LimitReader (file, limit))\<close>\<close>

definition read_limited :: "nat \<Rightarrow> nat \<Rightarrow> (string, 'x) sysop" where
  "read_limited h limit = sys_call (\<lambda>f. case inodes f h of
     None \<Rightarrow> Inl ErrNotExist
   | Some n \<Rightarrow> if i_kind n = Directory then Inl (DriverError ''is a directory'')
               else Inr (take limit (i_data n), f))"

definition set_node :: "nat \<Rightarrow> (inode \<Rightarrow> inode) \<Rightarrow> fs \<Rightarrow> fs" where
  "set_node i g f = f\<lparr>inodes := (inodes f)(i := map_option g (inodes f i))\<rparr>"

definition file_Write :: "nat \<Rightarrow> string \<Rightarrow> (unit, 'x) sysop" where
  "file_Write h data = sys_call (\<lambda>f. case inodes f h of
     None \<Rightarrow> Inl ErrNotExist
   | Some n \<Rightarrow> Inr ((), set_node h (\<lambda>n. n\<lparr>i_data := i_data n @ data\<rparr>) f))"

definition file_Chmod :: "nat \<Rightarrow> nat \<Rightarrow> (unit, 'x) sysop" where
  "file_Chmod h perm = sys_call (\<lambda>f. case inodes f h of
     None \<Rightarrow> Inl ErrNotExist
   | Some n \<Rightarrow> Inr ((), set_node h (\<lambda>n. n\<lparr>i_perm := perm\<rparr>) f))"

definition os_Chmod :: "string \<Rightarrow> nat \<Rightarrow> (unit, 'x) sysop" where
  "os_Chmod p perm = sys_call (\<lambda>f. case resolve f True p of
     Inl e \<Rightarrow> Inl e
   | Inr st \<Rightarrow> Inr ((), set_node (cur_ino st) (\<lambda>n. n\<lparr>i_perm := perm\<rparr>) f))"

text \<open>\<open>Sync\<close> and \<open>Close\<close> change nothing that a later call of this process can see.\<close>

definition file_Sync :: "nat \<Rightarrow> (unit, 'x) sysop" where
  "file_Sync h = sys_call (\<lambda>f. Inr ((), f))"

definition file_Close :: "nat \<Rightarrow> (unit, 'x) sysop" where
  "file_Close h = sys_call (\<lambda>f. Inr ((), f))"

definition os_Link :: "string \<Rightarrow> string \<Rightarrow> (unit, 'x) sysop" where
  "os_Link old new = sys_call (\<lambda>f. case resolve f False old of
     Inl e \<Rightarrow> Inl e
   | Inr st \<Rightarrow>
       (case resolve_parent f new of
          Inl e \<Rightarrow> Inl e
        | Inr (d, name) \<Rightarrow>
            if entries f d name \<noteq> None then Inl ErrExist
            else if is_dir f (cur_ino st) then Inl (DriverError ''operation not permitted'')
            else Inr ((), set_node (cur_ino st) (\<lambda>n. n\<lparr>i_nlink := Suc (i_nlink n)\<rparr>)
                   (add_entry d name (cur_ino st) f))))"

definition unlink :: "nat \<Rightarrow> string \<Rightarrow> nat \<Rightarrow> fs \<Rightarrow> fs" where
  "unlink d name i f =
     set_node i (\<lambda>n. n\<lparr>i_nlink := i_nlink n - 1\<rparr>) (del_entry d name f)"

definition os_Remove :: "string \<Rightarrow> (unit, 'x) sysop" where
  "os_Remove p = sys_call (\<lambda>f. case resolve_parent f p of
     Inl e \<Rightarrow> Inl e
   | Inr (d, name) \<Rightarrow>
       (case entries f d name of
          None \<Rightarrow> Inl ErrNotExist
        | Some i \<Rightarrow>
            if is_dir f i \<and> dirents f i \<noteq> [] then Inl (DriverError ''directory not empty'')
            else Inr ((), unlink d name i f)))"

definition os_Mkdir :: "string \<Rightarrow> nat \<Rightarrow> (unit, 'x) sysop" where
  "os_Mkdir p perm w = sys_call (\<lambda>f. case resolve_parent f p of
     Inl e \<Rightarrow> Inl e
   | Inr (d, name) \<Rightarrow>
       if entries f d name \<noteq> None then Inl ErrExist
       else Inr ((), add_node d name \<lparr>i_kind = Directory, i_perm = mode_bits w perm,
              i_uid = euid (sys w), i_nlink = 2, i_data = []\<rparr> f)) w"

text \<open>\<open>os.Stat\<close> follows a final link.\<close>

definition os_Stat :: "string \<Rightarrow> (FileInfo, 'x) sysop" where
  "os_Stat p = sys_call (\<lambda>f. case resolve f True p of
     Inl e \<Rightarrow> Inl e | Inr st \<Rightarrow> (case info f (cur_ino st) of Inl e \<Rightarrow> Inl e | Inr i \<Rightarrow> Inr (i, f)))"

text \<open>
  \<open>os.MkdirAll\<close> makes the missing directories of a path from the outermost in, and accepts every
  directory that is already there.
\<close>

fun mkdir_prefixes :: "string list \<Rightarrow> nat \<Rightarrow> (unit, 'x) sysop" where
  "mkdir_prefixes [] perm w = (Inr (), w)"
| "mkdir_prefixes (p # ps) perm w =
     (case os_Stat p w of
        (Inr i, w1) \<Rightarrow>
          if IsDir i then mkdir_prefixes ps perm w1 else (Inl (DriverError ''not a directory''), w1)
      | (Inl _, w1) \<Rightarrow>
          (case os_Mkdir p perm w1 of
             (Inr _, w2) \<Rightarrow> mkdir_prefixes ps perm w2
           | (Inl e, w2) \<Rightarrow>
               (case os_Lstat p w2 of
                  (Inr i, w3) \<Rightarrow> if IsDir i then mkdir_prefixes ps perm w3 else (Inl e, w3)
                | (Inl _, w3) \<Rightarrow> (Inl e, w3))))"

definition path_prefixes :: "string \<Rightarrow> string list" where
  "path_prefixes p =
     (let cs = filter (\<lambda>c. c \<noteq> []) (Split p (CHR ''/''));
          start = (if IsAbs p then [CHR ''/''] else []) in
      map (\<lambda>k. start @ join_with (CHR ''/'') (take (Suc k) cs)) [0..<length cs])"

definition os_MkdirAll :: "string \<Rightarrow> nat \<Rightarrow> (unit, 'x) sysop" where
  "os_MkdirAll p perm = mkdir_prefixes (path_prefixes p) perm"

text \<open>\<open>filepath.EvalSymlinks\<close>: the path without links, spelled from the root.\<close>

definition EvalSymlinks :: "string \<Rightarrow> (string, 'x) sysop" where
  "EvalSymlinks p = sys_call (\<lambda>f. case resolve f True p of
     Inl e \<Rightarrow> Inl e
   | Inr st \<Rightarrow> Inr (CHR ''/'' # join_with (CHR ''/'') (rev (map fst st)), f))"

text \<open>\<open>filepath.Abs\<close>\<close>

definition path_Abs :: "string \<Rightarrow> 'x fs_world_scheme \<Rightarrow> string" where
  "path_Abs p w = (if IsAbs p then Clean p else path_Join (cwd (sys w)) p)"

text \<open>
  \<open>os.CreateTemp\<close>: the first of at most 10000 random names that does not exist, created with
  \<open>O_EXCL\<close> and mode 0600.
\<close>

fun create_temp :: "nat \<Rightarrow> string \<Rightarrow> string \<Rightarrow> nat \<Rightarrow> (string \<times> nat, 'x) sysop" where
  "create_temp 0 dir pre k w = (Inl ErrExist, w)"
| "create_temp (Suc tries) dir pre k w =
     (let p = path_Join dir (pre @ temp_names (sys w) (tick w) k) in
      case open_create False True p 384 w of
        (Inr h, w1) \<Rightarrow> (Inr (p, h), w1)
      | (Inl e, w1) \<Rightarrow> if os_IsExist e then create_temp tries dir pre (Suc k) w1 else (Inl e, w1))"

definition os_CreateTemp :: "string \<Rightarrow> string \<Rightarrow> (string \<times> nat, 'x) sysop" where
  "os_CreateTemp dir pre = create_temp 10000 dir pre 0"

section \<open>Lemmas\<close>

subsection \<open>Paths of plain components\<close>

definition plain :: "string \<Rightarrow> bool" where
  "plain c \<longleftrightarrow> c \<noteq> [] \<and> c \<noteq> ''.'' \<and> c \<noteq> ''..'' \<and> CHR ''/'' \<notin> set c"

definition abs_path :: "string list \<Rightarrow> string" where
  "abs_path cs = CHR ''/'' # join_with (CHR ''/'') cs"

lemma Split_abs_path:
  "list_all plain cs \<Longrightarrow> Split (abs_path cs) (CHR ''/'') = (if cs = [] then [[], []] else [] # cs)"
proof (cases cs)
  case (Cons c cs')
  assume "list_all plain cs"
  then have "Split (join_with (CHR ''/'') cs) (CHR ''/'') = cs"
    using Cons by (intro Split_join) (auto simp: list_all_iff plain_def)
  then show ?thesis using Cons by (simp add: abs_path_def Split.simps(2))
qed (simp add: abs_path_def Split.simps(2))

lemma clean_plain: "list_all plain cs \<Longrightarrow> foldl (clean_step r) st cs = rev cs @ st"
  by (induction cs arbitrary: st) (auto simp: plain_def)

lemma IsAbs_abs_path [simp]: "IsAbs (abs_path cs)"
  by (simp add: IsAbs_def abs_path_def HasPrefix_def)

lemma Clean_abs_path [simp]: "list_all plain cs \<Longrightarrow> Clean (abs_path cs) = abs_path cs"
  by (simp add: Clean_def Let_def Split_abs_path clean_plain) (simp add: abs_path_def)

lemma abs_path_snoc: "cs \<noteq> [] \<Longrightarrow> abs_path cs @ CHR ''/'' # c = abs_path (cs @ [c])"
proof -
  have "cs \<noteq> [] \<Longrightarrow> join_with d cs @ d # c = join_with d (cs @ [c])" for d
    by (induction d cs rule: join_with.induct) auto
  then show "cs \<noteq> [] \<Longrightarrow> ?thesis" by (simp add: abs_path_def)
qed

lemma Join_abs_path:
  assumes "list_all plain cs" and "plain c"
  shows "path_Join (abs_path cs) c = abs_path (cs @ [c])"
proof (cases "cs = []")
  case False
  have "path_Join (abs_path cs) c = Clean (abs_path (cs @ [c]))"
    using assms(2) False by (simp add: path_Join_def plain_def abs_path_snoc) (simp add: abs_path_def)
  with assms show ?thesis by simp
next
  case True
  have "Split (''//'' @ c) (CHR ''/'') = [[], [], c]"
    using assms(2) Split_no_sep [of "CHR ''/''" c] by (simp add: Split.simps(2) plain_def)
  with True assms(2) show ?thesis
    by (simp add: path_Join_def abs_path_def Clean_def IsAbs_def HasPrefix_def Let_def plain_def)
qed

lemma dir_part:
  "CHR ''/'' \<notin> set c \<Longrightarrow> rev (dropWhile (\<lambda>c. c \<noteq> CHR ''/'') (rev (a @ CHR ''/'' # c))) = a @ ''/''"
proof -
  assume "CHR ''/'' \<notin> set c"
  then have "dropWhile (\<lambda>c. c \<noteq> CHR ''/'') (rev c @ CHR ''/'' # rev a) = CHR ''/'' # rev a"
    by (subst dropWhile_append2) auto
  then show ?thesis by simp
qed

lemma Split_snoc: "Split (s @ [d]) d = Split s d @ [[]]"
proof (induction s)
  case (Cons c s)
  then show ?case by (cases "Split s d") (simp_all add: Split.simps(2))
qed (simp add: Split.simps(2))

lemma Dir_abs_path:
  assumes "list_all plain (cs @ [c])"
  shows "path_Dir (abs_path (cs @ [c])) = abs_path cs"
proof -
  have nc: "CHR ''/'' \<notin> set c" using assms by (simp add: plain_def)
  have cl: "foldl (clean_step True) [] (Split (abs_path cs) (CHR ''/'')) = rev cs"
    using assms by (simp add: Split_abs_path clean_plain)
  show ?thesis
  proof (cases "cs = []")
    case False
    then have "path_Dir (abs_path (cs @ [c])) = Clean (abs_path cs @ ''/'')"
      using nc by (simp add: path_Dir_def abs_path_snoc [symmetric] dir_part [simplified])
    also have "\<dots> = abs_path cs"
      using cl by (simp add: Clean_def IsAbs_def HasPrefix_def Let_def Split_snoc) (simp add: abs_path_def)
    finally show ?thesis .
  next
    case True
    then show ?thesis
      using nc dir_part [of c "[]"] by (simp add: path_Dir_def abs_path_def Clean_def IsAbs_def
          HasPrefix_def Let_def Split.simps(2))
  qed
qed

subsection \<open>Walks through real directories\<close>

lemma entries_add [simp]:
  "entries (add_entry d name i f) d' n = (if d' = d \<and> n = name then Some i else entries f d' n)"
  by (auto simp: entries_def add_entry_def)

lemma map_of_del: "map_of (filter (\<lambda>e. fst e \<noteq> name) xs) n = (if n = name then None else map_of xs n)"
  by (induction xs) auto

lemma entries_del [simp]:
  "entries (del_entry d name f) d' n = (if d' = d \<and> n = name then None else entries f d' n)"
  by (simp add: entries_def del_entry_def map_of_del)

lemma entries_upd [simp]:
  "entries (f\<lparr>inodes := x\<rparr>) = entries f" "entries (f\<lparr>next_ino := y\<rparr>) = entries f"
  "entries (f\<lparr>flocks := z\<rparr>) = entries f"
  by (simp_all add: entries_def [abs_def])

lemma add_del_fields [simp]:
  "inodes (add_entry d name i f) = inodes f" "next_ino (add_entry d name i f) = next_ino f"
  "inodes (del_entry d name f) = inodes f" "next_ino (del_entry d name f) = next_ino f"
  by (simp_all add: add_entry_def del_entry_def)

text \<open>A chain of real directories from an inode down.\<close>

fun chain :: "fs \<Rightarrow> nat \<Rightarrow> string list \<Rightarrow> nat \<Rightarrow> bool" where
  "chain f i [] j \<longleftrightarrow> i = j \<and> is_dir f i"
| "chain f i (c # cs) j \<longleftrightarrow> plain c \<and> is_dir f i \<and> (\<exists>k. entries f i c = Some k \<and> chain f k cs j)"

lemma chain_plain: "chain f i cs j \<Longrightarrow> list_all plain cs"
  by (induction cs arbitrary: i) auto

lemma chain_dir: "chain f i cs j \<Longrightarrow> is_dir f i \<and> is_dir f j"
  by (induction cs arbitrary: i) auto

lemma chain_append: "chain f i (cs @ ds) j \<longleftrightarrow> (\<exists>k. chain f i cs k \<and> chain f k ds j)"
  by (induction cs arbitrary: i) (auto dest: chain_dir)

lemma walk_chain:
  assumes "chain f (cur_ino st) cs j"
  shows "\<exists>st'. cur_ino st' = j \<and> (\<forall>ds. walk f follow fuel st (cs @ ds) = walk f follow fuel st' ds)"
  using assms
proof (induction cs arbitrary: st)
  case Nil
  then show ?case by auto
next
  case (Cons c cs)
  then obtain k where c: "plain c" "is_dir f (cur_ino st)" "entries f (cur_ino st) c = Some k"
    and k: "chain f k cs j" by auto
  obtain n where n: "inodes f k = Some n" "i_kind n = Directory"
    using chain_dir [OF k] by (auto simp: is_dir_def split: option.splits)
  obtain st' where "cur_ino st' = j"
    "\<And>ds. walk f follow fuel ((c, k) # st) (cs @ ds) = walk f follow fuel st' ds"
    using Cons.IH [of "(c, k) # st"] k by (auto simp: cur_ino_def)
  with c n show ?case by (intro exI [of _ st']) (auto simp: plain_def)
qed

lemma resolve_chain:
  assumes "chain f root_ino cs j"
  shows "\<exists>st. resolve f follow (abs_path cs) = Inr st \<and> cur_ino st = j"
proof -
  obtain st' where "cur_ino st' = j" "\<And>ds. walk f follow 40 [] (cs @ ds) = walk f follow 40 st' ds"
    using walk_chain [of f "[]" cs j follow 40] assms by (auto simp: cur_ino_def)
  from this(1) this(2) [of "[]"] show ?thesis
    using chain_plain [OF assms] by (auto simp: resolve_def Split_abs_path)
qed

text \<open>A file, a link or nothing at the end of a chain.\<close>

lemma resolve_leaf:
  assumes "chain f root_ino cs d" and "plain c" and "entries f d c = Some i" and "inodes f i = Some n"
    and "i_kind n \<noteq> Symlink"
  shows "\<exists>st. resolve f follow (abs_path (cs @ [c])) = Inr st \<and> cur_ino st = i"
proof -
  obtain st' where st': "cur_ino st' = d" "\<And>ds. walk f follow 40 [] (cs @ ds) = walk f follow 40 st' ds"
    using walk_chain [of f "[]" cs d follow 40] assms(1) by (auto simp: cur_ino_def)
  have "walk f follow 40 st' [c] = Inr ((c, i) # st')"
    using st'(1) assms chain_dir [OF assms(1)] by (auto simp: plain_def)
  then show ?thesis
    using chain_plain [OF assms(1)] assms(2) st'(2) [of "[c]"]
    by (simp add: resolve_def Split_abs_path cur_ino_def)
qed

lemma resolve_missing:
  assumes "chain f root_ino cs d" and "plain c" and "entries f d c = None"
  shows "resolve f follow (abs_path (cs @ [c])) = Inl ErrNotExist"
proof -
  obtain st' where st': "cur_ino st' = d" "\<And>ds. walk f follow 40 [] (cs @ ds) = walk f follow 40 st' ds"
    using walk_chain [of f "[]" cs d follow 40] assms(1) by (auto simp: cur_ino_def)
  have "walk f follow 40 st' [c] = Inl ErrNotExist"
    using st'(1) assms chain_dir [OF assms(1)] by (auto simp: plain_def)
  then show ?thesis
    using chain_plain [OF assms(1)] assms(2) st'(2) [of "[c]"] by (simp add: resolve_def Split_abs_path)
qed

lemma filter_plain: "list_all plain cs \<Longrightarrow> filter (\<lambda>c. c \<noteq> []) cs = cs"
  by (induction cs) (auto simp: plain_def)

lemma resolve_parent_chain:
  assumes "chain f root_ino cs d" and "plain c"
  shows "resolve_parent f (abs_path (cs @ [c])) = Inr (d, c)"
proof -
  have pl: "list_all plain (cs @ [c])" using chain_plain [OF assms(1)] assms(2) by simp
  obtain st' where st': "cur_ino st' = d" "\<And>ds. walk f True 40 [] (cs @ ds) = walk f True 40 st' ds"
    using walk_chain [of f "[]" cs d True 40] assms(1) by (auto simp: cur_ino_def)
  have "filter (\<lambda>c. c \<noteq> []) (Split (abs_path (cs @ [c])) (CHR ''/'')) = cs @ [c]"
    using pl filter_plain [OF pl] by (simp add: Split_abs_path)
  then show ?thesis
    using st'(1) st'(2) [of "[]"] chain_dir [OF assms(1)]
    by (simp add: resolve_parent_def Let_def)
qed

text \<open>Adding names does not disturb a chain.\<close>

lemma chain_mono:
  assumes "chain f i cs j" and "\<And>d n k. entries f d n = Some k \<Longrightarrow> is_dir f k \<Longrightarrow> entries g d n = Some k"
    and "\<And>k. is_dir f k \<Longrightarrow> is_dir g k"
  shows "chain g i cs j"
  using assms(1) by (induction cs arbitrary: i) (auto dest: chain_dir intro: assms(2,3))

subsection \<open>Calls in an undisturbed system\<close>

definition sys_quiet :: "'x fs_world_scheme \<Rightarrow> bool" where
  "sys_quiet w \<longleftrightarrow> sys_fault (sys w) = (\<lambda>_. None) \<and> fs_interfere (sys w) = (\<lambda>_ f. f)"

lemma sys_quiet_upd [simp]:
  "sys_quiet (w\<lparr>files := f\<rparr>) = sys_quiet w" "sys_quiet (w\<lparr>tick := n\<rparr>) = sys_quiet w"
  "sys_quiet (w\<lparr>db := d\<rparr>) = sys_quiet w" "sys_quiet (w\<lparr>kdf := k\<rparr>) = sys_quiet w"
  by (simp_all add: sys_quiet_def)

lemma sys_call_quiet [sql]:
  "sys_quiet w \<Longrightarrow> sys_call f w =
     (case f (files w) of
        Inl e \<Rightarrow> (Inl e, w\<lparr>tick := Suc (tick w)\<rparr>)
      | Inr (r, g) \<Rightarrow> (Inr r, w\<lparr>files := g, tick := Suc (tick w)\<rparr>))"
  by (auto simp: sys_call_def sys_quiet_def Let_def split: sum.splits)

lemma sys_call_frame [frame]:
  "db (snd (sys_call f w)) = db w" "env (snd (sys_call f w)) = env w"
  "kdf (snd (sys_call f w)) = kdf w" "sys (snd (sys_call f w)) = sys w"
  by (simp_all add: sys_call_def Let_def split: option.splits sum.splits)

end
