(* ===== verification/File_Seal.thy ===== *)
theory File_Seal
  imports Bootstrap Files
begin

unbundle bit_operations_syntax

text \<open>
  \<open>src/pkg/userbootstrap/file_seal.go\<close>: the installation seal as a file outside the database tree,
  and its proof of the contract that \<open>Bootstrap\<close> relies on.
\<close>

section \<open>The file seal\<close>

definition sealFormatPrefix :: string where
  "sealFormatPrefix = ''recasaos-user-bootstrap-v1:''"

definition sealTempPattern :: string where
  "sealTempPattern = ''.recasaos-bootstrap-seal-''"

record FileSeal =
  seal_path :: string
  seal_ownerUID :: int

definition NewFileSeal :: "string \<Rightarrow> int \<Rightarrow> FileSeal" where
  "NewFileSeal p uid = \<lparr>seal_path = p, seal_ownerUID = uid\<rparr>"

text \<open>On this platform every \<open>FileInfo\<close> carries its \<open>syscall.Stat_t\<close>.\<close>

definition fileOwnerUID :: "FileInfo \<Rightarrow> int \<times> bool" where
  "fileOwnerUID i = (FileUID i, True)"

definition owned_by :: "FileInfo \<Rightarrow> int \<Rightarrow> bool" where
  "owned_by i owner = (case fileOwnerUID i of (uid, ok) \<Rightarrow> ok \<and> uid = owner)"

fun reject_loop :: "string list \<Rightarrow> string \<Rightarrow> (unit, 'x) sysop" where
  "reject_loop [] current w = (Inr (), w)"
| "reject_loop (component # rest) current w =
     (if component = [] then reject_loop rest current w
      else
      let next = path_Join current component in
      case os_Lstat next w of
        (Inl e, w1) \<Rightarrow>
          if os_IsNotExist e then (Inr (), w1)
          else (Inl (Errorf ''inspect bootstrap seal ancestor'' e), w1)
      | (Inr i, w1) \<Rightarrow>
          if IsSymlink i then
            (if \<not> owned_by i 0
             then (Inl (ErrorsNew ''bootstrap seal path must not contain untrusted symlink ancestors''), w1)
             else (case EvalSymlinks next w1 of
                     (Inl e, w2) \<Rightarrow> (Inl (Errorf ''resolve trusted bootstrap seal ancestor'' e), w2)
                   | (Inr resolved, w2) \<Rightarrow> reject_loop rest resolved w2))
          else if \<not> IsDir i then (Inl (ErrorsNew ''bootstrap seal ancestor must be a directory''), w1)
          else reject_loop rest next w1)"

definition rejectSymlinkAncestors :: "string \<Rightarrow> (unit, 'x) sysop" where
  "rejectSymlinkAncestors p w =
     (let absolute = path_Abs p w in
      reject_loop (Split (TrimPrefix absolute ''/'') (CHR ''/'')) ''/'' w)"

definition seal_directory_checks :: "FileInfo \<Rightarrow> int \<Rightarrow> error + unit" where
  "seal_directory_checks i ownerUID =
     (if IsSymlink i \<or> \<not> IsDir i
      then Inl (ErrorsNew ''bootstrap seal directory must be a real directory, not a symlink'')
      else if \<not> owned_by i ownerUID
      then Inl (ErrorsNew ''bootstrap seal directory has an unexpected owner'')
      else if Perm i AND 18 \<noteq> 0
      then Inl (ErrorsNew ''bootstrap seal directory must not be writable by group or other users'')
      else Inr ())"

definition validateExistingSealDirectory :: "string \<Rightarrow> int \<Rightarrow> (unit, 'x) sysop" where
  "validateExistingSealDirectory p ownerUID w =
     (case rejectSymlinkAncestors p w of (Inl e, w1) \<Rightarrow> (Inl e, w1) | (Inr _, w1) \<Rightarrow>
      case os_Lstat p w1 of (Inl e, w2) \<Rightarrow> (Inl e, w2) | (Inr i, w2) \<Rightarrow>
      (seal_directory_checks i ownerUID, w2))"

definition ensureSealDirectory :: "string \<Rightarrow> int \<Rightarrow> (unit, 'x) sysop" where
  "ensureSealDirectory p ownerUID w =
     (case rejectSymlinkAncestors p w of (Inl e, w1) \<Rightarrow> (Inl e, w1) | (Inr _, w1) \<Rightarrow>
      case os_Lstat p w1 of
        (Inr i, w2) \<Rightarrow> (seal_directory_checks i ownerUID, w2)
      | (Inl e, w2) \<Rightarrow>
          if \<not> os_IsNotExist e then (Inl (Errorf ''inspect bootstrap seal directory'' e), w2)
          else
          case os_MkdirAll p 448 w2 of
            (Inl e, w3) \<Rightarrow> (Inl (Errorf ''create bootstrap seal directory'' e), w3)
          | (Inr _, w3) \<Rightarrow>
          case rejectSymlinkAncestors p w3 of (Inl e, w4) \<Rightarrow> (Inl e, w4) | (Inr _, w4) \<Rightarrow>
          case os_Lstat p w4 of
            (Inl e, w5) \<Rightarrow> (Inl (Errorf ''inspect created bootstrap seal directory'' e), w5)
          | (Inr i, w5) \<Rightarrow> (seal_directory_checks i ownerUID, w5))"

text \<open>What \<open>Load\<close> makes of the bytes it read.\<close>

definition parse_seal :: "string \<Rightarrow> error + string" where
  "parse_seal contents =
     (let value = TrimSuffix contents [CHR 0x0A] in
      if \<not> HasPrefix value sealFormatPrefix \<or> Contains value [CHR 0x0A]
      then Inl (ErrorsNew ''bootstrap seal has an invalid format'')
      else
      let installationID = TrimPrefix value sealFormatPrefix in
      if \<not> validInstallationID installationID
      then Inl (ErrorsNew ''bootstrap seal has an invalid installation id'')
      else Inr installationID)"

definition FileSeal_Load :: "FileSeal option \<Rightarrow> (string \<times> bool, 'x) sysop" where
  "FileSeal_Load seal w =
     (case seal of
        None \<Rightarrow> (Inl (ErrorsNew ''bootstrap seal path must be absolute''), w)
      | Some s \<Rightarrow>
      if \<not> IsAbs (seal_path s) then (Inl (ErrorsNew ''bootstrap seal path must be absolute''), w)
      else
      case validateExistingSealDirectory (path_Dir (seal_path s)) (seal_ownerUID s) w of
        (Inl e, w1) \<Rightarrow> if os_IsNotExist e then (Inr ([], False), w1) else (Inl e, w1)
      | (Inr _, w1) \<Rightarrow>
      case os_Lstat (seal_path s) w1 of
        (Inl e, w2) \<Rightarrow>
          if os_IsNotExist e then (Inr ([], False), w2)
          else (Inl (Errorf ''inspect bootstrap seal'' e), w2)
      | (Inr i, w2) \<Rightarrow>
      if IsSymlink i \<or> \<not> IsRegular i
      then (Inl (ErrorsNew ''bootstrap seal must be a regular file, not a symlink''), w2)
      else if Perm i \<noteq> 384 then (Inl (ErrorsNew ''bootstrap seal must have mode 0600''), w2)
      else if \<not> owned_by i (seal_ownerUID s)
      then (Inl (ErrorsNew ''bootstrap seal has an unexpected owner''), w2)
      else
      case open_read True (seal_path s) w2 of
        (Inl e, w3) \<Rightarrow> (Inl (Errorf ''open bootstrap seal'' e), w3)
      | (Inr fd, w3) \<Rightarrow>
      case file_Stat fd w3 of
        (Inl e, w4) \<Rightarrow> (Inl (Errorf ''inspect open bootstrap seal'' e), w4)
      | (Inr opened, w4) \<Rightarrow>
      if \<not> SameFile i opened \<or> \<not> IsRegular opened
      then (Inl (ErrorsNew ''bootstrap seal changed while opening''), w4)
      else
      case read_limited fd 128 w4 of
        (Inl e, w5) \<Rightarrow> (Inl (Errorf ''read bootstrap seal'' e), w5)
      | (Inr contents, w5) \<Rightarrow>
      case parse_seal contents of
        Inl e \<Rightarrow> (Inl e, w5)
      | Inr installationID \<Rightarrow> (Inr (installationID, True), w5))"

text \<open>
  \<open>Create\<close> from the temporary file on; the deferred \<open>Close\<close> and \<open>Remove\<close> run in \<open>FileSeal_Create\<close>
  after it, whatever it returns.
\<close>

definition publish_seal :: "FileSeal \<Rightarrow> string \<Rightarrow> string \<Rightarrow> string \<Rightarrow> nat \<Rightarrow> (unit, 'x) sysop" where
  "publish_seal s installationID directory temporaryPath temporary w =
     (case file_Chmod temporary 384 w of
        (Inl e, w1) \<Rightarrow> (Inl (Errorf ''secure temporary bootstrap seal'' e), w1)
      | (Inr _, w1) \<Rightarrow>
      case file_Stat temporary w1 of
        (Inl e, w2) \<Rightarrow> (Inl (Errorf ''inspect temporary bootstrap seal'' e), w2)
      | (Inr i, w2) \<Rightarrow>
      if \<not> owned_by i (seal_ownerUID s)
      then (Inl (ErrorsNew ''temporary bootstrap seal has an unexpected owner''), w2)
      else
      case file_Write temporary (sealFormatPrefix @ installationID @ [CHR 0x0A]) w2 of
        (Inl e, w3) \<Rightarrow> (Inl (Errorf ''write temporary bootstrap seal'' e), w3)
      | (Inr _, w3) \<Rightarrow>
      case file_Sync temporary w3 of
        (Inl e, w4) \<Rightarrow> (Inl (Errorf ''sync temporary bootstrap seal'' e), w4)
      | (Inr _, w4) \<Rightarrow>
      case file_Close temporary w4 of
        (Inl e, w5) \<Rightarrow> (Inl (Errorf ''close temporary bootstrap seal'' e), w5)
      | (Inr _, w5) \<Rightarrow>
      case os_Link temporaryPath (seal_path s) w5 of
        (Inl e, w6) \<Rightarrow>
          (case FileSeal_Load (Some s) w6 of
             (Inr (existingID, exists), w7) \<Rightarrow>
               if exists \<and> existingID = installationID then (Inr (), w7)
               else (Inl (Errorf ''publish bootstrap seal'' e), w7)
           | (Inl _, w7) \<Rightarrow> (Inl (Errorf ''publish bootstrap seal'' e), w7))
      | (Inr _, w6) \<Rightarrow>
      case open_read False directory w6 of
        (Inl e, w7) \<Rightarrow> (Inl (Errorf ''open bootstrap seal directory'' e), w7)
      | (Inr directoryHandle, w7) \<Rightarrow>
      case file_Sync directoryHandle w7 of
        (Inl e, w8) \<Rightarrow> (Inl (Errorf ''sync bootstrap seal directory'' e), snd (file_Close directoryHandle w8))
      | (Inr _, w8) \<Rightarrow> (Inr (), snd (file_Close directoryHandle w8)))"

definition FileSeal_Create :: "FileSeal \<Rightarrow> string \<Rightarrow> (unit, 'x) sysop" where
  "FileSeal_Create s installationID w =
     (if \<not> validInstallationID installationID
      then (Inl (ErrorsNew ''refuse to create a seal with an invalid installation id''), w)
      else
      case FileSeal_Load (Some s) w of
        (Inl e, w1) \<Rightarrow> (Inl e, w1)
      | (Inr (existingID, exists), w1) \<Rightarrow>
      if exists then
        (if existingID \<noteq> installationID
         then (Inl (ErrorsNew ''bootstrap seal belongs to another installation''), w1)
         else (Inr (), w1))
      else
      let directory = path_Dir (seal_path s) in
      case ensureSealDirectory directory (seal_ownerUID s) w1 of
        (Inl e, w2) \<Rightarrow> (Inl e, w2)
      | (Inr _, w2) \<Rightarrow>
      case os_CreateTemp directory sealTempPattern w2 of
        (Inl e, w3) \<Rightarrow> (Inl (Errorf ''create temporary bootstrap seal'' e), w3)
      | (Inr (temporaryPath, temporary), w3) \<Rightarrow>
      case publish_seal s installationID directory temporaryPath temporary w3 of
        (r, w4) \<Rightarrow> (r, snd (os_Remove temporaryPath (snd (file_Close temporary w4)))))"

definition file_seal :: "FileSeal \<Rightarrow> 'x fs_world_scheme Seal" where
  "file_seal s = \<lparr>Seal_Load = FileSeal_Load (Some s), Seal_Create = FileSeal_Create s\<rparr>"

section \<open>A sound seal directory\<close>

text \<open>
  \<open>seal_at s f cs name d\<close>: the seal's path is \<open>/cs/name\<close>, the directories of \<open>cs\<close> are real, the
  last of them is the inode \<open>d\<close>, owned by the service and not writable by others, and the name is
  free or holds a well-formed seal file.
\<close>

definition seal_file :: "FileSeal \<Rightarrow> inode \<Rightarrow> string \<Rightarrow> bool" where
  "seal_file s n i \<longleftrightarrow> i_kind n = Regular \<and> i_perm n = 384 \<and> i_uid n = seal_ownerUID s \<and>
     validInstallationID i \<and> i_data n = sealFormatPrefix @ i @ [CHR 0x0A]"

definition seal_at :: "FileSeal \<Rightarrow> fs \<Rightarrow> string list \<Rightarrow> string \<Rightarrow> nat \<Rightarrow> bool" where
  "seal_at s f cs name d \<longleftrightarrow>
     seal_path s = abs_path (cs @ [name]) \<and> plain name \<and> chain f root_ino cs d \<and>
     (\<exists>n. inodes f d = Some n \<and> i_uid n = seal_ownerUID s \<and> i_perm n AND 18 = 0) \<and>
     (\<forall>k. next_ino f \<le> k \<longrightarrow> inodes f k = None) \<and>
     (\<forall>i. entries f d name = Some i \<longrightarrow> (\<exists>n j. inodes f i = Some n \<and> seal_file s n j))"

definition temp_free :: "sysenv \<Rightarrow> fs \<Rightarrow> nat \<Rightarrow> string \<Rightarrow> bool" where
  "temp_free e f d name \<longleftrightarrow>
     (\<forall>t k. CHR ''/'' \<notin> set (temp_names e t k) \<and>
        entries f d (sealTempPattern @ temp_names e t k) = None \<and>
        name \<noteq> sealTempPattern @ temp_names e t k)"

definition seal_sound :: "FileSeal \<Rightarrow> 'x fs_world_scheme \<Rightarrow> bool" where
  "seal_sound s w \<longleftrightarrow> sys_quiet w \<and> euid (sys w) = seal_ownerUID s \<and>
     (\<exists>cs name d. seal_at s (files w) cs name d \<and> temp_free (sys w) (files w) d name)"

definition seal_content :: "FileSeal \<Rightarrow> 'x fs_world_scheme \<Rightarrow> string option" where
  "seal_content s w =
     (case resolve (files w) False (seal_path s) of
        Inl _ \<Rightarrow> None
      | Inr st \<Rightarrow>
          (case inodes (files w) (cur_ino st) of
             None \<Rightarrow> None
           | Some n \<Rightarrow> (case parse_seal (i_data n) of Inl _ \<Rightarrow> None | Inr i \<Rightarrow> Some i)))"

section \<open>Lemmas\<close>

lemma validInstallationID_length: "validInstallationID i \<Longrightarrow> length i = 36"
  by (simp add: validInstallationID_def split: if_splits)

lemma hex_DecodeString_chars: "hex_DecodeString s = Some t \<Longrightarrow> c \<in> set s \<Longrightarrow> hex_value c \<noteq> None"
  by (induction s arbitrary: t rule: hex_DecodeString.induct) (auto split: option.splits)

lemma installationID_pieces:
  assumes "length v = 36"
  shows "v = take 8 v @ v ! 8 # take 4 (drop 9 v) @ v ! 13 # take 4 (drop 14 v) @ v ! 18 #
    take 4 (drop 19 v) @ v ! 23 # take 12 (drop 24 v)"
proof -
  have "drop k v = take m (drop k v) @ v ! (k + m) # drop (Suc (k + m)) v" if "k + m < 36" for k m
    using that assms id_take_nth_drop [of m "drop k v"] by (simp add: add.commute)
  from this [of 0 8] this [of 9 4] this [of 14 4] this [of 19 4] assms show ?thesis
    by simp
qed

lemma validInstallationID_chars:
  assumes "validInstallationID i" and "c \<in> set i"
  shows "c = CHR ''-'' \<or> hex_value c \<noteq> None"
proof -
  obtain t where t: "hex_DecodeString (take 8 i @ take 4 (drop 9 i) @ take 4 (drop 14 i) @
      take 4 (drop 19 i) @ take 12 (drop 24 i)) = Some t"
    and d: "i ! 8 = CHR ''-''" "i ! 13 = CHR ''-''" "i ! 18 = CHR ''-''" "i ! 23 = CHR ''-''"
    using assms(1) by (auto simp: validInstallationID_def Let_def split: if_splits option.splits)
  have "c \<in> set (take 8 i @ i ! 8 # take 4 (drop 9 i) @ i ! 13 # take 4 (drop 14 i) @ i ! 18 #
      take 4 (drop 19 i) @ i ! 23 # take 12 (drop 24 i))"
    using assms(2) installationID_pieces [OF validInstallationID_length [OF assms(1)]] by metis
  then show ?thesis
    using hex_DecodeString_chars [OF t, of c] d by auto
qed

lemma validInstallationID_no_break: "validInstallationID i \<Longrightarrow> CHR 0x0A \<notin> set i"
  using validInstallationID_chars [of i "CHR 0x0A"]
  by (auto simp: hex_value_def is_digit_iff less_eq_char_def)

lemma parse_seal_print:
  "validInstallationID i \<Longrightarrow> parse_seal (sealFormatPrefix @ i @ [CHR 0x0A]) = Inr i"
proof -
  assume i: "validInstallationID i"
  have "TrimSuffix (sealFormatPrefix @ i @ [CHR 0x0A]) [CHR 0x0A] = sealFormatPrefix @ i"
    using TrimSuffix_append [of "sealFormatPrefix @ i" "[CHR 0x0A]"] by simp
  moreover have "CHR 0x0A \<notin> set (sealFormatPrefix @ i)"
    using validInstallationID_no_break [OF i] by (simp add: sealFormatPrefix_def)
  ultimately show ?thesis
    using i by (simp add: parse_seal_def Let_def Contains_single)
qed

text \<open>The ancestors of a real directory pass, at the cost of one call each.\<close>

lemma Lstat_chain:
  assumes "sys_quiet w" and "chain (files w) root_ino cs d"
  shows "\<exists>i. os_Lstat (abs_path cs) w = (Inr i, w\<lparr>tick := Suc (tick w)\<rparr>) \<and> fi_ino i = d \<and>
    inodes (files w) d = Some (fi_node i) \<and> i_kind (fi_node i) = Directory"
proof -
  obtain st where st: "resolve (files w) False (abs_path cs) = Inr st" "cur_ino st = d"
    using resolve_chain [OF assms(2)] by blast
  obtain n where "inodes (files w) d = Some n" "i_kind n = Directory"
    using chain_dir [OF assms(2)] by (auto simp: is_dir_def split: option.splits)
  with st assms(1) show ?thesis
    by (simp add: os_Lstat_def sql info_def)
qed

lemma reject_loop_chain:
  assumes "sys_quiet w" and "chain (files w) root_ino (ds @ cs) d"
  shows "\<exists>k. reject_loop cs (abs_path ds) w = (Inr (), w\<lparr>tick := k\<rparr>)"
  using assms
proof (induction cs arbitrary: ds w)
  case Nil
  then show ?case by (auto intro: exI [of _ "tick w"])
next
  case (Cons c cs)
  have ch: "chain (files w) root_ino ((ds @ [c]) @ cs) d" using Cons.prems(2) by simp
  then obtain e where e: "chain (files w) root_ino (ds @ [c]) e"
    unfolding chain_append [of _ _ "ds @ [c]"] by blast
  then have pl: "list_all plain ds" "plain c" using chain_plain [OF e] by simp_all
  obtain i where i: "os_Lstat (abs_path (ds @ [c])) w = (Inr i, w\<lparr>tick := Suc (tick w)\<rparr>)"
    "i_kind (fi_node i) = Directory"
    using Lstat_chain [OF Cons.prems(1) e] by blast
  obtain k where "reject_loop cs (abs_path (ds @ [c])) (w\<lparr>tick := Suc (tick w)\<rparr>) =
      (Inr (), w\<lparr>tick := k\<rparr>)"
    using Cons.IH [of "w\<lparr>tick := Suc (tick w)\<rparr>" "ds @ [c]"] Cons.prems(1) ch by auto
  then show ?case
    using i pl by (auto simp: Join_abs_path IsSymlink_def IsDir_def plain_def)
qed

lemma rejectSymlinkAncestors_chain:
  assumes "sys_quiet w" and "chain (files w) root_ino cs d"
  shows "\<exists>k. rejectSymlinkAncestors (abs_path cs) w = (Inr (), w\<lparr>tick := k\<rparr>)"
proof (cases "cs = []")
  case True
  then show ?thesis
    by (auto simp: rejectSymlinkAncestors_def path_Abs_def abs_path_def TrimPrefix_def HasPrefix_def
        Clean_def IsAbs_def Let_def Split.simps(2) intro: exI [of _ "tick w"])
next
  case False
  have "Split (TrimPrefix (abs_path cs) ''/'') (CHR ''/'') = cs"
    using Split_abs_path [OF chain_plain [OF assms(2)]] False
    by (simp add: abs_path_def TrimPrefix_def HasPrefix_def Split.simps(2))
  then show ?thesis
    using reject_loop_chain [OF assms(1), of "[]" cs d] assms(2) chain_plain [OF assms(2)]
    by (simp add: rejectSymlinkAncestors_def path_Abs_def abs_path_def [of "[]"])
qed

lemma seal_at_Dir: "seal_at s f cs name d \<Longrightarrow> path_Dir (seal_path s) = abs_path cs"
  using Dir_abs_path [of cs name] chain_plain [of f root_ino cs d] by (simp add: seal_at_def)

lemma seal_directory_ok:
  assumes "sys_quiet w" and "seal_at s (files w) cs name d"
  shows "\<exists>k. validateExistingSealDirectory (path_Dir (seal_path s)) (seal_ownerUID s) w = (Inr (), w\<lparr>tick := k\<rparr>)"
    and "\<exists>k. ensureSealDirectory (path_Dir (seal_path s)) (seal_ownerUID s) w = (Inr (), w\<lparr>tick := k\<rparr>)"
proof -
  have ch: "chain (files w) root_ino cs d" using assms(2) by (simp add: seal_at_def)
  have dir: "path_Dir (seal_path s) = abs_path cs" using seal_at_Dir [OF assms(2)] .
  obtain k where k: "rejectSymlinkAncestors (abs_path cs) w = (Inr (), w\<lparr>tick := k\<rparr>)"
    using rejectSymlinkAncestors_chain [OF assms(1) ch] by blast
  obtain i where i: "os_Lstat (abs_path cs) (w\<lparr>tick := k\<rparr>) = (Inr i, w\<lparr>tick := Suc k\<rparr>)"
    "inodes (files w) d = Some (fi_node i)" "i_kind (fi_node i) = Directory"
    using Lstat_chain [of "w\<lparr>tick := k\<rparr>" cs d] assms(1) ch by auto
  have "seal_directory_checks i (seal_ownerUID s) = Inr ()"
    using assms(2) i by (auto simp: seal_at_def seal_directory_checks_def IsSymlink_def IsDir_def
        owned_by_def fileOwnerUID_def FileUID_def Perm_def)
  with k i show "\<exists>k. validateExistingSealDirectory (path_Dir (seal_path s)) (seal_ownerUID s) w = (Inr (), w\<lparr>tick := k\<rparr>)"
    and "\<exists>k. ensureSealDirectory (path_Dir (seal_path s)) (seal_ownerUID s) w = (Inr (), w\<lparr>tick := k\<rparr>)"
    by (auto simp: validateExistingSealDirectory_def ensureSealDirectory_def dir)
qed

subsection \<open>Loading\<close>

lemma seal_content_at:
  assumes "seal_at s (files w) cs name d"
  shows "entries (files w) d name = None \<Longrightarrow> seal_content s w = None"
    and "entries (files w) d name = Some i \<Longrightarrow> inodes (files w) i = Some n \<Longrightarrow> seal_file s n j \<Longrightarrow>
      seal_content s w = Some j"
proof -
  have a: "chain (files w) root_ino cs d" "plain name" "seal_path s = abs_path (cs @ [name])"
    using assms by (simp_all add: seal_at_def)
  show "entries (files w) d name = None \<Longrightarrow> seal_content s w = None"
    using a resolve_missing [OF a(1,2)] by (simp add: seal_content_def)
  assume b: "entries (files w) d name = Some i" "inodes (files w) i = Some n" "seal_file s n j"
  obtain st where "resolve (files w) False (seal_path s) = Inr st" "cur_ino st = i"
    using resolve_leaf [OF a(1,2) b(1,2)] b(3) a(3) by (auto simp: seal_file_def)
  with b show "seal_content s w = Some j"
    by (simp add: seal_content_def seal_file_def parse_seal_print)
qed

lemma FileSeal_Load_at:
  assumes "sys_quiet w" and "seal_at s (files w) cs name d"
  shows "\<exists>k. FileSeal_Load (Some s) w =
    (Inr (case seal_content s w of None \<Rightarrow> ([], False) | Some i \<Rightarrow> (i, True)), w\<lparr>tick := k\<rparr>)"
proof -
  have a: "chain (files w) root_ino cs d" "plain name" "seal_path s = abs_path (cs @ [name])"
    using assms(2) by (simp_all add: seal_at_def)
  obtain k where k: "validateExistingSealDirectory (path_Dir (seal_path s)) (seal_ownerUID s) w =
      (Inr (), w\<lparr>tick := k\<rparr>)"
    using seal_directory_ok(1) [OF assms] by blast
  show ?thesis
  proof (cases "entries (files w) d name")
    case None
    then have "os_Lstat (seal_path s) (w\<lparr>tick := k\<rparr>) = (Inl ErrNotExist, w\<lparr>tick := Suc k\<rparr>)"
      using assms(1) a resolve_missing [OF a(1,2)] by (simp add: os_Lstat_def sql)
    with k None a(3) assms show ?thesis
      by (auto simp: FileSeal_Load_def os_IsNotExist_def seal_content_at)
  next
    case (Some i)
    then obtain n j where n: "inodes (files w) i = Some n" "seal_file s n j"
      using assms(2) by (auto simp: seal_at_def)
    obtain st where st: "resolve (files w) False (seal_path s) = Inr st" "cur_ino st = i"
      using resolve_leaf [OF a(1,2) Some n(1)] n(2) a(3) by (auto simp: seal_file_def)
    have "length (i_data n) = 64"
      using n(2) validInstallationID_length [of j] by (simp add: seal_file_def sealFormatPrefix_def)
    with k n st a(3) assms(1) Some seal_content_at(2) [OF assms(2) Some n]
    show ?thesis
      by (auto simp: FileSeal_Load_def os_Lstat_def open_read_def file_Stat_def read_limited_def sql
          info_def seal_file_def IsSymlink_def IsRegular_def SameFile_def Perm_def owned_by_def
          fileOwnerUID_def FileUID_def parse_seal_print)
  qed
qed

subsection \<open>Creating\<close>

text \<open>A file system that only gained names and the inode \<open>i\<close>.\<close>

definition grown :: "nat \<Rightarrow> fs \<Rightarrow> fs \<Rightarrow> bool" where
  "grown i f g \<longleftrightarrow> inodes f i = None \<and> (\<forall>k. k \<noteq> i \<longrightarrow> inodes g k = inodes f k) \<and>
     (\<forall>d n k. entries f d n = Some k \<longrightarrow> entries g d n = Some k)"

lemma grown_dir: "grown i f g \<Longrightarrow> is_dir f k \<Longrightarrow> is_dir g k"
  by (cases "k = i") (auto simp: grown_def is_dir_def split: option.splits)

lemma grown_chain: "grown i f g \<Longrightarrow> chain f j cs d \<Longrightarrow> chain g j cs d"
  by (erule chain_mono) (auto simp: grown_dir, simp add: grown_def)

lemma entries_set_node [simp]: "entries (set_node i h f) = entries f"
  by (simp add: set_node_def)

lemma inodes_set_node [simp]: "inodes (set_node i h f) = (inodes f)(i := map_option h (inodes f i))"
  by (simp add: set_node_def)

lemma next_set_node [simp]: "next_ino (set_node i h f) = next_ino f"
  by (simp add: set_node_def)

lemma entries_add_node [simp]:
  "entries (add_node d name n f) d' m = (if d' = d \<and> m = name then Some (next_ino f) else entries f d' m)"
  by (simp add: add_node_def)

lemma inodes_add_node [simp]:
  "inodes (add_node d name n f) = (inodes f)(next_ino f := Some n)"
  "next_ino (add_node d name n f) = Suc (next_ino f)"
  by (simp_all add: add_node_def)

lemma temp_name_plain:
  "temp_free e f d name \<Longrightarrow> plain (sealTempPattern @ temp_names e t k)"
  by (auto simp: temp_free_def plain_def sealTempPattern_def)

lemma create_temp_first:
  assumes "0 < n" and "open_create False True (path_Join dir (pre @ temp_names (sys w) (tick w) k)) 384 w = (Inr h, w1)"
  shows "create_temp n dir pre k w = (Inr (path_Join dir (pre @ temp_names (sys w) (tick w) k), h), w1)"
  using assms by (cases n) (simp_all add: Let_def)

lemma CreateTemp_seal:
  assumes "sys_quiet w" and "seal_at s (files w) cs name d" and "temp_free (sys w) (files w) d name"
  defines "tmp \<equiv> sealTempPattern @ temp_names (sys w) (tick w) 0"
  shows "os_CreateTemp (path_Dir (seal_path s)) sealTempPattern w =
    (Inr (abs_path (cs @ [tmp]), next_ino (files w)),
     w\<lparr>files := add_node d tmp \<lparr>i_kind = Regular, i_perm = mode_bits w 384, i_uid = euid (sys w),
         i_nlink = 1, i_data = []\<rparr> (files w), tick := Suc (tick w)\<rparr>)"
proof -
  have a: "chain (files w) root_ino cs d" using assms(2) by (simp add: seal_at_def)
  have p: "plain tmp" unfolding tmp_def by (rule temp_name_plain [OF assms(3)])
  have j: "path_Join (path_Dir (seal_path s)) tmp = abs_path (cs @ [tmp])"
    using seal_at_Dir [OF assms(2)] Join_abs_path [OF chain_plain [OF a] p] by simp
  have "entries (files w) d tmp = None" using assms(3) by (simp add: temp_free_def tmp_def)
  then have "open_create False True (abs_path (cs @ [tmp])) 384 w =
    (Inr (next_ino (files w)),
     w\<lparr>files := add_node d tmp \<lparr>i_kind = Regular, i_perm = mode_bits w 384, i_uid = euid (sys w),
         i_nlink = 1, i_data = []\<rparr> (files w), tick := Suc (tick w)\<rparr>)"
    using assms(1) resolve_parent_chain [OF a p] by (simp add: open_create_def sql)
  then show ?thesis
    using create_temp_first [of 10000 "path_Dir (seal_path s)" sealTempPattern w 0] j
    by (simp add: os_CreateTemp_def tmp_def del: create_temp.simps)
qed

text \<open>The file system after \<open>publish_seal\<close> and the deferred removal of the temporary name.\<close>

lemma publish_seal_new:
  assumes "sys_quiet w" and "seal_at s f cs name d" and "entries f d name = None"
    and "plain tmp" and "tmp \<noteq> name" and "entries f d tmp = None"
    and "i_kind n = Regular" and "i_uid n = seal_ownerUID s" and "i_nlink n = 1" and "i_data n = []"
    and "files w = add_node d tmp n f"
  defines "i \<equiv> next_ino f"
  shows "\<exists>g w4 k. publish_seal s inst (abs_path cs) (abs_path (cs @ [tmp])) i w = (Inr (), w4) \<and>
    os_Remove (abs_path (cs @ [tmp])) (snd (file_Close i w4)) = (Inr (), w\<lparr>files := g, tick := k\<rparr>) \<and>
    grown i f g \<and> next_ino g = Suc i \<and> entries g d name = Some i \<and>
    (\<forall>m. m \<noteq> name \<longrightarrow> entries g d m = entries f d m) \<and>
    inodes g i = Some (n\<lparr>i_perm := 384, i_data := sealFormatPrefix @ inst @ [CHR 0x0A]\<rparr>)"
proof -
  have a: "chain f root_ino cs d" "plain name" "seal_path s = abs_path (cs @ [name])" "inodes f i = None"
    using assms(2) by (simp_all add: seal_at_def i_def)
  have di: "d \<noteq> i" using chain_dir [OF a(1)] a(4) by (auto simp: is_dir_def)
  define f3 where "f3 = set_node i (\<lambda>n. n\<lparr>i_data := i_data n @ sealFormatPrefix @ inst @ [CHR 0x0A]\<rparr>)
    (set_node i (\<lambda>n. n\<lparr>i_perm := 384\<rparr>) (add_node d tmp n f))"
  define f4 where "f4 = set_node i (\<lambda>n. n\<lparr>i_nlink := Suc (i_nlink n)\<rparr>) (add_entry d name i f3)"
  have e3: "entries f3 d tmp = Some i" "entries f3 d name = None"
    "inodes f3 i = Some (n\<lparr>i_perm := 384, i_data := sealFormatPrefix @ inst @ [CHR 0x0A]\<rparr>)"
    using assms(3,5,10) by (simp_all add: f3_def i_def)
  have g3: "grown i f f3" using a(4) assms(6) by (auto simp: grown_def f3_def i_def)
  have g4: "grown i f f4" using g3 assms(3) by (auto simp: grown_def f4_def)
  have e4: "entries f4 d tmp = Some i" "entries f4 d name = Some i"
    "inodes f4 i = Some (n\<lparr>i_perm := 384, i_data := sealFormatPrefix @ inst @ [CHR 0x0A], i_nlink := 2\<rparr>)"
    using e3 assms(5,9) by (simp_all add: f4_def)
  obtain st where st: "resolve f3 False (abs_path (cs @ [tmp])) = Inr st" "cur_ino st = i"
    using resolve_leaf [OF grown_chain [OF g3 a(1)] assms(4) e3(1,3)] assms(7) by auto
  have pp: "resolve_parent f3 (seal_path s) = Inr (d, name)" "resolve_parent f4 (abs_path (cs @ [tmp])) = Inr (d, tmp)"
    using resolve_parent_chain [OF grown_chain [OF g3 a(1)] a(2)] a(3)
      resolve_parent_chain [OF grown_chain [OF g4 a(1)] assms(4)] by simp_all
  have nd: "\<not> is_dir f3 i" "\<not> is_dir f4 i" using e3(3) e4(3) assms(7) by (simp_all add: is_dir_def)
  obtain sd where sd: "resolve f4 True (abs_path cs) = Inr sd" "cur_ino sd = d"
    using resolve_chain [OF grown_chain [OF g4 a(1)]] by blast
  obtain dn where dn: "inodes f4 d = Some dn" "i_kind dn = Directory"
    using chain_dir [OF grown_chain [OF g4 a(1)]] by (auto simp: is_dir_def split: option.splits)
  define w4 where "w4 = w\<lparr>files := f4, tick := tick w + 9\<rparr>"
  have ni: "inodes (add_node d tmp n f) i = Some n" by (simp add: i_def)
  have "publish_seal s inst (abs_path cs) (abs_path (cs @ [tmp])) i w = (Inr (), w4)"
    using assms(1,8,11) ni st pp(1) e3(2) nd(1) sd dn
    by (simp add: publish_seal_def file_Chmod_def file_Stat_def file_Write_def file_Sync_def
        file_Close_def os_Link_def open_read_def sql info_def owned_by_def fileOwnerUID_def
        FileUID_def w4_def flip: f3_def f4_def del: inodes_add_node)
  moreover have "os_Remove (abs_path (cs @ [tmp])) (snd (file_Close i w4)) =
      (Inr (), w\<lparr>files := unlink d tmp i f4, tick := tick w + 11\<rparr>)"
    using assms(1) pp(2) e4(1) nd(2) by (simp add: w4_def os_Remove_def file_Close_def sql)
  moreover have "grown i f (unlink d tmp i f4)"
    using g4 assms(6) by (auto simp: grown_def unlink_def)
  moreover have "next_ino (unlink d tmp i f4) = Suc i" "entries (unlink d tmp i f4) d name = Some i"
    "\<forall>m. m \<noteq> name \<longrightarrow> entries (unlink d tmp i f4) d m = entries f d m"
    using e4(2) assms(5,6) by (auto simp: unlink_def f4_def f3_def i_def)
  moreover have "inodes (unlink d tmp i f4) i =
      Some (n\<lparr>i_perm := 384, i_data := sealFormatPrefix @ inst @ [CHR 0x0A]\<rparr>)"
    using e4(3) assms(9) by (simp add: unlink_def)
  ultimately show ?thesis by blast
qed



lemma db_only_files: "db_only w w' \<Longrightarrow> files w' = files w \<and> sys w' = sys w"
proof -
  assume "db_only w w'"
  then obtain d n where "w' = w\<lparr>db := d, tick := n\<rparr>" unfolding db_only_def by blast
  then show ?thesis by simp
qed

lemma seal_at_grown:
  assumes "seal_at s f cs name d" and "grown i f g" and "i = next_ino f" and "next_ino g = Suc i"
    and "entries g d name = Some i" and "inodes g i = Some n" and "seal_file s n j"
  shows "seal_at s g cs name d"
proof -
  have "d \<noteq> i" using assms(1,3) chain_dir [of f root_ino cs d] by (auto simp: seal_at_def is_dir_def)
  moreover have "inodes g k = None" if "Suc i \<le> k" for k
    using assms(1-3) that by (auto simp: grown_def seal_at_def)
  ultimately show ?thesis
    using assms grown_chain [OF assms(2)] by (auto simp: seal_at_def grown_def)
qed

lemma seal_sound_indep:
  assumes "files w' = files w" and "sys w' = sys w"
  shows "seal_sound s w' = seal_sound s w" "seal_content s w' = seal_content s w"
  unfolding seal_sound_def seal_content_def sys_quiet_def assms by (rule refl)+

lemma FileSeal_Create_new:
  assumes "seal_sound s w" and "seal_content s w = None" and "validInstallationID i"
  shows "\<exists>g k. FileSeal_Create s i w = (Inr (), w\<lparr>files := g, tick := k\<rparr>) \<and>
    seal_content s (w\<lparr>files := g, tick := k\<rparr>) = Some i \<and> seal_sound s (w\<lparr>files := g, tick := k\<rparr>)"
proof -
  obtain cs name d where q: "sys_quiet w" "euid (sys w) = seal_ownerUID s"
    and at: "seal_at s (files w) cs name d" and tf: "temp_free (sys w) (files w) d name"
    using assms(1) by (auto simp: seal_sound_def)
  obtain k1 where l: "FileSeal_Load (Some s) w = (Inr ([], False), w\<lparr>tick := k1\<rparr>)"
    using FileSeal_Load_at [OF q(1) at] assms(2) by auto
  obtain k2 where e: "ensureSealDirectory (path_Dir (seal_path s)) (seal_ownerUID s) (w\<lparr>tick := k1\<rparr>) =
      (Inr (), w\<lparr>tick := k2\<rparr>)"
    using seal_directory_ok(2) [of "w\<lparr>tick := k1\<rparr>" s cs name d] q(1) at by auto
  have free: "entries (files w) d name = None"
    using assms(2) at seal_content_at(2) [OF at] by (cases "entries (files w) d name") (auto simp: seal_at_def)
  define tmp where "tmp = sealTempPattern @ temp_names (sys w) k2 0"
  define n where "n = \<lparr>i_kind = Regular, i_perm = mode_bits w 384, i_uid = euid (sys w),
      i_nlink = 1, i_data = []\<rparr>"
  define w3 where "w3 = w\<lparr>files := add_node d tmp n (files w), tick := Suc k2\<rparr>"
  have t: "os_CreateTemp (path_Dir (seal_path s)) sealTempPattern (w\<lparr>tick := k2\<rparr>) =
      (Inr (abs_path (cs @ [tmp]), next_ino (files w)), w3)"
    using CreateTemp_seal [of "w\<lparr>tick := k2\<rparr>" s cs name d] q(1) at tf
    by (simp add: tmp_def n_def w3_def mode_bits_def)
  have tmp: "plain tmp" "tmp \<noteq> name" "entries (files w) d tmp = None"
    using tf temp_name_plain [OF tf] by (auto simp: tmp_def temp_free_def)
  obtain g w4 k where p: "publish_seal s i (abs_path cs) (abs_path (cs @ [tmp])) (next_ino (files w)) w3 = (Inr (), w4)"
    "os_Remove (abs_path (cs @ [tmp])) (snd (file_Close (next_ino (files w)) w4)) = (Inr (), w3\<lparr>files := g, tick := k\<rparr>)"
    "grown (next_ino (files w)) (files w) g" "next_ino g = Suc (next_ino (files w))"
    "entries g d name = Some (next_ino (files w))" "\<forall>m. m \<noteq> name \<longrightarrow> entries g d m = entries (files w) d m"
    "inodes g (next_ino (files w)) = Some (n\<lparr>i_perm := 384, i_data := sealFormatPrefix @ i @ [CHR 0x0A]\<rparr>)"
    using publish_seal_new [of w3 s "files w" cs name d tmp n i] q at free tmp
    by (auto simp: w3_def n_def)
  have sf: "seal_file s (n\<lparr>i_perm := 384, i_data := sealFormatPrefix @ i @ [CHR 0x0A]\<rparr>) i"
    using assms(3) q(2) by (simp add: seal_file_def n_def)
  have at': "seal_at s g cs name d"
    by (rule seal_at_grown [OF at p(3) refl p(4,5,7) sf])
  have "temp_free (sys w) g d name" using tf p(6) unfolding temp_free_def by metis
  with q at' have "seal_sound s (w\<lparr>files := g, tick := k\<rparr>)" by (auto simp: seal_sound_def)
  moreover have "seal_content s (w\<lparr>files := g, tick := k\<rparr>) = Some i"
    using seal_content_at(2) [of s "w\<lparr>files := g, tick := k\<rparr>" cs name d] at' p(5,7) sf by simp
  moreover have "FileSeal_Create s i w = (Inr (), w\<lparr>files := g, tick := k\<rparr>)"
    using assms(3) l e t p(1,2) seal_at_Dir [OF at] by (simp add: FileSeal_Create_def Let_def w3_def)
  ultimately show ?thesis by blast
qed

interpretation fseal: seal_contract "file_seal s" "seal_content s" "seal_sound s" for s
proof
  fix w w' :: "'a fs_world_scheme"
  assume "db_only w w'"
  then show "seal_content s w' = seal_content s w \<and> seal_sound s w' = seal_sound s w"
    using db_only_files [of w w'] seal_sound_indep [of w' w] by simp
next
  fix w :: "'a fs_world_scheme"
  assume "seal_sound s w"
  then show "\<exists>w'. Seal_Load (file_seal s) w =
      (Inr (case seal_content s w of None \<Rightarrow> ([], False) | Some i \<Rightarrow> (i, True)), w') \<and>
      seal_content s w' = seal_content s w \<and> seal_sound s w' \<and> db w' = db w \<and> env w' = env w"
    using FileSeal_Load_at [of w s] seal_sound_indep [of "w\<lparr>tick := _\<rparr>" w s]
    by (fastforce simp: file_seal_def seal_sound_def)
next
  fix w :: "'a fs_world_scheme" and i
  assume "seal_sound s w" and "seal_content s w = None" and "validInstallationID i"
  from FileSeal_Create_new [OF this] show "\<exists>w'. Seal_Create (file_seal s) i w = (Inr (), w') \<and>
      seal_content s w' = Some i \<and> seal_sound s w' \<and> db w' = db w \<and> env w' = env w"
    by (auto simp: file_seal_def)
next
  fix w :: "'a fs_world_scheme" and i j
  assume w: "seal_sound s w" and j: "seal_content s w = Some j" and i: "validInstallationID i"
  then obtain k where "FileSeal_Load (Some s) w = (Inr (j, True), w\<lparr>tick := k\<rparr>)"
    using FileSeal_Load_at [of w s] by (fastforce simp: seal_sound_def)
  then show "\<exists>r w'. Seal_Create (file_seal s) i w = (r, w') \<and> (r = Inr () \<longleftrightarrow> i = j) \<and>
      seal_content s w' = Some j \<and> seal_sound s w' \<and> db w' = db w \<and> env w' = env w"
    using i j w seal_sound_indep [of "w\<lparr>tick := k\<rparr>" w s]
    by (auto simp: file_seal_def FileSeal_Create_def)
qed

section \<open>Properties\<close>

text \<open>
  C1.  The first administrator is created exactly once, with or without faults and other writers
  on the database.  When \<open>CreateAdmin\<close> reports success there was no seal before; afterwards the
  user table holds exactly the new administrator with the given Argon2id verifier, the marker is
  initialized and the seal file holds the marker's installation id.  From then on no call of
  \<open>CreateAdmin\<close> succeeds again, even if the database is replaced by any other database: restoring
  only \<open>user.db\<close> never reopens setup.
\<close>

theorem CreateAdmin_once:
  assumes "seal_sound s w" and "keeps (seal_content s) (seal_sound s) bc"
    and "CreateAdmin (Some (file_seal s)) un h bc w = (Inr uid, w')"
  shows "seal_content s w = None \<and> IsArgon2id h \<and> 1 \<le> uid \<and>
    (\<exists>i now. seal_content s w' = Some i \<and> o_users (db w') = [bootstrap_user uid un h now] \<and>
       marker_of (db w') = Some \<lparr>InstallationID = i, Status = StatusInitialized\<rparr>) \<and>
    (\<forall>d un2 h2 bc2. isl (fst (CreateAdmin (Some (file_seal s)) un2 h2 bc2 (w'\<lparr>db := d\<rparr>))))"
proof -
  note once = fseal.create_once [OF assms]
  then obtain i where "seal_content s w' = Some i" "seal_sound s w'" by blast
  then have "isl (fst (CreateAdmin (Some (file_seal s)) un2 h2 bc2 (w'\<lparr>db := d\<rparr>)))" for d un2 h2 bc2
    using fseal.db_indep [of w' "w'\<lparr>db := d\<rparr>"] by (intro fseal.create_sealed [of s _ i]) simp_all
  with once show ?thesis by blast
qed

text \<open>
  C2.  The restore state machine, in a database and a seal directory that work.  The state is
  pristine exactly when there are no users, no seal and no marker or a valid pristine one;
  initialized exactly when there are users and the marker is missing or pristine without a seal,
  or initialized with a missing or matching seal; every other combination ends in recovery and is
  reported as \<open>ErrRecoveryRequired\<close>.  The marker records the state, an initialized installation
  ends with its seal in place, otherwise the seal is untouched, and no user row changes.
\<close>

theorem ReconcileState_table:
  assumes "ready w" and "wf_db (db w)" and "seal_sound s w" and "rng_ok (env w)"
  defines "valid_marker st \<equiv> \<exists>m. marker_of (db w) = Some m \<and> validInstallationID (InstallationID m) \<and> Status m = st"
  shows "\<exists>res w'. ReconcileState (Some (file_seal s)) w =
        ((res, if Status res = StatusRecovery then Some ErrRecoveryRequired else None), w')
    \<and> (Status res = StatusPristine \<longleftrightarrow> o_users (db w) = [] \<and> seal_content s w = None \<and>
         (marker_of (db w) = None \<or> valid_marker StatusPristine))
    \<and> (Status res = StatusInitialized \<longleftrightarrow> o_users (db w) \<noteq> [] \<and>
         (seal_content s w = None \<and> (marker_of (db w) = None \<or> valid_marker StatusPristine) \<or>
          valid_marker StatusInitialized \<and> (seal_content s w = None \<or>
            seal_content s w = map_option InstallationID (marker_of (db w)))))
    \<and> Status res \<in> {StatusPristine, StatusInitialized, StatusRecovery}
    \<and> marker_of (db w') = Some res \<and> o_users (db w') = o_users (db w)
    \<and> seal_content s w' = (if Status res = StatusInitialized then Some (InstallationID res) else seal_content s w)"
proof -
  obtain newID res cr w' where r: "validInstallationID newID"
    "(res, cr) = decide (marker_of (db w)) (length (o_users (db w))) (seal_content s w) newID"
    "ReconcileState (Some (file_seal s)) w =
        ((res, if Status res = StatusRecovery then Some ErrRecoveryRequired else None), w')"
    "marker_of (db w') = Some res" "state_only (db w) (db w')"
    "seal_content s w' = (if cr then Some (InstallationID res) else seal_content s w)"
    using fseal.reconcile_ready [OF assms(1-4)] by blast
  have "(Status res = StatusPristine \<longleftrightarrow> o_users (db w) = [] \<and> seal_content s w = None \<and>
         (marker_of (db w) = None \<or> valid_marker StatusPristine))"
    and "(Status res = StatusInitialized \<longleftrightarrow> o_users (db w) \<noteq> [] \<and>
         (seal_content s w = None \<and> (marker_of (db w) = None \<or> valid_marker StatusPristine) \<or>
          valid_marker StatusInitialized \<and> (seal_content s w = None \<or>
            seal_content s w = map_option InstallationID (marker_of (db w)))))"
    and "Status res \<in> {StatusPristine, StatusInitialized, StatusRecovery}"
    and "seal_content s w' = (if Status res = StatusInitialized then Some (InstallationID res) else seal_content s w)"
    using r(2,6) unfolding valid_marker_def
    by (auto simp: decide_def status_defs validStatus_def split: option.splits if_splits)
  then show ?thesis
    using r(3,4) state_onlyD(1) [OF r(5)] by blast
qed

text \<open>
  C3.  Setup works: on a working database without users whose marker is missing or pristine, with
  a sound and empty seal directory, \<open>CreateAdmin\<close> succeeds for every Argon2id verifier.
\<close>

theorem CreateAdmin_succeeds:
  assumes "ready w" and "wf_db (db w)" and "seal_sound s w" and "rng_ok (env w)"
    and "seal_content s w = None" and "o_users (db w) = []" and "IsArgon2id h"
    and "marker_of (db w) = None \<or> (\<exists>i. validInstallationID i \<and>
           marker_of (db w) = Some \<lparr>InstallationID = i, Status = StatusPristine\<rparr>)"
    and "\<And>d. 1 \<le> new_rowid (env w) UserDBModel_TableName d"
  shows "\<exists>uid w'. CreateAdmin (Some (file_seal s)) un h None w = (Inr uid, w')"
  using assms by (rule fseal.create_succeeds)

text \<open>A service directory \<open>/seal\<close> owned by root, with nothing in it.\<close>

definition root_dir :: inode where
  "root_dir = \<lparr>i_kind = Directory, i_perm = 448, i_uid = 0, i_nlink = 2, i_data = []\<rparr>"

definition sample_fs :: fs where
  "sample_fs = \<lparr>inodes = (\<lambda>_. None)(0 := Some root_dir, 1 := Some root_dir),
     dirents = (\<lambda>_. [])(0 := [(''seal'', 1)]), next_ino = 2, flocks = (\<lambda>_. None)\<rparr>"

definition sample_sys :: sysenv where
  "sample_sys = \<lparr>sys_fault = (\<lambda>_. None), fs_interfere = (\<lambda>_ f. f), euid = 0, umask = 18, cwd = ''/'',
     temp_names = (\<lambda>_ _. ''1'')\<rparr>"

definition sample_world :: "db \<Rightarrow> fs_world" where
  "sample_world d = \<lparr>db = d, env = calm_env, tick = 0, kdf = [], files = sample_fs, sys = sample_sys\<rparr>"

definition sample_seal :: FileSeal where
  "sample_seal = NewFileSeal ''/seal/id'' 0"

lemma sample_at: "seal_at sample_seal sample_fs [''seal''] ''id'' 1"
  by (auto simp: seal_at_def sample_seal_def NewFileSeal_def abs_path_def plain_def sample_fs_def
      is_dir_def entries_def root_ino_def root_dir_def)

lemma sample_sound: "seal_sound sample_seal (sample_world d)" "seal_content sample_seal (sample_world d) = None"
proof -
  have "temp_free sample_sys sample_fs 1 ''id''"
    by (simp add: temp_free_def sample_sys_def sample_fs_def entries_def sealTempPattern_def)
  then show "seal_sound sample_seal (sample_world d)"
    using sample_at by (auto simp: seal_sound_def sample_world_def sys_quiet_def sample_sys_def
        sample_seal_def NewFileSeal_def)
  show "seal_content sample_seal (sample_world d) = None"
    using seal_content_at(1) [of sample_seal "sample_world d"] sample_at
    by (simp add: sample_world_def) (simp add: sample_fs_def entries_def)
qed

lemma sample_ready [simp]:
  "migrated d \<Longrightarrow> ready (sample_world d)" "rng_ok (env (sample_world d))" "db (sample_world d) = d"
  "1 \<le> new_rowid (env (sample_world d)) tbl d'"
  by (simp_all add: sample_world_def calm_env_def ready_def quiet_def rng_ok_def)

lemma empty_db_wf [simp]: "wf_db empty_db" "o_users empty_db = []" "marker_of empty_db = None"
  by (simp_all add: empty_db_def wf_db_def marker_of_def)

theorem CreateAdmin_succeeds_witness:
  "\<exists>uid w'. CreateAdmin (Some (file_seal sample_seal)) ''admin'' sample_verifier None
     (sample_world empty_db) = (Inr uid, w')"
  by (rule CreateAdmin_succeeds) (simp_all add: sample_sound sample_verifier_ok)

lemma sample_create:
  "\<exists>uid w'. CreateAdmin (Some (file_seal sample_seal)) ''admin'' sample_verifier None
     (sample_world empty_db) = (Inr uid, w')"
  by (rule fseal.create_succeeds) (simp_all add: sample_sound sample_verifier_ok)

theorem CreateAdmin_once_witness:
  "\<exists>uid w'. CreateAdmin (Some (file_seal sample_seal)) ''admin'' sample_verifier None
      (sample_world empty_db) = (Inr uid, w') \<and>
    (\<forall>d un2 h2. isl (fst (CreateAdmin (Some (file_seal sample_seal)) un2 h2 None (w'\<lparr>db := d\<rparr>))))"
proof -
  obtain uid w' where c: "CreateAdmin (Some (file_seal sample_seal)) ''admin'' sample_verifier None
      (sample_world empty_db) = (Inr uid, w')"
    using sample_create by blast
  have "keeps (seal_content sample_seal) (seal_sound sample_seal) None" by (simp add: keeps_def)
  from CreateAdmin_once [OF sample_sound(1) this c] c show ?thesis by blast
qed

theorem ReconcileState_table_witness:
  "\<exists>res w'. ReconcileState (Some (file_seal sample_seal)) (sample_world empty_db) = ((res, None), w') \<and>
     Status res = StatusPristine"
  using ReconcileState_table [of "sample_world empty_db" sample_seal]
  by (auto simp: sample_sound status_defs)

end
