(* ===== verification/User_Config.thy ===== *)
theory User_Config
  imports File_Seal Sessions
begin

unbundle bit_operations_syntax

text \<open>
  \<open>src/pkg/userconfig/store.go\<close>: per-user configuration files below a shared data root, reached
  only through directory handles (\<open>os.Root\<close>).  The first part models the \<open>os.Root\<close> calls of the
  standard library on the file system of \<open>Files\<close>.
\<close>

section \<open>Directory handles\<close>

text \<open>
  A name is resolved below the handle's directory: an absolute link and a \<open>..\<close> that would leave
  it are refused, and at most eight links are followed.
\<close>

definition rootMaxSymlinks :: nat where "rootMaxSymlinks = 8"

definition path_escapes :: error where "path_escapes = DriverError ''path escapes from parent''"

function beneath :: "fs \<Rightarrow> bool \<Rightarrow> nat \<Rightarrow> nat \<Rightarrow> nat list \<Rightarrow> string list \<Rightarrow> error + nat" where
  "beneath f follow fuel h st [] = Inr (hd (st @ [h]))"
| "beneath f follow fuel h st (c # cs) =
     (if c = [] \<or> c = ''.'' then beneath f follow fuel h st cs
      else if c = ''..'' then
        (if st = [] then Inl path_escapes else beneath f follow fuel h (tl st) cs)
      else if \<not> is_dir f (hd (st @ [h])) then Inl (DriverError ''not a directory'')
      else
      case entries f (hd (st @ [h])) c of
        None \<Rightarrow> Inl ErrNotExist
      | Some i \<Rightarrow>
      case inodes f i of
        None \<Rightarrow> Inl ErrNotExist
      | Some n \<Rightarrow>
          if i_kind n = Symlink \<and> (cs \<noteq> [] \<or> follow)
          then (if IsAbs (i_data n) then Inl path_escapes
                else case fuel of
                       0 \<Rightarrow> Inl (DriverError ''too many levels of symbolic links'')
                     | Suc fuel' \<Rightarrow> beneath f follow fuel' h st (Split (i_data n) (CHR ''/'') @ cs))
          else beneath f follow fuel h (i # st) cs)"
  by pat_completeness auto
termination
  by (relation "inv_image (less_than <*lex*> less_than) (\<lambda>(f, follow, fuel, h, st, cs). (fuel, length cs))") auto

definition below :: "fs \<Rightarrow> bool \<Rightarrow> nat \<Rightarrow> string \<Rightarrow> error + nat" where
  "below f follow h name = beneath f follow rootMaxSymlinks h [] (Split name (CHR ''/''))"

definition os_OpenRoot :: "string \<Rightarrow> (nat, 'x) sysop" where
  "os_OpenRoot p = sys_call (\<lambda>f. case resolve f True p of
     Inl e \<Rightarrow> Inl e
   | Inr st \<Rightarrow> if is_dir f (cur_ino st) then Inr (cur_ino st, f) else Inl (DriverError ''not a directory''))"

definition root_Lstat :: "nat \<Rightarrow> string \<Rightarrow> (FileInfo, 'x) sysop" where
  "root_Lstat h name = sys_call (\<lambda>f. case below f False h name of
     Inl e \<Rightarrow> Inl e | Inr i \<Rightarrow> (case info f i of Inl e \<Rightarrow> Inl e | Inr x \<Rightarrow> Inr (x, f)))"

definition root_Stat :: "nat \<Rightarrow> string \<Rightarrow> (FileInfo, 'x) sysop" where
  "root_Stat h name = sys_call (\<lambda>f. case below f True h name of
     Inl e \<Rightarrow> Inl e | Inr i \<Rightarrow> (case info f i of Inl e \<Rightarrow> Inl e | Inr x \<Rightarrow> Inr (x, f)))"

definition root_Open :: "nat \<Rightarrow> string \<Rightarrow> (nat, 'x) sysop" where
  "root_Open h name = sys_call (\<lambda>f. case below f True h name of
     Inl e \<Rightarrow> Inl e
   | Inr i \<Rightarrow> (case inodes f i of None \<Rightarrow> Inl ErrNotExist | Some n \<Rightarrow> Inr (i, f)))"

definition root_OpenRoot :: "nat \<Rightarrow> string \<Rightarrow> (nat, 'x) sysop" where
  "root_OpenRoot h name = sys_call (\<lambda>f. case below f True h name of
     Inl e \<Rightarrow> Inl e | Inr i \<Rightarrow> if is_dir f i then Inr (i, f) else Inl (DriverError ''not a directory''))"

text \<open>The calls below are made with a single component that is not \<open>.\<close> or \<open>..\<close>; others are refused here.\<close>

definition named :: "nat \<Rightarrow> string \<Rightarrow> (fs \<Rightarrow> error + 'a \<times> fs) \<Rightarrow> fs \<Rightarrow> error + 'a \<times> fs" where
  "named h name g f =
     (if \<not> plain name then Inl path_escapes
      else if \<not> is_dir f h then Inl (DriverError ''not a directory'')
      else g f)"

text \<open>\<open>OpenFile\<close> with \<open>O_WRONLY | O_CREATE | O_EXCL\<close>\<close>

definition root_CreateExcl :: "nat \<Rightarrow> string \<Rightarrow> nat \<Rightarrow> (nat, 'x) sysop" where
  "root_CreateExcl h name perm w = sys_call (named h name (\<lambda>f.
     if entries f h name \<noteq> None then Inl ErrExist
     else Inr (next_ino f, add_node h name
       \<lparr>i_kind = Regular, i_perm = mode_bits w perm, i_uid = euid (sys w), i_nlink = 1, i_data = []\<rparr> f))) w"

definition root_Mkdir :: "nat \<Rightarrow> string \<Rightarrow> nat \<Rightarrow> (unit, 'x) sysop" where
  "root_Mkdir h name perm w = sys_call (named h name (\<lambda>f.
     if entries f h name \<noteq> None then Inl ErrExist
     else Inr ((), add_node h name
       \<lparr>i_kind = Directory, i_perm = mode_bits w perm, i_uid = euid (sys w), i_nlink = 2, i_data = []\<rparr> f))) w"

definition root_Remove :: "nat \<Rightarrow> string \<Rightarrow> (unit, 'x) sysop" where
  "root_Remove h name = sys_call (named h name (\<lambda>f.
     case entries f h name of
       None \<Rightarrow> Inl ErrNotExist
     | Some i \<Rightarrow>
         if is_dir f i \<and> dirents f i \<noteq> [] then Inl (DriverError ''directory not empty'')
         else Inr ((), unlink h name i f)))"

text \<open>\<open>rename(2)\<close> of a file: an existing target that is not a directory is replaced in one step.\<close>

definition rename_entry :: "nat \<Rightarrow> string \<Rightarrow> string \<Rightarrow> fs \<Rightarrow> error + unit \<times> fs" where
  "rename_entry h old new f =
     (case entries f h old of
        None \<Rightarrow> Inl ErrNotExist
      | Some i \<Rightarrow>
          if is_dir f i then Inl (DriverError ''not a directory'')
          else
          (case entries f h new of
             None \<Rightarrow> Inr ((), add_entry h new i (del_entry h old f))
           | Some j \<Rightarrow>
               if j = i then Inr ((), f)
               else if is_dir f j then Inl (DriverError ''file exists'')
               else Inr ((), add_entry h new i (unlink h new j (del_entry h old f)))))"

definition root_Rename :: "nat \<Rightarrow> string \<Rightarrow> string \<Rightarrow> (unit, 'x) sysop" where
  "root_Rename h old new = sys_call (named h old (named h new (rename_entry h old new)))"

section \<open>The store\<close>

definition MaxKeyBytes :: nat where "MaxKeyBytes = 64"
definition MaxConfigBytes :: nat where "MaxConfigBytes = 1048576"

text \<open>The loop of \<open>ValidateKey\<close> from position \<open>index\<close> on.\<close>

fun key_chars :: "nat \<Rightarrow> string \<Rightarrow> error + unit" where
  "key_chars index [] = Inr ()"
| "key_chars index (character # rest) =
     (let letter = is_lower character \<or> is_upper character; digit = is_digit character in
      if letter \<or> digit \<or> index > 0 \<and> (character = CHR ''-'' \<or> character = CHR ''_'' \<or> character = CHR ''.'')
      then key_chars (Suc index) rest
      else Inl ErrInvalidKey)"

definition ValidateKey :: "string \<Rightarrow> error + unit" where
  "ValidateKey key =
     (if length key = 0 \<or> length key > MaxKeyBytes \<or> Contains key ''..'' \<or>
         ContainsAny key [CHR ''/'', CHR 0x5C]
      then Inl ErrInvalidKey
      else key_chars 0 key)"

definition ownedByCurrentUser :: "FileInfo \<Rightarrow> 'x fs_world_scheme \<Rightarrow> bool" where
  "ownedByCurrentUser i w = (FileUID i = euid (sys w))"

text \<open>\<open>fmt.Errorf("%w: reason", ErrUnsafeStorage)\<close>\<close>

definition unsafe :: "string \<Rightarrow> error" where
  "unsafe reason = Errorf reason ErrUnsafeStorage"

definition validateRegularFile :: "FileInfo \<Rightarrow> 'x fs_world_scheme \<Rightarrow> error + unit" where
  "validateRegularFile i w =
     (if IsSymlink i then Inl (unsafe ''symbolic link'')
      else if \<not> IsRegular i then Inl (unsafe ''non-regular file'')
      else if \<not> ownedByCurrentUser i w then Inl (unsafe ''unexpected owner'')
      else if i_nlink (fi_node i) > 1 then Inl (unsafe ''unexpected link count'')
      else Inr ())"

definition close_all :: "nat list \<Rightarrow> 'x fs_world_scheme \<Rightarrow> 'x fs_world_scheme" where
  "close_all hs w = fold (\<lambda>h w. snd (file_Close h w)) hs w"

text \<open>
  \<open>openUserRoot\<close> in its three stages: open the shared root, open the user's directory below it (and
  let go of the shared root), make the directory private.
\<close>

definition open_shared_root :: "string \<Rightarrow> (nat, 'x) sysop" where
  "open_shared_root rootPath w =
     (case os_Lstat rootPath w of
        (Inl e, w1) \<Rightarrow> (Inl (Errorf ''inspect custom configuration root'' e), w1)
      | (Inr rootInfo, w1) \<Rightarrow>
      if IsSymlink rootInfo \<or> \<not> IsDir rootInfo \<or> \<not> ownedByCurrentUser rootInfo w1 \<or> Perm rootInfo AND 18 \<noteq> 0
      then (Inl (unsafe ''unsafe shared data root''), w1)
      else
      case os_OpenRoot rootPath w1 of
        (Inl e, w2) \<Rightarrow> (Inl (Errorf ''open custom configuration root'' e), w2)
      | (Inr root, w2) \<Rightarrow>
      case root_Stat root ''.'' w2 of
        (Inl e, w3) \<Rightarrow> (Inl (Errorf ''inspect opened custom configuration root'' e), close_all [root] w3)
      | (Inr openedRootInfo, w3) \<Rightarrow>
      if \<not> SameFile rootInfo openedRootInfo \<or> \<not> IsDir openedRootInfo \<or>
         \<not> ownedByCurrentUser openedRootInfo w3 \<or> Perm openedRootInfo AND 18 \<noteq> 0
      then (Inl (unsafe ''shared data root changed during open''), close_all [root] w3)
      else (Inr root, w3))"

definition make_user_directory :: "nat \<Rightarrow> string \<Rightarrow> bool \<Rightarrow> (unit, 'x) sysop" where
  "make_user_directory root userDirectory create w =
     (if \<not> create then (Inr (), w)
      else case root_Mkdir root userDirectory 448 w of
             (Inr _, w1) \<Rightarrow> (Inr (), w1)
           | (Inl e, w1) \<Rightarrow>
               if \<not> errors_Is e ErrExist
               then (Inl (Errorf ''create custom configuration directory'' e), close_all [root] w1)
               else (Inr (), w1))"

definition open_user_directory :: "nat \<Rightarrow> string \<Rightarrow> (nat, 'x) sysop" where
  "open_user_directory root userDirectory w =
     (case root_Lstat root userDirectory w of
        (Inl e, w1) \<Rightarrow> (Inl e, close_all [root] w1)
      | (Inr userInfo, w1) \<Rightarrow>
      if IsSymlink userInfo \<or> \<not> IsDir userInfo \<or> \<not> ownedByCurrentUser userInfo w1
      then (Inl ErrUnsafeStorage, close_all [root] w1)
      else
      case root_OpenRoot root userDirectory w1 of
        (Inl e, w2) \<Rightarrow> (Inl (Errorf ''open custom configuration directory'' e), close_all [root] w2)
      | (Inr userRoot, w2) \<Rightarrow>
      case root_Stat userRoot ''.'' (close_all [root] w2) of
        (Inl e, w3) \<Rightarrow> (Inl (Errorf ''inspect opened custom configuration directory'' e), close_all [userRoot] w3)
      | (Inr openedUserInfo, w3) \<Rightarrow>
      if \<not> SameFile userInfo openedUserInfo \<or> \<not> IsDir openedUserInfo \<or> \<not> ownedByCurrentUser openedUserInfo w3
      then (Inl (unsafe ''user directory changed during open''), close_all [userRoot] w3)
      else (Inr userRoot, w3))"

definition secure_user_directory :: "nat \<Rightarrow> (nat, 'x) sysop" where
  "secure_user_directory userRoot w =
     (case root_Open userRoot ''.'' w of
        (Inl e, w1) \<Rightarrow> (Inl (Errorf ''open custom configuration directory handle'' e), close_all [userRoot] w1)
      | (Inr userDirectoryHandle, w1) \<Rightarrow>
      case file_Chmod userDirectoryHandle 448 w1 of
        (Inl e, w2) \<Rightarrow>
          (Inl (Errorf ''secure custom configuration directory'' e), close_all [userDirectoryHandle, userRoot] w2)
      | (Inr _, w2) \<Rightarrow>
      case file_Close userDirectoryHandle w2 of
        (Inl e, w3) \<Rightarrow> (Inl (Errorf ''close custom configuration directory handle'' e), close_all [userRoot] w3)
      | (Inr _, w3) \<Rightarrow> (Inr userRoot, w3))"

definition openUserRoot :: "string \<Rightarrow> int \<Rightarrow> bool \<Rightarrow> (nat, 'x) sysop" where
  "openUserRoot rootPath userID create w =
     (if userID \<le> 0 then (Inl ErrInvalidUserID, w)
      else if TrimSpace rootPath = [] \<or> \<not> IsAbs rootPath then (Inl ErrUnsafeStorage, w)
      else
      case open_shared_root rootPath w of (Inl e, w1) \<Rightarrow> (Inl e, w1) | (Inr root, w1) \<Rightarrow>
      case make_user_directory root (Itoa userID) create w1 of (Inl e, w2) \<Rightarrow> (Inl e, w2) | (Inr _, w2) \<Rightarrow>
      case open_user_directory root (Itoa userID) w2 of (Inl e, w3) \<Rightarrow> (Inl e, w3) | (Inr userRoot, w3) \<Rightarrow>
      secure_user_directory userRoot w3)"

definition openExistingRegularFile :: "nat \<Rightarrow> string \<Rightarrow> (nat, 'x) sysop" where
  "openExistingRegularFile root filename w =
     (case root_Lstat root filename w of (Inl e, w1) \<Rightarrow> (Inl e, w1) | (Inr before, w1) \<Rightarrow>
      case validateRegularFile before w1 of Inl e \<Rightarrow> (Inl e, w1) | Inr _ \<Rightarrow>
      case root_Open root filename w1 of (Inl e, w2) \<Rightarrow> (Inl e, w2) | (Inr file, w2) \<Rightarrow>
      case file_Stat file w2 of
        (Inl e, w3) \<Rightarrow> (Inl (Errorf ''inspect opened custom configuration'' e), close_all [file] w3)
      | (Inr after, w3) \<Rightarrow>
      if isl (validateRegularFile after w3) \<or> \<not> SameFile before after
      then (Inl ErrUnsafeStorage, close_all [file] w3)
      else
      case file_Chmod file 384 w3 of
        (Inl e, w4) \<Rightarrow> (Inl (Errorf ''secure opened custom configuration'' e), close_all [file] w4)
      | (Inr _, w4) \<Rightarrow> (Inr file, w4))"

text \<open>The deferred \<open>Close\<close> calls run after the result is fixed.\<close>

definition Read :: "string \<Rightarrow> int \<Rightarrow> string \<Rightarrow> (string, 'x) sysop" where
  "Read rootPath userID key w =
     (case ValidateKey key of Inl e \<Rightarrow> (Inl e, w) | Inr _ \<Rightarrow>
      case openUserRoot rootPath userID False w of (Inl e, w1) \<Rightarrow> (Inl e, w1) | (Inr root, w1) \<Rightarrow>
      case openExistingRegularFile root (key @ ''.json'') w1 of
        (Inl e, w2) \<Rightarrow> (Inl e, close_all [root] w2)
      | (Inr file, w2) \<Rightarrow>
      case read_limited file (MaxConfigBytes + 1) w2 of
        (Inl e, w3) \<Rightarrow> (Inl (Errorf ''read custom configuration'' e), close_all [file, root] w3)
      | (Inr data, w3) \<Rightarrow>
          (if length data > MaxConfigBytes then Inl ErrConfigTooLarge else Inr data, close_all [file, root] w3))"

fun createTemporaryFile :: "nat \<Rightarrow> nat \<Rightarrow> (string \<times> nat, 'x) sysop" where
  "createTemporaryFile 0 root w = (Inl ErrTemporaryCreate, w)"
| "createTemporaryFile (Suc attempts) root w =
     (case rand_Read 16 w of
        (None, w1) \<Rightarrow> (Inl (Errorf ''generate name'' ErrTemporaryCreate), w1)
      | (Some nonce, w1) \<Rightarrow>
      let name = ''.recasaos-custom-'' @ hex_EncodeToString nonce in
      case root_CreateExcl root name 384 w1 of
        (Inr file, w2) \<Rightarrow> (Inr (name, file), w2)
      | (Inl e, w2) \<Rightarrow>
          if \<not> errors_Is e ErrExist then (Inl (Errorf (error_text e) ErrTemporaryCreate), w2)
          else createTemporaryFile attempts root w2)"

definition syncRoot :: "nat \<Rightarrow> (unit, 'x) sysop" where
  "syncRoot root w =
     (case root_Open root ''.'' w of
        (Inl e, w1) \<Rightarrow> (Inl (Errorf ''open custom configuration directory for sync'' e), w1)
      | (Inr directory, w1) \<Rightarrow>
      case file_Sync directory w1 of
        (Inl e, w2) \<Rightarrow> (Inl (Errorf ''sync custom configuration directory'' e), close_all [directory] w2)
      | (Inr _, w2) \<Rightarrow> (Inr (), close_all [directory] w2))"

text \<open>
  \<open>Write\<close> from the temporary file on: the flags say whether \<open>temporary\<close> is still open and whether
  the temporary name is still there for the deferred clean-up.
\<close>

definition install_file ::
  "nat \<Rightarrow> string \<Rightarrow> string \<Rightarrow> nat \<Rightarrow> string \<Rightarrow> 'x fs_world_scheme \<Rightarrow> (error + unit) \<times> bool \<times> bool \<times> 'x fs_world_scheme" where
  "install_file root filename temporaryName temporary data w =
     (case file_Write temporary data w of
        (Inl e, w1) \<Rightarrow> (Inl (Errorf ''write custom configuration'' e), True, True, w1)
      | (Inr _, w1) \<Rightarrow>
      case file_Chmod temporary 384 w1 of
        (Inl e, w2) \<Rightarrow> (Inl (Errorf ''secure custom configuration'' e), True, True, w2)
      | (Inr _, w2) \<Rightarrow>
      case file_Sync temporary w2 of
        (Inl e, w3) \<Rightarrow> (Inl (Errorf ''sync custom configuration'' e), True, True, w3)
      | (Inr _, w3) \<Rightarrow>
      case file_Close temporary w3 of
        (Inl e, w4) \<Rightarrow> (Inl (Errorf ''close custom configuration'' e), True, True, w4)
      | (Inr _, w4) \<Rightarrow>
      case root_Rename root temporaryName filename w4 of
        (Inl e, w5) \<Rightarrow> (Inl (Errorf ''install custom configuration'' e), False, True, w5)
      | (Inr _, w5) \<Rightarrow>
      case syncRoot root w5 of (r, w6) \<Rightarrow> (r, False, False, w6))"

definition config_Write :: "string \<Rightarrow> int \<Rightarrow> string \<Rightarrow> string \<Rightarrow> (unit, 'x) sysop" where
  "config_Write rootPath userID key data w =
     (case ValidateKey key of Inl e \<Rightarrow> (Inl e, w) | Inr _ \<Rightarrow>
      if length data > MaxConfigBytes then (Inl ErrConfigTooLarge, w)
      else
      case openUserRoot rootPath userID True w of (Inl e, w1) \<Rightarrow> (Inl e, w1) | (Inr root, w1) \<Rightarrow>
      let filename = key @ ''.json'' in
      case root_Lstat root filename w1 of (found, w2) \<Rightarrow>
      case (case found of
              Inr i \<Rightarrow> validateRegularFile i w2
            | Inl e \<Rightarrow> if \<not> errors_Is e ErrNotExist then Inl (Errorf ''inspect custom configuration'' e) else Inr ()) of
        Inl e \<Rightarrow> (Inl e, close_all [root] w2)
      | Inr _ \<Rightarrow>
      case createTemporaryFile 16 root w2 of
        (Inl e, w3) \<Rightarrow> (Inl e, close_all [root] w3)
      | (Inr (temporaryName, temporary), w3) \<Rightarrow>
      case install_file root filename temporaryName temporary data w3 of (r, isOpen, keepTemporary, w4) \<Rightarrow>
      let w5 = (if isOpen then close_all [temporary] w4 else w4);
          w6 = (if keepTemporary then snd (root_Remove root temporaryName w5) else w5) in
      (r, close_all [root] w6))"

definition config_Delete :: "string \<Rightarrow> int \<Rightarrow> string \<Rightarrow> (unit, 'x) sysop" where
  "config_Delete rootPath userID key w =
     (case ValidateKey key of Inl e \<Rightarrow> (Inl e, w) | Inr _ \<Rightarrow>
      case openUserRoot rootPath userID False w of (Inl e, w1) \<Rightarrow> (Inl e, w1) | (Inr root, w1) \<Rightarrow>
      let filename = key @ ''.json'' in
      case root_Lstat root filename w1 of (Inl e, w2) \<Rightarrow> (Inl e, close_all [root] w2) | (Inr i, w2) \<Rightarrow>
      case validateRegularFile i w2 of Inl e \<Rightarrow> (Inl e, close_all [root] w2) | Inr _ \<Rightarrow>
      case root_Remove root filename w2 of
        (Inl e, w3) \<Rightarrow> (Inl (Errorf ''remove custom configuration'' e), close_all [root] w3)
      | (Inr _, w3) \<Rightarrow>
      case syncRoot root w3 of (r, w4) \<Rightarrow> (r, close_all [root] w4))"

section \<open>Keys\<close>

lemma key_chars_iff:
  "key_chars index s = Inr () \<longleftrightarrow>
     (\<forall>k < length s. alnum (s ! k) \<or> 0 < index + k \<and> s ! k \<in> set ''._-'')"
proof (induction s arbitrary: index)
  case (Cons c s)
  have "key_chars index (c # s) = Inr () \<longleftrightarrow>
    (alnum c \<or> 0 < index \<and> c \<in> set ''._-'') \<and> key_chars (Suc index) s = Inr ()"
    by (auto simp: Let_def alnum_def)
  then show ?case by (auto simp: Cons.IH nth_Cons split: nat.splits)
qed simp

lemma ValidateKey_pattern:
  "ValidateKey key = Inr () \<longleftrightarrow> name_pattern key \<and> \<not> Contains key ''..''"
proof -
  have "key_chars 0 key = Inr () \<longleftrightarrow> key = [] \<or> alnum (hd key) \<and> (\<forall>d \<in> set (tl key). alnum d \<or> d \<in> set ''._-'')"
    by (cases key) (auto simp: key_chars_iff all_set_conv_all_nth nth_Cons alnum_def [of "hd key"] Let_def simp del: key_chars.simps split: nat.splits)
  moreover have "\<not> ContainsAny key [CHR ''/'', CHR 0x5C]" if "name_pattern key"
    using that by (cases key) (auto simp: name_pattern_iff ContainsAny_iff alnum_def is_lower_def is_upper_def is_digit_def)
  ultimately show ?thesis
    by (auto simp: ValidateKey_def name_pattern_iff MaxKeyBytes_def)
qed

text \<open>The file name of a valid key is one plain component.\<close>

lemma key_plain:
  assumes "ValidateKey key = Inr ()"
  shows "plain (key @ ''.json'')"
proof -
  have "CHR ''/'' \<notin> set key"
    using assms by (auto simp: ValidateKey_def ContainsAny_iff split: if_splits)
  then show ?thesis by (auto simp: plain_def append_eq_Cons_conv)
qed

section \<open>What a file system holds\<close>

text \<open>
  The contents under a name of a directory: another directory or the bytes of a file.  Two file
  systems with the same contents differ at most in permissions, link counts and inode numbers of
  files.
\<close>

definition contents :: "fs \<Rightarrow> nat \<times> string \<Rightarrow> (nat + string) option" where
  "contents f dn =
     (case entries f (fst dn) (snd dn) of
        None \<Rightarrow> None
      | Some i \<Rightarrow> map_option (\<lambda>n. if i_kind n = Directory then Inl i else Inr (i_data n)) (inodes f i))"

definition fresh_inodes :: "fs \<Rightarrow> bool" where
  "fresh_inodes f \<longleftrightarrow> (\<forall>k \<ge> next_ino f. inodes f k = None \<and> dirents f k = []) \<and>
     (\<forall>d n i. entries f d n = Some i \<longrightarrow> i < next_ino f)"

definition undisturbed :: "'x fs_world_scheme \<Rightarrow> bool" where
  "undisturbed w \<longleftrightarrow> fs_interfere (sys w) = (\<lambda>_ f. f)"

lemma undisturbed_upd [simp]:
  "undisturbed (w\<lparr>files := f\<rparr>) = undisturbed w" "undisturbed (w\<lparr>tick := n\<rparr>) = undisturbed w"
  by (simp_all add: undisturbed_def)

lemma sys_call_undisturbed:
  assumes "sys_call g w = (r, w')" and "undisturbed w"
  shows "sys w' = sys w" "env w' = env w"
    "(\<exists>e. r = Inl e \<and> files w' = files w) \<or> (\<exists>x. r = Inr x \<and> g (files w) = Inr (x, files w'))"
  using assms by (auto simp: sys_call_def undisturbed_def Let_def split: option.splits sum.splits)

text \<open>Calls that only look.\<close>

definition unchanged :: "'x fs_world_scheme \<Rightarrow> 'x fs_world_scheme \<Rightarrow> bool" where
  "unchanged w w' \<longleftrightarrow> files w' = files w \<and> sys w' = sys w"

lemma unchanged_trans: "unchanged a b \<Longrightarrow> unchanged b c \<Longrightarrow> unchanged a c"
  by (simp add: unchanged_def)

lemma unchanged_undisturbed: "unchanged w w' \<Longrightarrow> undisturbed w' = undisturbed w"
  by (simp add: unchanged_def undisturbed_def)

lemma look_unchanged:
  assumes "undisturbed w" and "\<And>f x f'. g f = Inr (x, f') \<Longrightarrow> f' = f"
  shows "unchanged w (snd (sys_call g w))"
  using sys_call_undisturbed [of g w "fst (sys_call g w)" "snd (sys_call g w)"] assms by (auto simp: unchanged_def)

lemma looks:
  assumes "undisturbed w"
  shows "unchanged w (snd (os_Lstat p w))" "unchanged w (snd (os_OpenRoot p w))"
    "unchanged w (snd (root_Stat h n w))" "unchanged w (snd (root_Lstat h n w))"
    "unchanged w (snd (root_Open h n w))" "unchanged w (snd (root_OpenRoot h n w))"
    "unchanged w (snd (file_Stat h w))" "unchanged w (snd (read_limited h k w))"
    "unchanged w (snd (file_Sync h w))" "unchanged w (snd (file_Close h w))"
  unfolding os_Lstat_def os_OpenRoot_def root_Stat_def root_Lstat_def root_Open_def root_OpenRoot_def
    file_Stat_def read_limited_def file_Sync_def file_Close_def
  by (rule look_unchanged [OF assms]; auto split: sum.splits option.splits if_splits)+

lemma close_all_unchanged: "undisturbed w \<Longrightarrow> unchanged w (close_all hs w)"
proof (induction hs arbitrary: w)
  case Nil
  then show ?case by (simp add: close_all_def unchanged_def)
next
  case (Cons h hs)
  have "unchanged w (snd (file_Close h w))" using looks(10) [OF Cons.prems] by simp
  moreover from this have "unchanged (snd (file_Close h w)) (close_all hs (snd (file_Close h w)))"
    using Cons by (simp add: unchanged_undisturbed)
  ultimately show ?case by (auto simp: close_all_def intro: unchanged_trans)
qed

text \<open>Calls that change something.\<close>

lemma contents_set_node:
  "(\<And>n. i_kind (g n) = i_kind n) \<Longrightarrow> (\<And>n. i_data (g n) = i_data n) \<Longrightarrow> contents (set_node i g f) = contents f"
  by (auto simp: contents_def set_node_def fun_eq_iff option.map_comp comp_def split: option.splits intro!: option.map_cong)

lemma set_node_fields [simp]:
  "inodes (set_node i g f) k = None \<longleftrightarrow> inodes f k = None" "dirents (set_node i g f) = dirents f"
  "next_ino (set_node i g f) = next_ino f" "entries (set_node i g f) = entries f"
  by (simp_all add: set_node_def)

lemma fresh_set_node [simp]: "fresh_inodes (set_node i g f) = fresh_inodes f"
  unfolding fresh_inodes_def set_node_fields by (rule refl)

lemma contents_add_node:
  assumes "fresh_inodes f" and "entries f d name = None"
  shows "contents (add_node d name n f) =
    (contents f)((d, name) \<mapsto> (if i_kind n = Directory then Inl (next_ino f) else Inr (i_data n)))"
  using assms by (auto simp: contents_def add_node_def fresh_inodes_def fun_eq_iff split: option.splits)

lemma fresh_add_node: "fresh_inodes f \<Longrightarrow> d < next_ino f \<Longrightarrow> fresh_inodes (add_node d name n f)"
  by (auto simp: fresh_inodes_def add_node_def add_entry_def entries_def split: if_splits)
    (metis less_SucI)+

text \<open>A temporary file that no other name denotes.\<close>

definition sole :: "fs \<Rightarrow> nat \<Rightarrow> nat \<Rightarrow> string \<Rightarrow> bool" where
  "sole f t h tmp \<longleftrightarrow> (\<forall>d n. entries f d n = Some t \<longrightarrow> d = h \<and> n = tmp)"

definition temporary_at :: "fs \<Rightarrow> nat \<Rightarrow> string \<Rightarrow> nat \<Rightarrow> string \<Rightarrow> bool" where
  "temporary_at f h tmp t x \<longleftrightarrow> fresh_inodes f \<and> is_dir f h \<and> entries f h tmp = Some t \<and>
     (\<exists>n. inodes f t = Some n \<and> i_kind n = Regular \<and> i_data n = x) \<and>
     sole f t h tmp"

lemma soleD: "sole f t h tmp \<Longrightarrow> entries f d n = Some t \<Longrightarrow> d = h \<and> n = tmp"
  unfolding sole_def by blast

lemma sole_set_node [simp]: "sole (set_node i g f) = sole f"
  by (simp add: sole_def fun_eq_iff)

lemma dir_bound: "fresh_inodes f \<Longrightarrow> is_dir f d \<Longrightarrow> d < next_ino f"
  by (rule ccontr) (auto simp: fresh_inodes_def is_dir_def not_less)

lemma is_dir_set_node: "(\<And>n. i_kind (g n) = i_kind n) \<Longrightarrow> is_dir (set_node i g f) d = is_dir f d"
  by (auto simp: is_dir_def set_node_def split: option.splits)

lemma temporary_created:
  assumes "fresh_inodes f" and "is_dir f h" and "entries f h tmp = None" and "i_kind n = Regular"
  shows "temporary_at (add_node h tmp n f) h tmp (next_ino f) (i_data n)"
proof -
  have no: "\<not> is_dir f (next_ino f)" "\<And>d m. entries f d m \<noteq> Some (next_ino f)"
    using assms(1) by (auto simp: fresh_inodes_def is_dir_def)
  then have "h \<noteq> next_ino f" using assms(2) by metis
  then have "is_dir (add_node h tmp n f) h" using assms(2) by (simp add: add_node_def is_dir_def)
  moreover have "sole (add_node h tmp n f) (next_ino f) h tmp"
    unfolding sole_def add_node_def using no(2) by (simp split: if_splits)
  moreover have "fresh_inodes (add_node h tmp n f)"
    using assms(1) dir_bound [OF assms(1,2)] by (rule fresh_add_node)
  ultimately show ?thesis
    using assms(4) by (simp add: temporary_at_def add_node_def)
qed

lemma temporary_written:
  assumes "temporary_at f h tmp t x"
  shows "temporary_at (set_node t (\<lambda>n. n\<lparr>i_data := i_data n @ y\<rparr>) f) h tmp t (x @ y)"
    "contents (set_node t (\<lambda>n. n\<lparr>i_data := i_data n @ y\<rparr>) f) = (contents f)((h, tmp) \<mapsto> Inr (x @ y))"
proof -
  obtain n where n: "entries f h tmp = Some t" "inodes f t = Some n" "i_kind n = Regular" "i_data n = x"
    and sole: "sole f t h tmp"
    using assms unfolding temporary_at_def by blast
  show "temporary_at (set_node t (\<lambda>n. n\<lparr>i_data := i_data n @ y\<rparr>) f) h tmp t (x @ y)"
    using assms n by (simp add: temporary_at_def is_dir_set_node)
  have "contents (set_node t (\<lambda>n. n\<lparr>i_data := i_data n @ y\<rparr>) f) (d, m) = contents f (d, m)"
    if "(d, m) \<noteq> (h, tmp)" for d m
  proof -
    have "entries f d m \<noteq> Some t" using soleD [OF sole] that by blast
    then show ?thesis by (auto simp: contents_def set_node_def split: option.splits)
  qed
  moreover have "contents (set_node t (\<lambda>n. n\<lparr>i_data := i_data n @ y\<rparr>) f) (h, tmp) = Some (Inr (x @ y))"
    using n by (simp add: contents_def set_node_def)
  ultimately show "contents (set_node t (\<lambda>n. n\<lparr>i_data := i_data n @ y\<rparr>) f) = (contents f)((h, tmp) \<mapsto> Inr (x @ y))"
    by (intro ext) (auto split: prod.splits)
qed

lemma temporary_kept:
  assumes "temporary_at f h tmp t x" and "\<And>n. i_kind (g n) = i_kind n" and "\<And>n. i_data (g n) = i_data n"
  shows "temporary_at (set_node i g f) h tmp t x"
proof -
  have "\<exists>n. inodes (set_node i g f) t = Some n \<and> i_kind n = Regular \<and> i_data n = x"
    using assms by (auto simp: temporary_at_def set_node_def)
  then show ?thesis using assms by (simp add: temporary_at_def is_dir_set_node)
qed

lemma contents_temporary: "temporary_at f h tmp t x \<Longrightarrow> contents f (h, tmp) = Some (Inr x)"
  unfolding temporary_at_def contents_def by fastforce

lemma contents_del: "contents (del_entry d name f) = (contents f)((d, name) := None)"
  by (auto simp: contents_def fun_eq_iff split: option.splits)

lemma contents_add_entry:
  "contents (add_entry d name i f) = (contents f)((d, name) :=
     map_option (\<lambda>n. if i_kind n = Directory then Inl i else Inr (i_data n)) (inodes f i))"
  by (auto simp: contents_def fun_eq_iff split: option.splits)

lemma contents_unlink: "contents (unlink d name i f) = (contents f)((d, name) := None)"
  unfolding unlink_def by (subst contents_set_node) (simp_all add: contents_del)

lemma inodes_unlink [simp]: "t \<noteq> i \<Longrightarrow> inodes (unlink d name i f) t = inodes f t"
  by (simp add: unlink_def set_node_def)

lemma rename_contents:
  assumes "temporary_at f h tmp t x" and "rename_entry h tmp name f = Inr (u, f')" and "name \<noteq> tmp"
  shows "contents f' = (contents f)((h, tmp) := None, (h, name) \<mapsto> Inr x)"
proof -
  obtain n where t: "entries f h tmp = Some t" "inodes f t = Some n" "i_kind n = Regular" "i_data n = x"
    and sole: "sole f t h tmp"
    using assms(1) unfolding temporary_at_def by blast
  have nt: "\<not> is_dir f t" using t by (simp add: is_dir_def)
  show ?thesis
  proof (cases "entries f h name")
    case None
    then show ?thesis
      using assms(2) t nt by (auto simp: rename_entry_def contents_add_entry contents_del)
  next
    case (Some j)
    then have "j \<noteq> t" using soleD [OF sole] assms(3) by blast
    then show ?thesis
      using assms(2) t nt Some
      by (auto simp: rename_entry_def contents_add_entry contents_del contents_unlink fun_eq_iff
               split: if_splits)
  qed
qed

section \<open>Opening the user's directory\<close>

lemma below_dot [simp]: "below f follow h ''.'' = Inr h"
  by (simp add: below_def Split.simps)

lemma below_plain:
  assumes "plain name" and "below f False h name = Inr i"
  shows "entries f h name = Some i"
  using assms Split_no_sep [of "CHR ''/''" name]
  by (auto simp: below_def plain_def split: if_splits option.splits)

lemma Itoa_no_sep: "c \<in> set (Itoa n) \<Longrightarrow> c \<noteq> CHR ''/'' \<and> c \<noteq> CHR ''.''"
proof -
  assume "c \<in> set (Itoa n)"
  then have "c = CHR ''-'' \<or> (\<exists>k. c \<in> set (dec_of_nat k))" by (auto simp: Itoa_def split: if_splits)
  then have "c = CHR ''-'' \<or> is_digit c" using dec_of_nat_digits by (metis list_all_iff)
  then show ?thesis by (auto simp: is_digit_def)
qed

lemma Itoa_plain: "plain (Itoa n)"
proof -
  have "Itoa n \<noteq> []" by (simp add: Itoa_def)
  then show ?thesis unfolding plain_def using Itoa_no_sep by (metis list.set_intros(1))
qed

definition prepared :: "nat \<Rightarrow> string \<Rightarrow> fs \<Rightarrow> fs \<Rightarrow> bool" where
  "prepared root name f f' \<longleftrightarrow> fresh_inodes f' \<and>
     (contents f' = contents f \<or>
      contents f (root, name) = None \<and>
      (\<exists>d. contents f' = (contents f)((root, name) \<mapsto> Inl d) \<and> (\<forall>n. contents f (d, n) = None) \<and>
         (\<forall>dn. contents f dn \<noteq> Some (Inl d))))"

lemma make_user_directory_effect:
  assumes "make_user_directory root name create w = (r, w')" and "undisturbed w" and "fresh_inodes (files w)"
  shows "sys w' = sys w" "prepared root name (files w) (files w')"
proof -
  have empty: "contents (files w) (next_ino (files w), n) = None" for n
    using assms(3) by (auto simp: contents_def fresh_inodes_def entries_def)
  have unused: "contents (files w) dn \<noteq> Some (Inl (next_ino (files w)))" for dn
    using assms(3) by (auto simp: contents_def fresh_inodes_def split: option.splits)
  have same: "unchanged v v' \<Longrightarrow> files v = files w \<Longrightarrow> prepared root name (files w) (files v')" for v v' :: "'a fs_world_scheme"
    using assms(3) by (simp add: prepared_def unchanged_def)
  obtain q w1 where mk: "root_Mkdir root name 448 w = (q, w1)" by fastforce
  have w1: "sys w1 = sys w" "undisturbed w1"
    using sys_call_undisturbed(1) [OF mk [unfolded root_Mkdir_def] assms(2)] assms(2)
    by (simp_all add: undisturbed_def)
  have cl: "unchanged w1 (close_all [root] w1)" using w1(2) by (rule close_all_unchanged)
  have eff: "prepared root name (files w) (files w1)"
  proof (cases "files w1 = files w")
    case False
    then have new: "is_dir (files w) root" "entries (files w) root name = None"
      and w1: "files w1 = add_node root name \<lparr>i_kind = Directory, i_perm = mode_bits w 448, i_uid = euid (sys w),
          i_nlink = 2, i_data = []\<rparr> (files w)"
      using sys_call_undisturbed(3) [OF mk [unfolded root_Mkdir_def] assms(2)]
      by (auto simp: named_def split: if_splits)
    have "contents (files w) (root, name) = None" using new(2) by (simp add: contents_def)
    moreover have "contents (files w1) = (contents (files w))((root, name) \<mapsto> Inl (next_ino (files w)))"
      using contents_add_node [OF assms(3) new(2)] by (simp add: w1)
    moreover have "fresh_inodes (files w1)"
      unfolding w1 using assms(3) dir_bound [OF assms(3) new(1)] by (rule fresh_add_node)
    ultimately show ?thesis using empty unused unfolding prepared_def by blast
  qed (use assms(3) in \<open>simp add: prepared_def\<close>)
  have eff': "prepared root name (files w) (files (close_all [root] w1))" "sys (close_all [root] w1) = sys w"
    using cl eff w1 by (simp_all add: unchanged_def)
  show "sys w' = sys w" "prepared root name (files w) (files w')"
    using assms(1,3) mk w1 eff eff'
    by (auto simp: make_user_directory_def prepared_def split: if_splits sum.splits)
qed

text \<open>Steps after which every directory holds what it held before.\<close>

definition same :: "'x fs_world_scheme \<Rightarrow> 'x fs_world_scheme \<Rightarrow> bool" where
  "same w v \<longleftrightarrow> contents (files v) = contents (files w) \<and> fresh_inodes (files v) = fresh_inodes (files w) \<and>
     is_dir (files v) = is_dir (files w) \<and> sys v = sys w \<and> undisturbed w"

lemma same_refl: "undisturbed w \<Longrightarrow> same w w"
  by (simp add: same_def)

lemma same_unchanged: "same w v \<Longrightarrow> unchanged v v' \<Longrightarrow> same w v'"
  by (simp add: same_def unchanged_def)

lemma same_undisturbed: "same w v \<Longrightarrow> undisturbed v"
  by (simp add: same_def undisturbed_def)

lemma same_pair: "same w v \<Longrightarrow> same w (snd (r, v))"
  by simp

lemma same_prod: "same w (snd x) \<Longrightarrow> (\<And>a v. same w v \<Longrightarrow> same w (snd (f a v))) \<Longrightarrow> same w (snd (case x of (a, v) \<Rightarrow> f a v))"
  by (cases x) simp

lemma same_sum:
  "(\<And>e. same w (snd (f e))) \<Longrightarrow> (\<And>a. same w (snd (g a))) \<Longrightarrow> same w (snd (case s of Inl e \<Rightarrow> f e | Inr a \<Rightarrow> g a))"
  by (cases s) simp_all

lemma same_if: "same w (snd f) \<Longrightarrow> same w (snd g) \<Longrightarrow> same w (snd (if b then f else g))"
  by simp

lemma same_looks:
  assumes "same w v"
  shows "same w (snd (os_Lstat p v))" "same w (snd (os_OpenRoot p v))" "same w (snd (root_Stat h n v))"
    "same w (snd (root_Lstat h n v))" "same w (snd (root_Open h n v))" "same w (snd (root_OpenRoot h n v))"
    "same w (snd (file_Stat h v))" "same w (snd (read_limited h k v))" "same w (snd (file_Sync h v))"
    "same w (snd (file_Close h v))" "same w (close_all hs v)"
  by (rule same_unchanged [OF assms], intro looks close_all_unchanged same_undisturbed [OF assms])+

lemma same_Chmod: "same w v \<Longrightarrow> same w (snd (file_Chmod h perm v))"
proof -
  assume v: "same w v"
  obtain r v' where r: "file_Chmod h perm v = (r, v')" by fastforce
  have *: "contents (set_node h (\<lambda>n. n\<lparr>i_perm := perm\<rparr>) f) = contents f"
    "is_dir (set_node h (\<lambda>n. n\<lparr>i_perm := perm\<rparr>) f) = is_dir f"
    "fresh_inodes (set_node h (\<lambda>n. n\<lparr>i_perm := perm\<rparr>) f) = fresh_inodes f" for f
    by (auto simp: contents_set_node is_dir_set_node fun_eq_iff)
  have "files v' = files v \<or> files v' = set_node h (\<lambda>n. n\<lparr>i_perm := perm\<rparr>) (files v)"
    using sys_call_undisturbed(3) [OF r [unfolded file_Chmod_def] same_undisturbed [OF v]]
    by (auto split: option.splits)
  moreover have "sys v' = sys v"
    using sys_call_undisturbed(1) [OF r [unfolded file_Chmod_def] same_undisturbed [OF v]] .
  ultimately show ?thesis using v r by (elim disjE) (simp_all add: same_def *)
qed

lemmas same_rules = same_prod same_sum same_if same_pair same_looks same_Chmod

lemma same_open_shared_root: "same w v \<Longrightarrow> same w (snd (open_shared_root p v))"
  unfolding open_shared_root_def by (intro same_rules)

lemma same_open_user_directory: "same w v \<Longrightarrow> same w (snd (open_user_directory root name v))"
  unfolding open_user_directory_def by (intro same_rules)

lemma same_secure: "same w v \<Longrightarrow> same w (snd (secure_user_directory root v))"
  unfolding secure_user_directory_def by (intro same_rules)

lemma same_openExisting: "same w v \<Longrightarrow> same w (snd (openExistingRegularFile root name v))"
  unfolding openExistingRegularFile_def by (intro same_rules)

lemma same_syncRoot: "same w v \<Longrightarrow> same w (snd (syncRoot root v))"
  unfolding syncRoot_def by (intro same_rules)

text \<open>The handles are those of the directories that the names denote.\<close>

lemma Stat_dot:
  "root_Stat h ''.'' v = (Inr i, v') \<Longrightarrow> undisturbed v \<Longrightarrow> fi_ino i = h"
  unfolding root_Stat_def by (drule sys_call_undisturbed(3)) (auto simp: info_def split: option.splits)

lemma open_shared_root_handle:
  assumes "open_shared_root (abs_path cs) w = (Inr root, w')" and "undisturbed w" and "chain (files w) root_ino cs r"
  shows "root = r"
proof -
  obtain st where st: "resolve (files w) False (abs_path cs) = Inr st" "cur_ino st = r"
    using resolve_chain [OF assms(3)] by blast
  obtain i w1 w2 oi w3 where s: "os_Lstat (abs_path cs) w = (Inr i, w1)" "os_OpenRoot (abs_path cs) w1 = (Inr root, w2)"
    "root_Stat root ''.'' w2 = (Inr oi, w3)" "SameFile i oi"
    using assms(1) by (auto simp: open_shared_root_def split: prod.splits sum.splits if_splits)
  have "fi_ino i = r"
    using sys_call_undisturbed(3) [OF s(1) [unfolded os_Lstat_def] assms(2)] st
    by (auto simp: info_def split: option.splits)
  moreover have "undisturbed w2"
    using assms(2) looks(1) [OF assms(2), of "abs_path cs"] looks(2) [of w1 "abs_path cs"] s(1,2)
    by (simp add: unchanged_undisturbed)
  ultimately show ?thesis using Stat_dot [OF s(3)] s(4) by (simp add: SameFile_def)
qed

lemma open_user_directory_handle:
  assumes "open_user_directory root name w = (Inr h, w')" and "undisturbed w" and "plain name"
  shows "contents (files w) (root, name) = Some (Inl h)" "is_dir (files w) h"
proof -
  obtain i w1 w2 oi w3 where s: "root_Lstat root name w = (Inr i, w1)" "root_OpenRoot root name w1 = (Inr h, w2)"
    "root_Stat h ''.'' (close_all [root] w2) = (Inr oi, w3)" "SameFile i oi" "IsDir i"
    using assms(1) by (auto simp: open_user_directory_def split: prod.splits sum.splits if_splits)
  have w1: "same w w1" using same_looks(4) [OF same_refl [OF assms(2)], of root name] s(1) by simp
  then have w2: "same w w2" using same_looks(6) [OF w1, of root name] s(2) by simp
  have i: "fi_ino i = h"
    using Stat_dot [OF s(3) same_undisturbed [OF same_looks(11) [OF w2]]] s(4) by (simp add: SameFile_def)
  obtain j where "below (files w) False root name = Inr j" "info (files w) j = Inr i"
    using sys_call_undisturbed(3) [OF s(1) [unfolded root_Lstat_def] assms(2)] by (auto split: sum.splits)
  then have "entries (files w) root name = Some h" "inodes (files w) h = Some (fi_node i)"
    using below_plain [OF assms(3)] i by (auto simp: info_def split: option.splits)
  then show "contents (files w) (root, name) = Some (Inl h)" "is_dir (files w) h"
    using s(5) by (simp_all add: contents_def is_dir_def IsDir_def)
qed

lemma openUserRoot_effect:
  assumes "openUserRoot (abs_path cs) uid create w = (q, w')" and "undisturbed w" and "fresh_inodes (files w)"
    and "chain (files w) root_ino cs r"
  shows "sys w' = sys w" "prepared r (Itoa uid) (files w) (files w')"
    "\<not> create \<Longrightarrow> contents (files w') = contents (files w)"
    "q = Inr h \<Longrightarrow> contents (files w') (r, Itoa uid) = Some (Inl h) \<and> is_dir (files w') h"
proof -
  obtain q1 w1 where 1: "open_shared_root (abs_path cs) w = (q1, w1)" by fastforce
  obtain q2 w2 where 2: "make_user_directory r (Itoa uid) create w1 = (q2, w2)" by fastforce
  obtain q3 w3 where 3: "open_user_directory r (Itoa uid) w2 = (q3, w3)" by fastforce
  have w1: "same w w1" using same_open_shared_root [OF same_refl [OF assms(2)]] 1 by (metis snd_conv)
  have root: "root = r" if "q1 = Inr root" for root
    using open_shared_root_handle [OF _ assms(2,4)] 1 that by simp
  note made = make_user_directory_effect [OF 2 same_undisturbed [OF w1]]
  have f1: "fresh_inodes (files w1)" "contents (files w1) = contents (files w)" "sys w1 = sys w"
    using w1 assms(3) by (simp_all add: same_def)
  have w2: "sys w2 = sys w" "prepared r (Itoa uid) (files w) (files w2)" "undisturbed w2"
    using made f1 assms(2) by (simp_all add: prepared_def undisturbed_def)
  have w2': "contents (files w2) = contents (files w)" if "\<not> create"
    using 2 that f1 by (simp add: make_user_directory_def)
  have w3: "same w2 w3" using same_open_user_directory [OF same_refl [OF w2(3)]] 3 by (metis snd_conv)
  have w4: "same w2 (snd (secure_user_directory u w3))" for u using w3 by (rule same_secure)
  have h: "contents (files w2) (r, Itoa uid) = Some (Inl u) \<and> is_dir (files w2) u" if "q3 = Inr u" for u
    using open_user_directory_handle [OF _ w2(3) Itoa_plain] 3 that by blast
  have keep: "sys v = sys w \<and> prepared r (Itoa uid) (files w) (files v) \<and> (\<not> create \<longrightarrow> contents (files v) = contents (files w))"
    if "same w2 v" for v using that w2 w2' by (simp add: same_def prepared_def)
  have keep1: "sys v = sys w \<and> prepared r (Itoa uid) (files w) (files v) \<and> contents (files v) = contents (files w)"
    if "same w v" for v using that assms(3) by (simp add: same_def prepared_def)
  have sec: "q' = Inr u" if "secure_user_directory u w3 = (Inr q'', v)" "q' = Inr q''" for u q' q'' v
    using that by (auto simp: secure_user_directory_def split: prod.splits sum.splits)
  consider (early) "same w w'" "isl q" | (made) "w' = w2" "isl q" | (opened) "w' = w3" "isl q"
    | (last) u where "q3 = Inr u" "secure_user_directory u w3 = (q, w')"
    using assms(1) 1 2 3 w1 same_refl [OF assms(2)] root
    by (auto simp: openUserRoot_def split: if_splits sum.splits)
  then have "sys w' = sys w \<and> prepared r (Itoa uid) (files w) (files w') \<and>
      (\<not> create \<longrightarrow> contents (files w') = contents (files w)) \<and>
      (q = Inr h \<longrightarrow> contents (files w') (r, Itoa uid) = Some (Inl h) \<and> is_dir (files w') h)"
  proof cases
    case (last u)
    then have "same w2 w'" using w4 [of u] by simp
    moreover have "h = u" if "q = Inr h" using sec [OF _ refl, of u h w'] last(2) that by simp
    ultimately show ?thesis using keep [of w'] h [OF last(1)] unfolding same_def by metis
  qed (use keep [OF same_refl [OF w2(3)]] keep [OF w3] keep1 [of w'] in fastforce)+
  then show "sys w' = sys w" "prepared r (Itoa uid) (files w) (files w')"
    "\<not> create \<Longrightarrow> contents (files w') = contents (files w)"
    "q = Inr h \<Longrightarrow> contents (files w') (r, Itoa uid) = Some (Inl h) \<and> is_dir (files w') h" by blast+
qed

section \<open>Writing\<close>

definition temp_name :: "string \<Rightarrow> bool" where
  "temp_name n \<longleftrightarrow> (\<exists>nonce. n = ''.recasaos-custom-'' @ hex_EncodeToString nonce)"

lemma createTemporaryFile_effect:
  assumes "createTemporaryFile k h w = (q, w')" and "undisturbed w" and "fresh_inodes (files w)" and "is_dir (files w) h"
  shows "sys w' = sys w \<and>
    ((\<exists>e. q = Inl e) \<and> files w' = files w \<or>
     (\<exists>tmp t. q = Inr (tmp, t) \<and> temp_name tmp \<and> temporary_at (files w') h tmp t [] \<and>
        contents (files w') = (contents (files w))((h, tmp) \<mapsto> Inr [])))"
  using assms
proof (induction k arbitrary: w)
  case 0
  then show ?case by auto
next
  case (Suc k)
  obtain b w1 where b: "rand_Read 16 w = (b, w1)" by fastforce
  have w1: "sys w1 = sys w" "files w1 = files w" "undisturbed w1"
    using b Suc.prems(2) by (auto simp: rand_Read_def undisturbed_def)
  show ?case
  proof (cases b)
    case None
    then show ?thesis using Suc.prems(1) b w1 by auto
  next
    case (Some nonce)
    let ?name = "''.recasaos-custom-'' @ hex_EncodeToString nonce"
    obtain c w2 where c: "root_CreateExcl h ?name 384 w1 = (c, w2)" by fastforce
    note sc = sys_call_undisturbed [OF c [unfolded root_CreateExcl_def] w1(3)]
    show ?thesis
    proof (cases c)
      case (Inl e)
      then have w2: "files w2 = files w" "sys w2 = sys w" "undisturbed w2" using sc w1 by (auto simp: undisturbed_def)
      then have "createTemporaryFile k h w2 = (q, w') \<Longrightarrow> ?thesis"
        using Suc.IH [of w2] Suc.prems by simp
      then show ?thesis using Suc.prems(1) b c Some Inl w2 by (auto simp: Let_def split: if_splits)
    next
      case (Inr t)
      let ?n = "\<lparr>i_kind = Regular, i_perm = mode_bits w1 384, i_uid = euid (sys w1), i_nlink = 1, i_data = []\<rparr>"
      have new: "entries (files w) h ?name = None" "t = next_ino (files w)" "files w2 = add_node h ?name ?n (files w)"
        using sc(3) Inr w1(2) by (auto simp: named_def split: if_splits)
      have "temporary_at (files w2) h ?name t []"
        using temporary_created [OF Suc.prems(3,4) new(1), of ?n] new by simp
      moreover have "contents (files w2) = (contents (files w))((h, ?name) \<mapsto> Inr [])"
        using contents_add_node [OF Suc.prems(3) new(1), of ?n] new(3) by simp
      moreover have "q = Inr (?name, t)" "w' = w2"
        using Suc.prems(1) b c Some Inr by (simp_all add: Let_def)
      moreover have "sys w2 = sys w" using sc(1) w1(1) by simp
      moreover have "temp_name ?name" unfolding temp_name_def by blast
      ultimately show ?thesis by blast
    qed
  qed
qed

text \<open>The file being prepared holds \<open>x\<close>; nothing else has changed since \<open>C\<close>.\<close>

definition staged :: "((nat \<times> string) \<Rightarrow> (nat + string) option) \<Rightarrow> nat \<Rightarrow> string \<Rightarrow> nat \<Rightarrow> string \<Rightarrow> 'x fs_world_scheme \<Rightarrow> bool" where
  "staged C h tmp t x w \<longleftrightarrow> undisturbed w \<and> temporary_at (files w) h tmp t x \<and>
     contents (files w) = C((h, tmp) \<mapsto> Inr x)"

lemma staged_unchanged: "staged C h tmp t x v \<Longrightarrow> unchanged v v' \<Longrightarrow> staged C h tmp t x v'"
  by (simp add: staged_def unchanged_def undisturbed_def)

lemma staged_Write:
  assumes "staged C h tmp t x w" and "file_Write t y w = (q, w')"
  shows "sys w' = sys w" "isl q \<Longrightarrow> staged C h tmp t x w'" "\<not> isl q \<Longrightarrow> staged C h tmp t (x @ y) w'"
proof -
  have t: "temporary_at (files w) h tmp t x" and u: "undisturbed w" using assms(1) by (simp_all add: staged_def)
  note sc = sys_call_undisturbed [OF assms(2) [unfolded file_Write_def] u]
  show "sys w' = sys w" by (rule sc(1))
  have u': "undisturbed w'" using u sc(1) by (simp add: undisturbed_def)
  show "isl q \<Longrightarrow> staged C h tmp t x w'" using sc(3) assms(1) u' by (auto simp: staged_def)
  assume "\<not> isl q"
  then have "files w' = set_node t (\<lambda>n. n\<lparr>i_data := i_data n @ y\<rparr>) (files w)"
    using sc(3) by (auto split: option.splits)
  then show "staged C h tmp t (x @ y) w'"
    using temporary_written [OF t, of y] assms(1) u' by (simp add: staged_def)
qed

lemma staged_Chmod:
  assumes "staged C h tmp t x w" and "file_Chmod i perm w = (q, w')"
  shows "sys w' = sys w \<and> staged C h tmp t x w'"
proof -
  have u: "undisturbed w" and t: "temporary_at (files w) h tmp t x" using assms(1) by (simp_all add: staged_def)
  have "same w w'" using same_Chmod [OF same_refl [OF u], of i perm] assms(2) by simp
  moreover have "files w' = files w \<or> files w' = set_node i (\<lambda>n. n\<lparr>i_perm := perm\<rparr>) (files w)"
    using sys_call_undisturbed(3) [OF assms(2) [unfolded file_Chmod_def] u] by (auto split: option.splits)
  then have "temporary_at (files w') h tmp t x"
    using t temporary_kept [OF t, of "\<lambda>n. n\<lparr>i_perm := perm\<rparr>" i] by auto
  ultimately show ?thesis using assms(1) by (simp add: staged_def same_def undisturbed_def)
qed

lemma staged_looks:
  assumes "staged C h tmp t x w"
  shows "file_Sync i w = (q, w') \<Longrightarrow> sys w' = sys w \<and> staged C h tmp t x w'"
    "file_Close i w = (q, w') \<Longrightarrow> sys w' = sys w \<and> staged C h tmp t x w'"
proof -
  have u: "undisturbed w" using assms by (simp add: staged_def)
  show "file_Sync i w = (q, w') \<Longrightarrow> sys w' = sys w \<and> staged C h tmp t x w'"
    "file_Close i w = (q, w') \<Longrightarrow> sys w' = sys w \<and> staged C h tmp t x w'"
    using looks(9,10) [OF u, of i] staged_unchanged [OF assms] by (auto simp: unchanged_def)
qed

lemma staged_Rename:
  assumes "staged C h tmp t x w" and "root_Rename h tmp name w = (q, w')" and "name \<noteq> tmp"
  shows "sys w' = sys w" "isl q \<Longrightarrow> staged C h tmp t x w'"
    "\<not> isl q \<Longrightarrow> contents (files w') = C((h, tmp) := None, (h, name) \<mapsto> Inr x)"
proof -
  have t: "temporary_at (files w) h tmp t x" and u: "undisturbed w" and c: "contents (files w) = C((h, tmp) \<mapsto> Inr x)"
    using assms(1) by (simp_all add: staged_def)
  note sc = sys_call_undisturbed [OF assms(2) [unfolded root_Rename_def] u]
  show "sys w' = sys w" by (rule sc(1))
  show "isl q \<Longrightarrow> staged C h tmp t x w'" using sc assms(1) by (auto simp: staged_def undisturbed_def)
  assume "\<not> isl q"
  then have "rename_entry h tmp name (files w) = Inr ((), files w')"
    using sc(3) by (auto simp: named_def split: if_splits)
  from rename_contents [OF t this assms(3)]
  show "contents (files w') = C((h, tmp) := None, (h, name) \<mapsto> Inr x)" by (simp add: c)
qed

lemma install_file_effect:
  assumes "staged C h tmp t [] w" and "name \<noteq> tmp" and "install_file h name tmp t data w = (q, isOpen, keep, w')"
  shows "sys w' = sys w"
    "(keep \<and> isl q \<and> (\<exists>x. staged C h tmp t x w')) \<or>
     (\<not> keep \<and> contents (files w') = C((h, tmp) := None, (h, name) \<mapsto> Inr data))"
proof -
  obtain q1 w1 where 1: "file_Write t data w = (q1, w1)" by fastforce
  obtain q2 w2 where 2: "file_Chmod t 384 w1 = (q2, w2)" by fastforce
  obtain q3 w3 where 3: "file_Sync t w2 = (q3, w3)" by fastforce
  obtain q4 w4 where 4: "file_Close t w3 = (q4, w4)" by fastforce
  obtain q5 w5 where 5: "root_Rename h tmp name w4 = (q5, w5)" by fastforce
  obtain q6 w6 where 6: "syncRoot h w5 = (q6, w6)" by fastforce
  note s1 = staged_Write [OF assms(1) 1, simplified]
  have s4: "sys w2 = sys w \<and> sys w3 = sys w \<and> sys w4 = sys w \<and> staged C h tmp t data w2 \<and>
      staged C h tmp t data w3 \<and> staged C h tmp t data w4" if "\<not> isl q1"
    using s1(1) staged_Chmod [OF s1(3) [OF that] 2] staged_looks(1) [OF _ 3] staged_looks(2) [OF _ 4] by metis
  have s5: "sys w5 = sys w" "isl q5 \<Longrightarrow> staged C h tmp t data w5"
    "\<not> isl q5 \<Longrightarrow> contents (files w5) = C((h, tmp) := None, (h, name) \<mapsto> Inr data)" if "\<not> isl q1"
    using s4 [OF that] staged_Rename [OF _ 5 assms(2)] by auto
  have s6: "contents (files w6) = contents (files w5) \<and> sys w6 = sys w" if "\<not> isl q1"
  proof -
    have "undisturbed w5" using s5(1) [OF that] assms(1) by (simp add: staged_def undisturbed_def)
    then show ?thesis using same_syncRoot [OF same_refl, of w5 h] 6 s5(1) [OF that] by (simp add: same_def)
  qed
  have "sys w' = sys w \<and> ((keep \<and> isl q \<and> (\<exists>x. staged C h tmp t x w')) \<or>
     (\<not> keep \<and> contents (files w') = C((h, tmp) := None, (h, name) \<mapsto> Inr data)))"
  proof -
    consider "w' = w1" "isl q1" "keep" "isl q" | "\<not> isl q1" "w' \<in> {w2, w3, w4}" "keep" "isl q"
      | "\<not> isl q1" "isl q5" "w' = w5" "keep" "isl q" | "\<not> isl q1" "\<not> isl q5" "w' = w6" "\<not> keep"
      using assms(3) 1 2 3 4 5 6 by (auto simp: install_file_def split: sum.splits)
    then show ?thesis
    proof cases
      case 1
      then show ?thesis using s1 by blast
    next
      case 2
      then show ?thesis using s4 by blast
    next
      case 3
      then show ?thesis using s5(1,2) by blast
    next
      case 4
      then show ?thesis using s6 s5(3) by simp
    qed
  qed
  then show "sys w' = sys w"
    "(keep \<and> isl q \<and> (\<exists>x. staged C h tmp t x w')) \<or>
     (\<not> keep \<and> contents (files w') = C((h, tmp) := None, (h, name) \<mapsto> Inr data))" by blast+
qed

lemma staged_Remove:
  assumes "staged C h tmp t x w"
  shows "\<forall>dn. dn \<noteq> (h, tmp) \<longrightarrow> contents (files (snd (root_Remove h tmp w))) dn = C dn"
    "sys (snd (root_Remove h tmp w)) = sys w"
proof -
  have u: "undisturbed w" and c: "contents (files w) = C((h, tmp) \<mapsto> Inr x)" using assms by (simp_all add: staged_def)
  obtain q w' where r: "root_Remove h tmp w = (q, w')" by fastforce
  note sc = sys_call_undisturbed [OF r [unfolded root_Remove_def] u]
  show "sys (snd (root_Remove h tmp w)) = sys w" using sc(1) r by simp
  have "files w' = files w \<or> (\<exists>i. unlink h tmp i (files w) = files w')"
    using sc(3) by (auto simp: named_def split: if_splits option.splits)
  then show "\<forall>dn. dn \<noteq> (h, tmp) \<longrightarrow> contents (files (snd (root_Remove h tmp w))) dn = C dn"
    using c r by (elim disjE exE) (auto simp: contents_unlink dest: sym)
qed

lemma json_not_temp: "\<not> temp_name (k @ ''.json'')"
proof
  assume "temp_name (k @ ''.json'')"
  then obtain nonce where n: "k @ ''.json'' = ''.recasaos-custom-'' @ hex_EncodeToString nonce"
    by (auto simp: temp_name_def)
  have "last (''.recasaos-custom-'' @ hex_EncodeToString nonce) \<in> insert (CHR ''-'') (set hex_digits)"
    using subsetD [OF set_hex_Encode last_in_set, of nonce] by simp
  then have "last (k @ ''.json'') \<in> insert (CHR ''-'') (set hex_digits)" using n by metis
  then show False by (simp add: hex_digits_def)
qed

lemma Itoa_not_temp: "\<not> temp_name (Itoa n)"
proof
  assume "temp_name (Itoa n)"
  then have "CHR ''.'' \<in> set (Itoa n)" by (auto simp: temp_name_def)
  then show False using Itoa_no_sep by blast
qed

lemma Itoa_not_json: "Itoa n \<noteq> k @ ''.json''"
proof
  assume "Itoa n = k @ ''.json''"
  then have "CHR ''.'' \<in> set (Itoa n)" by simp
  then show False using Itoa_no_sep by blast
qed

text \<open>What a whole call of \<open>Write\<close> leaves behind, temporary names aside.\<close>

lemma prepared_refl: "fresh_inodes f \<Longrightarrow> prepared root name f f"
  by (simp add: prepared_def)

definition written :: "nat \<Rightarrow> string \<Rightarrow> string \<Rightarrow> string \<Rightarrow> (error + unit) \<Rightarrow> fs \<Rightarrow> fs \<Rightarrow> bool" where
  "written r dir name data q f f' \<longleftrightarrow> (\<exists>f1. prepared r dir f f1 \<and>
     (isl q \<and> (\<forall>dn. \<not> temp_name (snd dn) \<longrightarrow> contents f' dn = contents f1 dn) \<or>
      (\<exists>h. contents f1 (r, dir) = Some (Inl h) \<and>
         (\<forall>dn. \<not> temp_name (snd dn) \<longrightarrow> contents f' dn = ((contents f1)((h, name) \<mapsto> Inr data)) dn))))"

lemma config_Write_effect:
  assumes "config_Write (abs_path cs) uid key data w = (q, w')" and "undisturbed w" and "fresh_inodes (files w)"
    and "chain (files w) root_ino cs r"
  shows "written r (Itoa uid) (key @ ''.json'') data q (files w) (files w')"
proof -
  let ?name = "key @ ''.json''"
  have early: "written r (Itoa uid) ?name data q (files w) (files w')"
    if "isl q" "prepared r (Itoa uid) (files w) f1" "contents (files w') = contents f1" for f1
    using that unfolding written_def by metis
  have bad: "isl q \<and> w' = w" if "\<not> (ValidateKey key = Inr () \<and> length data \<le> MaxConfigBytes)"
  proof (cases "ValidateKey key")
    case (Inl a)
    then have "config_Write (abs_path cs) uid key data w = (Inl a, w)" by (simp add: config_Write_def)
    then show ?thesis using assms(1) by auto
  next
    case (Inr a)
    then have "config_Write (abs_path cs) uid key data w = (Inl ErrConfigTooLarge, w)"
      using that by (simp add: config_Write_def)
    then show ?thesis using assms(1) by auto
  qed
  obtain q1 w1 where 1: "openUserRoot (abs_path cs) uid True w = (q1, w1)" by fastforce
  note o = openUserRoot_effect [OF 1 assms(2-4)]
  have u1: "undisturbed w1" using o(1) assms(2) by (simp add: undisturbed_def)
  have f1: "fresh_inodes (files w1)" using o(2) by (simp add: prepared_def)
  show ?thesis
  proof (cases "q1")
    case (Inl e)
    then have "isl q \<and> (w' = w \<or> w' = w1)"
      using assms(1) 1 bad by (cases "ValidateKey key = Inr () \<and> length data \<le> MaxConfigBytes")
        (auto simp: config_Write_def)
    then show ?thesis using early [OF _ prepared_refl] early [OF _ o(2)] assms(3) by metis
  next
    case (Inr h)
    obtain fd w2 where 2: "root_Lstat h ?name w1 = (fd, w2)" by fastforce
    obtain q3 w3 where 3: "createTemporaryFile 16 h w2 = (q3, w3)" by fastforce
    have h: "contents (files w1) (r, Itoa uid) = Some (Inl h)" "is_dir (files w1) h" using o(4) Inr by simp_all
    have s2: "same w1 w2" using same_looks(4) [OF same_refl [OF u1], of h ?name] 2 by simp
    then have w2: "undisturbed w2" "fresh_inodes (files w2)" "is_dir (files w2) h" "contents (files w2) = contents (files w1)"
      using f1 h(2) by (auto simp: same_def undisturbed_def)
    note t = createTemporaryFile_effect [OF 3 w2(1-3)]
    have closed: "contents (files (close_all hs v)) = contents (files v)" if "undisturbed v" for hs and v :: "'a fs_world_scheme"
      using close_all_unchanged [OF that, of hs] by (simp add: unchanged_def)
    have u3: "undisturbed w3" using t w2(1) by (simp add: undisturbed_def)
    define chk where "chk = (case fd of
        Inr i \<Rightarrow> validateRegularFile i w2
      | Inl e \<Rightarrow> if \<not> errors_Is e ErrNotExist then Inl (Errorf ''inspect custom configuration'' e) else Inr ())"
    consider (invalid) "w' = w" "isl q" | (refused) "w' = close_all [h] w2" "isl q"
      | (notemp) "isl q3" "w' = close_all [h] w3" "isl q"
      | (temp) tmp t where "q3 = Inr (tmp, t)"
          "(case install_file h ?name tmp t data w3 of (r, isOpen, keepTemporary, w4) \<Rightarrow>
             let w5 = (if isOpen then close_all [t] w4 else w4);
                 w6 = (if keepTemporary then snd (root_Remove h tmp w5) else w5) in
             (r, close_all [h] w6)) = (q, w')"
    proof (cases "ValidateKey key = Inr () \<and> length data \<le> MaxConfigBytes")
      case True
      then have "config_Write (abs_path cs) uid key data w =
         (case chk of Inl e \<Rightarrow> (Inl e, close_all [h] w2) | Inr _ \<Rightarrow>
          case createTemporaryFile 16 h w2 of (Inl e, w3) \<Rightarrow> (Inl e, close_all [h] w3) | (Inr (tmp, t), w3) \<Rightarrow>
          case install_file h ?name tmp t data w3 of (r, isOpen, keepTemporary, w4) \<Rightarrow>
             let w5 = (if isOpen then close_all [t] w4 else w4);
                 w6 = (if keepTemporary then snd (root_Remove h tmp w5) else w5) in
             (r, close_all [h] w6))"
        using 1 2 Inr by (simp add: config_Write_def chk_def Let_def)
      then show ?thesis using that assms(1) 3 by (cases chk; cases q3) (auto simp: Let_def)
    qed (use bad that(1) in blast)
    then show ?thesis
    proof cases
      case invalid
      then show ?thesis using early [OF _ prepared_refl [OF assms(3)]] by simp
    next
      case refused
      then show ?thesis using early [OF _ o(2)] closed [OF w2(1)] w2(4) by simp
    next
      case notemp
      then show ?thesis using early [OF _ o(2)] closed [OF u3] t w2(4) by auto
    next
      case (temp tmp tf)
      have tmp: "temp_name tmp" and staged: "staged (contents (files w1)) h tmp tf [] w3"
        using t temp(1) u3 w2(4) by (auto simp: staged_def)
      have ne: "?name \<noteq> tmp" using tmp json_not_temp by metis
      obtain q4 op keep w4 where 4: "install_file h ?name tmp tf data w3 = (q4, op, keep, w4)"
        by (metis prod_cases4)
      note i = install_file_effect [OF staged ne 4]
      define w5 where "w5 = (if op then close_all [tf] w4 else w4)"
      have u4: "undisturbed w4" using i(1) u3 by (simp add: undisturbed_def)
      then have w5: "unchanged w4 w5" "undisturbed w5"
        using close_all_unchanged [OF u4, of "[tf]"] by (auto simp: w5_def unchanged_def undisturbed_def)
      define w6 where "w6 = (if keep then snd (root_Remove h tmp w5) else w5)"
      have w': "q = q4" "w' = close_all [h] w6" using temp(2) 4 unfolding w5_def w6_def Let_def by auto
      show ?thesis
      proof (cases keep)
        case True
        then obtain x where "staged (contents (files w1)) h tmp tf x w5"
          using i(2) staged_unchanged [OF _ w5(1)] by blast
        note rm = staged_Remove [OF this]
        have "undisturbed w6" using rm(2) w5(2) True by (simp add: w6_def undisturbed_def)
        then have c': "contents (files w') = contents (files w6)" using closed w'(2) by simp
        have "contents (files w') dn = contents (files w1) dn" if "\<not> temp_name (snd dn)" for dn
        proof -
          have "dn \<noteq> (h, tmp)" using that tmp by auto
          then have "contents (files (snd (root_Remove h tmp w5))) dn = contents (files w1) dn" using rm(1) by blast
          then show ?thesis using True c' by (simp add: w6_def)
        qed
        then show ?thesis using o(2) w'(1) i(2) True unfolding written_def by blast
      next
        case False
        then have c: "contents (files w4) = (contents (files w1))((h, tmp) := None, (h, ?name) \<mapsto> Inr data)"
          using i(2) by blast
        have "contents (files w') = contents (files w4)"
          using False closed [OF w5(2)] w5(1) w'(2) by (simp add: w6_def unchanged_def)
        moreover have "contents (files w4) dn = ((contents (files w1))((h, ?name) \<mapsto> Inr data)) dn" if "\<not> temp_name (snd dn)" for dn
        proof -
          have "dn \<noteq> (h, tmp)" using that tmp by auto
          then show ?thesis by (simp add: c)
        qed
        ultimately show ?thesis using o(2) h(1) unfolding written_def by metis
      qed
    qed
  qed
qed

section \<open>The user's configuration\<close>

definition user_config :: "fs \<Rightarrow> nat \<Rightarrow> int \<Rightarrow> string \<Rightarrow> string option" where
  "user_config f r uid key =
     (case contents f (r, Itoa uid) of
        Some (Inl d) \<Rightarrow> (case contents f (d, key @ ''.json'') of Some (Inr x) \<Rightarrow> Some x | _ \<Rightarrow> None)
      | _ \<Rightarrow> None)"

text \<open>No directory is the home of two users.\<close>

definition separate :: "fs \<Rightarrow> nat \<Rightarrow> bool" where
  "separate f r \<longleftrightarrow> (\<forall>u v d. contents f (r, Itoa u) = Some (Inl d) \<longrightarrow> contents f (r, Itoa v) = Some (Inl d) \<longrightarrow> u = v)"

lemma Itoa_eq [simp]: "Itoa m = Itoa n \<longleftrightarrow> m = n"
  using Itoa_inject by blast

lemma user_config_cong:
  assumes "contents f' (r, Itoa u) = contents f (r, Itoa u)"
    and "\<And>d. contents f (r, Itoa u) = Some (Inl d) \<Longrightarrow> contents f' (d, k @ ''.json'') = contents f (d, k @ ''.json'')"
  shows "user_config f' r u k = user_config f r u k"
  using assms by (auto simp: user_config_def split: option.splits sum.splits)

lemma prepared_config: "prepared r (Itoa uid) f f1 \<Longrightarrow> user_config f1 r u k = user_config f r u k"
proof (cases "contents f1 = contents f")
  case False
  assume "prepared r (Itoa uid) f f1"
  with False obtain d where d: "contents f (r, Itoa uid) = None" "contents f1 = (contents f)((r, Itoa uid) \<mapsto> Inl d)"
    "\<forall>n. contents f (d, n) = None" unfolding prepared_def by blast
  have json: "contents f1 (d', k @ ''.json'') = contents f (d', k @ ''.json'')" for d'
    using d(2) Itoa_not_json [of uid k] by auto
  show ?thesis
  proof (cases "u = uid")
    case True
    then show ?thesis using d json [of d] by (simp add: user_config_def)
  next
    case False
    then show ?thesis using d(2) json by (intro user_config_cong) simp_all
  qed
qed (rule user_config_cong, simp_all)

lemma prepared_separate: "prepared r (Itoa uid) f f1 \<Longrightarrow> separate f r \<Longrightarrow> separate f1 r"
  unfolding prepared_def separate_def by (auto split: if_splits)

lemma written_config:
  assumes "written r (Itoa uid) (key @ ''.json'') data q f f'" and "separate f r"
  shows "(u, k) \<noteq> (uid, key) \<Longrightarrow> user_config f' r u k = user_config f r u k"
    "user_config f' r uid key = Some data \<or> isl q \<and> user_config f' r uid key = user_config f r uid key"
proof -
  obtain f1 where p: "prepared r (Itoa uid) f f1" and w:
    "isl q \<and> (\<forall>dn. \<not> temp_name (snd dn) \<longrightarrow> contents f' dn = contents f1 dn) \<or>
     (\<exists>h. contents f1 (r, Itoa uid) = Some (Inl h) \<and>
         (\<forall>dn. \<not> temp_name (snd dn) \<longrightarrow> contents f' dn = ((contents f1)((h, key @ ''.json'') \<mapsto> Inr data)) dn))"
    using assms(1) unfolding written_def by blast
  have sep: "separate f1 r" using p assms(2) by (rule prepared_separate)
  have same: "user_config f' r u k = user_config f1 r u k"
    if "\<forall>dn. \<not> temp_name (snd dn) \<longrightarrow> contents f' dn = contents f1 dn" for u k
  proof -
    show ?thesis using that json_not_temp Itoa_not_temp by (intro user_config_cong) simp_all
  qed
  have new: "user_config f' r u k = (if (u, k) = (uid, key) then Some data else user_config f1 r u k)"
    if "contents f1 (r, Itoa uid) = Some (Inl h)"
      "\<forall>dn. \<not> temp_name (snd dn) \<longrightarrow> contents f' dn = ((contents f1)((h, key @ ''.json'') \<mapsto> Inr data)) dn" for h u k
  proof -
    have a: "contents f' (r, Itoa u) = contents f1 (r, Itoa u)"
      using that(2) Itoa_not_temp [of u] Itoa_not_json [of u key] by simp
    have b: "contents f' (d, k @ ''.json'') = (if d = h \<and> k = key then Some (Inr data) else contents f1 (d, k @ ''.json''))" for d
      using that(2) json_not_temp [of k] by simp
    have "u = uid" if "contents f1 (r, Itoa u) = Some (Inl h)" using sep \<open>contents f1 (r, Itoa uid) = Some (Inl h)\<close> that
      unfolding separate_def by blast
    then have c: "contents f' (d, k @ ''.json'') = contents f1 (d, k @ ''.json'')"
      if "contents f1 (r, Itoa u) = Some (Inl d)" "(u, k) \<noteq> (uid, key)" for d
      using that b [of d] by (cases "d = h") auto
    show ?thesis
    proof (cases "(u, k) = (uid, key)")
      case True
      then show ?thesis using a b [of h] that(1) by (simp add: user_config_def)
    next
      case False
      have "user_config f' r u k = user_config f1 r u k" using a c [OF _ False] by (rule user_config_cong)
      then show ?thesis using False by auto
    qed
  qed
  have "((u, k) \<noteq> (uid, key) \<longrightarrow> user_config f' r u k = user_config f r u k) \<and>
    (user_config f' r uid key = Some data \<or> isl q \<and> user_config f' r uid key = user_config f r uid key)" for u k
    using w
  proof
    assume "isl q \<and> (\<forall>dn. \<not> temp_name (snd dn) \<longrightarrow> contents f' dn = contents f1 dn)"
    then show ?thesis using same prepared_config [OF p] by simp
  next
    assume "\<exists>h. contents f1 (r, Itoa uid) = Some (Inl h) \<and>
      (\<forall>dn. \<not> temp_name (snd dn) \<longrightarrow> contents f' dn = ((contents f1)((h, key @ ''.json'') \<mapsto> Inr data)) dn)"
    then obtain h where "contents f1 (r, Itoa uid) = Some (Inl h)"
      "\<forall>dn. \<not> temp_name (snd dn) \<longrightarrow> contents f' dn = ((contents f1)((h, key @ ''.json'') \<mapsto> Inr data)) dn" by blast
    note new [OF this]
    then show ?thesis using prepared_config [OF p] by simp
  qed
  then show "(u, k) \<noteq> (uid, key) \<Longrightarrow> user_config f' r u k = user_config f r u k"
    "user_config f' r uid key = Some data \<or> isl q \<and> user_config f' r uid key = user_config f r uid key"
    by blast+
qed

section \<open>Reading and deleting\<close>

lemma openExisting_handle:
  assumes "openExistingRegularFile h name w = (Inr fd, w')" and "undisturbed w" and "plain name"
  obtains n where "contents (files w) (h, name) = Some (Inr (i_data n))" and "inodes (files w') fd = Some n"
proof -
  obtain before w1 w2 after w3 where s: "root_Lstat h name w = (Inr before, w1)"
    "root_Open h name w1 = (Inr fd, w2)" "file_Stat fd w2 = (Inr after, w3)" "SameFile before after"
    "validateRegularFile before w1 = Inr ()" "file_Chmod fd 384 w3 = (Inr (), w')"
    using assms(1) by (auto simp: openExistingRegularFile_def split: prod.splits sum.splits if_splits)
  have u1: "unchanged w w1" "undisturbed w1" using looks(4) [OF assms(2), of h name] s(1) assms(2)
    by (simp_all add: unchanged_undisturbed)
  have u2: "unchanged w1 w2" "undisturbed w2" using looks(5) [OF u1(2), of h name] s(2) u1(2)
    by (simp_all add: unchanged_undisturbed)
  have u3: "unchanged w2 w3" "undisturbed w3" using looks(7) [of w2 fd] s(3) u2(2)
    by (simp_all add: unchanged_undisturbed)
  have "fi_ino after = fd"
    using sys_call_undisturbed(3) [OF s(3) [unfolded file_Stat_def] u2(2)] by (auto simp: info_def split: option.splits)
  then have i: "fi_ino before = fd" using s(4) by (simp add: SameFile_def)
  obtain j where "below (files w) False h name = Inr j" "info (files w) j = Inr before"
    using sys_call_undisturbed(3) [OF s(1) [unfolded root_Lstat_def] assms(2)] by (auto split: sum.splits)
  then have e: "entries (files w) h name = Some fd" "inodes (files w) fd = Some (fi_node before)"
    using below_plain [OF assms(3)] i by (auto simp: info_def split: option.splits)
  have k: "i_kind (fi_node before) = Regular"
    using s(5) by (auto simp: validateRegularFile_def IsRegular_def split: if_splits)
  have "files w3 = files w" using u1 u2 u3 by (simp add: unchanged_def)
  then have "inodes (files w') fd = Some ((fi_node before)\<lparr>i_perm := 384\<rparr>)"
    using sys_call_undisturbed(3) [OF s(6) [unfolded file_Chmod_def] u3(2)] e(2)
    by (auto simp: set_node_def split: option.splits dest!: sym [of _ "files w'"])
  then show thesis using that [of "(fi_node before)\<lparr>i_perm := 384\<rparr>"] e k by (simp add: contents_def)
qed

lemma Read_effect:
  assumes "Read (abs_path cs) uid key w = (q, w')" and "undisturbed w" and "fresh_inodes (files w)"
    and "chain (files w) root_ino cs r"
  shows "contents (files w') = contents (files w)"
    "q = Inr x \<Longrightarrow> user_config (files w) r uid key = Some x \<and> length x \<le> MaxConfigBytes"
proof -
  obtain q1 w1 where 1: "openUserRoot (abs_path cs) uid False w = (q1, w1)" by fastforce
  note o = openUserRoot_effect [OF 1 assms(2-4)]
  have u1: "undisturbed w1" using o(1) assms(2) by (simp add: undisturbed_def)
  have c1: "contents (files w1) = contents (files w)" using o(3) by simp
  have s1: "same w1 (snd (case openExistingRegularFile root (key @ ''.json'') w1 of
        (Inl e, w2) \<Rightarrow> (Inl e, close_all [root] w2)
      | (Inr fd, w2) \<Rightarrow>
      case read_limited fd (MaxConfigBytes + 1) w2 of
        (Inl e, w3) \<Rightarrow> (Inl (Errorf ''read custom configuration'' e), close_all [fd, root] w3)
      | (Inr data, w3) \<Rightarrow>
          (if length data > MaxConfigBytes then Inl ErrConfigTooLarge else Inr data, close_all [fd, root] w3)))" for root
    by (intro same_rules same_openExisting same_refl u1)
  show "contents (files w') = contents (files w)"
  proof (cases "ValidateKey key")
    case (Inl e)
    then show ?thesis using assms(1) by (simp add: Read_def)
  next
    case v: (Inr u)
    show ?thesis
    proof (cases q1)
      case (Inl e)
      then show ?thesis using assms(1) 1 v c1 by (simp add: Read_def)
    next
      case (Inr root)
      have "same w1 w'" using s1 [of root] assms(1) 1 v Inr by (simp add: Read_def)
      then show ?thesis using c1 by (simp add: same_def)
    qed
  qed
  assume q: "q = Inr x"
  then have key: "ValidateKey key = Inr ()" using assms(1) by (auto simp: Read_def split: sum.splits)
  then obtain h fd w2 w3 where s: "q1 = Inr h" "openExistingRegularFile h (key @ ''.json'') w1 = (Inr fd, w2)"
    "read_limited fd (MaxConfigBytes + 1) w2 = (Inr x, w3)" "length x \<le> MaxConfigBytes"
    using assms(1) 1 q by (auto simp: Read_def split: sum.splits prod.splits if_splits)
  obtain n where n: "contents (files w1) (h, key @ ''.json'') = Some (Inr (i_data n))" "inodes (files w2) fd = Some n"
    using openExisting_handle [OF s(2) u1 key_plain [OF key]] by blast
  have "undisturbed w2" using same_openExisting [OF same_refl [OF u1], of h "key @ ''.json''"] s(2)
    by (metis same_undisturbed snd_conv)
  then have "x = take (MaxConfigBytes + 1) (i_data n)"
    using sys_call_undisturbed(3) [OF s(3) [unfolded read_limited_def]] n(2) by (auto split: if_splits)
  then have "x = i_data n" using s(4) by (cases "length (i_data n) \<le> MaxConfigBytes") (auto simp: min_def split: if_splits)
  then show "user_config (files w) r uid key = Some x \<and> length x \<le> MaxConfigBytes"
    using n(1) o(4) [OF s(1)] c1 s(4) by (simp add: user_config_def)
qed

lemma Inl_isl: "Inl a = x \<Longrightarrow> isl x"
  by auto

lemma config_Delete_effect:
  assumes "config_Delete (abs_path cs) uid key w = (q, w')" and "undisturbed w" and "fresh_inodes (files w)"
    and "chain (files w) root_ino cs r"
  shows "isl q \<and> contents (files w') = contents (files w) \<or>
    (\<exists>h. contents (files w) (r, Itoa uid) = Some (Inl h) \<and>
       contents (files w') = (contents (files w))((h, key @ ''.json'') := None))"
proof -
  obtain q1 w1 where 1: "openUserRoot (abs_path cs) uid False w = (q1, w1)" by fastforce
  note o = openUserRoot_effect [OF 1 assms(2-4)]
  have u1: "undisturbed w1" using o(1) assms(2) by (simp add: undisturbed_def)
  have c1: "contents (files w1) = contents (files w)" using o(3) by simp
  have closed: "contents (files (close_all hs v)) = contents (files v)" if "undisturbed v" for hs and v :: "'a fs_world_scheme"
    using close_all_unchanged [OF that, of hs] by (simp add: unchanged_def)
  show ?thesis
  proof (cases "ValidateKey key = Inr () \<and> \<not> isl q1")
    case False
    then have "\<exists>e. (q, w') = (Inl e, w) \<or> (q, w') = (Inl e, w1)"
      using 1 unfolding assms(1) [symmetric] by (cases "ValidateKey key"; cases q1) (auto simp: config_Delete_def)
    then show ?thesis using c1 by auto
  next
    case True
    then obtain h where h: "q1 = Inr h" by (cases q1) auto
    obtain i w2 where 2: "root_Lstat h (key @ ''.json'') w1 = (i, w2)" by fastforce
    obtain q3 w3 where 3: "root_Remove h (key @ ''.json'') w2 = (q3, w3)" by fastforce
    obtain q4 w4 where 4: "syncRoot h w3 = (q4, w4)" by fastforce
    have w2: "undisturbed w2" "contents (files w2) = contents (files w)"
      using looks(4) [OF u1, of h "key @ ''.json''"] 2 c1 u1 by (auto simp: unchanged_def undisturbed_def)
    note r = sys_call_undisturbed [OF 3 [unfolded root_Remove_def] w2(1)]
    have u3: "undisturbed w3" using r(1) w2(1) by (simp add: undisturbed_def)
    have w3: "isl q3 \<and> files w3 = files w2 \<or> (\<exists>j. unlink h (key @ ''.json'') j (files w2) = files w3)"
      using r(3) by (auto simp: named_def split: if_splits option.splits)
    then have c3: "isl q3 \<and> contents (files w3) = contents (files w) \<or>
        contents (files w3) = (contents (files w))((h, key @ ''.json'') := None)"
      using w2(2) contents_unlink by metis
    have w4: "undisturbed w4" "contents (files w4) = contents (files w3)"
      using same_syncRoot [OF same_refl [OF u3], of h] 4 by (auto simp: same_def undisturbed_def)
    consider "isl q" "w' = close_all [h] w2" | "isl q" "isl q3" "w' = close_all [h] w3" | "\<not> isl q3" "w' = close_all [h] w4"
      using assms(1) 1 2 3 4 h True
      by (cases i; cases q3; cases "validateRegularFile (projr i) w2") (auto simp: config_Delete_def Let_def dest: Inl_isl)
    then show ?thesis
      using closed [OF w2(1)] closed [OF u3] closed [OF w4(1)] w2(2) c3 w4(2) o(4) [OF h] c1 by cases auto
  qed
qed

lemma user_config_contents: "contents f' = contents f \<Longrightarrow> user_config f' = user_config f"
  by (intro ext user_config_cong) simp_all

lemma deleted_config:
  assumes "contents f (r, Itoa uid) = Some (Inl h)" and "contents f' = (contents f)((h, key @ ''.json'') := None)"
    and "separate f r"
  shows "user_config f' r uid key = None" "(u, k) \<noteq> (uid, key) \<Longrightarrow> user_config f' r u k = user_config f r u k"
proof -
  have a: "contents f' (r, Itoa v) = contents f (r, Itoa v)" for v
    using assms(2) Itoa_not_json [of v key] by auto
  show "user_config f' r uid key = None" using a assms(1,2) by (simp add: user_config_def)
  assume ne: "(u, k) \<noteq> (uid, key)"
  show "user_config f' r u k = user_config f r u k"
  proof (rule user_config_cong [OF a])
    fix d assume "contents f (r, Itoa u) = Some (Inl d)"
    then have "d \<noteq> h \<or> k \<noteq> key" using ne assms(1,3) unfolding separate_def by blast
    then show "contents f' (d, k @ ''.json'') = contents f (d, k @ ''.json'')" using assms(2) by auto
  qed
qed

section \<open>The properties\<close>

text \<open>C25.  A key that the routes and the store accept is at most 64 characters of the portable file name
  alphabet that start with a letter or a digit and contain no \<open>..\<close>; its file name is a single
  component, so it can neither leave the user's directory nor denote a directory.\<close>

theorem ValidateKey_component:
  "(ValidateKey key = Inr ()) = (name_pattern key \<and> \<not> Contains key ''..'') \<and>
   (if ValidateKey key = Inr () then plain (key @ ''.json'') else ValidateKey key = Inl ErrInvalidKey)"
proof -
  have "key_chars n s = Inr () \<or> key_chars n s = Inl ErrInvalidKey" for n s
    by (induction s arbitrary: n) (auto simp: Let_def)
  then have "ValidateKey key = Inr () \<or> ValidateKey key = Inl ErrInvalidKey" by (auto simp: ValidateKey_def)
  then show ?thesis using ValidateKey_pattern key_plain by auto
qed


text \<open>A data root with one user's directory.\<close>

definition dir_node :: inode where
  "dir_node = \<lparr>i_kind = Directory, i_perm = 448, i_uid = 0, i_nlink = 2, i_data = []\<rparr>"

definition config_fs :: fs where
  "config_fs = \<lparr>inodes = (\<lambda>i. if i < 3 then Some dir_node else None),
     dirents = (\<lambda>d. if d = 0 then [(''data'', 1)] else if d = 1 then [(''7'', 2)] else []),
     next_ino = 3, flocks = (\<lambda>_. None)\<rparr>"

definition calm_sys :: sysenv where
  "calm_sys = \<lparr>sys_fault = (\<lambda>_. None), fs_interfere = (\<lambda>_ f. f), euid = 0, umask = 18, cwd = ''/'',
     temp_names = (\<lambda>_ _. [])\<rparr>"

definition config_world :: fs_world where
  "config_world = \<lparr>db = empty_db, env = calm_env, tick = 0, kdf = [], files = config_fs, sys = calm_sys\<rparr>"

lemma config_world_ok:
  "undisturbed config_world" "fresh_inodes (files config_world)" "chain (files config_world) root_ino [''data''] 1"
  "separate (files config_world) 1"
proof -
  show "undisturbed config_world" by (simp add: undisturbed_def config_world_def calm_sys_def)
  show "fresh_inodes (files config_world)"
    by (auto simp: fresh_inodes_def config_world_def config_fs_def entries_def split: if_splits)
  show "chain (files config_world) root_ino [''data''] 1"
    by (simp add: config_world_def config_fs_def root_ino_def plain_def is_dir_def entries_def dir_node_def)
  have "Itoa u = ''7''" if "contents (files config_world) (1, Itoa u) \<noteq> None" for u
    using that by (auto simp: contents_def config_world_def config_fs_def entries_def split: if_splits)
  then show "separate (files config_world) 1" unfolding separate_def by (metis Itoa_inject option.distinct(1))
qed


end
