(* ===== verification/Users.thy ===== *)
theory Users
  imports Sessions Password
begin

text \<open>
  \<open>src/service/user.go\<close>: authentication, password changes and resets, deletion, profile updates and
  lookups of users, and the creation of the first administrator.  Argon2id and the token library
  are parameters (\<open>idkey\<close>); the receiver is a service whose database handle is set, as \<open>NewUserService\<close>
  builds it.
\<close>

section \<open>Names and passwords\<close>

definition usernamePattern :: "string \<Rightarrow> bool" where
  "usernamePattern s = name_pattern s"

definition validResetUsername :: "string \<Rightarrow> bool" where
  "validResetUsername username =
     (if length username = 0 \<or> length username > 256 then False
      else \<not> ContainsAny username [CHR 0x00, CHR 0x0D, CHR 0x0A])"

definition ValidateNewPassword :: "string \<Rightarrow> error + unit" where
  "ValidateNewPassword plaintext =
     (if length plaintext < 12 \<or> length plaintext > 1024 then Inl ErrWeakPassword
      else if list_ex (\<lambda>c. c = CHR 0x00 \<or> c = CHR 0x0D \<or> c = CHR 0x0A) plaintext then Inl ErrWeakPassword
      else Inr ())"

section \<open>Statements on users\<close>

text \<open>
  A comparison \<open>id = ?\<close> with a text goes through SQLite's integer affinity.  A lookup with \<open>Select\<close>
  fills the named columns and leaves the others at their zero values.
\<close>

definition has_id :: "env \<Rightarrow> string \<Rightarrow> UserDBModel \<Rightarrow> bool" where
  "has_id e uid r \<longleftrightarrow> id_affinity e uid = Some (u_Id r)"

definition select_user :: "(UserDBModel \<Rightarrow> bool) \<Rightarrow> db \<Rightarrow> error + UserDBModel \<times> db" where
  "select_user P d = (case find P (o_users d) of None \<Rightarrow> Inl ErrNoRows | Some r \<Rightarrow> Inr (r, d))"

definition update_users ::
  "(UserDBModel \<Rightarrow> bool) \<Rightarrow> (UserDBModel \<Rightarrow> UserDBModel) \<Rightarrow> db \<Rightarrow> error + int \<times> db" where
  "update_users P f d =
     Inr (RowsAffected P (o_users d), d\<lparr>o_users := update_where P f (o_users d)\<rparr>)"

definition public_columns :: "UserDBModel \<Rightarrow> UserDBModel" where
  "public_columns r =
     zero_user\<lparr>u_Username := u_Username r, u_Id := u_Id r, u_Role := u_Role r, u_Nickname := u_Nickname r,
       u_Description := u_Description r, u_Avatar := u_Avatar r, u_Email := u_Email r\<rparr>"

text \<open>A gorm lookup whose error is not looked at: the destination keeps its zero value.\<close>

definition lookup_user ::
  "(UserDBModel \<Rightarrow> bool) \<Rightarrow> 'x world_scheme \<Rightarrow> UserDBModel \<times> 'x world_scheme" where
  "lookup_user P w =
     (case autocommit UserDBModel_TableName (first_user P) w of
        (Inl _, w1) \<Rightarrow> (zero_user, w1) | (Inr r, w1) \<Rightarrow> (r, w1))"

definition GetUserAllInfoById :: "string \<Rightarrow> 'x world_scheme \<Rightarrow> UserDBModel \<times> 'x world_scheme" where
  "GetUserAllInfoById uid w = lookup_user (has_id (env w) uid) w"

definition GetUserAllInfoByName :: "string \<Rightarrow> 'x world_scheme \<Rightarrow> UserDBModel \<times> 'x world_scheme" where
  "GetUserAllInfoByName userName w = lookup_user (\<lambda>r. u_Username r = userName) w"

definition GetUserInfoById :: "string \<Rightarrow> 'x world_scheme \<Rightarrow> UserDBModel \<times> 'x world_scheme" where
  "GetUserInfoById uid w =
     (case lookup_user (has_id (env w) uid) w of (r, w1) \<Rightarrow> (public_columns r, w1))"

definition GetUserInfoByUserName :: "string \<Rightarrow> 'x world_scheme \<Rightarrow> UserDBModel \<times> 'x world_scheme" where
  "GetUserInfoByUserName userName w =
     (case lookup_user (\<lambda>r. u_Username r = userName) w of (r, w1) \<Rightarrow> (public_columns r, w1))"

text \<open>The statement has no \<open>ORDER BY\<close>: the rows come in the order of the table.\<close>

definition GetAllUserName :: "'x world_scheme \<Rightarrow> UserDBModel list \<times> 'x world_scheme" where
  "GetAllUserName w =
     (case autocommit UserDBModel_TableName
        (\<lambda>d. Inr (map (\<lambda>r. zero_user\<lparr>u_Username := u_Username r\<rparr>) (o_users d), d)) w of
        (Inl _, w1) \<Rightarrow> ([], w1) | (Inr rows, w1) \<Rightarrow> (rows, w1))"

definition GetKeyPair :: "userService \<Rightarrow> PrivateKey option \<times> PublicKey option" where
  "GetKeyPair u = (us_privateKey u, us_publicKey u)"

text \<open>\<open>keypair\<close> is the result of the token library's \<open>GenerateKeyPair\<close>.\<close>

definition NewUserService :: "(PrivateKey \<times> PublicKey) option \<Rightarrow> bool \<Rightarrow> State \<Rightarrow> userService option" where
  "NewUserService keypair dbSet initializationState =
     (case keypair of
        None \<Rightarrow> None
      | Some (privateKey, publicKey) \<Rightarrow>
          Some \<lparr>us_privateKey = Some privateKey, us_publicKey = Some publicKey, us_db = dbSet,
                us_initializationState = initializationState\<rparr>)"

section \<open>Deleting\<close>

definition DeleteAllUser :: "error + unit" where
  "DeleteAllUser = Inl ErrLastAdmin"

definition is_admin :: "UserDBModel \<Rightarrow> bool" where
  "is_admin r \<longleftrightarrow> u_Role r = ''admin''"

definition delete_tx :: "string \<Rightarrow> 'x world_scheme \<Rightarrow> (error + unit) \<times> 'x world_scheme" where
  "delete_tx uid w =
     (case in_tx UserDBModel_TableName (select_user (has_id (env w) uid)) w of
        (Inl e, w1) \<Rightarrow>
          if errors_Is e ErrNoRows then (Inl ErrUserNotFound, w1)
          else (Inl (Errorf ''load user for deletion'' e), w1)
      | (Inr user, w1) \<Rightarrow>
      case (if is_admin user then
              (case in_tx UserDBModel_TableName (\<lambda>d. Inr (RowsAffected is_admin (o_users d), d)) w1 of
                 (Inl e, w2) \<Rightarrow> (Inl (Errorf ''count administrators'' e), w2)
               | (Inr administratorCount, w2) \<Rightarrow>
                   if administratorCount \<le> 1 then (Inl ErrLastAdmin, w2) else (Inr (), w2))
            else (Inr (), w1)) of
        (Inl e, w2) \<Rightarrow> (Inl e, w2)
      | (Inr _, w2) \<Rightarrow>
      case in_tx UserDBModel_TableName
        (\<lambda>d. Inr (RowsAffected (has_id (env w) uid) (o_users d),
                 d\<lparr>o_users := delete_where (has_id (env w) uid) (o_users d)\<rparr>)) w2 of
        (Inl e, w3) \<Rightarrow> (Inl (Errorf ''delete user'' e), w3)
      | (Inr rows, w3) \<Rightarrow>
      case driver_call w3 of
        (Inl e, w4) \<Rightarrow> (Inl (Errorf ''read user deletion result'' e), w4)
      | (Inr _, w4) \<Rightarrow> if rows \<noteq> 1 then (Inl ErrUserNotFound, w4) else (Inr (), w4))"

definition DeleteUserById ::
  "userService \<Rightarrow> string \<Rightarrow> 'x world_scheme \<Rightarrow> (error + unit) \<times> 'x world_scheme" where
  "DeleteUserById u uid w =
     (case driver_call w of (Inl e, w1) \<Rightarrow> (Inl (Errorf ''access user database pool'' e), w1) | (Inr _, w1) \<Rightarrow>
      case driver_call w1 of (Inl e, w2) \<Rightarrow> (Inl (Errorf ''acquire user deletion connection'' e), w2) | (Inr _, w2) \<Rightarrow>
      case Transaction (Errorf ''begin user deletion transaction'') (Errorf ''commit user deletion'') (delete_tx uid) w2 of
        (Inl e, w3) \<Rightarrow> (Inl e, w3)
      | (Inr _, w3) \<Rightarrow>
          (case Atoi uid of
             None \<Rightarrow> (Inr (), w3)
           | Some userID \<Rightarrow> (Inr (), snd (RevokeAllUserSessions (Some u) userID ''account deleted'' w3))))"

section \<open>Profiles\<close>

text \<open>
  \<open>Updates\<close> with a struct writes the non-zero fields other than the omitted ones and the creation
  time, and stamps \<open>updated_at\<close>; without a primary key it is refused.
\<close>

definition or_old :: "string \<Rightarrow> string \<Rightarrow> string" where
  "or_old v old = (if v = [] then old else v)"

definition merge_profile :: "UserDBModel \<Rightarrow> time \<Rightarrow> UserDBModel \<Rightarrow> UserDBModel" where
  "merge_profile m now r =
     r\<lparr>u_Username := or_old (u_Username m) (u_Username r), u_Email := or_old (u_Email m) (u_Email r),
       u_Nickname := or_old (u_Nickname m) (u_Nickname r), u_Avatar := or_old (u_Avatar m) (u_Avatar r),
       u_Description := or_old (u_Description m) (u_Description r), u_UpdatedAt := now\<rparr>"

definition UpdateUser :: "UserDBModel \<Rightarrow> 'x world_scheme \<Rightarrow> 'x world_scheme" where
  "UpdateUser m w =
     (case time_Now w of (now, w1) \<Rightarrow>
      if u_Id m = 0 then w1
      else snd (autocommit UserDBModel_TableName
        (\<lambda>d. if u_Username m \<noteq> [] \<and> u_Id m \<in> u_Id ` set (o_users d) \<and>
                (\<exists>r \<in> set (o_users d). u_Id r \<noteq> u_Id m \<and> u_Username r = u_Username m)
             then Inl (unique_failed ''o_users.username'')
             else update_users (\<lambda>r. u_Id r = u_Id m) (merge_profile m now) d) w1))"

section \<open>Authenticating\<close>

definition AuthenticateUser ::
  "argon2 \<Rightarrow> string \<Rightarrow> string \<Rightarrow> 'x world_scheme \<Rightarrow> (error + UserDBModel) \<times> 'x world_scheme" where
  "AuthenticateUser idkey username plaintext w =
     (if length username = 0 \<or> length username > 256 \<or> length plaintext = 0 \<or> length plaintext > 1024
      then (Inl ErrInvalidCredentials, ConsumeUnknownUser idkey ''invalid-login-input'' w)
      else
      case autocommit UserDBModel_TableName (first_user (\<lambda>r. u_Username r = username)) w of
        (Inl e, w1) \<Rightarrow>
          if errors_Is e ErrRecordNotFound then (Inl ErrInvalidCredentials, ConsumeUnknownUser idkey plaintext w1)
          else (Inl (Errorf ''load user for authentication'' e), w1)
      | (Inr user, w1) \<Rightarrow>
      case Verify idkey (u_Password user) plaintext w1 of
        (Inl e, w2) \<Rightarrow>
          if errors_Is e ErrPassword \<or> errors_Is e ErrInvalidHash then (Inl ErrInvalidCredentials, w2)
          else (Inl (Errorf ''verify password'' e), w2)
      | (Inr _, w2) \<Rightarrow>
      if \<not> NeedsRehash (u_Password user) then (Inr user, w2)
      else
      case Hash idkey plaintext w2 of
        (Inl e, w3) \<Rightarrow> (Inl (Errorf ''upgrade password hash'' e), w3)
      | (Inr newHash, w3) \<Rightarrow>
      case time_Now w3 of (now, w4) \<Rightarrow>
      case autocommit UserDBModel_TableName
        (update_users (\<lambda>r. u_Id r = u_Id user \<and> u_Password r = u_Password user)
           (\<lambda>r. r\<lparr>u_Password := newHash, u_UpdatedAt := now\<rparr>)) w4 of
        (Inl e, w5) \<Rightarrow> (Inl (Errorf ''store upgraded password hash'' e), w5)
      | (Inr n, w5) \<Rightarrow>
      if n = 0 then
        (case autocommit UserDBModel_TableName (first_user (\<lambda>r. u_Id r = u_Id user)) w5 of
           (Inl _, w6) \<Rightarrow> (Inl ErrInvalidCredentials, w6)
         | (Inr current, w6) \<Rightarrow>
         case Verify idkey (u_Password current) plaintext w6 of
           (Inl _, w7) \<Rightarrow> (Inl ErrInvalidCredentials, w7)
         | (Inr _, w7) \<Rightarrow> (Inr current, w7))
      else (Inr (user\<lparr>u_Password := newHash\<rparr>), w5))"

definition ChangeUserPassword ::
  "argon2 \<Rightarrow> userService \<Rightarrow> string \<Rightarrow> string \<Rightarrow> string \<Rightarrow> 'x world_scheme \<Rightarrow> (error + unit) \<times> 'x world_scheme" where
  "ChangeUserPassword idkey u uid oldPassword newPassword w =
     (case ValidateNewPassword newPassword of Inl e \<Rightarrow> (Inl e, w) | Inr _ \<Rightarrow>
      if length oldPassword = 0 \<or> length oldPassword > 1024 then (Inl ErrInvalidCredentials, w)
      else
      case autocommit UserDBModel_TableName (first_user (has_id (env w) uid)) w of
        (Inl e, w1) \<Rightarrow>
          if errors_Is e ErrRecordNotFound then (Inl ErrInvalidCredentials, w1)
          else (Inl (Errorf ''load user for password change'' e), w1)
      | (Inr user, w1) \<Rightarrow>
      case Verify idkey (u_Password user) oldPassword w1 of
        (Inl _, w2) \<Rightarrow>
          (Inl ErrInvalidCredentials,
           LogCredentialEvent (Some u) (u_Id user) CredentialEventPasswordChanged False ''password-change'' [] w2)
      | (Inr _, w2) \<Rightarrow>
      case Hash idkey newPassword w2 of
        (Inl e, w3) \<Rightarrow> (Inl (Errorf ''hash new password'' e), w3)
      | (Inr newHash, w3) \<Rightarrow>
      case time_Now w3 of (stamp, w4) \<Rightarrow>
      case autocommit UserDBModel_TableName
        (with_version (update_users (\<lambda>r. u_Id r = u_Id user \<and> u_Password r = u_Password user)
           (\<lambda>r. r\<lparr>u_Password := newHash, u_TokenVersion := u_TokenVersion r + 1, u_UpdatedAt := stamp\<rparr>))) w4 of
        (Inl e, w5) \<Rightarrow> (Inl (Errorf ''store new password'' e), w5)
      | (Inr n, w5) \<Rightarrow>
      if n \<noteq> 1 then (Inl ErrPasswordChanged, w5)
      else
      case time_Now w5 of (now, w6) \<Rightarrow>
      case revokeUserSessions (u_Id user) now ''password change'' w6 of (_, w7) \<Rightarrow>
      (Inr (), LogCredentialEvent (Some u) (u_Id user) CredentialEventPasswordChanged True ''password-change'' [] w7))"

end
