(* ===== verification/Recovery.thy ===== *)
theory Recovery
  imports Users
begin

text \<open>
  The offline operations of \<open>src/service/user.go\<close>: creating the first administrator
  (\<open>BootstrapAdmin\<close>) and replacing the verifier of an administrator (\<open>ResetAdminPassword\<close>) or of
  another user (\<open>ResetUserPassword\<close>).  A cancelled context shows as an error of the driver.
\<close>

section \<open>Creating the first administrator\<close>

definition event_row :: "time \<Rightarrow> string \<Rightarrow> int \<Rightarrow> string \<Rightarrow> string \<Rightarrow> CredentialEventDBModel" where
  "event_row now installationID actor eventType source =
     \<lparr>ce_ID = 0, ce_OccurredAt = now, ce_InstallationID = installationID, ce_ActorUserID = actor,
      ce_EventType = eventType, ce_Success = True, ce_Source = source, ce_Detail = []\<rparr>"

definition create_event ::
  "string \<Rightarrow> int \<Rightarrow> string \<Rightarrow> string \<Rightarrow> 'x world_scheme \<Rightarrow> 'x world_scheme" where
  "create_event installationID actor eventType source w =
     (case time_Now w of (now, w1) \<Rightarrow>
      snd (autocommit CredentialEventDBModel_TableName
        (insert_event (new_rowid (env w1)) (event_row now installationID actor eventType source)) w1))"

definition BootstrapAdmin ::
  "argon2 \<Rightarrow> 'x world_scheme Seal option \<Rightarrow> string \<Rightarrow> string \<Rightarrow>
   (int \<Rightarrow> 'x world_scheme \<Rightarrow> (error + unit) \<times> 'x world_scheme) option \<Rightarrow>
   'x world_scheme \<Rightarrow> (error + int) \<times> 'x world_scheme" where
  "BootstrapAdmin idkey seal username plaintext beforeCommit w =
     (if \<not> usernamePattern username then (Inl ErrInvalidUsername, w)
      else
      case ValidateNewPassword plaintext of Inl e \<Rightarrow> (Inl e, w) | Inr _ \<Rightarrow>
      case Hash idkey plaintext w of (Inl e, w1) \<Rightarrow> (Inl (Errorf ''hash bootstrap password'' e), w1) | (Inr hash, w1) \<Rightarrow>
      case driver_call w1 of (Inl e, w2) \<Rightarrow> (Inl (Errorf ''access user database pool'' e), w2) | (Inr _, w2) \<Rightarrow>
      case CreateAdmin seal username hash beforeCommit w2 of
        (Inl e, w3) \<Rightarrow> (Inl e, w3)
      | (Inr userID, w3) \<Rightarrow>
      case (case seal of
              None \<Rightarrow> ([], w3)
            | Some sl \<Rightarrow> (case Seal_Load sl w3 of (Inr (loaded, _), w4) \<Rightarrow> (loaded, w4) | (Inl _, w4) \<Rightarrow> ([], w4))) of
        (installationID, w4) \<Rightarrow>
          (Inr userID, create_event installationID userID CredentialEventBootstrapCreated ''bootstrap'' w4))"

section \<open>Finding the target of a reset\<close>

text \<open>\<open>SELECT COUNT(*) FROM sqlite_master WHERE type = 'table' AND name = 'o_bootstrap_state'\<close>\<close>

definition any_table :: "(db \<Rightarrow> 'a \<times> db) \<Rightarrow> 'x world_scheme \<Rightarrow> (error + 'a) \<times> 'x world_scheme" where
  "any_table f w =
     (case driver_call (interfered w) of
        (Inl e, w1) \<Rightarrow> (Inl e, w1)
      | (Inr _, w1) \<Rightarrow> (case f (db w1) of (r, d) \<Rightarrow> (Inr r, w1\<lparr>db := d\<rparr>)))"

definition bootstrapStateTableExists :: "'x world_scheme \<Rightarrow> (error + bool) \<times> 'x world_scheme" where
  "bootstrapStateTableExists w =
     (case any_table (\<lambda>d. (count_list (schema d) BootstrapStateDBModel_TableName, d)) w of
        (Inl e, w1) \<Rightarrow> (Inl (Errorf ''inspect bootstrap state schema'' e), w1)
      | (Inr n, w1) \<Rightarrow> if n \<noteq> 0 \<and> n \<noteq> 1 then (Inl ErrRecoveryRequired, w1) else (Inr (n = 1), w1))"

text \<open>
  \<open>run\<close> is the queryer: \<open>autocommit\<close> for the pool, \<open>in_tx\<close> for the connection of the open
  transaction.  Both loaders read at most two rows of the name.
\<close>

type_synonym 'x queryer =
  "string \<Rightarrow> (db \<Rightarrow> error + UserDBModel list \<times> db) \<Rightarrow> 'x world_scheme \<Rightarrow> (error + UserDBModel list) \<times> 'x world_scheme"

definition load_target ::
  "(UserDBModel \<Rightarrow> error + UserDBModel) \<Rightarrow> 'x queryer \<Rightarrow> string \<Rightarrow> 'x world_scheme \<Rightarrow>
   (error + UserDBModel) \<times> 'x world_scheme" where
  "load_target check run username w =
     (case run UserDBModel_TableName (\<lambda>d. Inr (take 2 (filter (\<lambda>r. u_Username r = username) (o_users d)), d)) w of
        (Inl e, w1) \<Rightarrow> (Inl (Errorf ''inspect local reset target'' e), w1)
      | (Inr rows, w1) \<Rightarrow>
      case driver_call w1 of
        (Inl e, w2) \<Rightarrow> (Inl (Errorf ''read local reset target'' e), w2)
      | (Inr _, w2) \<Rightarrow>
          (case rows of
             [] \<Rightarrow> (Inl ErrUserNotFound, w2)
           | [r] \<Rightarrow> (check r, w2)
           | _ \<Rightarrow> (Inl ErrInvalidResetTarget, w2)))"

definition admin_target :: "UserDBModel \<Rightarrow> error + UserDBModel" where
  "admin_target r = (if \<not> is_admin r then Inl ErrNotAdministrator else Inr r)"

definition user_target :: "UserDBModel \<Rightarrow> error + UserDBModel" where
  "user_target r = (if is_admin r then Inl ErrResetTargetIsAdministrator else Inr r)"

definition loadUniqueAdministrator ::
  "'x queryer \<Rightarrow> string \<Rightarrow> 'x world_scheme \<Rightarrow> (error + UserDBModel) \<times> 'x world_scheme" where
  "loadUniqueAdministrator run username w = load_target admin_target run username w"

definition loadUniqueNonAdministrator ::
  "'x queryer \<Rightarrow> string \<Rightarrow> 'x world_scheme \<Rightarrow> (error + UserDBModel) \<times> 'x world_scheme" where
  "loadUniqueNonAdministrator run username w = load_target user_target run username w"

section \<open>Replacing a verifier\<close>

text \<open>
  \<open>ResetAdminPassword\<close> and \<open>ResetUserPassword\<close> are the same sequence of steps with another loader,
  another condition on the role in the compare-and-swap and another noun in their messages; the
  shared steps take them as arguments.
\<close>

record 'x reset_kind =
  noun :: string
  event_source :: string
  load_with :: "'x queryer \<Rightarrow> string \<Rightarrow> 'x world_scheme \<Rightarrow> (error + UserDBModel) \<times> 'x world_scheme"
  cas_role :: "UserDBModel \<Rightarrow> UserDBModel \<Rightarrow> bool"

text \<open>The checks before the transaction: seal, marker and target must fit; a legacy database gets its marker table.\<close>

definition reset_marker_ok :: "string \<Rightarrow> bool \<Rightarrow> (error + State) \<Rightarrow> string \<Rightarrow> error + unit" where
  "reset_marker_ok sealID sealExists marker what =
     (case marker of
        Inl e \<Rightarrow>
          if errors_Is e ErrNoRows then (if sealExists then Inl ErrRecoveryRequired else Inr ())
          else Inl (Errorf (''inspect '' @ what @ '' reset state'') e)
      | Inr existing \<Rightarrow>
          if Status existing \<noteq> StatusInitialized then Inl ErrRecoveryRequired
          else if sealExists \<and> InstallationID existing \<noteq> sealID then Inl ErrRecoveryRequired
          else Inr ())"

definition reset_preflight ::
  "'x reset_kind \<Rightarrow> 'x world_scheme Seal \<Rightarrow> string \<Rightarrow> 'x world_scheme \<Rightarrow> (error + State) \<times> 'x world_scheme" where
  "reset_preflight k sl username w =
     (case driver_call w of (Inl e, w1) \<Rightarrow> (Inl (Errorf ''access user database pool'' e), w1) | (Inr _, w1) \<Rightarrow>
      case Seal_Load sl w1 of (Inl _, w2) \<Rightarrow> (Inl ErrRecoveryRequired, w2) | (Inr (sealID, sealExists), w2) \<Rightarrow>
      case bootstrapStateTableExists w2 of (Inl e, w3) \<Rightarrow> (Inl e, w3) | (Inr hasStateTable, w3) \<Rightarrow>
      case load_with k autocommit username w3 of (Inl e, w4) \<Rightarrow> (Inl e, w4) | (Inr _, w4) \<Rightarrow>
      case (if \<not> hasStateTable then
              (if sealExists then (Inl ErrRecoveryRequired, w4)
               else case any_table (\<lambda>d. ((), d\<lparr>schema := schema d @ [BootstrapStateDBModel_TableName]\<rparr>)) w4 of
                      (Inl e, w5) \<Rightarrow> (Inl (Errorf (''create bootstrap state for legacy '' @ noun k @ '' reset'') e), w5)
                    | (Inr _, w5) \<Rightarrow> (Inr (), w5))
            else (Inr (), w4)) of
        (Inl e, w5) \<Rightarrow> (Inl e, w5)
      | (Inr _, w5) \<Rightarrow>
      case autocommit BootstrapStateDBModel_TableName select_state w5 of (marker, w6) \<Rightarrow>
      case reset_marker_ok sealID sealExists marker (noun k) of Inl e \<Rightarrow> (Inl e, w6) | Inr _ \<Rightarrow>
      case ReconcileState (Some sl) w6 of ((_, Some e), w7) \<Rightarrow> (Inl e, w7) | ((state, None), w7) \<Rightarrow>
      if Status state \<noteq> StatusInitialized then (Inl ErrRecoveryRequired, w7)
      else
      case Seal_Load sl w7 of
        (Inl _, w8) \<Rightarrow> (Inl ErrRecoveryRequired, w8)
      | (Inr (sealID2, sealExists2), w8) \<Rightarrow>
          if \<not> sealExists2 \<or> sealID2 \<noteq> InstallationID state then (Inl ErrRecoveryRequired, w8)
          else (Inr state, w8))"

text \<open>\<open>CURRENT_TIMESTAMP\<close> has whole seconds.\<close>

definition current_timestamp :: "'x world_scheme \<Rightarrow> time \<times> 'x world_scheme" where
  "current_timestamp w = (case time_Now w of (now, w1) \<Rightarrow> (now - now mod second, w1))"

definition drop_sessions :: "int \<Rightarrow> db \<Rightarrow> error + unit \<times> db" where
  "drop_sessions userID d =
     Inr ((), d\<lparr>o_refresh_sessions := delete_where (\<lambda>r. rs_UserID r = userID) (o_refresh_sessions d)\<rparr>)"

definition advance_version :: "int \<Rightarrow> db \<Rightarrow> error + unit \<times> db" where
  "advance_version userID = with_version (\<lambda>d. Inr ((), d\<lparr>o_users :=
     update_where (\<lambda>r. u_Id r = userID) (\<lambda>r. r\<lparr>u_TokenVersion := u_TokenVersion r + 1\<rparr>) (o_users d)\<rparr>))"

text \<open>A statement whose failure on a legacy schema is ignored.\<close>

definition legacy_exec ::
  "string \<Rightarrow> (db \<Rightarrow> error + unit \<times> db) \<Rightarrow> string \<Rightarrow> 'x world_scheme \<Rightarrow> (error + unit) \<times> 'x world_scheme" where
  "legacy_exec tbl f msg w =
     (case in_tx tbl f w of
        (Inr _, w1) \<Rightarrow> (Inr (), w1)
      | (Inl e, w1) \<Rightarrow> if ignoreMissingAuthTable (Some e) \<noteq> None then (Inl (Errorf msg e), w1) else (Inr (), w1))"

definition reset_tx ::
  "'x reset_kind \<Rightarrow> State \<Rightarrow> string \<Rightarrow> string \<Rightarrow> 'x world_scheme \<Rightarrow> (error + int) \<times> 'x world_scheme" where
  "reset_tx k state username newHash w =
     (case in_tx BootstrapStateDBModel_TableName select_state w of
        (Inl _, w1) \<Rightarrow> (Inl ErrRecoveryRequired, w1)
      | (Inr marker, w1) \<Rightarrow>
      if InstallationID marker \<noteq> InstallationID state \<or> Status marker \<noteq> StatusInitialized
      then (Inl ErrRecoveryRequired, w1)
      else
      case load_with k in_tx username w1 of (Inl e, w2) \<Rightarrow> (Inl e, w2) | (Inr target, w2) \<Rightarrow>
      case current_timestamp w2 of (stamp, w3) \<Rightarrow>
      case in_tx UserDBModel_TableName
        (update_users (\<lambda>r. u_Id r = u_Id target \<and> u_Username r = username \<and> cas_role k target r \<and>
                           u_Password r = u_Password target)
           (\<lambda>r. r\<lparr>u_Password := newHash, u_UpdatedAt := stamp\<rparr>)) w3 of
        (Inl e, w4) \<Rightarrow> (Inl (Errorf (''store replacement '' @ noun k @ '' password'') e), w4)
      | (Inr rows, w4) \<Rightarrow>
      case driver_call w4 of
        (Inl e, w5) \<Rightarrow> (Inl (Errorf (''read '' @ noun k @ '' reset result'') e), w5)
      | (Inr _, w5) \<Rightarrow>
      if rows \<noteq> 1 then (Inl ErrPasswordChanged, w5)
      else
      case legacy_exec UserDBModel_TableName (advance_version (u_Id target))
             (''advance token version on '' @ noun k @ '' reset'') w5 of
        (Inl e, w6) \<Rightarrow> (Inl e, w6)
      | (Inr _, w6) \<Rightarrow>
      case legacy_exec RefreshSessionDBModel_TableName (drop_sessions (u_Id target))
             (''revoke sessions on '' @ noun k @ '' reset'') w6 of
        (Inl e, w7) \<Rightarrow> (Inl e, w7)
      | (Inr _, w7) \<Rightarrow> (Inr (u_Id target), w7))"

definition reset_password ::
  "'x reset_kind \<Rightarrow> argon2 \<Rightarrow> 'x world_scheme Seal option \<Rightarrow> string \<Rightarrow> string \<Rightarrow> 'x world_scheme \<Rightarrow>
   (error + unit) \<times> 'x world_scheme" where
  "reset_password k idkey seal username plaintext w =
     (if \<not> validResetUsername username then (Inl ErrInvalidResetTarget, w)
      else
      case ValidateNewPassword plaintext of Inl e \<Rightarrow> (Inl e, w) | Inr _ \<Rightarrow>
      case Hash idkey plaintext w of
        (Inl e, w1) \<Rightarrow> (Inl (Errorf (''hash replacement '' @ noun k @ '' password'') e), w1)
      | (Inr newHash, w1) \<Rightarrow>
      case seal of None \<Rightarrow> (Inl ErrRecoveryRequired, w1) | Some sl \<Rightarrow>
      case reset_preflight k sl username w1 of (Inl e, w2) \<Rightarrow> (Inl e, w2) | (Inr state, w2) \<Rightarrow>
      case driver_call w2 of
        (Inl e, w3) \<Rightarrow> (Inl (Errorf (''acquire '' @ noun k @ '' reset connection'') e), w3)
      | (Inr _, w3) \<Rightarrow>
      case Transaction (Errorf (''begin '' @ noun k @ '' reset transaction'')) (Errorf (''commit '' @ noun k @ '' reset''))
             (reset_tx k state username newHash) w3 of
        (Inl e, w4) \<Rightarrow> (Inl e, w4)
      | (Inr userID, w4) \<Rightarrow> (Inr (), create_event [] userID CredentialEventPasswordReset (event_source k) w4))"

definition admin_kind :: "'x reset_kind" where
  "admin_kind = \<lparr>noun = ''administrator'', event_source = ''admin-reset'', load_with = loadUniqueAdministrator,
     cas_role = (\<lambda>_ r. is_admin r)\<rparr>"

definition user_kind :: "'x reset_kind" where
  "user_kind = \<lparr>noun = ''user'', event_source = ''user-reset'', load_with = loadUniqueNonAdministrator,
     cas_role = (\<lambda>target r. u_Role r = u_Role target \<and> \<not> is_admin r)\<rparr>"

definition ResetAdminPassword ::
  "argon2 \<Rightarrow> 'x world_scheme Seal option \<Rightarrow> string \<Rightarrow> string \<Rightarrow> 'x world_scheme \<Rightarrow> (error + unit) \<times> 'x world_scheme" where
  "ResetAdminPassword = reset_password admin_kind"

definition ResetUserPassword ::
  "argon2 \<Rightarrow> 'x world_scheme Seal option \<Rightarrow> string \<Rightarrow> string \<Rightarrow> 'x world_scheme \<Rightarrow> (error + unit) \<times> 'x world_scheme" where
  "ResetUserPassword = reset_password user_kind"

end
