(* ===== verification/Http.thy ===== *)
theory Http
  imports Sessions
begin

text \<open>
  What the handlers see of a request and produce as a response.  A request carries its header
  values by canonical name, the bytes of the body (and whether reading breaks off after them), path and query parameters and the value the
  authentication middleware stores in the echo context.  A response is a status, the JSON
  \<open>model.Result\<close> and the response headers the handler sets (or, in the second API version, the bare
  value), or the error \<open>echo.ErrUnauthorized\<close>, another \<open>echo.HTTPError\<close>, or the error of a payload that
  does not encode.
\<close>

section \<open>Requests\<close>

record request =
  rq_headers :: "string \<Rightarrow> string list"
  rq_body :: string
  rq_body_fails :: bool
  rq_param :: "string \<Rightarrow> string"
  rq_query :: "string \<Rightarrow> string"
  rq_session :: "AuthenticatedSession option"
  rq_ctx_err :: "error option"

text \<open>\<open>Header.Values\<close>, \<open>Header.Get\<close> and \<open>Header.Set\<close> on canonical names.\<close>

definition Header_Get :: "request \<Rightarrow> string \<Rightarrow> string" where
  "Header_Get r name = (case rq_headers r name of [] \<Rightarrow> [] | v # _ \<Rightarrow> v)"

definition Header_Set :: "string \<Rightarrow> string \<Rightarrow> request \<Rightarrow> request" where
  "Header_Set name v r = r\<lparr>rq_headers := (rq_headers r)(name := [v])\<rparr>"

definition HeaderAuthorization :: string where "HeaderAuthorization = ''Authorization''"
definition HeaderUserID :: string where "HeaderUserID = ''User_id''"

section \<open>Responses\<close>

text \<open>
  The codes of \<open>CasaOS-Common/utils/common_err\<close> by name, next to the numeric codes of \<open>net/http\<close>; a
  message is a literal or \<open>common_err.GetMsg\<close> of a code.
\<close>

datatype code =
    SUCCESS | CLIENT_ERROR | SERVICE_ERROR | INVALID_PARAMS | TOO_MANY_REQUEST | TOO_MANY_LOGIN_REQUESTS
  | USER_NOT_EXIST | USER_NOT_EXIST_OR_PWD_INVALID | USER_EXIST | PWD_INVALID_OLD | PWD_IS_TOO_SIMPLE
  | VERIFICATION_FAILURE
  | Http nat

datatype message = GetMsg code | Literal string

definition StatusOK :: code where "StatusOK = Http 200"
definition StatusUnauthorized :: code where "StatusUnauthorized = Http 401"
definition StatusForbidden :: code where "StatusForbidden = Http 403"
definition StatusNotFound :: code where "StatusNotFound = Http 404"
definition StatusConflict :: code where "StatusConflict = Http 409"
definition StatusGone :: code where "StatusGone = Http 410"
definition StatusRequestEntityTooLarge :: code where "StatusRequestEntityTooLarge = Http 413"
definition StatusInternalServerError :: code where "StatusInternalServerError = Http 500"
definition StatusServiceUnavailable :: code where "StatusServiceUnavailable = Http 503"

record VerifyInformation =
  RefreshToken :: string
  AccessToken :: string
  vi_ExpiresAt :: int

datatype payload =
    NoData
  | UserData UserDBModel
  | LoginData VerifyInformation UserDBModel
  | TokenData VerifyInformation
  | NameList "string list"
  | EventList "CredentialEventDBModel list"
  | TextData string
  | RawJSON string
  | InitializedFlag bool

record Result =
  Success :: code
  Message :: message
  Data :: payload

datatype plain_payload =
    OneEvent EventModel
  | AllEvents "EventModel list"
  | SerialText string

datatype response =
    ErrUnauthorized
  | EncodeError
  | HTTPError nat
  | JSON code Result "(string \<times> string) list"
  | PlainJSON code plain_payload

definition result :: "code \<Rightarrow> message \<Rightarrow> payload \<Rightarrow> Result" where
  "result c m d = \<lparr>Success = c, Message = m, Data = d\<rparr>"

definition msg :: "code \<Rightarrow> Result" where
  "msg c = result c (GetMsg c) NoData"

definition no_store :: "(string \<times> string) list" where
  "no_store = [(''Cache-Control'', ''no-store''), (''Pragma'', ''no-cache'')]"

type_synonym 'w handler = "request \<Rightarrow> 'w \<Rightarrow> response \<times> 'w"

end
