(* ===== verification/Auth_Route.thy ===== *)
theory Auth_Route
  imports Http Users
begin

text \<open>
  \<open>src/route/auth.go\<close>: the authentication middleware of the protected routes.  The interface
  \<open>accessSessionValidator\<close> is a record of its two methods; what the middleware relies on is the
  locale \<open>session_validator\<close>, which the service's own methods satisfy.
\<close>

section \<open>The authorization header\<close>

definition maxAuthorizationHeaderBytes :: nat where "maxAuthorizationHeaderBytes = 8 * 1024"

definition errInvalidAuthorizationHeader :: error where
  "errInvalidAuthorizationHeader = ErrorsNew ''invalid authorization header''"

definition token_char :: "char \<Rightarrow> bool" where
  "token_char c \<longleftrightarrow> is_lower c \<or> is_upper c \<or> is_digit c \<or> c = CHR ''-'' \<or> c = CHR ''_'' \<or> c = CHR ''.''"

definition authorizationToken :: "request option \<Rightarrow> error + string" where
  "authorizationToken request =
     (case request of
        None \<Rightarrow> Inl errInvalidAuthorizationHeader
      | Some rq \<Rightarrow>
      case rq_headers rq HeaderAuthorization of
        [raw] \<Rightarrow>
          if raw = [] \<or> length raw > maxAuthorizationHeaderBytes \<or> TrimSpace raw \<noteq> raw \<or>
             ContainsAny raw [CHR '','', CHR 0x0D, CHR 0x0A, CHR 0x00]
          then Inl errInvalidAuthorizationHeader
          else
          let bearer = length raw \<ge> length ''Bearer'' \<and> EqualFold (take (length ''Bearer'') raw) ''Bearer'' in
          if bearer \<and> (length raw \<le> length ''Bearer '' \<or> raw ! length ''Bearer'' \<noteq> CHR '' '')
          then Inl errInvalidAuthorizationHeader
          else
          let token = (if bearer then drop (length ''Bearer '') raw else raw) in
          if token = [] \<or> length token > maxAuthorizationHeaderBytes \<or>
             count_list token (CHR ''.'') \<noteq> 2 \<or> ContainsAny token [CHR '' '', CHR 0x09]
          then Inl errInvalidAuthorizationHeader
          else if \<not> list_all token_char token then Inl errInvalidAuthorizationHeader
          else Inr token
      | _ \<Rightarrow> Inl errInvalidAuthorizationHeader)"

section \<open>The middleware\<close>

record 'w accessSessionValidator =
  V_GetUserTokenVersion :: "int \<Rightarrow> 'w \<Rightarrow> (string \<times> int \<times> bool) \<times> 'w"
  V_IsAccessTokenRevoked :: "string \<Rightarrow> 'w \<Rightarrow> (error + bool) \<times> 'w"

definition authenticated :: "SessionClaims \<Rightarrow> request \<Rightarrow> request" where
  "authenticated claims rq =
     Header_Set HeaderUserID (Itoa (UserID claims))
       (rq\<lparr>rq_session := Some \<lparr>as_UserID = UserID claims, as_Username = Username claims, as_TokenID = ID claims,
                                as_Expires = the (ExpiresAt claims)\<rparr>\<rparr>)"

definition accessTokenMiddleware ::
  "jwtlib \<Rightarrow> (error + PublicKey option) \<Rightarrow> 'x world_scheme accessSessionValidator option \<Rightarrow>
   'x world_scheme handler \<Rightarrow> 'x world_scheme handler" where
  "accessTokenMiddleware lib publicKey sessions next rq w =
     (case authorizationToken (Some rq) of Inl _ \<Rightarrow> (ErrUnauthorized, w) | Inr token \<Rightarrow>
      case ValidateSessionAccessToken lib token (Some publicKey) w of
        (Inl _, w1) \<Rightarrow> (ErrUnauthorized, w1)
      | (Inr claims, w1) \<Rightarrow>
      case sessions of None \<Rightarrow> (ErrUnauthorized, w1) | Some s \<Rightarrow>
      case V_GetUserTokenVersion s (UserID claims) w1 of ((username, version, exists), w2) \<Rightarrow>
      if \<not> exists \<or> username \<noteq> Username claims \<or> version \<noteq> TokenVersion claims then (ErrUnauthorized, w2)
      else
      case V_IsAccessTokenRevoked s (ID claims) w2 of
        (Inl _, w3) \<Rightarrow> (ErrUnauthorized, w3)
      | (Inr revoked, w3) \<Rightarrow>
          if revoked then (ErrUnauthorized, w3) else next (authenticated claims rq) w3)"

text \<open>\<open>svc\<close> is \<open>service.MyService.User ()\<close>, \<open>None\<close> when \<open>service.MyService\<close> is nil.\<close>

definition service_validator :: "userService \<Rightarrow> 'x world_scheme accessSessionValidator" where
  "service_validator u =
     \<lparr>V_GetUserTokenVersion = GetUserTokenVersion (Some u), V_IsAccessTokenRevoked = IsAccessTokenRevoked (Some u)\<rparr>"

definition userSessionValidator :: "userService option \<Rightarrow> 'x world_scheme accessSessionValidator option" where
  "userSessionValidator svc = map_option service_validator svc"

definition userPublicKey :: "userService option \<Rightarrow> error + PublicKey option" where
  "userPublicKey svc =
     (case svc of
        None \<Rightarrow> Inl (ErrorsNew ''user service is unavailable'')
      | Some u \<Rightarrow> Inr (snd (GetKeyPair u)))"

definition userAccessTokenMiddleware ::
  "jwtlib \<Rightarrow> userService option \<Rightarrow> 'x world_scheme handler \<Rightarrow> 'x world_scheme handler" where
  "userAccessTokenMiddleware lib svc =
     accessTokenMiddleware lib (userPublicKey svc) (userSessionValidator svc)"

section \<open>The contract of a validator\<close>

text \<open>
  \<open>generation w uid\<close> is the user's name and credential generation in the world \<open>w\<close>, \<open>denied w tid\<close> says
  that the token is on the denylist there.  An answer is the truth of the world it leaves.
\<close>

locale session_validator =
  fixes v :: "'x world_scheme accessSessionValidator"
    and generation :: "'x world_scheme \<Rightarrow> int \<Rightarrow> (string \<times> int) option"
    and denied :: "'x world_scheme \<Rightarrow> string \<Rightarrow> bool"
    and working :: "'x world_scheme \<Rightarrow> bool"
  assumes version_truth: "V_GetUserTokenVersion v uid w = ((n, k, True), w') \<Longrightarrow> generation w' uid = Some (n, k)"
    and revoked_truth: "V_IsAccessTokenRevoked v tid w = (Inr False, w') \<Longrightarrow> \<not> denied w' tid"
    and version_found: "working w \<Longrightarrow> 1 \<le> uid \<Longrightarrow> generation w uid = Some (n, k) \<Longrightarrow>
      \<exists>w'. V_GetUserTokenVersion v uid w = ((n, k, True), w') \<and> db w' = db w \<and> env w' = env w \<and> working w'"
    and not_revoked: "working w \<Longrightarrow> tid \<noteq> [] \<Longrightarrow> \<not> denied w tid \<Longrightarrow>
      \<exists>w'. V_IsAccessTokenRevoked v tid w = (Inr False, w') \<and> db w' = db w \<and> env w' = env w \<and> working w'"
    and reads_only: "working w \<Longrightarrow> V_GetUserTokenVersion v uid w = (r, w') \<Longrightarrow> working w' \<and> db w' = db w"
      "working w \<Longrightarrow> V_IsAccessTokenRevoked v tid w = (q, w') \<Longrightarrow> working w' \<and> db w' = db w"
    and generation_db: "db w = db w' \<Longrightarrow> generation w = generation w'"
    and denied_db: "db w = db w' \<Longrightarrow> denied w = denied w'"
    and working_tick: "working w \<Longrightarrow> working (w\<lparr>tick := t\<rparr>)"
begin

text \<open>A request that gets past the middleware, whatever the environment does.\<close>

lemma passed:
  assumes "accessTokenMiddleware lib pk (Some v) next rq w = (resp, w')"
  shows "resp = ErrUnauthorized \<or> (\<exists>token claims w1 w2 w3.
    authorizationToken (Some rq) = Inr token \<and>
    validateSessionToken lib token AccessTokenIssuer (Some pk) w = (Inr claims, w1) \<and>
    V_GetUserTokenVersion v (UserID claims) w1 = ((Username claims, TokenVersion claims, True), w2) \<and>
    generation w2 (UserID claims) = Some (Username claims, TokenVersion claims) \<and>
    V_IsAccessTokenRevoked v (ID claims) w2 = (Inr False, w3) \<and>
    \<not> denied w3 (ID claims) \<and> next (authenticated claims rq) w3 = (resp, w'))"
  using assms
  by (auto simp: accessTokenMiddleware_def ValidateSessionAccessToken_def
      split: sum.splits prod.splits if_splits dest: version_truth revoked_truth)

text \<open>In a working world the decision is exactly the one the stored state gives.\<close>

lemma admitted:
  assumes "working w" and "authorizationToken (Some rq) = Inr token"
    and "validateSessionToken lib token AccessTokenIssuer (Some pk) w = (Inr claims, w1)"
    and "generation w (UserID claims) = Some (Username claims, TokenVersion claims)"
    and "\<not> denied w (ID claims)"
  shows "\<exists>w3. accessTokenMiddleware lib pk (Some v) next rq w = next (authenticated claims rq) w3 \<and>
    db w3 = db w \<and> env w3 = env w \<and> working w3"
proof -
  from assms(3) have w1: "w1 = w\<lparr>tick := Suc (tick w)\<rparr>" and c: "1 \<le> UserID claims" "ID claims \<noteq> []"
    by (auto elim: validate_ok)
  have g1: "generation w1 (UserID claims) = Some (Username claims, TokenVersion claims)"
    using generation_db [of w1 w] assms(4) w1 by simp
  have "working w1" using working_tick [OF assms(1)] w1 by simp
  then obtain w2 where w2: "V_GetUserTokenVersion v (UserID claims) w1 = ((Username claims, TokenVersion claims, True), w2)"
    "db w2 = db w1" "env w2 = env w1" "working w2"
    using version_found [OF _ c(1) g1] by blast
  have "\<not> denied w2 (ID claims)" using denied_db [of w2 w] assms(5) w1 w2(2) by simp
  then obtain w3 where w3: "V_IsAccessTokenRevoked v (ID claims) w2 = (Inr False, w3)" "db w3 = db w2"
    "env w3 = env w2" "working w3"
    using not_revoked [OF w2(4) c(2)] by blast
  have "accessTokenMiddleware lib pk (Some v) next rq w = next (authenticated claims rq) w3"
    using assms(2,3) w2(1) w3(1) by (simp add: accessTokenMiddleware_def ValidateSessionAccessToken_def)
  moreover have "db w3 = db w" "env w3 = env w" using w1 w2 w3 by simp_all
  ultimately show ?thesis using w3(4) by blast
qed

lemma refused:
  assumes "working w"
    and "\<And>token claims w1. authorizationToken (Some rq) = Inr token \<Longrightarrow>
       validateSessionToken lib token AccessTokenIssuer (Some pk) w = (Inr claims, w1) \<Longrightarrow>
       generation w (UserID claims) \<noteq> Some (Username claims, TokenVersion claims) \<or> denied w (ID claims)"
  shows "fst (accessTokenMiddleware lib pk (Some v) next rq w) = ErrUnauthorized"
proof (rule ccontr)
  assume no: "fst (accessTokenMiddleware lib pk (Some v) next rq w) \<noteq> ErrUnauthorized"
  then obtain token where t: "authorizationToken (Some rq) = Inr token"
    by (auto simp: accessTokenMiddleware_def split: sum.splits)
  then obtain claims w1 where c: "validateSessionToken lib token AccessTokenIssuer (Some pk) w = (Inr claims, w1)"
    using no by (auto simp: accessTokenMiddleware_def ValidateSessionAccessToken_def split: sum.splits prod.splits)
  obtain n k e w2 where g: "V_GetUserTokenVersion v (UserID claims) w1 = ((n, k, e), w2)" by (metis surj_pair)
  obtain r w3 where d: "V_IsAccessTokenRevoked v (ID claims) w2 = (r, w3)" by fastforce
  have ok: "e" "n = Username claims" "k = TokenVersion claims" "r = Inr False"
    using no t c g d
    by (auto simp: accessTokenMiddleware_def ValidateSessionAccessToken_def split: if_splits sum.splits)
  have w1: "working w1" "db w1 = db w" using c working_tick [OF assms(1)] by (auto elim: validate_ok)
  have w2: "working w2" "db w2 = db w" using reads_only(1) [OF w1(1) g] w1 by auto
  have "db w3 = db w" using reads_only(2) [OF w2(1) d] w2 by simp
  then have "generation w (UserID claims) = Some (Username claims, TokenVersion claims)" "\<not> denied w (ID claims)"
    using version_truth [of "UserID claims" w1 n k w2] revoked_truth [of "ID claims" w2 w3] g d ok w2
      generation_db [of w2 w] denied_db [of w3 w] by auto
  then show False using assms(2) [OF t c] by blast
qed

end

section \<open>The service is a validator\<close>

definition generation_of :: "db \<Rightarrow> int \<Rightarrow> (string \<times> int) option" where
  "generation_of d uid =
     (case First u_Id (\<lambda>r. u_Id r = uid) (o_users d) of
        Inl _ \<Rightarrow> None | Inr r \<Rightarrow> Some (u_Username r, u_TokenVersion r))"

definition denylisted :: "db \<Rightarrow> string \<Rightarrow> bool" where
  "denylisted d tid \<longleftrightarrow> tid \<in> ra_JTI ` set (o_revoked_access_tokens d)"

lemma RowsAffected_pos: "RowsAffected P rows > 0 \<longleftrightarrow> (\<exists>r \<in> set rows. P r)"
  using RowsAffected_zero [of P rows] by (auto simp: RowsAffected_def)

interpretation svc: session_validator "service_validator u" "\<lambda>w. generation_of (db w)" "\<lambda>w. denylisted (db w)"
    "\<lambda>w. ready w \<and> us_db u" for u
proof (unfold_locales, goal_cases)
  case (1 uid w n k w')
  then show ?case
    by (auto simp: service_validator_def GetUserTokenVersion_def with_version_def first_user_def generation_of_def
        split: if_splits prod.splits sum.splits dest!: autocommit_ok)
next
  case (2 tid w w')
  then show ?case
    by (auto simp: service_validator_def IsAccessTokenRevoked_def denylisted_def RowsAffected_pos
        split: if_splits prod.splits sum.splits dest!: autocommit_ok)
next
  case (3 w uid n k)
  then show ?case
    by (auto simp: service_validator_def GetUserTokenVersion_def unavailable_def with_version_def first_user_def
        generation_of_def sql split: sum.splits)
next
  case (4 w tid)
  then show ?case
    by (auto simp: service_validator_def IsAccessTokenRevoked_def unavailable_def denylisted_def RowsAffected_pos sql
        image_iff)
next
  case (5 w uid r w')
  then show ?case
    by (auto simp: service_validator_def GetUserTokenVersion_def with_version_def first_user_def sql
        split: if_splits sum.splits)
next
  case (6 w tid q w')
  then show ?case
    by (auto simp: service_validator_def IsAccessTokenRevoked_def sql split: if_splits)
qed simp_all

text \<open>What the two queries leave: the tables as other writers had them, and two oracle answers consumed.\<close>

lemma version_read:
  assumes "V_GetUserTokenVersion (service_validator u) uid w = ((n, k, True), w')"
  shows "w' = w\<lparr>db := interfere (env w) (tick w) (db w), tick := Suc (tick w)\<rparr>"
  using assms
  by (auto simp: service_validator_def GetUserTokenVersion_def with_version_def first_user_def autocommit_def in_tx_def
      interfered_def split: if_splits prod.splits sum.splits option.splits)

lemma revoked_read:
  assumes "V_IsAccessTokenRevoked (service_validator u) tid w = (Inr b, w')"
  shows "w' = w\<lparr>db := interfere (env w) (tick w) (db w), tick := Suc (tick w)\<rparr>"
  using assms
  by (auto simp: service_validator_def IsAccessTokenRevoked_def autocommit_def in_tx_def
      interfered_def split: if_splits prod.splits sum.splits option.splits)

lemma service_middleware:
  "userAccessTokenMiddleware lib (Some u) = accessTokenMiddleware lib (Inr (us_publicKey u)) (Some (service_validator u))"
  by (simp add: userAccessTokenMiddleware_def userSessionValidator_def userPublicKey_def GetKeyPair_def fun_eq_iff)

section \<open>Properties\<close>


subsection \<open>The header\<close>

lemma token_char_letters: "to_lower c = to_lower d \<Longrightarrow> is_upper d \<or> is_lower d \<Longrightarrow> is_upper c \<or> is_lower c"
  by (auto simp: to_lower_def is_upper_def is_lower_def less_eq_char_def split: if_splits)

lemma fold_Bearer: "EqualFold b ''Bearer'' \<Longrightarrow> length b = 6 \<and> list_all token_char b"
proof -
  assume f: "EqualFold b ''Bearer''"
  then have "length b = length ''Bearer''" unfolding EqualFold_def by (metis length_map)
  moreover have "token_char c" if "c \<in> set b" for c
  proof -
    have "to_lower c \<in> to_lower ` set ''Bearer''"
      using f that unfolding EqualFold_def by (metis image_eqI set_map)
    then obtain d where "d \<in> set ''Bearer''" "to_lower c = to_lower d" by (rule imageE) blast
    moreover from this have "is_upper d \<or> is_lower d"
      by (auto simp: is_upper_def is_lower_def less_eq_char_def)
    ultimately show ?thesis using token_char_letters by (auto simp: token_char_def)
  qed
  ultimately show ?thesis by (simp add: list_all_iff)
qed

lemma space_not_token: "sp \<in> set spaces \<Longrightarrow> sp \<noteq> [] \<and> \<not> token_char (hd sp) \<and> \<not> token_char (last sp)"
  by (auto simp: spaces_def token_char_def is_lower_def is_upper_def is_digit_def less_eq_char_def)

lemma TrimLeftSpace_id:
  "s \<noteq> [] \<Longrightarrow> (\<And>sp. sp \<in> set sps \<Longrightarrow> sp \<noteq> [] \<Longrightarrow> hd sp \<noteq> hd s) \<Longrightarrow> TrimLeftSpace sps s = s"
proof -
  assume "s \<noteq> []" and no: "\<And>sp. sp \<in> set sps \<Longrightarrow> sp \<noteq> [] \<Longrightarrow> hd sp \<noteq> hd s"
  have "\<not> HasPrefix s sp" if "sp \<in> set sps" "sp \<noteq> []" for sp
    using no [OF that] that(2) by (auto simp: HasPrefix_iff)
  then have "find (\<lambda>sp. sp \<noteq> [] \<and> HasPrefix s sp) sps = None" by (auto simp: find_None_iff)
  then show ?thesis by (subst TrimLeftSpace.simps) simp
qed

lemma TrimSpace_id: "s \<noteq> [] \<Longrightarrow> token_char (hd s) \<Longrightarrow> token_char (last s) \<Longrightarrow> TrimSpace s = s"
proof -
  assume s: "s \<noteq> []" "token_char (hd s)" "token_char (last s)"
  have "TrimLeftSpace spaces s = s"
    using s space_not_token by (intro TrimLeftSpace_id) metis+
  moreover have "TrimLeftSpace (map rev spaces) (rev s) = rev s"
  proof (rule TrimLeftSpace_id)
    fix sp assume "sp \<in> set (map rev spaces)" and "sp \<noteq> []"
    then obtain q where "q \<in> set spaces" "sp = rev q" by auto
    with s show "hd sp \<noteq> hd (rev s)" using space_not_token [of q] by (auto simp: hd_rev)
  qed (use s in simp)
  ultimately show ?thesis by (simp add: TrimSpace_def)
qed

lemma token_char_plain: "token_char c \<Longrightarrow> c \<notin> set [CHR '','', CHR 0x0D, CHR 0x0A, CHR 0x00, CHR '' '', CHR 0x09]"
  by (auto simp: token_char_def is_lower_def is_upper_def is_digit_def less_eq_char_def)

lemma not_ContainsAny: "(\<And>c. c \<in> set s \<Longrightarrow> c \<notin> set cs) \<Longrightarrow> \<not> ContainsAny s cs"
  by (auto simp: ContainsAny_iff)

lemma bearer_length: "length ''Bearer'' = 6" "length ''Bearer '' = 7" "(8 * 1024 :: nat) = 8192"
  by simp_all

lemmas authorization_header = authorizationToken_def [unfolded bearer_length Let_def maxAuthorizationHeaderBytes_def]

lemma header_token:
  assumes "authorizationToken (Some rq) = Inr t"
  obtains raw where "rq_headers rq HeaderAuthorization = [raw]" "length raw \<le> 8192"
    "list_all token_char t" "count_list t (CHR ''.'') = 2"
    "if 6 \<le> length raw \<and> EqualFold (take 6 raw) ''Bearer''
      then 7 < length raw \<and> raw ! 6 = CHR '' '' \<and> t = drop 7 raw else t = raw"
proof -
  obtain raw where r: "rq_headers rq HeaderAuthorization = [raw]"
    using assms by (auto simp: authorizationToken_def split: list.splits)
  let ?b = "6 \<le> length raw \<and> EqualFold (take 6 raw) ''Bearer''"
  let ?t = "if ?b then drop 7 raw else raw"
  have "length raw \<le> 8192 \<and> \<not> (?b \<and> (length raw \<le> 7 \<or> raw ! 6 \<noteq> CHR '' '')) \<and> count_list ?t (CHR ''.'') = 2 \<and>
      list_all token_char ?t \<and> t = ?t"
    using assms r
    by (simp add: authorization_header split: if_split_asm) blast
  then show thesis using that [OF r] by (cases ?b) simp_all
qed

lemma bearer_accepted:
  assumes b: "EqualFold b ''Bearer''" and "list_all token_char t" and "count_list t (CHR ''.'') = 2"
    and "rq_headers rq HeaderAuthorization = [b @ CHR '' '' # t]" and "length (b @ CHR '' '' # t) \<le> 8192"
  shows "authorizationToken (Some rq) = Inr t"
proof -
  let ?raw = "b @ CHR '' '' # t"
  note f = fold_Bearer [OF b]
  have t: "t \<noteq> []" using assms(3) by auto
  have c: "token_char c" if "c \<in> set t" for c using assms(2) that by (simp add: list_all_iff)
  have no: "\<not> ContainsAny t [CHR '' '', CHR 0x09]"
    using c token_char_plain by (auto simp: ContainsAny_iff)
  have "token_char (hd ?raw)" "token_char (last ?raw)"
    using f c t by (cases b; simp)+
  then have "TrimSpace ?raw = ?raw" by (intro TrimSpace_id) simp_all
  moreover have "\<not> ContainsAny ?raw [CHR '','', CHR 0x0D, CHR 0x0A, CHR 0x00]"
    using f c token_char_plain by (fastforce simp: ContainsAny_iff list_all_iff)
  moreover have "take 6 ?raw = b" "?raw ! 6 = CHR '' ''" "drop 7 ?raw = t" "length ?raw = 7 + length t"
    using f by (simp_all add: nth_append)
  ultimately show ?thesis using assms t no f
    by (simp add: authorization_header)
qed

text \<open>
  C17.  Which authorization headers carry a token.  Exactly one header value is accepted, of at most
  8 KiB: either the compact token itself, or a \<open>Bearer\<close> prefix in any case, one space and the token,
  where a token is three dot-separated base64url segments; a bare token may not start with the word
  \<open>bearer\<close>.  Every other request is refused.
\<close>

theorem authorizationToken_iff:
  "authorizationToken (Some rq) = Inr t \<longleftrightarrow>
     (\<exists>raw. rq_headers rq HeaderAuthorization = [raw] \<and> length raw \<le> 8192 \<and>
        list_all token_char t \<and> count_list t (CHR ''.'') = 2 \<and>
        (raw = t \<and> \<not> EqualFold (take 6 t) ''Bearer'' \<or>
         (\<exists>b. EqualFold b ''Bearer'' \<and> raw = b @ CHR '' '' # t)))" (is "?L \<longleftrightarrow> ?R")
proof
  assume ?L
  then obtain raw where raw: "rq_headers rq HeaderAuthorization = [raw]" "length raw \<le> 8192"
    "list_all token_char t" "count_list t (CHR ''.'') = 2"
    and b: "if 6 \<le> length raw \<and> EqualFold (take 6 raw) ''Bearer''
      then 7 < length raw \<and> raw ! 6 = CHR '' '' \<and> t = drop 7 raw else t = raw"
    by (rule header_token)
  show ?R
  proof (cases "6 \<le> length raw \<and> EqualFold (take 6 raw) ''Bearer''")
    case True
    with b have "raw = take 6 raw @ CHR '' '' # t" using id_take_nth_drop [of 6 raw] by simp
    with True raw show ?thesis by blast
  next
    case False
    moreover have "6 \<le> length raw" if "EqualFold (take 6 raw) ''Bearer''"
      using fold_Bearer [OF that] by (simp add: min_def split: if_splits)
    ultimately have "\<not> EqualFold (take 6 raw) ''Bearer''" by blast
    moreover have "t = raw" using b unfolding if_not_P [OF False] .
    ultimately show ?thesis using raw by blast
  qed
next
  assume ?R
  then obtain raw where raw: "rq_headers rq HeaderAuthorization = [raw]" "length raw \<le> 8192"
    "list_all token_char t" "count_list t (CHR ''.'') = 2"
    "raw = t \<and> \<not> EqualFold (take 6 t) ''Bearer'' \<or> (\<exists>b. EqualFold b ''Bearer'' \<and> raw = b @ CHR '' '' # t)" by blast
  have t: "t \<noteq> []" using raw(4) by auto
  have c: "token_char c" if "c \<in> set t" for c using raw(3) that by (simp add: list_all_iff)
  have hl: "token_char (hd t)" "token_char (last t)" using c t by simp_all
  have no: "\<not> ContainsAny t [CHR '' '', CHR 0x09]" "\<not> ContainsAny t [CHR '','', CHR 0x0D, CHR 0x0A, CHR 0x00]"
    using c token_char_plain by (auto simp: ContainsAny_iff)
  show ?L
  proof (cases "raw = t \<and> \<not> EqualFold (take 6 t) ''Bearer''")
    case True
    with raw t no TrimSpace_id [OF t hl] show ?thesis
      by (simp add: authorization_header)
  next
    case False
    with raw(5) obtain b where b: "EqualFold b ''Bearer''" "raw = b @ CHR '' '' # t" by blast
    then show ?thesis using bearer_accepted [OF b(1) raw(3,4)] raw(1,2) by simp
  qed
qed

end
