(* ===== verification/Session_Life.thy ===== *)
theory Session_Life
  imports Auth_Route Pruning
begin

text \<open>
  The life of a session across the components: a login issues tokens that the middleware admits, a
  refresh token is good for one refresh, and a logout takes effect at once.
\<close>

section \<open>Logging out\<close>

lemma update_sessions_ready:
  "ready w \<Longrightarrow> autocommit RefreshSessionDBModel_TableName (update_sessions P f) w =
     (Inr (RowsAffected P (o_refresh_sessions (db w))),
      w\<lparr>db := (db w)\<lparr>o_refresh_sessions := update_where P f (o_refresh_sessions (db w))\<rparr>, tick := Suc (tick w)\<rparr>)"
  by (simp add: sql update_sessions_def)

lemma revoke_effect:
  assumes "r \<in> set (update_where P (revoke_row now reason) rows)"
  shows "rs_RevokedAt r \<noteq> None \<or> r \<in> set rows \<and> \<not> P r"
proof -
  obtain x where "r = revoke_row now reason x \<or> r \<in> set rows \<and> \<not> P r"
    using assms unfolding set_update_where by blast
  then show ?thesis by (elim disjE) (simp_all add: revoke_row_def)
qed

lemma RevokeAccessToken_ready:
  assumes "ready w" and "\<not> unavailable u" and "tid \<noteq> []" and "1 \<le> uid"
  shows "\<exists>d. RevokeAccessToken u tid uid ex w = (Inr (), w\<lparr>db := d, tick := Suc (tick w)\<rparr>) \<and> denylisted d tid \<and>
    migrated d \<and> o_users d = o_users (db w) \<and> o_refresh_sessions d = o_refresh_sessions (db w)"
proof (cases "tid \<in> set (map ra_JTI (o_revoked_access_tokens (db w)))")
  case True
  with assms show ?thesis
    by (intro exI [of _ "db w"]) (auto simp: RevokeAccessToken_def sql denylisted_def)
next
  case False
  with assms show ?thesis
    by (auto simp: RevokeAccessToken_def sql denylisted_def)
qed

lemma refused_token:
  assumes "ready v" and "us_db u" and "authorizationToken (Some rq) = Inr token"
    and "validateSessionToken lib token AccessTokenIssuer (Some (Inr (us_publicKey u))) v = (Inr claims, v1)"
    and "generation_of (db v) (UserID claims) \<noteq> Some (Username claims, TokenVersion claims) \<or> denylisted (db v) (ID claims)"
  shows "fst (userAccessTokenMiddleware lib (Some u) next rq v) = ErrUnauthorized"
  unfolding service_middleware by (rule svc.refused) (use assms in auto)


subsection \<open>Every session of a user\<close>

lemma insort_key_map: "(\<And>r. key (f r) = key r) \<Longrightarrow> insort_key key (f x) (map f xs) = map f (insort_key key x xs)"
  by (induction xs) simp_all

lemma sort_key_map: "(\<And>r. key (f r) = key r) \<Longrightarrow> sort_key key (map f xs) = map f (sort_key key xs)"
  by (induction xs) (simp_all add: insort_key_map)

lemma First_map:
  assumes "\<And>r. key (f r) = key r" and "\<And>r. P (f r) = P r"
  shows "First key P (map f rows) = map_sum id f (First key P rows)"
proof -
  have "filter P (map f rows) = map f (filter P rows)" by (simp add: filter_map comp_def assms(2))
  then show ?thesis
    using sort_key_map [where key = key and f = f, OF assms(1)] by (simp add: First_def split: list.splits)
qed

lemma generation_update:
  assumes "\<And>r. u_Id (f r) = u_Id r" and "\<And>r. u_Username (f r) = u_Username r"
    and "\<And>r. u_TokenVersion (f r) = u_TokenVersion r + 1" and "o_users d' = update_where (\<lambda>r. u_Id r = uid) f (o_users d)"
  shows "generation_of d' x = (if x = uid then map_option (\<lambda>(n, k). (n, k + 1)) (generation_of d x) else generation_of d x)"
proof -
  have "First u_Id (\<lambda>r. u_Id r = x) (o_users d') =
      map_sum id (\<lambda>r. if u_Id r = uid then f r else r) (First u_Id (\<lambda>r. u_Id r = x) (o_users d))"
    unfolding assms(4) update_where_def by (rule First_map) (simp_all add: assms(1))
  then show ?thesis
    by (cases "First u_Id (\<lambda>r. u_Id r = x) (o_users d)")
       (auto simp: generation_of_def assms(2,3) dest: First_Inr)
qed

lemma revoke_others:
  "filter (\<lambda>r. rs_UserID r \<noteq> uid) (update_where (\<lambda>r. rs_UserID r = uid \<and> Q r) (revoke_row now reason) rows) =
     filter (\<lambda>r. rs_UserID r \<noteq> uid) rows"
  unfolding update_where_def by (induction rows) (auto simp: revoke_row_def)

lemma generation_user: "generation_of d uid = Some g \<Longrightarrow> uid \<in> u_Id ` set (o_users d)"
  by (auto simp: generation_of_def split: sum.splits dest: First_Inr)


section \<open>From login to request\<close>

lemma CreateRefreshSession_ready:
  assumes "ready w" and "CreateRefreshSession u uid sha iat ex sid w = (Inr (), w')"
  shows "w' = w\<lparr>db := (db w)\<lparr>o_refresh_sessions := o_refresh_sessions (db w) @ [new_session sid uid sha iat ex]\<rparr>,
     tick := Suc (tick w)\<rparr>"
  using assms
  by (auto simp: CreateRefreshSession_def sql insert_session_def new_session_def split: if_splits)

lemma issued_pair:
  assumes "ready w" and "issueSessionPair lib u user now w = (Inr issued, w')"
  shows "is_User issued = user \<and>
    (\<exists>b. MintAccessToken lib (u_Username user) (u_Id user) (u_TokenVersion user) (is_SessionID issued) (us_privateKey u)
       (w\<lparr>tick := Suc (tick w)\<rparr>) = (Inr (is_AccessToken issued), b)) \<and>
    (\<exists>k. w' = w\<lparr>db := (db w)\<lparr>o_refresh_sessions := o_refresh_sessions (db w) @
       [new_session (is_SessionID issued) (u_Id user) (TokenSHA256 (is_RefreshToken issued)) now (now + RefreshTokenLifetime)]\<rparr>,
       tick := k\<rparr>)"
proof -
  obtain sid w1 where n: "NewTokenID w = (Inr sid, w1)"
    using assms(2) by (auto simp: issueSessionPair_def split: prod.splits sum.splits)
  obtain acc w2 where a: "MintAccessToken lib (u_Username user) (u_Id user) (u_TokenVersion user) sid (us_privateKey u) w1 = (Inr acc, w2)"
    using assms(2) n by (auto simp: issueSessionPair_def split: prod.splits sum.splits)
  obtain ref w3 where r: "MintRefreshToken lib (u_Username user) (u_Id user) (u_TokenVersion user) sid (us_privateKey u) w2 = (Inr ref, w3)"
    using assms(2) n a by (auto simp: issueSessionPair_def split: prod.splits sum.splits)
  have w1: "w1 = w\<lparr>tick := Suc (tick w)\<rparr>"
    using n by (auto simp: NewTokenID_def rand_Read_def split: option.splits prod.splits)
  have "w2 = w1\<lparr>tick := Suc (Suc (tick w1))\<rparr>" "w3 = w2\<lparr>tick := Suc (Suc (tick w2))\<rparr>"
    using a r by (auto simp: MintAccessToken_def MintRefreshToken_def elim: mint_ok)
  then have w3: "ready w3" "db w3 = db w" "w3 = w\<lparr>tick := tick w3\<rparr>"
    using assms(1) w1 by simp_all
  have c: "CreateRefreshSession (Some u) (u_Id user) (TokenSHA256 ref) now (now + RefreshTokenLifetime) sid w3 = (Inr (), w')"
    and i: "issued = \<lparr>is_User = user, is_SessionID = sid, is_AccessToken = acc, is_RefreshToken = ref,
                is_IssuedAt = now, is_ExpiresAt = now + AccessTokenLifetime\<rparr>"
    using assms(2) n a r by (auto simp: issueSessionPair_def split: prod.splits sum.splits)
  have "w' = w\<lparr>db := (db w)\<lparr>o_refresh_sessions := o_refresh_sessions (db w) @
       [new_session sid (u_Id user) (TokenSHA256 ref) now (now + RefreshTokenLifetime)]\<rparr>, tick := Suc (tick w3)\<rparr>"
    unfolding CreateRefreshSession_ready [OF w3(1) c] by (subst w3(3)) (simp add: w3(2))
  with a w1 i show ?thesis by auto
qed

lemma issued_login:
  assumes "ready w" and "us_db u" and "IssueLoginSession lib (Some u) uid now w = (Inr issued, w')"
  shows "generation_of (db w) uid = Some (u_Username (is_User issued), u_TokenVersion (is_User issued)) \<and>
    u_Id (is_User issued) = uid \<and>
    (\<exists>b. MintAccessToken lib (u_Username (is_User issued)) uid (u_TokenVersion (is_User issued)) (is_SessionID issued)
       (us_privateKey u) (w\<lparr>tick := Suc (Suc (tick w))\<rparr>) = (Inr (is_AccessToken issued), b)) \<and>
    ready w' \<and> o_users (db w') = o_users (db w) \<and>
    set (o_revoked_access_tokens (db w')) \<subseteq> set (o_revoked_access_tokens (db w))"
proof -
  have u: "\<not> unavailable (Some u)" using assms(2) by (simp add: unavailable_def)
  obtain user w2 where f: "First u_Id (\<lambda>r. u_Id r = uid) (o_users (db w)) = Inr user"
    and p: "issueSessionPair lib u user now (w\<lparr>tick := Suc (tick w)\<rparr>) = (Inr issued, w2)"
    and w': "w' = PruneAuthState (Some u) now w2"
    using assms(1,3) u
    by (auto simp: IssueLoginSession_def sql first_user_def split: if_splits sum.splits prod.splits)
  note pair = issued_pair [OF _ p]
  obtain k where w2: "w2 = w\<lparr>db := (db w)\<lparr>o_refresh_sessions := o_refresh_sessions (db w) @
       [new_session (is_SessionID issued) (u_Id user) (TokenSHA256 (is_RefreshToken issued)) now (now + RefreshTokenLifetime)]\<rparr>,
       tick := k\<rparr>"
    using pair assms(1) by auto
  then have "ready w2" using assms(1) by simp
  then obtain j where "w' = w2\<lparr>db := pruned now (db w2), tick := j\<rparr>"
    using prune_ready [OF _ u, of w2 now] w' by blast
  then have "ready w'" "o_users (db w') = o_users (db w)"
    "set (o_revoked_access_tokens (db w')) \<subseteq> set (o_revoked_access_tokens (db w))"
    using assms(1) w2 pruned_sub(2) [of now "db w2"] by simp_all
  moreover have "u_Id user = uid" using First_Inr [OF f] by simp
  ultimately show ?thesis using pair assms(1) f by (auto simp: generation_of_def)
qed

text \<open>
  C22.  A login session is usable.  When \<open>IssueLoginSession\<close> succeeds in a working store, a request
  that carries the access token, at any later moment of the next three hours before the tables
  change, reaches the protected handler, which sees the id, the name and the session id of exactly
  that user.
\<close>

theorem login_admitted:
  assumes "jwt_complete lib" and "ready w" and "us_db u"
    and "us_privateKey u = Some sk" and "us_publicKey u = Some (sk_Public sk)" and "valid_p256 (Some (sk_Public sk))"
    and "IssueLoginSession lib (Some u) uid now w = (Inr issued, w')"
    and "ready v" and "db v = db w'" and "\<not> denylisted (db w) (is_SessionID issued)"
    and "authorizationToken (Some rq) = Inr (is_AccessToken issued)"
    and "t = clock (env w) (Suc (Suc (tick w)))"
    and "t \<le> clock (env v) (tick v)" and "clock (env v) (tick v) \<le> t + AccessTokenLifetime - second"
  shows "\<exists>claims v'. userAccessTokenMiddleware lib (Some u) next rq v = next (authenticated claims rq) v' \<and>
    UserID claims = uid \<and> ID claims = is_SessionID issued \<and> Username claims = u_Username (is_User issued) \<and>
    db v' = db v \<and> Header_Get (authenticated claims rq) HeaderUserID = Itoa uid"
proof -
  note i = issued_login [OF assms(2,3,7)]
  obtain b where m: "mintSessionToken lib (u_Username (is_User issued)) uid (u_TokenVersion (is_User issued)) (is_SessionID issued)
      AccessTokenIssuer AccessTokenLifetime (Some sk) (w\<lparr>tick := Suc (Suc (tick w))\<rparr>) = (Inr (is_AccessToken issued), b)"
    using i assms(4) by (auto simp: MintAccessToken_def)
  have "is_AccessToken issued \<noteq> [] \<and> length (is_AccessToken issued) \<le> maxTokenSize"
    using assms(11)
  proof (rule header_token)
    fix raw
    assume "length raw \<le> 8192" "count_list (is_AccessToken issued) (CHR ''.'') = 2"
      "if 6 \<le> length raw \<and> EqualFold (take 6 raw) ''Bearer''
       then 7 < length raw \<and> raw ! 6 = CHR '' '' \<and> is_AccessToken issued = drop 7 raw else is_AccessToken issued = raw"
    then show ?thesis by (auto simp: maxTokenSize_def split: if_splits)
  qed
  then obtain claims where v: "validateSessionToken lib (is_AccessToken issued) AccessTokenIssuer (Some (Inr (us_publicKey u))) v =
      (Inr claims, v\<lparr>tick := Suc (tick v)\<rparr>)"
    and c: "ID claims = is_SessionID issued" "UserID claims = uid" "Username claims = u_Username (is_User issued)"
      "TokenVersion claims = u_TokenVersion (is_User issued)"
    using minted_validates [OF assms(1,6) m, of v] assms(5,12-14) by auto
  have "generation_of (db v) = generation_of (db w)" using i assms(9) by (simp add: generation_of_def fun_eq_iff)
  then have g: "generation_of (db v) (UserID claims) = Some (Username claims, TokenVersion claims)"
    using i c by simp
  have "\<not> denylisted (db v) (ID claims)" using i assms(9,10) c(1) by (auto simp: denylisted_def)
  then obtain v3 where "accessTokenMiddleware lib (Inr (us_publicKey u)) (Some (service_validator u)) next rq v =
      next (authenticated claims rq) v3" "db v3 = db v"
    using svc.admitted [OF _ assms(11) v g] assms(3,8) by blast
  moreover have "Header_Get (authenticated claims rq) HeaderUserID = Itoa (UserID claims)"
    by (simp add: authenticated_def Header_Get_def Header_Set_def)
  ultimately show ?thesis using c unfolding service_middleware by metis
qed

section \<open>Refreshing\<close>

lemma CheckLoginLockout_ready:
  "ready w \<Longrightarrow> CheckLoginLockout u key now w = (r, w') \<Longrightarrow> \<exists>k. w' = w\<lparr>tick := k\<rparr>"
  by (auto simp: CheckLoginLockout_def sql first_attempt_def split: if_splits sum.splits option.splits intro: exI [of _ "tick w"])

lemma mint_tick: "MintAccessToken lib a b c d sk w = (Inr t, w') \<Longrightarrow> w' = w\<lparr>tick := Suc (Suc (tick w))\<rparr>"
  "MintRefreshToken lib a b c d sk w = (Inr t, w') \<Longrightarrow> w' = w\<lparr>tick := Suc (Suc (tick w))\<rparr>"
  by (auto simp: MintAccessToken_def MintRefreshToken_def elim: mint_ok)

lemma NewTokenID_tick: "NewTokenID w = (r, w') \<Longrightarrow> w' = w\<lparr>tick := Suc (tick w)\<rparr>"
  by (auto simp: NewTokenID_def rand_Read_def split: option.splits prod.splits)

lemma refreshed:
  assumes "ready w" and "us_db u" and "IssueRefreshedTokens lib (Some u) presented now w = (Inr issued, w')"
  shows "\<exists>key claims cur k w7. us_publicKey u = Some key \<and>
    validateSessionToken lib presented RefreshTokenIssuer (Some (Inr (Some key))) w = (Inr claims, w\<lparr>tick := Suc (tick w)\<rparr>) \<and>
    generation_of (db w) (UserID claims) = Some (Username claims, TokenVersion claims) \<and>
    u_Id (is_User issued) = UserID claims \<and>
    RotateRefreshSession (Some u) (TokenSHA256 presented) (is_SessionID issued) (TokenSHA256 (is_RefreshToken issued))
      now (now + RefreshTokenLifetime) now (w\<lparr>tick := k\<rparr>) = (Inr cur, w7) \<and>
    w' = PruneAuthState (Some u) now (RecordLoginSuccess (Some u) (LoginAttemptKey ''refresh'' (Itoa (UserID claims))) w7)"
proof -
  have u: "\<not> unavailable (Some u)" using assms(2) by (simp add: unavailable_def)
  note I = assms(3) [unfolded IssueRefreshedTokens_def Let_def option.sel]
  obtain key where key: "us_publicKey u = Some key" "us_privateKey u \<noteq> None" "presented \<noteq> []"
    using I u by (auto split: if_splits)
  have pk: "publicKeyFunc (Some u) = Inr (Some key)" by (simp add: publicKeyFunc_def key)
  obtain claims w1 where v: "validateSessionToken lib presented RefreshTokenIssuer (Some (Inr (Some key))) w = (Inr claims, w1)"
    using I u key pk by (auto simp: ValidateSessionRefreshToken_def split: prod.splits sum.splits)
  let ?lk = "LoginAttemptKey ''refresh'' (Itoa (UserID claims))"
  obtain b dur w2 where l: "CheckLoginLockout (Some u) ?lk now w1 = ((b, dur), w2)" by (metis surj_pair)
  have w1: "w1 = w\<lparr>tick := Suc (tick w)\<rparr>" using v by (auto elim: validate_ok)
  then obtain k2 where w2: "w2 = w\<lparr>tick := k2\<rparr>"
    using CheckLoginLockout_ready [OF _ l] assms(1) by auto
  note I2 = I [unfolded ValidateSessionRefreshToken_def pk, simplified u key v l prod.case sum.case if_False, simplified key v l, simplified]
  have nb: "\<not> b" using I2 by (auto split: if_splits)
  obtain user where f: "First u_Id (\<lambda>r. u_Id r = UserID claims) (o_users (db w)) = Inr user"
    and g: "u_Username user = Username claims" "u_TokenVersion user = TokenVersion claims"
    using I2 nb assms(1) w2
    by (auto simp: sql first_user_def reject_counted_def split: if_splits sum.splits prod.splits)
  let ?w3 = "w\<lparr>tick := Suc k2\<rparr>"
  have q: "autocommit UserDBModel_TableName (first_user (\<lambda>r. u_Id r = UserID claims)) w2 = (Inr user, ?w3)"
    using f assms(1) w2 by (simp add: sql first_user_def)
  note I3 = I2 [unfolded if_not_P [OF nb] q, simplified, unfolded g, simplified]
  obtain rid w4 where n: "NewTokenID ?w3 = (Inr rid, w4)"
    using I3 by (auto split: prod.splits sum.splits)
  obtain rr w5 where r: "MintRefreshToken lib (Username claims) (u_Id user) (TokenVersion claims) rid (us_privateKey u) w4 = (Inr rr, w5)"
    using I3 n by (auto split: prod.splits sum.splits)
  obtain ra w6 where a: "MintAccessToken lib (Username claims) (u_Id user) (TokenVersion claims) rid (us_privateKey u) w5 = (Inr ra, w6)"
    using I3 n r by (auto split: prod.splits sum.splits)
  obtain cur w7 where ro: "RotateRefreshSession (Some u) (TokenSHA256 presented) rid (TokenSHA256 rr) now (now + RefreshTokenLifetime) now w6 = (Inr cur, w7)"
    and i: "issued = \<lparr>is_User = user, is_SessionID = rid, is_AccessToken = ra, is_RefreshToken = rr, is_IssuedAt = now,
         is_ExpiresAt = now + AccessTokenLifetime\<rparr>" and w': "w' = PruneAuthState (Some u) now (RecordLoginSuccess (Some u) ?lk w7)"
    using I3 n r a by (auto simp: reject_counted_def split: prod.splits sum.splits if_splits)
  have "w6 = w\<lparr>tick := tick w6\<rparr>"
    using mint_tick(1) [OF a] mint_tick(2) [OF r] NewTokenID_tick [OF n] by simp
  then obtain k where "w6 = w\<lparr>tick := k\<rparr>" by blast
  with key v w1 f g ro i w' First_Inr [OF f] show ?thesis by (auto simp: generation_of_def)
qed

lemma refresh_consumes:
  assumes "jwt_sound lib" and "ready w" and "wf_db (db w)" and "us_db u"
    and "IssueRefreshedTokens lib (Some u) presented now w = (Inr issued, w')"
  shows "(\<exists>key claims r. us_publicKey u = Some key \<and> jwt_signed lib key presented claims \<and> Issuer claims = RefreshTokenIssuer \<and>
      generation_of (db w) (UserID claims) = Some (Username claims, TokenVersion claims) \<and>
      u_Id (is_User issued) = UserID claims \<and>
      r \<in> set (o_refresh_sessions (db w)) \<and> rs_TokenSHA256 r = TokenSHA256 presented \<and> live now r) \<and>
    (\<forall>v now2. ready v \<and> db v = db w' \<longrightarrow> isl (fst (IssueRefreshedTokens lib (Some u) presented now2 v))) \<and> ready w'"
proof -
  have u: "\<not> unavailable (Some u)" using assms(4) by (simp add: unavailable_def)
  let ?sha = "TokenSHA256 presented"
  obtain key claims cur k w7 where key: "us_publicKey u = Some key"
    and v: "validateSessionToken lib presented RefreshTokenIssuer (Some (Inr (Some key))) w = (Inr claims, w\<lparr>tick := Suc (tick w)\<rparr>)"
    and g: "generation_of (db w) (UserID claims) = Some (Username claims, TokenVersion claims)" "u_Id (is_User issued) = UserID claims"
    and ro: "RotateRefreshSession (Some u) ?sha (is_SessionID issued) (TokenSHA256 (is_RefreshToken issued))
      now (now + RefreshTokenLifetime) now (w\<lparr>tick := k\<rparr>) = (Inr cur, w7)"
    and w': "w' = PruneAuthState (Some u) now (RecordLoginSuccess (Some u) (LoginAttemptKey ''refresh'' (Itoa (UserID claims))) w7)"
    using refreshed [OF assms(2,4,5)] by blast
  have rd: "ready (w\<lparr>tick := k\<rparr>)" "wf_db (db (w\<lparr>tick := k\<rparr>))" using assms(2,3) by simp_all
  have "interfered (w\<lparr>tick := k\<rparr>) = w\<lparr>tick := k\<rparr>" using assms(2) by simp
  then obtain r where r: "r \<in> set (o_refresh_sessions (db w))" "rs_TokenSHA256 r = ?sha" "live now r"
    using rotation_consumed [OF ro] rd(2) by auto
  note w7 = rotation_ready [OF rd ro]
  define w8 where "w8 = RecordLoginSuccess (Some u) (LoginAttemptKey ''refresh'' (Itoa (UserID claims))) w7"
  have w8: "ready w8" "o_refresh_sessions (db w8) = o_refresh_sessions (db w7)"
    using w7 u by (simp_all add: w8_def RecordLoginSuccess_def sql LoginAttemptKey_def)
  obtain j where wj: "w' = w8\<lparr>db := pruned now (db w8), tick := j\<rparr>"
    using prune_ready [OF w8(1) u, of now] w' w8_def by blast
  then have "ready w'" using w8(1) by simp
  from wj have sub: "set (o_refresh_sessions (db w')) \<subseteq> set (o_refresh_sessions (db w7))"
    using pruned_sub(1) [of now "db w8"] w8(2) by simp
  have no: "\<not> live now2 q" if "q \<in> set (o_refresh_sessions (db w'))" "rs_TokenSHA256 q = ?sha" for q now2
  proof -
    have "q = cur" using session_key_unique(2) [of "db w7" q cur] w7 that sub by auto
    then show ?thesis using w7 by (simp add: live_def)
  qed
  have "isl (fst (IssueRefreshedTokens lib (Some u) presented now2 x))" if x: "ready x" "db x = db w'" for x now2
  proof (rule ccontr)
    assume "\<not> ?thesis"
    then obtain is2 x' where "IssueRefreshedTokens lib (Some u) presented now2 x = (Inr is2, x')"
      by (metis isl_def prod.collapse sum.collapse(2))
    then obtain k2 rid rsha iat ex c2 x7 where "RotateRefreshSession (Some u) ?sha rid rsha iat ex now2 (x\<lparr>tick := k2\<rparr>) = (Inr c2, x7)"
      using refreshed [OF x(1) assms(4)] by blast
    then obtain x6 where "rotate_tx ?sha rid rsha iat ex now2 ((interfered (x\<lparr>tick := k2\<rparr>))\<lparr>tick := Suc k2\<rparr>) = (Inr c2, x6)"
      using rotate_ok by fastforce
    then obtain q where "q \<in> set (o_refresh_sessions (db x))" "rs_TokenSHA256 q = ?sha" "live now2 q"
      by (rule rotate_tx_ok) (use x(1) in simp)
    then show False using no x(2) by simp
  qed
  moreover have "\<exists>k. Some key = Some k \<and> jwt_signed lib k presented claims \<and> Issuer claims = RefreshTokenIssuer"
    using token_accepted [OF assms(1) v] by blast
  ultimately show ?thesis using key g r \<open>ready w'\<close> by blast
qed


section \<open>A sample login\<close>

definition sample_sid :: string where
  "sample_sid = hex_EncodeToString (replicate 16 (char_of (1 :: nat)))"

definition login_claims :: "string \<Rightarrow> duration \<Rightarrow> SessionClaims" where
  "login_claims iss life = \<lparr>Issuer = iss, Subject = ''ann'', IssuedAt = Some 0, NotBefore = Some 0, ExpiresAt = Some life,
     ID = sample_sid, Username = ''ann'', UserID = 1, TokenVersion = 0\<rparr>"

lemma hex_chars: "c \<in> set (hex_EncodeToString s) \<Longrightarrow> token_char c \<and> c \<noteq> CHR ''.'' \<and> c \<noteq> CHR ''_''"
proof -
  assume "c \<in> set (hex_EncodeToString s)"
  then have "c \<in> set hex_digits" using set_hex_Encode by blast
  moreover have "list_all (\<lambda>c. token_char c \<and> c \<noteq> CHR ''.'' \<and> c \<noteq> CHR ''_'') hex_digits" by code_simp
  ultimately show ?thesis by (simp add: list_all_iff)
qed

lemma sample_sid_chars: "c \<in> set sample_sid \<Longrightarrow> token_char c \<and> c \<noteq> CHR ''.'' \<and> c \<noteq> CHR ''_''"
  unfolding sample_sid_def by (rule hex_chars)

lemma sample_sid_length: "length sample_sid = 32"
  by (simp add: sample_sid_def)

lemma whole_seconds: "0 \<le> t \<Longrightarrow> t < second \<Longrightarrow> NumericDate toy_lib t = 0"
  "0 \<le> t \<Longrightarrow> t < second \<Longrightarrow> NumericDate toy_lib (t + n * second) = n * second"
  by (simp_all add: toy_lib_def)

lemma lifetimes: "AccessTokenLifetime = 10800 * second" "RefreshTokenLifetime = 604800 * second"
  by (simp_all add: AccessTokenLifetime_def RefreshTokenLifetime_def hour_def)

lemma mint_login:
  assumes "0 \<le> clock (env w) (tick w)" and "clock (env w) (tick w) < second" and "CHR ''_'' \<notin> set iss"
    and "life = n * second" and "0 \<le> n" and "n < 10 ^ 6"
  shows "mintSessionToken toy_lib ''ann'' 1 0 sample_sid iss life (Some sample_key) w =
    (Inr (toy_encode (login_claims iss life)), w\<lparr>tick := Suc (Suc (tick w))\<rparr>)"
proof -
  have "toy_decode (toy_encode (login_claims iss life)) = Some (login_claims iss life)"
    by (rule toy_roundtrip [of _ 0 0 life])
       (use assms sample_sid_chars in \<open>auto simp: login_claims_def toy_range_def second_def\<close>)
  then have "jwt_Sign toy_lib k (login_claims iss life) sk = Some (toy_encode (login_claims iss life))" for k sk
    by (simp add: toy_lib_def)
  moreover have "sample_sid \<noteq> []" using sample_sid_length by auto
  ultimately show ?thesis
    using assms by (simp add: mintSessionToken_def time_Now_def whole_seconds Let_def flip: login_claims_def)
qed

lemma calm_NewTokenID: "tick w = 1 \<Longrightarrow> env w = calm_env \<Longrightarrow> NewTokenID w = (Inr sample_sid, w\<lparr>tick := 2\<rparr>)"
  by (simp add: NewTokenID_def rand_Read_def calm_env_def sample_sid_def maxSessionTokenIDBytes_def)

definition sample_issued :: IssuedSession where
  "sample_issued = \<lparr>is_User = zero_user\<lparr>u_Id := 1, u_Username := ''ann''\<rparr>, is_SessionID = sample_sid,
     is_AccessToken = toy_encode (login_claims AccessTokenIssuer AccessTokenLifetime),
     is_RefreshToken = toy_encode (login_claims RefreshTokenIssuer RefreshTokenLifetime),
     is_IssuedAt = 0, is_ExpiresAt = AccessTokenLifetime\<rparr>"

lemma sample_pair:
  assumes "w = (calm_world session_db)\<lparr>tick := 1\<rparr>"
  shows "\<exists>w'. issueSessionPair toy_lib sample_service (zero_user\<lparr>u_Id := 1, u_Username := ''ann''\<rparr>) 0 w = (Inr sample_issued, w')"
proof -
  have a: "MintAccessToken toy_lib ''ann'' 1 0 sample_sid (Some sample_key) (w\<lparr>tick := 2\<rparr>) =
      (Inr (is_AccessToken sample_issued), w\<lparr>tick := 4\<rparr>)"
    using mint_login [of "w\<lparr>tick := 2\<rparr>" AccessTokenIssuer AccessTokenLifetime 10800] assms lifetimes
    by (simp add: MintAccessToken_def calm_env_def AccessTokenIssuer_def second_def sample_issued_def)
  have r: "MintRefreshToken toy_lib ''ann'' 1 0 sample_sid (Some sample_key) (w\<lparr>tick := 4\<rparr>) =
      (Inr (is_RefreshToken sample_issued), w\<lparr>tick := 6\<rparr>)"
    using mint_login [of "w\<lparr>tick := 4\<rparr>" RefreshTokenIssuer RefreshTokenLifetime 604800] assms lifetimes
    by (simp add: MintRefreshToken_def calm_env_def RefreshTokenIssuer_def second_def sample_issued_def)
  have "length ''s1'' \<noteq> 32" by simp
  then have sid: "sample_sid \<noteq> ''s1''" "sample_sid \<noteq> []"
    using sample_sid_length by (metis, metis list.size(3) zero_neq_numeral)
  have "length ''old'' \<noteq> 64" by simp
  then have sha: "TokenSHA256 t \<noteq> ''old''" for t using length_TokenSHA256 [of t] by metis
  have "\<exists>w'. CreateRefreshSession (Some sample_service) 1 (TokenSHA256 t) 0 ex sample_sid (w\<lparr>tick := 6\<rparr>) = (Inr (), w')" for t ex
    using assms sid sha by (simp add: CreateRefreshSession_def sql insert_session_def new_session_def)
  then obtain w' where "CreateRefreshSession (Some sample_service) 1 (TokenSHA256 (is_RefreshToken sample_issued)) 0
      RefreshTokenLifetime sample_sid (w\<lparr>tick := 6\<rparr>) = (Inr (), w')" by blast
  moreover have "NewTokenID w = (Inr sample_sid, w\<lparr>tick := 2\<rparr>)" using assms by (intro calm_NewTokenID) simp_all
  moreover have "us_privateKey sample_service = Some sample_key" by (simp add: sample_service_def)
  ultimately have "issueSessionPair toy_lib sample_service (zero_user\<lparr>u_Id := 1, u_Username := ''ann''\<rparr>) 0 w =
      (Inr \<lparr>is_User = zero_user\<lparr>u_Id := 1, u_Username := ''ann''\<rparr>, is_SessionID = sample_sid,
        is_AccessToken = is_AccessToken sample_issued, is_RefreshToken = is_RefreshToken sample_issued,
        is_IssuedAt = 0, is_ExpiresAt = 0 + AccessTokenLifetime\<rparr>, w')"
    using a r by (simp add: issueSessionPair_def zero_user_def)
  then show ?thesis by (simp add: sample_issued_def)
qed

lemma calm_same_db [simp]: "(calm_world d)\<lparr>db := d\<rparr> = calm_world d"
  by (simp add: calm_world_def)

lemma sample_login:
  "\<exists>w'. IssueLoginSession toy_lib (Some sample_service) 1 0 (calm_world session_db) = (Inr sample_issued, w')"
proof -
  obtain w' where "issueSessionPair toy_lib sample_service (zero_user\<lparr>u_Id := 1, u_Username := ''ann''\<rparr>) 0
      ((calm_world session_db)\<lparr>tick := 1\<rparr>) = (Inr sample_issued, w')"
    using sample_pair by blast
  then show ?thesis by (simp add: IssueLoginSession_def sql first_user_def First_def)
qed

text \<open>A request that carries the token in a bearer header.\<close>

definition sample_request :: "string \<Rightarrow> request" where
  "sample_request token = \<lparr>rq_headers = (\<lambda>_. [''Bearer '' @ token]), rq_body = [], rq_body_fails = False, rq_param = (\<lambda>_. []), rq_query = (\<lambda>_. []),
     rq_session = None, rq_ctx_err = None\<rparr>"

lemma Itoa_token: "list_all token_char (Itoa n)" "CHR ''.'' \<notin> set (Itoa n)"
  using Itoa_chars [of _ n] Itoa_chars [of "CHR ''.''" n] by (auto simp: list_all_iff token_char_def is_digit_iff)

lemma toy_token:
  assumes "list_all token_char iss" and "CHR ''.'' \<notin> set iss" and "length iss \<le> 100" and "length (Itoa life) \<le> 100"
  shows "authorizationToken (Some (sample_request (toy_encode (login_claims iss life)))) = Inr (toy_encode (login_claims iss life))"
proof (rule bearer_accepted [of "''Bearer''"])
  have sid: "list_all token_char sample_sid" "CHR ''.'' \<notin> set sample_sid"
    using sample_sid_chars by (auto simp: list_all_iff)
  have ann: "list_all token_char ''ann''" "token_char (CHR ''_'')" "token_char (CHR ''.'')"
    by (simp_all add: token_char_def is_lower_def less_eq_char_def)
  show "list_all token_char (toy_encode (login_claims iss life))"
    using assms sid ann Itoa_token by (simp add: toy_encode_def login_claims_def toy_time_def)
  show "count_list (toy_encode (login_claims iss life)) (CHR ''.'') = 2"
    using assms sid Itoa_token by (simp add: toy_encode_def login_claims_def toy_time_def count_notin)
  have "length (Itoa 0) = 1" "length (Itoa 1) = 1" by (simp_all add: Itoa_def dec_of_nat.simps)
  then have "length (toy_encode (login_claims iss life)) \<le> 300"
    using assms sample_sid_length by (simp add: toy_encode_def login_claims_def toy_time_def)
  then show "length (''Bearer'' @ CHR '' '' # toy_encode (login_claims iss life)) \<le> 8192" by simp
qed (simp_all add: sample_request_def EqualFold_def)

lemma sample_token:
  "authorizationToken (Some (sample_request (is_AccessToken sample_issued))) = Inr (is_AccessToken sample_issued)"
  unfolding sample_issued_def IssuedSession.simps
  by (rule toy_token)
     (simp_all add: AccessTokenIssuer_def sample_times Itoa_def dec_of_nat.simps token_char_def is_lower_def less_eq_char_def)

lemma sample_service_keys:
  "us_db sample_service" "us_privateKey sample_service = Some sample_key" "us_publicKey sample_service = Some (sk_Public sample_key)"
  by (simp_all add: sample_service_def)

lemma no_denylist: "\<not> denylisted session_db tid"
  by (simp add: denylisted_def session_db_def empty_db_def)

definition echo_user :: "'x world_scheme handler" where
  "echo_user rq w = (JSON StatusOK (result SUCCESS (Literal (Header_Get rq HeaderUserID)) NoData) [], w)"

theorem login_admitted_witness:
  "\<exists>w'. IssueLoginSession toy_lib (Some sample_service) 1 0 (calm_world session_db) = (Inr sample_issued, w') \<and>
     fst (userAccessTokenMiddleware toy_lib (Some sample_service)
       echo_user (sample_request (is_AccessToken sample_issued)) ((calm_world (db w'))\<lparr>tick := 3\<rparr>)) =
     JSON StatusOK (result SUCCESS (Literal ''1'') NoData) []"
proof -
  obtain w' where w': "IssueLoginSession toy_lib (Some sample_service) 1 0 (calm_world session_db) = (Inr sample_issued, w')"
    using sample_login by blast
  let ?v = "(calm_world (db w'))\<lparr>tick := 3\<rparr>"
  have "ready w'" using issued_login [OF sample_key_fresh(1) sample_service_keys(1) w'] by simp
  then have v: "ready ?v" "db ?v = db w'" by simp_all
  have t: "clock (env (calm_world session_db)) (Suc (Suc (tick (calm_world session_db)))) = 2000" "clock (env ?v) (tick ?v) = 3000"
    by (simp_all add: calm_env_def)
  have one: "Itoa 1 = ''1''" by code_simp
  have "\<exists>claims v'. userAccessTokenMiddleware toy_lib (Some sample_service)
       echo_user (sample_request (is_AccessToken sample_issued)) ?v =
       (JSON StatusOK (result SUCCESS (Literal (Header_Get (authenticated claims (sample_request (is_AccessToken sample_issued))) HeaderUserID)) NoData) [], v') \<and>
       Header_Get (authenticated claims (sample_request (is_AccessToken sample_issued))) HeaderUserID = Itoa 1"
    using login_admitted [OF toy_lib_laws(2) sample_key_fresh(1) sample_service_keys sample_key_valid w' v _ sample_token refl, of echo_user]
      t no_denylist by (auto simp: sample_times second_def echo_user_def)
  with w' one show ?thesis by (metis fst_conv)
qed

lemma sample_validated:
  assumes "validateSessionToken toy_lib (is_AccessToken sample_issued) AccessTokenIssuer pk v = (Inr claims, v1)"
  shows "claims = login_claims AccessTokenIssuer AccessTokenLifetime"
proof -
  have "toy_decode (is_AccessToken sample_issued) = Some claims"
    using assms by (rule validate_ok) (auto simp: toy_lib_def split: sum.splits option.splits if_splits)
  moreover have "toy_decode (is_AccessToken sample_issued) = Some (login_claims AccessTokenIssuer AccessTokenLifetime)"
    unfolding sample_issued_def IssuedSession.simps
    by (rule toy_roundtrip [of _ 0 0 AccessTokenLifetime])
       (use sample_sid_chars in \<open>auto simp: login_claims_def toy_range_def sample_times AccessTokenIssuer_def\<close>)
  ultimately show ?thesis by simp
qed

lemma invalid_refused:
  assumes "authorizationToken (Some rq) = Inr token"
    and "\<And>claims v1. validateSessionToken lib token AccessTokenIssuer (Some (Inr (us_publicKey u))) v \<noteq> (Inr claims, v1)"
  shows "fst (userAccessTokenMiddleware lib (Some u) next rq v) = ErrUnauthorized"
  unfolding service_middleware using assms
  by (auto simp: accessTokenMiddleware_def ValidateSessionAccessToken_def split: prod.splits sum.splits)




text \<open>Of two refreshes with the same genuine token at most one succeeds.\<close>

definition refresh_db :: db where
  "refresh_db = session_db\<lparr>o_refresh_sessions :=
     [new_session ''s1'' 1 (TokenSHA256 (is_RefreshToken sample_issued)) 0 RefreshTokenLifetime]\<rparr>"

lemma refresh_db_ok: "migrated refresh_db" "wf_db refresh_db"
  by (simp_all add: refresh_db_def wf_db_upd)


end
