(* ===== verification/Handlers.thy ===== *)
theory Handlers
  imports User_Config Recovery Session_Life
begin

text \<open>
  \<open>src/route/v1/user.go\<close>: the handlers of the first API version.  They run over the process state
  (tables, files and published events).  Outside the repository, and therefore fields of \<open>deps\<close>, are:
  the JSON decoding of a body, echo's binding, \<open>gjson\<close>'s validity test, the rate limiter's answers,
  Argon2id and the token library.
\<close>

section \<open>The process\<close>

record app_world = fs_world +
  published :: "(string \<times> string \<times> (string \<times> string) list) list"

record userProfileUpdate =
  pr_Username :: string
  pr_Email :: string
  pr_Nickname :: string
  pr_Avatar :: string
  pr_Description :: string

text \<open>
  \<open>decode_login\<close> and \<open>decode_refresh\<close> are the first \<open>Decode\<close> of a body: the value and the rest of the
  input.  \<open>bind_map\<close> is what \<open>Bind\<close> leaves in a map, with the empty text for a missing key.
\<close>

record deps =
  d_users :: userService
  d_lib :: jwtlib
  d_idkey :: argon2
  UserDataPath :: string
  login_Allow :: "nat \<Rightarrow> bool"
  refresh_Allow :: "nat \<Rightarrow> bool"
  decode_login :: "string \<Rightarrow> ((string \<times> string) \<times> string) option"
  decode_refresh :: "string \<Rightarrow> (string \<times> string) option"
  bind_map :: "request \<Rightarrow> string \<Rightarrow> string"
  bind_profile :: "request \<Rightarrow> userProfileUpdate option"
  gjson_Valid :: "string \<Rightarrow> bool"
  json_Valid :: "string \<Rightarrow> bool"

type_synonym 'x app_handler = "'x app_world_scheme handler"

definition limiter_Allow :: "(nat \<Rightarrow> bool) \<Rightarrow> 'x world_scheme \<Rightarrow> bool \<times> 'x world_scheme" where
  "limiter_Allow allow w = (allow (tick w), w\<lparr>tick := Suc (tick w)\<rparr>)"

text \<open>
  A body of at most \<open>limit\<close> bytes that is one JSON value and then nothing but white space:
  \<open>MaxBytesReader\<close> and two calls of \<open>Decode\<close>, the second of which must see the end of the input.
\<close>

definition json_space :: "char \<Rightarrow> bool" where
  "json_space c \<longleftrightarrow> c \<in> {CHR 0x20, CHR 0x09, CHR 0x0A, CHR 0x0D}"

definition json_body :: "nat \<Rightarrow> (string \<Rightarrow> ('a \<times> string) option) \<Rightarrow> request \<Rightarrow> 'a option" where
  "json_body limit decode rq =
     (case decode (take limit (rq_body rq)) of
        None \<Rightarrow> None
      | Some (v, rest) \<Rightarrow>
          if length (rq_body rq) > limit \<or> rq_body_fails rq \<or> \<not> list_all json_space rest then None else Some v)"

text \<open>\<open>ctx.JSON\<close>: a raw message that is not JSON does not encode.\<close>

definition ctx_JSON :: "deps \<Rightarrow> code \<Rightarrow> Result \<Rightarrow> (string \<times> string) list \<Rightarrow> response" where
  "ctx_JSON D c r hdrs =
     (case Data r of
        RawJSON s \<Rightarrow> if json_Valid D s then JSON c r hdrs else EncodeError
      | _ \<Rightarrow> JSON c r hdrs)"

definition maxLoginRequestBodyBytes :: nat where "maxLoginRequestBodyBytes = 4096"
definition maxRefreshRequestBodyBytes :: nat where "maxRefreshRequestBodyBytes = 12288"

definition customConfigKeyPattern :: "string \<Rightarrow> bool" where
  "customConfigKeyPattern s = name_pattern s"

definition ok :: "payload \<Rightarrow> Result" where
  "ok d = result SUCCESS (GetMsg SUCCESS) d"

definition HeaderUserID_of :: "request \<Rightarrow> string" where
  "HeaderUserID_of rq = Header_Get rq HeaderUserID"

section \<open>Logging in\<close>

definition PostUserRegister :: "deps \<Rightarrow> 'x app_handler" where
  "PostUserRegister D rq w =
     (JSON StatusGone (result StatusGone
        (Literal ''network registration is disabled; initialize the administrator locally'') NoData) no_store, w)"

text \<open>\<open>Duration.Round (time.Second)\<close> in seconds: half away from zero.\<close>

definition round_seconds :: "duration \<Rightarrow> int" where
  "round_seconds d =
     (if d < 0 then - ((- d + second div 2) div second) else (d + second div 2) div second)"

definition loginRateLimited :: "duration \<Rightarrow> (string \<times> string) list \<Rightarrow> response" where
  "loginRateLimited retryAfter hdrs =
     (let seconds = (if round_seconds retryAfter < 1 then 1 else round_seconds retryAfter) in
      JSON TOO_MANY_REQUEST (msg TOO_MANY_LOGIN_REQUESTS) (hdrs @ [(''Retry-After'', Itoa seconds)]))"

definition server_error :: Result where
  "server_error = result SERVICE_ERROR (GetMsg SERVICE_ERROR) NoData"

text \<open>What a failed authentication leads to.\<close>

definition login_rejected :: "deps \<Rightarrow> string \<Rightarrow> time \<Rightarrow> 'x app_world_scheme \<Rightarrow> response \<times> 'x app_world_scheme" where
  "login_rejected D attemptKey now w =
     (case RecordLoginFailure (Some (d_users D)) attemptKey now w of
        (Inl _, w1) \<Rightarrow> (JSON StatusInternalServerError server_error no_store, w1)
      | (Inr (locked, retryAfter), w1) \<Rightarrow>
          if locked
          then (loginRateLimited retryAfter no_store,
                LogCredentialEvent (Some (d_users D)) 0 CredentialEventLoginLockout False ''login'' [] w1)
          else (JSON CLIENT_ERROR (msg USER_NOT_EXIST_OR_PWD_INVALID) no_store,
                LogCredentialEvent (Some (d_users D)) 0 CredentialEventLoginFailure False ''login'' [] w1))"

definition Unix :: "time \<Rightarrow> int" where
  "Unix t = t div second"

text \<open>What a successful one leads to.\<close>

definition login_accepted ::
  "deps \<Rightarrow> string \<Rightarrow> time \<Rightarrow> UserDBModel \<Rightarrow> 'x app_world_scheme \<Rightarrow> response \<times> 'x app_world_scheme" where
  "login_accepted D attemptKey now user w =
     (case IssueLoginSession (d_lib D) (Some (d_users D)) (u_Id user) now
             (RecordLoginSuccess (Some (d_users D)) attemptKey w) of
        (Inl _, w1) \<Rightarrow> (JSON StatusInternalServerError server_error no_store, w1)
      | (Inr issued, w1) \<Rightarrow>
      case time_Now (LogCredentialEvent (Some (d_users D)) (u_Id user) CredentialEventLoginSuccess True ''login'' [] w1) of
        (later, w2) \<Rightarrow>
          (JSON SUCCESS (ok (LoginData
              \<lparr>RefreshToken = is_RefreshToken issued, AccessToken = is_AccessToken issued,
               vi_ExpiresAt = Unix (later + 3 * hour)\<rparr> (user\<lparr>u_Password := []\<rparr>))) no_store, w2))"

definition PostUserLogin :: "deps \<Rightarrow> 'x app_handler" where
  "PostUserLogin D rq w =
     (case limiter_Allow (login_Allow D) w of (allowed, w1) \<Rightarrow>
      if \<not> allowed then (loginRateLimited minute no_store, w1)
      else
      case json_body maxLoginRequestBodyBytes (decode_login D) rq of
        None \<Rightarrow> (JSON CLIENT_ERROR (result CLIENT_ERROR (GetMsg INVALID_PARAMS) NoData) no_store, w1)
      | Some (username, password) \<Rightarrow>
      if length username = 0 \<or> length password = 0
      then (JSON CLIENT_ERROR (result CLIENT_ERROR (GetMsg INVALID_PARAMS) NoData) no_store, w1)
      else
      case time_Now w1 of (now, w2) \<Rightarrow>
      let attemptKey = LoginAttemptKey ''login'' username in
      case CheckLoginLockout (Some (d_users D)) attemptKey now w2 of ((locked, retryAfter), w3) \<Rightarrow>
      if locked then (loginRateLimited retryAfter no_store, w3)
      else
      case AuthenticateUser (d_idkey D) username password w3 of
        (Inl e, w4) \<Rightarrow>
          if errors_Is e ErrInvalidCredentials then login_rejected D attemptKey now w4
          else (JSON StatusInternalServerError server_error no_store, w4)
      | (Inr user, w4) \<Rightarrow> login_accepted D attemptKey now user w4)"

section \<open>Profiles\<close>

definition nosniff :: "(string \<times> string) list" where
  "nosniff = no_store @ [(''X-Content-Type-Options'', ''nosniff'')]"

definition legacyImageEndpointGone :: response where
  "legacyImageEndpointGone =
     JSON StatusGone (result StatusGone (Literal ''legacy path-based image endpoints are disabled'') NoData) nosniff"

definition PutUserAvatar :: "deps \<Rightarrow> 'x app_handler" where "PutUserAvatar D rq w = (legacyImageEndpointGone, w)"
definition GetUserAvatar :: "deps \<Rightarrow> 'x app_handler" where "GetUserAvatar D rq w = (legacyImageEndpointGone, w)"
definition PutUserImage :: "deps \<Rightarrow> 'x app_handler" where "PutUserImage D rq w = (legacyImageEndpointGone, w)"
definition PostUserUploadImage :: "deps \<Rightarrow> 'x app_handler" where "PostUserUploadImage D rq w = (legacyImageEndpointGone, w)"
definition GetUserImage :: "deps \<Rightarrow> 'x app_handler" where "GetUserImage D rq w = (legacyImageEndpointGone, w)"
definition DeleteUserImage :: "deps \<Rightarrow> 'x app_handler" where "DeleteUserImage D rq w = (legacyImageEndpointGone, w)"

definition firstNonEmpty :: "string \<Rightarrow> string \<Rightarrow> string" where
  "firstNonEmpty candidate fallback = (if candidate \<noteq> [] then candidate else fallback)"

definition updated_profile :: "userProfileUpdate \<Rightarrow> UserDBModel \<Rightarrow> UserDBModel" where
  "updated_profile requested user =
     zero_user\<lparr>u_Id := u_Id user, u_Username := firstNonEmpty (pr_Username requested) (u_Username user),
       u_Role := u_Role user, u_Email := firstNonEmpty (pr_Email requested) (u_Email user),
       u_Nickname := firstNonEmpty (pr_Nickname requested) (u_Nickname user),
       u_Avatar := firstNonEmpty (pr_Avatar requested) (u_Avatar user),
       u_Description := firstNonEmpty (pr_Description requested) (u_Description user)\<rparr>"

definition name_taken ::
  "userProfileUpdate \<Rightarrow> UserDBModel \<Rightarrow> 'x world_scheme \<Rightarrow> bool \<times> 'x world_scheme" where
  "name_taken requested user w =
     (if length (pr_Username requested) > 0
      then (case GetUserInfoByUserName (pr_Username requested) w of (u, w1) \<Rightarrow>
              (u_Id u > 0 \<and> u_Id u \<noteq> u_Id user, w1))
      else (False, w))"

definition PutUserInfo :: "deps \<Rightarrow> 'x app_handler" where
  "PutUserInfo D rq w =
     (let uid = HeaderUserID_of rq in
      case bind_profile D rq of
        None \<Rightarrow> (JSON CLIENT_ERROR (msg INVALID_PARAMS) [], w)
      | Some requested \<Rightarrow>
      case GetUserInfoById uid w of (user, w1) \<Rightarrow>
      if u_Id user = 0 then (JSON SERVICE_ERROR (msg USER_NOT_EXIST_OR_PWD_INVALID) [], w1)
      else
      case name_taken requested user w1 of (taken, w2) \<Rightarrow>
      if taken then (JSON CLIENT_ERROR (msg USER_EXIST) [], w2)
      else
      case GetUserInfoById uid (UpdateUser (updated_profile requested user) w2) of (publicUser, w3) \<Rightarrow>
      if u_Id publicUser \<noteq> u_Id user then (JSON StatusInternalServerError server_error [], w3)
      else (JSON SUCCESS (ok (UserData (publicUser\<lparr>u_Password := []\<rparr>))) [], w3))"

definition PutUserPassword :: "deps \<Rightarrow> 'x app_handler" where
  "PutUserPassword D rq w =
     (let uid = HeaderUserID_of rq; oldPwd = bind_map D rq ''old_password''; pwd = bind_map D rq ''password'' in
      if length oldPwd = 0 \<or> length pwd = 0 then (JSON CLIENT_ERROR (msg INVALID_PARAMS) [], w)
      else
      case ChangeUserPassword (d_idkey D) (d_users D) uid oldPwd pwd w of
        (Inl e, w1) \<Rightarrow>
          if errors_Is e ErrInvalidCredentials then (JSON CLIENT_ERROR (msg PWD_INVALID_OLD) [], w1)
          else if errors_Is e ErrWeakPassword then (JSON CLIENT_ERROR (msg PWD_IS_TOO_SIMPLE) [], w1)
          else (JSON StatusInternalServerError server_error [], w1)
      | (Inr _, w1) \<Rightarrow>
      case GetUserInfoById uid w1 of (user, w2) \<Rightarrow>
      (JSON SUCCESS (ok (UserData (user\<lparr>u_Password := []\<rparr>))) [], w2))"

definition put_field :: "(UserDBModel \<Rightarrow> UserDBModel) \<Rightarrow> string \<Rightarrow> 'x app_handler" where
  "put_field set_field val rq w =
     (if length val = 0 then (JSON StatusOK (msg INVALID_PARAMS) [], w)
      else
      case GetUserInfoById (HeaderUserID_of rq) w of (user, w1) \<Rightarrow>
      if u_Id user = 0 then (JSON StatusOK (msg USER_NOT_EXIST) [], w1)
      else (JSON StatusOK (ok (UserData (set_field user))) [], UpdateUser (set_field user) w1))"

definition PutUserNick :: "deps \<Rightarrow> 'x app_handler" where
  "PutUserNick D rq = (let nick = bind_map D rq ''nick_name'' in put_field (\<lambda>u. u\<lparr>u_Nickname := nick\<rparr>) nick rq)"

definition PutUserDesc :: "deps \<Rightarrow> 'x app_handler" where
  "PutUserDesc D rq = (let desc = bind_map D rq ''description'' in put_field (\<lambda>u. u\<lparr>u_Description := desc\<rparr>) desc rq)"

definition GetUserInfo :: "deps \<Rightarrow> 'x app_handler" where
  "GetUserInfo D rq w =
     (case GetUserInfoById (HeaderUserID_of rq) w of (user, w1) \<Rightarrow> (JSON SUCCESS (ok (UserData user)) [], w1))"

definition GetUserInfoByUsername :: "deps \<Rightarrow> 'x app_handler" where
  "GetUserInfoByUsername D rq w =
     (let username = rq_param rq ''username'' in
      if length username = 0 then (JSON CLIENT_ERROR (msg INVALID_PARAMS) [], w)
      else
      case GetUserInfoByUserName username w of (user, w1) \<Rightarrow>
      if u_Id user = 0 then (JSON SERVICE_ERROR (msg USER_NOT_EXIST) [], w1)
      else (JSON SUCCESS (ok (UserData user)) [], w1))"

definition GetUserAllUsername :: "deps \<Rightarrow> 'x app_handler" where
  "GetUserAllUsername D rq w =
     (case GetAllUserName w of (users, w1) \<Rightarrow> (JSON SUCCESS (ok (NameList (map u_Username users))) [], w1))"

section \<open>Custom configuration\<close>

definition invalidCustomConfigResponse :: response where
  "invalidCustomConfigResponse = JSON CLIENT_ERROR (msg INVALID_PARAMS) nosniff"

text \<open>
  What the three handlers begin with: a valid key and an existing user, or a response.
\<close>

definition config_user ::
  "request \<Rightarrow> 'x world_scheme \<Rightarrow> (response + string \<times> int) \<times> 'x world_scheme" where
  "config_user rq w =
     (let name = rq_param rq ''key'' in
      if \<not> customConfigKeyPattern name then (Inl invalidCustomConfigResponse, w)
      else
      case ValidateKey name of Inl _ \<Rightarrow> (Inl invalidCustomConfigResponse, w) | Inr _ \<Rightarrow>
      case GetUserInfoById (HeaderUserID_of rq) w of (user, w1) \<Rightarrow>
      if u_Id user = 0 then (Inl (JSON SERVICE_ERROR (msg USER_NOT_EXIST) nosniff), w1)
      else (Inr (name, u_Id user), w1))"

definition GetUserCustomConf :: "deps \<Rightarrow> 'x app_handler" where
  "GetUserCustomConf D rq w =
     (case config_user rq w of (Inl r, w1) \<Rightarrow> (r, w1) | (Inr (name, userId), w1) \<Rightarrow>
      case Read (UserDataPath D) userId name w1 of (got, w2) \<Rightarrow>
      case (case got of
              Inr data \<Rightarrow> Some data
            | Inl e \<Rightarrow> if errors_Is e ErrNotExist then Some [] else None) of
        None \<Rightarrow> (JSON SERVICE_ERROR server_error nosniff, w2)
      | Some data \<Rightarrow>
          if \<not> gjson_Valid D data then (ctx_JSON D SUCCESS (ok (TextData data)) nosniff, w2)
          else (ctx_JSON D SUCCESS (ok (RawJSON data)) nosniff, w2))"

text \<open>\<open>PublishEventWithResponse\<close>; the response is only logged.\<close>

definition publish :: "string \<Rightarrow> string \<Rightarrow> (string \<times> string) list \<Rightarrow> 'x app_world_scheme \<Rightarrow> 'x app_world_scheme" where
  "publish source name props w = w\<lparr>published := published w @ [(source, name, props)]\<rparr>"

definition SERVICENAME :: string where "SERVICENAME = ''CasaOS-UserService''"

definition PostUserCustomConf :: "deps \<Rightarrow> 'x app_handler" where
  "PostUserCustomConf D rq w =
     (case config_user rq w of (Inl r, w1) \<Rightarrow> (r, w1) | (Inr (name, userId), w1) \<Rightarrow>
      if length (rq_body rq) > MaxConfigBytes
      then (JSON StatusRequestEntityTooLarge
              (result StatusRequestEntityTooLarge (Literal ''custom configuration is too large'') NoData) nosniff, w1)
      else if rq_body_fails rq then (invalidCustomConfigResponse, w1)
      else
      case config_Write (UserDataPath D) userId name (rq_body rq) w1 of
        (Inl _, w2) \<Rightarrow> (JSON SERVICE_ERROR server_error nosniff, w2)
      | (Inr _, w2) \<Rightarrow>
          (ctx_JSON D SUCCESS (ok (RawJSON (rq_body rq))) nosniff,
           if name = ''system''
           then publish SERVICENAME ''zimaos:user:save_config'' [(''system'', rq_body rq)] w2 else w2))"

definition DeleteUserCustomConf :: "deps \<Rightarrow> 'x app_handler" where
  "DeleteUserCustomConf D rq w =
     (case config_user rq w of (Inl r, w1) \<Rightarrow> (r, w1) | (Inr (name, userId), w1) \<Rightarrow>
      case config_Delete (UserDataPath D) userId name w1 of
        (Inl _, w2) \<Rightarrow> (JSON SERVICE_ERROR server_error nosniff, w2)
      | (Inr _, w2) \<Rightarrow> (JSON SUCCESS (ok NoData) nosniff, w2))"

section \<open>Deleting users\<close>

definition DeleteUser :: "deps \<Rightarrow> 'x app_handler" where
  "DeleteUser D rq w =
     (let uid = rq_param rq ''id'' in
      case DeleteUserById (d_users D) uid w of
        (Inl e, w1) \<Rightarrow>
          if errors_Is e ErrLastAdmin
          then (JSON StatusConflict (result StatusConflict (Literal ''at least one administrator must remain'') NoData) [], w1)
          else if errors_Is e ErrUserNotFound
          then (JSON StatusNotFound (result StatusNotFound (GetMsg USER_NOT_EXIST) NoData) [], w1)
          else (JSON StatusInternalServerError server_error [], w1)
      | (Inr _, w1) \<Rightarrow> (JSON SUCCESS (ok (TextData uid)) [], w1))"

definition DeleteUserAll :: "deps \<Rightarrow> 'x app_handler" where
  "DeleteUserAll D rq w =
     (JSON StatusConflict (result StatusConflict (Literal ''bulk user deletion is disabled'') NoData) [], w)"

section \<open>Sessions\<close>

definition refreshUnauthorized :: "(string \<times> string) list \<Rightarrow> response" where
  "refreshUnauthorized hdrs = JSON StatusUnauthorized (msg VERIFICATION_FAILURE) hdrs"

definition refresh_limited :: response where
  "refresh_limited = JSON TOO_MANY_REQUEST (msg TOO_MANY_LOGIN_REQUESTS) (no_store @ [(''Retry-After'', ''60'')])"

definition PostUserRefreshToken :: "deps \<Rightarrow> 'x app_handler" where
  "PostUserRefreshToken D rq w =
     (case limiter_Allow (refresh_Allow D) w of (allowed, w1) \<Rightarrow>
      if \<not> allowed then (refresh_limited, w1)
      else
      case json_body maxRefreshRequestBodyBytes (decode_refresh D) rq of
        None \<Rightarrow> (refreshUnauthorized no_store, w1)
      | Some token \<Rightarrow>
      case time_Now w1 of (now, w2) \<Rightarrow>
      case IssueRefreshedTokens (d_lib D) (Some (d_users D)) token now w2 of
        (Inl e, w3) \<Rightarrow>
          if errors_Is e ErrRefreshSessionReused
          then (refreshUnauthorized no_store,
                LogCredentialEvent (Some (d_users D)) 0 CredentialEventRefreshReuse False ''refresh'' [] w3)
          else if errors_Is e ErrRateLimitLocked then (refresh_limited, w3)
          else if errors_Is e ErrInvalidRefreshSession
          then (refreshUnauthorized no_store,
                LogCredentialEvent (Some (d_users D)) 0 CredentialEventRefreshFailure False ''refresh'' [] w3)
          else (JSON StatusInternalServerError server_error no_store, w3)
      | (Inr issued, w3) \<Rightarrow>
          (JSON SUCCESS (ok (TokenData
              \<lparr>RefreshToken = is_RefreshToken issued, AccessToken = is_AccessToken issued,
               vi_ExpiresAt = Unix (is_ExpiresAt issued)\<rparr>)) no_store,
           LogCredentialEvent (Some (d_users D)) (u_Id (is_User issued)) CredentialEventRefreshSuccess True ''refresh'' [] w3))"

definition PostUserLogout :: "deps \<Rightarrow> 'x app_handler" where
  "PostUserLogout D rq w =
     (case rq_session rq of
        None \<Rightarrow> (JSON StatusUnauthorized (msg VERIFICATION_FAILURE) no_store, w)
      | Some authentication \<Rightarrow>
      case LogoutSession (Some (d_users D)) (as_UserID authentication) (as_TokenID authentication)
             (as_Expires authentication) w of
        (Inl _, w1) \<Rightarrow> (JSON StatusInternalServerError server_error no_store, w1)
      | (Inr _, w1) \<Rightarrow>
          (JSON SUCCESS (ok NoData) no_store,
           LogCredentialEvent (Some (d_users D)) (as_UserID authentication) CredentialEventLogout True ''logout'' [] w1))"

definition PostUserLogoutAll :: "deps \<Rightarrow> 'x app_handler" where
  "PostUserLogoutAll D rq w =
     (case rq_session rq of
        None \<Rightarrow> (JSON StatusUnauthorized (msg VERIFICATION_FAILURE) no_store, w)
      | Some authentication \<Rightarrow>
      case LogoutAllSessions (Some (d_users D)) (as_UserID authentication) w of
        (Inl _, w1) \<Rightarrow> (JSON StatusInternalServerError server_error no_store, w1)
      | (Inr _, w1) \<Rightarrow>
          (JSON SUCCESS (ok NoData) no_store,
           LogCredentialEvent (Some (d_users D)) (as_UserID authentication) CredentialEventLogoutAll True ''logout-all'' [] w1))"

text \<open>Whose events a request asks for: the caller's own, or another's, which takes an administrator.\<close>

definition events_target ::
  "AuthenticatedSession \<Rightarrow> string \<Rightarrow> 'x world_scheme \<Rightarrow> (response + int) \<times> 'x world_scheme" where
  "events_target authentication requested w =
     (if requested = [] then (Inr (as_UserID authentication), w)
      else
      case Atoi requested of
        None \<Rightarrow> (Inl (JSON CLIENT_ERROR (msg INVALID_PARAMS) no_store), w)
      | Some target \<Rightarrow>
      if target < 0 then (Inl (JSON CLIENT_ERROR (msg INVALID_PARAMS) no_store), w)
      else if target = 0 \<or> target \<noteq> as_UserID authentication then
        (case GetUserInfoById (Itoa (as_UserID authentication)) w of (current, w1) \<Rightarrow>
         if u_Role current \<noteq> ''admin'' then (Inl (JSON StatusForbidden (msg CLIENT_ERROR) no_store), w1)
         else (Inr target, w1))
      else (Inr target, w))"

definition GetCredentialEvents :: "deps \<Rightarrow> 'x app_handler" where
  "GetCredentialEvents D rq w =
     (case rq_session rq of
        None \<Rightarrow> (JSON StatusUnauthorized (msg VERIFICATION_FAILURE) no_store, w)
      | Some authentication \<Rightarrow>
      case events_target authentication (rq_query rq ''user_id'') w of
        (Inl r, w1) \<Rightarrow> (r, w1)
      | (Inr actor, w1) \<Rightarrow>
      case ListCredentialEvents (Some (d_users D)) actor 100 w1 of (evs, w2) \<Rightarrow>
      (JSON SUCCESS (ok (EventList evs)) no_store, w2))"

section \<open>Status\<close>

definition getUserStatus :: "userService \<Rightarrow> 'x app_handler" where
  "getUserStatus reader rq w =
     (case GetInitializationState reader (rq_ctx_err rq) of
        Inl _ \<Rightarrow> (JSON StatusServiceUnavailable server_error no_store, w)
      | Inr state \<Rightarrow> (JSON SUCCESS (ok (InitializedFlag (Initialized state))) no_store, w))"

definition GetUserStatus :: "deps \<Rightarrow> 'x app_handler" where
  "GetUserStatus D = getUserStatus (d_users D)"

end
