(* ===== verification/Service_Invariant.thy ===== *)
theory Service_Invariant
  imports Users Auth_Route Session_Life
begin

text \<open>
  What no operation of the service can break.  A property of the tables is upheld by an operation
  if every statement the operation can run keeps it; the locale \<open>kept\<close> says what a property must
  allow for, its lemmas go through the operations once, and two properties are instances: the
  constraints of the schema, and that an administrator exists.
\<close>

section \<open>Upholding a property\<close>

text \<open>A statement that leads from \<open>P\<close> to \<open>P\<close>.\<close>

definition safe :: "(db \<Rightarrow> bool) \<Rightarrow> (db \<Rightarrow> error + 'a \<times> db) \<Rightarrow> bool" where
  "safe P f \<longleftrightarrow> (\<forall>d a d'. P d \<longrightarrow> f d = Inr (a, d') \<longrightarrow> P d')"

text \<open>
  Other writers keep the property too, and so does a new audit row under the id that the engine
  chooses.  \<open>upheld P m w\<close> says besides that the rest of the process state (files, published events)
  is still \<open>m\<close>.
\<close>

definition environment_ok :: "(db \<Rightarrow> bool) \<Rightarrow> env \<Rightarrow> bool" where
  "environment_ok P e \<longleftrightarrow> (\<forall>k d. P d \<longrightarrow> P (interfere e k d)) \<and>
     (\<forall>ev. safe P (insert_event (new_rowid e) ev))"

definition upheld :: "(db \<Rightarrow> bool) \<Rightarrow> 'x \<Rightarrow> 'x world_scheme \<Rightarrow> bool" where
  "upheld P m w \<longleftrightarrow> P (db w) \<and> environment_ok P (env w) \<and> world.more w = m"

definition has_admin :: "db \<Rightarrow> bool" where
  "has_admin d \<longleftrightarrow> (\<exists>r \<in> set (o_users d). is_admin r)"

lemma upheld_pair: "upheld P m w \<Longrightarrow> upheld P m (snd (r, w))"
  by simp

lemma upheld_prod:
  assumes "upheld P m (snd x)" and "\<And>a w. upheld P m w \<Longrightarrow> upheld P m (snd (f a w))"
  shows "upheld P m (snd (case x of (a, w) \<Rightarrow> f a w))"
  using assms by (cases x) simp

lemma upheld_world:
  assumes "upheld P m (snd x)" and "\<And>a w. upheld P m w \<Longrightarrow> upheld P m (f a w)"
  shows "upheld P m (case x of (a, w) \<Rightarrow> f a w)"
  using assms by (cases x) simp

lemma upheld_split: "(\<And>a b. upheld P m (snd (f a b))) \<Longrightarrow> upheld P m (snd (case p of (a, b) \<Rightarrow> f a b))"
  by (cases p) simp

lemma upheld_sum:
  "(\<And>e. upheld P m (snd (f e))) \<Longrightarrow> (\<And>a. upheld P m (snd (g a))) \<Longrightarrow> upheld P m (snd (case s of Inl e \<Rightarrow> f e | Inr a \<Rightarrow> g a))"
  by (cases s) simp_all

lemma upheld_option:
  "upheld P m (snd f) \<Longrightarrow> (\<And>a. upheld P m (snd (g a))) \<Longrightarrow> upheld P m (snd (case s of None \<Rightarrow> f | Some a \<Rightarrow> g a))"
  by (cases s) simp_all

lemma upheld_if: "upheld P m (snd f) \<Longrightarrow> upheld P m (snd g) \<Longrightarrow> upheld P m (snd (if b then f else g))"
  by simp

lemma upheld_if_world: "upheld P m f \<Longrightarrow> upheld P m g \<Longrightarrow> upheld P m (if b then f else g)"
  by simp

lemma upheld_tick: "upheld P m w \<Longrightarrow> upheld P m (w\<lparr>tick := n\<rparr>)"
  by (simp add: upheld_def)

lemma upheld_now: "upheld P m w \<Longrightarrow> upheld P m (snd (time_Now w))"
  by (simp add: time_Now_def upheld_def)

lemma upheld_driver: "upheld P m w \<Longrightarrow> upheld P m (snd (driver_call w))"
  by (simp add: upheld_def driver_call_def split: option.splits)

lemma upheld_in_tx: "upheld P m w \<Longrightarrow> safe P f \<Longrightarrow> upheld P m (snd (in_tx tbl f w))"
  by (auto simp: in_tx_def upheld_def safe_def split: option.splits sum.splits)

lemma upheld_autocommit: "upheld P m w \<Longrightarrow> safe P f \<Longrightarrow> upheld P m (snd (autocommit tbl f w))"
  unfolding autocommit_def
  by (rule upheld_in_tx) (auto simp: upheld_def interfered_def environment_ok_def)

lemma upheld_begin: "upheld P m w \<Longrightarrow> upheld P m (snd (begin_tx w))"
  by (auto simp: begin_tx_def upheld_def interfered_def environment_ok_def split: option.splits)

lemma commit_tx_more: "world.more (snd (commit_tx w)) = world.more w"
  by (simp add: commit_tx_def driver_call_def split: option.splits)

lemma upheld_Transaction_ok:
  assumes "upheld P m w" and "\<And>v r v'. upheld P m v \<Longrightarrow> body v = (Inr r, v') \<Longrightarrow> upheld P m v'"
    and "\<And>v e v'. upheld P m v \<Longrightarrow> body v = (Inl e, v') \<Longrightarrow> env v' = env v \<and> world.more v' = world.more v"
  shows "upheld P m (snd (Transaction a b body w))"
proof -
  obtain r1 w1 where 1: "begin_tx w = (r1, w1)" by fastforce
  obtain r2 w2 where 2: "body w1 = (r2, w2)" by fastforce
  obtain r3 w3 where 3: "commit_tx w2 = (r3, w3)" by fastforce
  have w1: "upheld P m w1" using upheld_begin [OF assms(1)] 1 by simp
  have "environment_ok P (env w2) \<and> world.more w2 = m"
  proof (cases r2)
    case (Inl e)
    then show ?thesis using assms(3) [OF w1] 2 w1 unfolding upheld_def by metis
  next
    case (Inr r)
    then show ?thesis using assms(2) [OF w1] 2 unfolding upheld_def by metis
  qed
  then have e2: "environment_ok P (env w2)" "world.more w2 = m" by simp_all
  have w3: "env w3 = env w2" "db w3 = db w2" "world.more w3 = world.more w2"
    using commit_tx_env [of w2] commit_tx_more [of w2] 3 by simp_all
  show ?thesis
    using 1 2 3 w1 e2 w3 assms(2) [OF w1]
    by (auto simp: Transaction_def rollback_def upheld_def split: sum.splits)
qed

lemma upheld_Transaction:
  assumes "upheld P m w" and "\<And>v. upheld P m v \<Longrightarrow> upheld P m (snd (body v))"
  shows "upheld P m (snd (Transaction a b body w))"
proof -
  obtain r1 w1 where 1: "begin_tx w = (r1, w1)" by fastforce
  obtain r2 w2 where 2: "body w1 = (r2, w2)" by fastforce
  obtain r3 w3 where 3: "commit_tx w2 = (r3, w3)" by fastforce
  have w1: "upheld P m w1" using upheld_begin [OF assms(1)] 1 by simp
  have "upheld P m w2" using assms(2) [OF w1] 2 by simp
  moreover have "env w3 = env w2" "db w3 = db w2" "world.more w3 = world.more w2"
    using commit_tx_env [of w2] commit_tx_more [of w2] 3 by simp_all
  ultimately show ?thesis
    using 1 2 3 w1 by (auto simp: Transaction_def rollback_def upheld_def split: sum.splits)
qed

text \<open>Calls that touch no table.\<close>

lemma upheld_rand: "upheld P m w \<Longrightarrow> upheld P m (snd (rand_Read n w))"
  by (simp add: upheld_def rand_Read_def)

lemma upheld_NewTokenID: "upheld P m w \<Longrightarrow> upheld P m (snd (NewTokenID w))"
  by (auto simp: NewTokenID_def rand_Read_def upheld_def split: option.splits prod.splits)

lemma upheld_validate: "upheld P m w \<Longrightarrow> upheld P m (snd (validateSessionToken lib tok iss pk w))"
  by (auto simp: upheld_def validateSessionToken_def time_Now_def split: option.splits)

lemma upheld_mint: "upheld P m w \<Longrightarrow> upheld P m (snd (mintSessionToken lib a b c d e f g w))"
  by (auto simp: upheld_def mintSessionToken_def time_Now_def Let_def split: option.splits)

lemma upheld_Verify: "upheld P m w \<Longrightarrow> upheld P m (snd (Verify idkey h p w))"
  by (auto simp: upheld_def Verify_def verifyWithDeriver_def deriveKey_def Let_def split: sum.splits prod.splits)

lemma upheld_Consume: "upheld P m w \<Longrightarrow> upheld P m (ConsumeUnknownUser idkey p w)"
  by (auto simp: upheld_def ConsumeUnknownUser_def consumeUnknownUserWithDeriver_def deriveKey_def Let_def)

lemma upheld_Hash: "upheld P m w \<Longrightarrow> upheld P m (snd (Hash idkey p w))"
  by (auto simp: upheld_def Hash_def hashWithReader_def deriveKey_def rand_Read_def Let_def
           split: sum.splits prod.splits option.splits)

text \<open>Statements that only read are safe.\<close>

lemma safe_read: "(\<And>d a d'. f d = Inr (a, d') \<Longrightarrow> d' = d) \<Longrightarrow> safe P f"
  by (auto simp: safe_def)

lemma safe_with_version: "safe P f \<Longrightarrow> safe P (with_version f)"
  by (auto simp: safe_def with_version_def split: if_splits)

lemma safe_first_user: "safe P (first_user Q)"
  by (rule safe_read) (auto simp: first_user_def split: sum.splits)

lemma safe_first_attempt: "safe P (first_attempt k)"
  by (rule safe_read) (auto simp: first_attempt_def split: sum.splits)

lemmas upheld_rules =
  upheld_world upheld_prod upheld_split upheld_sum upheld_option upheld_if upheld_if_world upheld_pair upheld_tick upheld_now
  upheld_driver upheld_in_tx upheld_autocommit upheld_Transaction upheld_NewTokenID upheld_validate upheld_mint
  upheld_Verify upheld_Consume upheld_Hash safe_with_version safe_first_user safe_first_attempt

section \<open>Properties that every operation keeps\<close>

text \<open>
  What a property of the tables must tolerate: any new contents of a table that respect its keys,
  and, for the users, that leave an administrator if there was one.
\<close>

definition keys_kept :: "('r \<Rightarrow> 'k) \<Rightarrow> 'r list \<Rightarrow> 'r list \<Rightarrow> bool" where
  "keys_kept key old new \<longleftrightarrow> (distinct (map key old) \<longrightarrow> distinct (map key new))"

definition grown :: "UserDBModel list \<Rightarrow> UserDBModel list \<Rightarrow> bool" where
  "grown old new \<longleftrightarrow> (\<forall>r \<in> set new. \<exists>q \<in> set old. u_Id q = u_Id r \<and> u_Role q = u_Role r \<and> u_TokenVersion q \<le> u_TokenVersion r)"

definition users_kept :: "UserDBModel list \<Rightarrow> UserDBModel list \<Rightarrow> bool" where
  "users_kept old new \<longleftrightarrow>
     (distinct (map u_Id old) \<and> distinct (map u_Username old) \<longrightarrow>
        distinct (map u_Id new) \<and> distinct (map u_Username new)) \<and>
     ((\<exists>r \<in> set old. is_admin r) \<longrightarrow> (\<exists>r \<in> set new. is_admin r)) \<and> grown old new"

lemma keys_kept_update: "(\<And>r. key (f r) = key r) \<Longrightarrow> keys_kept key old (update_where Q f old)"
  by (simp add: keys_kept_def)

lemma keys_kept_delete: "keys_kept key old (delete_where Q old)"
  by (simp add: keys_kept_def distinct_delete_where)

lemma keys_kept_save: "keys_kept key old (save_row key r old)"
  by (simp add: keys_kept_def map_save_row)

lemma keys_kept_insert: "key r \<notin> key ` set old \<Longrightarrow> keys_kept key old (old @ [r])"
  by (simp add: keys_kept_def)

lemma grown_trans: "grown a b \<Longrightarrow> grown b c \<Longrightarrow> grown a c"
  unfolding grown_def by (metis order_trans)

lemma users_kept_rows:
  assumes f: "\<And>r. u_Id (f r) = u_Id r" "\<And>r. u_Role (f r) = u_Role r" "\<And>r. u_TokenVersion r \<le> u_TokenVersion (f r)"
    and names: "distinct (map u_Id old) \<Longrightarrow> distinct (map u_Username old) \<Longrightarrow> distinct (map u_Username (update_where Q f old))"
  shows "users_kept old (update_where Q f old)"
proof -
  have new: "\<exists>r \<in> set (update_where Q f old). is_admin r" if "q \<in> set old" "is_admin q" for q
    using that f(2) [of q] by (cases "Q q") (auto simp: set_update_where is_admin_def)
  have old: "grown old (update_where Q f old)"
    using f by (fastforce simp: grown_def set_update_where)
  show ?thesis using new old names f(1) by (auto simp: users_kept_def)
qed

lemma users_kept_update:
  assumes "\<And>r. u_Id (f r) = u_Id r" "\<And>r. u_Username (f r) = u_Username r" "\<And>r. u_Role (f r) = u_Role r"
    "\<And>r. u_TokenVersion r \<le> u_TokenVersion (f r)"
  shows "users_kept old (update_where Q f old)"
  by (rule users_kept_rows) (use assms in simp_all)

text \<open>Deleting a user: what a committed transaction has checked and done.\<close>

lemma driver_call_pair: "driver_call w = (r, w') \<Longrightarrow> db w' = db w \<and> env w' = env w \<and> world.more w' = world.more w"
  by (auto simp: driver_call_def split: option.splits)

lemma in_tx_pair: "in_tx tbl f w = (r, w') \<Longrightarrow> env w' = env w \<and> world.more w' = world.more w"
  using db_onlyD [OF db_only_in_tx] by blast

lemma delete_tx_env: "env (snd (delete_tx uid w)) = env w \<and> world.more (snd (delete_tx uid w)) = world.more w"
  by (auto simp: delete_tx_def split: prod.splits sum.splits if_splits dest!: in_tx_pair driver_call_pair)

lemma single_match:
  assumes "RowsAffected Q old = 1" and "x \<in> set old" "Q x" "y \<in> set old" "Q y"
  shows "x = y"
proof -
  obtain z where "filter Q old = [z]"
    using assms(1) by (auto simp: RowsAffected_def length_Suc_conv)
  moreover have "x \<in> set (filter Q old)" and "y \<in> set (filter Q old)" using assms by simp_all
  ultimately show ?thesis by (simp del: set_filter)
qed

lemma delete_tx_done:
  assumes "delete_tx uid v = (Inr r, v')"
  defines "old \<equiv> o_users (db v)"
  shows "env v' = env v \<and> db v' = (db v)\<lparr>o_users := delete_where (has_id (env v) uid) old\<rparr> \<and>
    RowsAffected (has_id (env v) uid) old = 1 \<and>
    ((\<forall>q \<in> set old. has_id (env v) uid q \<longrightarrow> \<not> is_admin q) \<or> RowsAffected is_admin old > 1)"
proof -
  obtain user where "find (has_id (env v) uid) old = Some user" and
    "env v' = env v \<and> db v' = (db v)\<lparr>o_users := delete_where (has_id (env v) uid) old\<rparr> \<and>
     RowsAffected (has_id (env v) uid) old = 1 \<and> (is_admin user \<longrightarrow> RowsAffected is_admin old > 1)"
    using assms(1) unfolding old_def delete_tx_def
    by (auto simp: select_user_def split: prod.splits sum.splits if_splits option.splits
             dest!: in_tx_ok driver_call_pair)
  then show ?thesis using single_match by (metis find_Some_iff nth_mem)
qed

locale kept =
  fixes P :: "db \<Rightarrow> bool"
  assumes users: "P d \<Longrightarrow> users_kept (o_users d) us \<Longrightarrow> P (d\<lparr>o_users := us\<rparr>)"
    and sessions: "P d \<Longrightarrow> keys_kept rs_ID (o_refresh_sessions d) ss \<Longrightarrow>
      keys_kept rs_TokenSHA256 (o_refresh_sessions d) ss \<Longrightarrow> P (d\<lparr>o_refresh_sessions := ss\<rparr>)"
    and attempts: "P d \<Longrightarrow> keys_kept la_Key (o_login_attempts d) ls \<Longrightarrow> P (d\<lparr>o_login_attempts := ls\<rparr>)"
    and audit: "P d \<Longrightarrow> keys_kept ce_ID (o_credential_events d) cs \<Longrightarrow> P (d\<lparr>o_credential_events := cs\<rparr>)"
    and denied: "P d \<Longrightarrow> keys_kept ra_JTI (o_revoked_access_tokens d) rs \<Longrightarrow> P (d\<lparr>o_revoked_access_tokens := rs\<rparr>)"
    and bus: "P d \<Longrightarrow> keys_kept ev_UUID (events d) es \<Longrightarrow> P (d\<lparr>events := es\<rparr>)"
begin

lemma safe_insert_session: "safe P (insert_session r)"
  by (auto simp: safe_def insert_session_def split: if_splits intro!: sessions keys_kept_insert)

lemma safe_update_sessions:
  "(\<And>r. rs_ID (f r) = rs_ID r) \<Longrightarrow> (\<And>r. rs_TokenSHA256 (f r) = rs_TokenSHA256 r) \<Longrightarrow> safe P (update_sessions Q f)"
  by (auto simp: safe_def update_sessions_def intro!: sessions keys_kept_update)

lemma safe_revoke: "safe P (update_sessions Q (revoke_row now reason))"
  by (rule safe_update_sessions) (simp_all add: revoke_row_def)

lemma safe_update_users:
  "(\<And>r. u_Id (f r) = u_Id r) \<Longrightarrow> (\<And>r. u_Username (f r) = u_Username r) \<Longrightarrow> (\<And>r. u_Role (f r) = u_Role r)
   \<Longrightarrow> (\<And>r. u_TokenVersion r \<le> u_TokenVersion (f r)) \<Longrightarrow> safe P (update_users Q f)"
  by (auto simp: safe_def update_users_def intro!: users users_kept_update)

lemma safe_bump: "safe P (bump_version userID now)"
  by (auto simp: safe_def bump_version_def with_version_def split: if_splits intro!: users users_kept_update)

lemma safe_deny: "safe P (\<lambda>d. if jti \<in> set (map ra_JTI (o_revoked_access_tokens d)) then Inr ((), d)
     else Inr ((), d\<lparr>o_revoked_access_tokens := o_revoked_access_tokens d @ [\<lparr>ra_JTI = jti, ra_UserID = uid, ra_ExpiresAt = t\<rparr>]\<rparr>))"
  by (auto simp: safe_def split: if_splits intro!: denied keys_kept_insert)

lemma safe_attempts:
  "(\<And>old. keys_kept la_Key old (f old)) \<Longrightarrow> safe P (\<lambda>d. Inr ((), d\<lparr>o_login_attempts := f (o_login_attempts d)\<rparr>))"
  by (auto simp: safe_def intro!: attempts)

lemma safe_new_attempt:
  "la_Key r = key \<Longrightarrow> safe P (\<lambda>d. if key \<in> set (map la_Key (o_login_attempts d)) then Inl e
     else Inr ((), d\<lparr>o_login_attempts := o_login_attempts d @ [r]\<rparr>))"
  by (auto simp: safe_def split: if_splits intro!: attempts keys_kept_insert)

lemma safe_insert_event: "environment_ok P e \<Longrightarrow> safe P (insert_event (new_rowid e) ev)"
  by (simp add: environment_ok_def)

lemma environment_numbering:
  assumes "\<And>k d. P d \<Longrightarrow> P (interfere e k d)"
    and "\<And>d. new_rowid e CredentialEventDBModel_TableName d \<notin> ce_ID ` set (o_credential_events d)"
  shows "environment_ok P e"
  unfolding environment_ok_def safe_def insert_event_def using assms by (force intro: audit keys_kept_insert)

lemma upheld_LogCredentialEvent: "upheld P m w \<Longrightarrow> upheld P m (LogCredentialEvent u a b c d e w)"
  unfolding LogCredentialEvent_def Let_def time_Now_def prod.case
  by (intro upheld_if_world upheld_autocommit safe_insert_event) (simp_all add: upheld_def)

lemma safe_prune:
  "safe P (\<lambda>d. Inr ((), d\<lparr>o_revoked_access_tokens := delete_where Q1 (o_revoked_access_tokens d)\<rparr>))"
  "safe P (\<lambda>d. Inr ((), d\<lparr>o_refresh_sessions := delete_where Q2 (o_refresh_sessions d)\<rparr>))"
  "safe P (\<lambda>d. Inr ((), d\<lparr>o_login_attempts := delete_where Q3 (o_login_attempts d)\<rparr>))"
  "safe P (\<lambda>d. Inr ((), d\<lparr>o_credential_events := delete_where Q4 (o_credential_events d)\<rparr>))"
  "safe P (\<lambda>d. Inr ((), d\<lparr>o_refresh_sessions := cap_sessions (o_refresh_sessions d)\<rparr>))"
  "safe P (\<lambda>d. Inr ((), d\<lparr>o_revoked_access_tokens := cap_revoked (o_revoked_access_tokens d)\<rparr>))"
  by (auto simp: safe_def cap_sessions_def cap_revoked_def
           intro!: sessions attempts audit denied keys_kept_delete)

lemma upheld_exec_ignored: "upheld P m w \<Longrightarrow> safe P (\<lambda>d. Inr ((), f d)) \<Longrightarrow> upheld P m (exec_ignored tbl f w)"
  unfolding exec_ignored_def by (rule upheld_autocommit)

lemma upheld_Prune: "upheld P m w \<Longrightarrow> upheld P m (PruneAuthState u now w)"
  unfolding PruneAuthState_def Let_def by (intro upheld_if_world upheld_exec_ignored safe_prune)

lemma safe_count: "safe P (\<lambda>d. Inr (f d, d))"
  by (simp add: safe_def)

lemma safe_load_session: "safe P (\<lambda>d. case First k Q (o_refresh_sessions d) of Inl e \<Rightarrow> Inl e | Inr r \<Rightarrow> Inr (r, d))"
  by (rule safe_read) (auto split: sum.splits)

lemmas statement_rules =
  safe_insert_session safe_revoke safe_bump safe_deny safe_new_attempt safe_count safe_load_session
  safe_update_sessions safe_attempts keys_kept_save keys_kept_delete

lemmas step_rules = upheld_rules statement_rules upheld_LogCredentialEvent upheld_Prune

lemma upheld_CreateRefreshSession: "upheld P m w \<Longrightarrow> upheld P m (snd (CreateRefreshSession u a b c d e w))"
  unfolding CreateRefreshSession_def by (intro step_rules)

lemma upheld_revokeUserSessions: "upheld P m w \<Longrightarrow> upheld P m (snd (revokeUserSessions a b c w))"
  unfolding revokeUserSessions_def by (intro step_rules)

lemma upheld_RevokeRefreshSession: "upheld P m w \<Longrightarrow> upheld P m (snd (RevokeRefreshSession u a b w))"
  unfolding RevokeRefreshSession_def by (intro step_rules)

lemma upheld_RevokeUserRefreshSession: "upheld P m w \<Longrightarrow> upheld P m (snd (RevokeUserRefreshSession u a b c w))"
  unfolding RevokeUserRefreshSession_def by (intro step_rules)

lemma upheld_RevokeAllUserSessions: "upheld P m w \<Longrightarrow> upheld P m (snd (RevokeAllUserSessions u a b w))"
  unfolding RevokeAllUserSessions_def by (intro step_rules upheld_revokeUserSessions)

lemma upheld_BumpTokenVersion: "upheld P m w \<Longrightarrow> upheld P m (snd (BumpTokenVersion u a w))"
  unfolding BumpTokenVersion_def bump_tx_def by (intro step_rules)

lemma upheld_GetUserTokenVersion: "upheld P m w \<Longrightarrow> upheld P m (snd (GetUserTokenVersion u a w))"
  unfolding GetUserTokenVersion_def by (intro step_rules)

lemma upheld_RevokeAccessToken: "upheld P m w \<Longrightarrow> upheld P m (snd (RevokeAccessToken u a b c w))"
  unfolding RevokeAccessToken_def by (intro step_rules)

lemma upheld_IsAccessTokenRevoked: "upheld P m w \<Longrightarrow> upheld P m (snd (IsAccessTokenRevoked u a w))"
  unfolding IsAccessTokenRevoked_def by (intro step_rules)

lemma upheld_LogoutSession: "upheld P m w \<Longrightarrow> upheld P m (snd (LogoutSession u a b c w))"
  unfolding LogoutSession_def
  by (intro step_rules upheld_RevokeUserRefreshSession upheld_RevokeAccessToken)

lemma upheld_LogoutAllSessions: "upheld P m w \<Longrightarrow> upheld P m (snd (LogoutAllSessions u a w))"
  unfolding LogoutAllSessions_def
  by (intro step_rules upheld_BumpTokenVersion upheld_RevokeAllUserSessions)

lemma upheld_RotateRefreshSession: "upheld P m w \<Longrightarrow> upheld P m (snd (RotateRefreshSession u a b c d e f w))"
  unfolding RotateRefreshSession_def rotate_tx_def
  by (intro step_rules upheld_revokeUserSessions upheld_BumpTokenVersion) simp_all

lemma upheld_CheckLoginLockout: "upheld P m w \<Longrightarrow> upheld P m (snd (CheckLoginLockout u a b w))"
  unfolding CheckLoginLockout_def by (intro step_rules)

lemma upheld_RecordLoginFailure: "upheld P m w \<Longrightarrow> upheld P m (snd (RecordLoginFailure u a b w))"
  unfolding RecordLoginFailure_def failure_tx_def Let_def by (intro step_rules) simp_all

lemma upheld_RecordLoginSuccess: "upheld P m w \<Longrightarrow> upheld P m (RecordLoginSuccess u a w)"
  unfolding RecordLoginSuccess_def by (intro step_rules)

lemma upheld_ListCredentialEvents: "upheld P m w \<Longrightarrow> upheld P m (snd (ListCredentialEvents u a b w))"
  unfolding ListCredentialEvents_def Let_def by (intro step_rules)

lemmas session_rules =
  upheld_CreateRefreshSession upheld_revokeUserSessions upheld_RevokeAllUserSessions upheld_RotateRefreshSession
  upheld_CheckLoginLockout upheld_RecordLoginFailure upheld_RecordLoginSuccess upheld_GetUserTokenVersion
  upheld_IsAccessTokenRevoked

lemma upheld_tokens:
  "upheld P m w \<Longrightarrow> upheld P m (snd (MintAccessToken lib a b c d e w))"
  "upheld P m w \<Longrightarrow> upheld P m (snd (MintRefreshToken lib a b c d e w))"
  "upheld P m w \<Longrightarrow> upheld P m (snd (ValidateSessionRefreshToken lib a f w))"
  "upheld P m w \<Longrightarrow> upheld P m (snd (ValidateSessionAccessToken lib a f w))"
  unfolding MintAccessToken_def MintRefreshToken_def ValidateSessionRefreshToken_def ValidateSessionAccessToken_def
  by (intro upheld_mint upheld_validate; assumption)+

lemma upheld_IssueLoginSession: "upheld P m w \<Longrightarrow> upheld P m (snd (IssueLoginSession lib u a b w))"
  unfolding IssueLoginSession_def issueSessionPair_def
  by (intro step_rules session_rules upheld_tokens)

lemma upheld_reject: "upheld P m w \<Longrightarrow> upheld P m (snd (reject_counted u a b c w))"
  unfolding reject_counted_def by (intro step_rules session_rules)

lemma upheld_IssueRefreshedTokens: "upheld P m w \<Longrightarrow> upheld P m (snd (IssueRefreshedTokens lib u a b w))"
  unfolding IssueRefreshedTokens_def Let_def
  by (intro step_rules session_rules upheld_tokens upheld_reject)

lemma upheld_AuthenticateUser: "upheld P m w \<Longrightarrow> upheld P m (snd (AuthenticateUser idkey a b w))"
  unfolding AuthenticateUser_def by (intro step_rules safe_update_users) simp_all

lemma upheld_ChangeUserPassword: "upheld P m w \<Longrightarrow> upheld P m (snd (ChangeUserPassword idkey u a b c w))"
  unfolding ChangeUserPassword_def by (intro step_rules session_rules safe_update_users) simp_all

lemma upheld_lookup: "upheld P m w \<Longrightarrow> upheld P m (snd (lookup_user Q w))"
  unfolding lookup_user_def by (intro step_rules)

lemma upheld_GetAllUserName: "upheld P m w \<Longrightarrow> upheld P m (snd (GetAllUserName w))"
  unfolding GetAllUserName_def by (intro step_rules)

lemma merged_names:
  assumes "distinct (map u_Id old)" and "distinct (map u_Username old)"
    and "\<not> (u_Username m \<noteq> [] \<and> u_Id m \<in> u_Id ` set old \<and> (\<exists>r \<in> set old. u_Id r \<noteq> u_Id m \<and> u_Username r = u_Username m))"
  shows "distinct (map u_Username (update_where (\<lambda>r. u_Id r = u_Id m) (merge_profile m now) old))"
proof -
  let ?g = "\<lambda>r. if u_Id r = u_Id m then merge_profile m now r else r"
  have "inj_on (u_Username \<circ> ?g) (set old)"
  proof (rule inj_onI)
    fix x y assume xy: "x \<in> set old" "y \<in> set old" "(u_Username \<circ> ?g) x = (u_Username \<circ> ?g) y"
    have taken: "u_Username r \<noteq> u_Username m"
      if "q \<in> set old" "u_Id q = u_Id m" "r \<in> set old" "u_Id r \<noteq> u_Id m" "u_Username m \<noteq> []" for q r
      using that assms(3) by (metis imageI)
    have "u_Id x = u_Id y \<or> u_Username x = u_Username y"
      using xy taken [of x y] taken [of y x]
      by (auto simp: merge_profile_def or_old_def split: if_splits)
    then show "x = y" using xy(1,2) assms(1,2) by (auto simp: distinct_map inj_on_def)
  qed
  moreover have "distinct old" using assms(1) by (simp add: distinct_map)
  ultimately show ?thesis by (simp add: update_where_def distinct_map)
qed

lemma safe_UpdateUser:
  "safe P (\<lambda>d. if u_Username m \<noteq> [] \<and> u_Id m \<in> u_Id ` set (o_users d) \<and>
                (\<exists>r \<in> set (o_users d). u_Id r \<noteq> u_Id m \<and> u_Username r = u_Username m)
             then Inl e else update_users (\<lambda>r. u_Id r = u_Id m) (merge_profile m now) d)"
  unfolding safe_def update_users_def
  by (auto split: if_splits simp del: image_iff intro!: users users_kept_rows merged_names) (simp_all add: merge_profile_def)

lemma upheld_UpdateUser: "upheld P m w \<Longrightarrow> upheld P m (UpdateUser u w)"
  unfolding UpdateUser_def by (intro step_rules safe_UpdateUser)

lemma safe_select_user: "safe P (select_user Q)"
  by (rule safe_read) (auto simp: select_user_def split: option.splits)

lemma users_kept_delete:
  assumes "RowsAffected Q old = 1" and "(\<forall>r \<in> set old. Q r \<longrightarrow> \<not> is_admin r) \<or> RowsAffected is_admin old > 1"
  shows "users_kept old (delete_where Q old)"
proof -
  have "\<exists>r \<in> set old. is_admin r \<and> \<not> Q r" if "q \<in> set old" "is_admin q" for q
  proof (rule ccontr)
    assume none: "\<not> ?thesis"
    then have "length (filter is_admin old) \<le> length (filter Q old)"
      by (metis (mono_tags, lifting) filter_id_conv length_filter_le filter_filter filter_cong)
    then show False using assms that none by (auto simp: RowsAffected_def)
  qed
  then show ?thesis by (auto simp: users_kept_def grown_def distinct_delete_where)
qed

lemma upheld_DeleteUserById: "upheld P m w \<Longrightarrow> upheld P m (snd (DeleteUserById u uid w))"
proof -
  assume "upheld P m w"
  moreover have "upheld P m v'" if "upheld P m v" and "delete_tx uid v = (Inr r, v')"
    for v v' :: "'a world_scheme" and r
  proof -
    from delete_tx_done [OF that(2)] show ?thesis
      using that(1) delete_tx_env [of uid v] that(2) by (auto simp: upheld_def intro!: users users_kept_delete)
  qed
  moreover have "env v' = env v \<and> world.more v' = world.more v" if "delete_tx uid v = (r, v')" for v v' :: "'a world_scheme" and r
    using that delete_tx_env [of uid v] by simp
  ultimately show ?thesis
    unfolding DeleteUserById_def
    by (intro upheld_prod upheld_sum upheld_option upheld_pair upheld_driver upheld_Transaction_ok session_rules)
qed

end

section \<open>Histories of the service\<close>

text \<open>
  One call of a method of the user service, as the routes make them: any method, any arguments,
  in any order.
\<close>

inductive service_step ::
  "jwtlib \<Rightarrow> argon2 \<Rightarrow> userService \<Rightarrow> 'x world_scheme \<Rightarrow> 'x world_scheme \<Rightarrow> bool"
  for lib :: jwtlib and idkey :: argon2 and u :: userService where
  authenticate: "service_step lib idkey u w (snd (AuthenticateUser idkey username plaintext w))"
| change_password: "service_step lib idkey u w (snd (ChangeUserPassword idkey u uid oldPassword newPassword w))"
| update: "service_step lib idkey u w (UpdateUser m w)"
| delete: "service_step lib idkey u w (snd (DeleteUserById u uid w))"
| info_by_id: "service_step lib idkey u w (snd (GetUserAllInfoById uid w))"
| info_by_name: "service_step lib idkey u w (snd (GetUserAllInfoByName name w))"
| names: "service_step lib idkey u w (snd (GetAllUserName w))"
| issue: "service_step lib idkey u w (snd (IssueLoginSession lib (Some u) userID now w))"
| refresh: "service_step lib idkey u w (snd (IssueRefreshedTokens lib (Some u) presented now w))"
| logout: "service_step lib idkey u w (snd (LogoutSession (Some u) userID sessionID accessExpires w))"
| logout_all: "service_step lib idkey u w (snd (LogoutAllSessions (Some u) userID w))"
| revoke_session: "service_step lib idkey u w (snd (RevokeRefreshSession (Some u) sessionID reason w))"
| check_lockout: "service_step lib idkey u w (snd (CheckLoginLockout (Some u) key now w))"
| failure: "service_step lib idkey u w (snd (RecordLoginFailure (Some u) key now w))"
| success: "service_step lib idkey u w (RecordLoginSuccess (Some u) key w)"
| audit: "service_step lib idkey u w (LogCredentialEvent (Some u) actor eventType ok source detail w)"
| list_audit: "service_step lib idkey u w (snd (ListCredentialEvents (Some u) actor limit w))"
| generation: "service_step lib idkey u w (snd (GetUserTokenVersion (Some u) userID w))"
| revoked: "service_step lib idkey u w (snd (IsAccessTokenRevoked (Some u) tokenID w))"
| prune: "service_step lib idkey u w (PruneAuthState (Some u) now w)"

inductive history ::
  "jwtlib \<Rightarrow> argon2 \<Rightarrow> userService \<Rightarrow> 'x world_scheme \<Rightarrow> 'x world_scheme \<Rightarrow> bool"
  for lib :: jwtlib and idkey :: argon2 and u :: userService where
  start: "history lib idkey u w w"
| call: "history lib idkey u w v \<Longrightarrow> service_step lib idkey u v v' \<Longrightarrow> history lib idkey u w v'"

context kept
begin

lemma upheld_step: "service_step lib idkey u w w' \<Longrightarrow> upheld P m w \<Longrightarrow> upheld P m w'"
  by (induction rule: service_step.induct)
    (auto simp: GetUserAllInfoById_def GetUserAllInfoByName_def
          intro: upheld_AuthenticateUser upheld_ChangeUserPassword upheld_UpdateUser upheld_DeleteUserById upheld_lookup
            upheld_GetAllUserName upheld_IssueLoginSession upheld_IssueRefreshedTokens upheld_LogoutSession
            upheld_LogoutAllSessions upheld_RevokeRefreshSession upheld_CheckLoginLockout upheld_RecordLoginFailure
            upheld_RecordLoginSuccess upheld_LogCredentialEvent upheld_ListCredentialEvents upheld_GetUserTokenVersion
            upheld_IsAccessTokenRevoked upheld_Prune)

lemma upheld_history: "history lib idkey u w w' \<Longrightarrow> upheld P m w \<Longrightarrow> upheld P m w'"
  by (induction rule: history.induct) (auto intro: upheld_step)

end

text \<open>The constraints of the schema, the last administrator, and the accounts that existed at the start.\<close>

interpretation schema: kept wf_db
  by unfold_locales (auto simp: keys_kept_def users_kept_def wf_db_def)

interpretation admin: kept has_admin
  by unfold_locales (auto simp: users_kept_def has_admin_def)

interpretation accounts: kept "\<lambda>d. grown old (o_users d)"
  by unfold_locales (auto simp: users_kept_def intro: grown_trans)

section \<open>The properties\<close>

text \<open>A database with one administrator and one other user, and an engine that numbers audit rows upwards.\<close>

definition staff_db :: db where
  "staff_db = empty_db\<lparr>o_users :=
     [zero_user\<lparr>u_Id := 1, u_Username := ''root'', u_Role := ''admin''\<rparr>,
      zero_user\<lparr>u_Id := 2, u_Username := ''ann'', u_Role := ''user''\<rparr>]\<rparr>"

definition numbering_env :: env where
  "numbering_env = calm_env\<lparr>new_rowid := (\<lambda>_ d. 1 + Max (insert 0 (ce_ID ` set (o_credential_events d))))\<rparr>"

definition staff_world :: world where
  "staff_world = (calm_world staff_db)\<lparr>env := numbering_env\<rparr>"

lemma numbering_ok:
  "environment_ok wf_db (env staff_world)" "environment_ok has_admin (env staff_world)"
  "environment_ok (\<lambda>d. grown old (o_users d)) (env staff_world)"
proof -
  have new: "1 + Max (insert 0 S) \<notin> S" if "finite S" for S :: "int set"
    using that Max_ge [of "insert 0 S" "1 + Max (insert 0 S)"] by auto
  show "environment_ok wf_db (env staff_world)"
    by (rule schema.environment_numbering)
      (use new in \<open>simp_all add: staff_world_def numbering_env_def calm_env_def\<close>)
  show "environment_ok has_admin (env staff_world)" "environment_ok (\<lambda>d. grown old (o_users d)) (env staff_world)"
    by (simp_all add: environment_ok_def safe_def insert_event_def has_admin_def staff_world_def numbering_env_def calm_env_def)
qed

lemma staff_ok: "wf_db (db staff_world)" "has_admin (db staff_world)"
  by (simp_all add: staff_world_def staff_db_def wf_db_def empty_db_def has_admin_def is_admin_def)

text \<open>Somebody tries to delete the administrator, logs in as somebody else, and tries again.\<close>

definition busy_day :: "world \<Rightarrow> world" where
  "busy_day w = snd (DeleteUserById sample_service ''1''
     (snd (AuthenticateUser toy_idkey ''ann'' ''guess'' (snd (DeleteUserById sample_service ''1'' w)))))"

lemma busy_day_history: "history toy_lib toy_idkey sample_service w (busy_day w)"
  unfolding busy_day_def
  by (rule history.call [OF history.call [OF history.call [OF history.start delete] authenticate] delete])

text \<open>No sequence of calls of the user service, whatever the arguments, the faults of the
  database and the interleaved writers (as long as those respect the constraints themselves and new
  audit rows get new ids), leads to two users with one id or one name, two sessions with one id or
  one digest, or a duplicate key in any other table.\<close>

theorem constraints_invariant:
  assumes "history lib idkey u w w'" and "wf_db (db w)" and "environment_ok wf_db (env w)"
  shows "wf_db (db w')"
  using schema.upheld_history [OF assms(1)] assms(2,3) by (simp add: upheld_def)

theorem constraints_invariant_witness:
  "history toy_lib toy_idkey sample_service staff_world (busy_day staff_world) \<and>
   wf_db (db staff_world) \<and> environment_ok wf_db (env staff_world) \<and> wf_db (db (busy_day staff_world))"
  using constraints_invariant [OF busy_day_history staff_ok(1) numbering_ok(1)] busy_day_history staff_ok numbering_ok
  by blast

text \<open>If there is an administrator at the start, there is one after every sequence of calls:
  the service cannot be talked into deleting the last one, whatever else fails.\<close>

theorem administrator_remains:
  assumes "history lib idkey u w w'" and "has_admin (db w)" and "environment_ok has_admin (env w)"
  shows "has_admin (db w')"
  using admin.upheld_history [OF assms(1)] assms(2,3) by (simp add: upheld_def)

theorem administrator_remains_witness:
  "history toy_lib toy_idkey sample_service staff_world (busy_day staff_world) \<and>
   has_admin (db staff_world) \<and> environment_ok has_admin (env staff_world) \<and> has_admin (db (busy_day staff_world))"
  using administrator_remains [OF busy_day_history staff_ok(2) numbering_ok(2)] busy_day_history staff_ok numbering_ok
  by blast

text \<open>Every account after a sequence of calls existed before it, with the same role and a
  credential generation that is not older: the service creates no account, raises no account to
  administrator and never makes an outdated token valid again by lowering a generation.\<close>

theorem accounts_only_grow:
  assumes "history lib idkey u w w'"
    and "environment_ok (\<lambda>d. grown (o_users (db w)) (o_users d)) (env w)"
  shows "grown (o_users (db w)) (o_users (db w'))"
proof -
  have "grown (o_users (db w)) (o_users (db w))" by (auto simp: grown_def)
  then show ?thesis
    using accounts.upheld_history [OF assms(1)] assms(2) unfolding upheld_def by blast
qed

theorem accounts_only_grow_witness:
  "history toy_lib toy_idkey sample_service staff_world (busy_day staff_world) \<and>
   environment_ok (\<lambda>d. grown (o_users (db staff_world)) (o_users d)) (env staff_world) \<and>
   grown (o_users (db staff_world)) (o_users (db (busy_day staff_world)))"
  using accounts_only_grow [OF busy_day_history numbering_ok(3)] busy_day_history numbering_ok by blast

end
