(* ===== verification/Events.thy ===== *)
theory Events
  imports Service_Invariant
begin

text \<open>
  Stored message-bus events: \<open>src/service/event.go\<close>, the handlers of \<open>src/route/v2/api_route_event.go\<close> and
  the listener of \<open>src/route/event_listen.go\<close>.  The message bus, the websocket and the JSON codec of
  its messages are parameters.
\<close>

section \<open>The event store\<close>

text \<open>\<open>autoCreateTime:milli\<close> fills an empty timestamp.\<close>

definition millisecond :: duration where "millisecond = 1000000"

definition CreateEvemt :: "EventModel \<Rightarrow> 'x world_scheme \<Rightarrow> EventModel \<times> 'x world_scheme" where
  "CreateEvemt m w =
     (case time_Now w of (now, w1) \<Rightarrow>
      let m1 = (if ev_Timestamp m = 0 then m\<lparr>ev_Timestamp := now div millisecond\<rparr> else m) in
      (m1, snd (autocommit EventModel_TableName
        (\<lambda>d. if ev_UUID m1 \<in> ev_UUID ` set (events d) then Inl (unique_failed ''events.uuid'')
             else Inr ((), d\<lparr>events := events d @ [m1]\<rparr>)) w1)))"

definition GetEvents :: "'x world_scheme \<Rightarrow> EventModel list \<times> 'x world_scheme" where
  "GetEvents w =
     (case autocommit EventModel_TableName (\<lambda>d. Inr (events d, d)) w of
        (Inl _, w1) \<Rightarrow> ([], w1) | (Inr rows, w1) \<Rightarrow> (rows, w1))"

definition zero_event :: EventModel where
  "zero_event = \<lparr>ev_UUID = [], ev_SourceID = [], ev_Name = [], ev_Properties = [], ev_Timestamp = 0\<rparr>"

definition GetEventByUUID :: "string \<Rightarrow> 'x world_scheme \<Rightarrow> EventModel \<times> 'x world_scheme" where
  "GetEventByUUID uuid w =
     (case autocommit EventModel_TableName
        (\<lambda>d. case First ev_UUID (\<lambda>r. ev_UUID r = uuid) (events d) of Inl e \<Rightarrow> Inl e | Inr r \<Rightarrow> Inr (r, d)) w of
        (Inl _, w1) \<Rightarrow> (zero_event, w1) | (Inr r, w1) \<Rightarrow> (r, w1))"

definition delete_events :: "(EventModel \<Rightarrow> bool) \<Rightarrow> 'x world_scheme \<Rightarrow> 'x world_scheme" where
  "delete_events P w = exec_ignored EventModel_TableName (\<lambda>d. d\<lparr>events := delete_where P (events d)\<rparr>) w"

definition DeleteEvent :: "string \<Rightarrow> 'x world_scheme \<Rightarrow> 'x world_scheme" where
  "DeleteEvent uuid w = delete_events (\<lambda>r. ev_UUID r = uuid) w"

text \<open>
  \<open>unmarshal\<close> decodes the properties into a map of texts; a missing key reads as the empty text.
  \<open>Delete (&v)\<close> deletes by primary key, and gorm refuses it when that is empty.
\<close>

fun delete_serial_loop ::
  "(string \<Rightarrow> (string \<Rightarrow> string) option) \<Rightarrow> string \<Rightarrow> EventModel list \<Rightarrow> 'x world_scheme \<Rightarrow> 'x world_scheme" where
  "delete_serial_loop unmarshal serial [] w = w"
| "delete_serial_loop unmarshal serial (v # list) w =
     (if ev_SourceID v = ''local-storage''
      then (case unmarshal (ev_Properties v) of
              None \<Rightarrow> delete_serial_loop unmarshal serial list w
            | Some properties \<Rightarrow>
                if properties ''serial'' = serial \<and> ev_UUID v \<noteq> []
                then delete_serial_loop unmarshal serial list (delete_events (\<lambda>r. ev_UUID r = ev_UUID v) w)
                else delete_serial_loop unmarshal serial list w)
      else delete_serial_loop unmarshal serial list w)"

definition DeleteEventBySerial ::
  "(string \<Rightarrow> (string \<Rightarrow> string) option) \<Rightarrow> string \<Rightarrow> 'x world_scheme \<Rightarrow> 'x world_scheme" where
  "DeleteEventBySerial unmarshal serial w =
     (case GetEvents w of (list, w1) \<Rightarrow> delete_serial_loop unmarshal serial list w1)"

section \<open>The handlers\<close>

text \<open>Each answers 200 with what is written here as the result.\<close>

definition api_DeleteEvent :: "string \<Rightarrow> 'x world_scheme \<Rightarrow> EventModel \<times> 'x world_scheme" where
  "api_DeleteEvent uuid w = (case GetEventByUUID uuid w of (m, w1) \<Rightarrow> (m, DeleteEvent uuid w1))"

definition api_GetEvents :: "'x world_scheme \<Rightarrow> EventModel list \<times> 'x world_scheme" where
  "api_GetEvents w = GetEvents w"

definition api_DeleteEventBySerial ::
  "(string \<Rightarrow> (string \<Rightarrow> string) option) \<Rightarrow> string \<Rightarrow> 'x world_scheme \<Rightarrow> string \<times> 'x world_scheme" where
  "api_DeleteEventBySerial unmarshal serial w = (serial, DeleteEventBySerial unmarshal serial w)"

section \<open>The listener\<close>

text \<open>
  \<open>message_bus.Event\<close> as the listener reads it; \<open>Uuid\<close> is a pointer.  \<open>bus_decode\<close> is what \<open>json.Unmarshal\<close>
  leaves in a fresh event; its error is only logged.
\<close>

record bus_event =
  be_SourceID :: string
  be_Name :: string
  be_Properties :: "(string \<times> string) list"
  be_Uuid :: "string option"

definition zero_bus_event :: bus_event where
  "zero_bus_event = \<lparr>be_SourceID = [], be_Name = [], be_Properties = [], be_Uuid = None\<rparr>"

record bus =
  bus_decode :: "string \<Rightarrow> bus_event"
  bus_marshal :: "(string \<times> string) list \<Rightarrow> string option"

text \<open>A read of at most 1024 bytes; a failed read delivers none.  \<open>None\<close> is a panic: a nil \<open>Uuid\<close> is dereferenced.\<close>

definition listen_message :: "bus \<Rightarrow> string option \<Rightarrow> 'x world_scheme \<Rightarrow> 'x world_scheme option" where
  "listen_message b received w =
     (let event = bus_decode b (case received of None \<Rightarrow> [] | Some m \<Rightarrow> take 1024 m) in
      case bus_marshal b (be_Properties event) of
        None \<Rightarrow> Some w
      | Some propertiesStr \<Rightarrow>
      case be_Uuid event of
        None \<Rightarrow> None
      | Some uuid \<Rightarrow>
          if be_Name event = ''local-storage:raid_status'' then Some w
          else Some (snd (CreateEvemt \<lparr>ev_UUID = uuid, ev_SourceID = be_SourceID event, ev_Name = be_Name event,
                                        ev_Properties = propertiesStr, ev_Timestamp = 0\<rparr> w)))"

text \<open>The inner loop has no exit: \<open>listen_loop b msgs\<close> is where it stands after the reads \<open>msgs\<close>.\<close>

fun listen_loop :: "bus \<Rightarrow> string option list \<Rightarrow> 'x world_scheme \<Rightarrow> 'x world_scheme option" where
  "listen_loop b [] w = Some w"
| "listen_loop b (received # msgs) w =
     (case listen_message b received w of None \<Rightarrow> None | Some w1 \<Rightarrow> listen_loop b msgs w1)"

text \<open>
  The outer loop tries to connect at most 1000 times: \<open>address i\<close> and \<open>dial i\<close> are the results of the
  \<open>i\<close>-th try, \<open>session\<close> what happens on an established connection.
\<close>

datatype 'w listen_outcome = Returned 'w | Connected 'w

fun connect_loop ::
  "nat \<Rightarrow> (nat \<Rightarrow> string option) \<Rightarrow> (nat \<Rightarrow> string \<Rightarrow> bool) \<Rightarrow> nat \<Rightarrow> 'w \<Rightarrow> 'w listen_outcome" where
  "connect_loop 0 address dial i w = Returned w"
| "connect_loop (Suc tries) address dial i w =
     (case address i of
        None \<Rightarrow> Returned w
      | Some url \<Rightarrow> if dial i url then Connected w else connect_loop tries address dial (Suc i) w)"

definition EventListen ::
  "bus \<Rightarrow> (nat \<Rightarrow> string option) \<Rightarrow> (nat \<Rightarrow> string \<Rightarrow> bool) \<Rightarrow> string option list \<Rightarrow> 'x world_scheme \<Rightarrow> 'x world_scheme option" where
  "EventListen b address dial msgs w =
     (case connect_loop 1000 address dial 0 w of Returned w1 \<Rightarrow> Some w1 | Connected w1 \<Rightarrow> listen_loop b msgs w1)"

section \<open>Properties\<close>

text \<open>C26.  Once connected, the listener cannot survive the end of its connection: a failed read, like any
  message that does not decode or carries no uuid, dereferences a nil pointer, and the process
  panics however many messages it has stored before.\<close>

theorem listener_panics:
  assumes "address 0 = Some url" and "dial 0 url" and "bus_decode b [] = zero_bus_event"
    and "bus_marshal b [] = Some props"
  shows "EventListen b address dial (msgs @ [None]) w = None"
proof -
  have "listen_message b None v = None" for v :: "'a world_scheme"
    using assms(3,4) by (simp add: listen_message_def zero_bus_event_def)
  then have "listen_loop b (msgs @ [None]) w = None"
    by (induction msgs arbitrary: w) (auto split: option.splits)
  moreover have "connect_loop 1000 address dial 0 w = Connected w"
    using assms(1,2) connect_loop.simps(2) [of 999 address dial 0 w] by simp
  ultimately show ?thesis by (simp add: EventListen_def)
qed

definition silent_bus :: bus where
  "silent_bus = \<lparr>bus_decode = (\<lambda>m. zero_bus_event), bus_marshal = (\<lambda>ps. Some ''null'')\<rparr>"

theorem listener_panics_witness:
  "EventListen silent_bus (\<lambda>i. Some ''http://127.0.0.1'') (\<lambda>i url. i = 0) ([] @ [None])
     (calm_world staff_db) = None"
  by (rule listener_panics [where url = "''http://127.0.0.1''" and props = "''null''"])
    (simp_all add: silent_bus_def)

end
