(* ===== verification/Router.thy ===== *)
theory Router
  imports Handlers Events
begin

text \<open>
  The two routers: \<open>src/route/v1.go\<close>, \<open>src/route/v2.go\<close> with the generated wrappers of
  \<open>src/codegen/user_service/user_service_api.go\<close>, and the origin list of \<open>src/route/cors.go\<close>.  Which
  registered route echo selects for a method and a path is a parameter with echo's documented law;
  so are the OpenAPI request validator, the generated code's parameter binding and \<open>url.Parse\<close>.
\<close>

section \<open>Routes\<close>

datatype http_method = POST | GET | PUT | DELETE

record 'w route =
  rt_method :: http_method
  rt_path :: string
  rt_guarded :: bool
  rt_handler :: "'w handler"

definition route :: "bool \<Rightarrow> string \<Rightarrow> http_method \<times> string \<times> 'w handler \<Rightarrow> 'w route" where
  "route guarded base r =
     (case r of (m, p, h) \<Rightarrow> \<lparr>rt_method = m, rt_path = base @ p, rt_guarded = guarded, rt_handler = h\<rparr>)"

definition public_routes :: "deps \<Rightarrow> 'x app_world_scheme route list" where
  "public_routes D = map (route False [])
     [(POST, ''/v1/users/register'', PostUserRegister D),
      (POST, ''/v1/users/login'', PostUserLogin D),
      (POST, ''/v1/users/refresh'', PostUserRefreshToken D),
      (GET, ''/v1/users/image'', GetUserImage D),
      (GET, ''/v1/users/status'', GetUserStatus D)]"

definition users_group :: "deps \<Rightarrow> 'x app_world_scheme route list" where
  "users_group D = map (route True (''/v1'' @ ''/users''))
     [(GET, ''/current'', GetUserInfo D),
      (PUT, ''/current'', PutUserInfo D),
      (PUT, ''/current/password'', PutUserPassword D),
      (GET, ''/current/custom/:key'', GetUserCustomConf D),
      (POST, ''/current/custom/:key'', PostUserCustomConf D),
      (DELETE, ''/current/custom/:key'', DeleteUserCustomConf D),
      (POST, ''/current/image/:key'', PostUserUploadImage D),
      (PUT, ''/current/image/:key'', PutUserImage D),
      (DELETE, ''/current/image'', DeleteUserImage D),
      (PUT, ''/avatar'', PutUserAvatar D),
      (GET, ''/avatar'', GetUserAvatar D),
      (GET, ''/name'', GetUserAllUsername D),
      (POST, ''/logout'', PostUserLogout D),
      (POST, ''/logout-all'', PostUserLogoutAll D),
      (GET, ''/credential-events'', GetCredentialEvents D),
      (DELETE, ''/:id'', DeleteUser D),
      (GET, ''/:username'', GetUserInfoByUsername D),
      (DELETE, '''', DeleteUserAll D)]"

definition InitRouter :: "deps \<Rightarrow> 'x app_world_scheme route list" where
  "InitRouter D = public_routes D @ users_group D"

section \<open>Serving a request\<close>

text \<open>
  echo's answer to a method and a path: the index of a registered route with the values of its
  path parameters, or none, with the status it sends and whether the catch-all route of a group
  with middleware answers.  A request starts with an empty context.
\<close>

datatype choice = Route nat "string \<Rightarrow> string" | NoRoute bool nat

type_synonym router = "http_method \<Rightarrow> string \<Rightarrow> choice"

definition guard :: "deps \<Rightarrow> bool \<Rightarrow> 'x app_handler \<Rightarrow> 'x app_handler" where
  "guard D guarded h = (if guarded then userAccessTokenMiddleware (d_lib D) (Some (d_users D)) h else h)"

definition fail_with :: "nat \<Rightarrow> 'x app_handler" where
  "fail_with c rq w = (HTTPError c, w)"

definition serve :: "deps \<Rightarrow> router \<Rightarrow> http_method \<Rightarrow> string \<Rightarrow> 'x app_handler" where
  "serve D pick meth path rq w =
     (case pick meth path of
        NoRoute guarded c \<Rightarrow> guard D guarded (fail_with c) (rq\<lparr>rq_session := None\<rparr>) w
      | Route i params \<Rightarrow>
          if i < length (InitRouter D :: 'x app_world_scheme route list)
          then guard D (rt_guarded (InitRouter D ! i :: 'x app_world_scheme route)) (rt_handler (InitRouter D ! i))
                 (rq\<lparr>rq_session := None, rq_param := params\<rparr>) w
          else (HTTPError 404, w))"

text \<open>A path fits a pattern if it has as many segments and every segment that is not a parameter is the same.\<close>

definition fits :: "string \<Rightarrow> string \<Rightarrow> bool" where
  "fits pattern path = list_all2 (\<lambda>p s. p = s \<or> take 1 p = '':'') (Split pattern (CHR ''/'')) (Split path (CHR ''/''))"

definition selects :: "'w route list \<Rightarrow> router \<Rightarrow> bool" where
  "selects routes pick \<longleftrightarrow> (\<forall>m p i params. pick m p = Route i params \<longrightarrow>
     i < length routes \<and> rt_method (routes ! i) = m \<and> fits (rt_path (routes ! i)) p)"

section \<open>The second version\<close>

text \<open>
  \<open>AuthenticationInput\<close> and the echo context as the callback sees them.  Requests are compared by
  address, a number here; the session the middleware stored carries the address of its request.
\<close>

record SecurityScheme =
  ss_Type :: string
  ss_In :: string
  ss_Name :: string

record AuthenticationInput =
  ai_RequestValidationInput :: "nat option option"
  ai_SecuritySchemeName :: string
  ai_SecurityScheme :: "SecurityScheme option"
  ai_Scopes :: "string list"

record echo_context =
  ec_Request :: "nat option"
  ec_session :: "(AuthenticatedSession \<times> nat) option"

definition v2OpenAPISecuritySchemeName :: string where "v2OpenAPISecuritySchemeName = ''access_token''"

definition expected_scheme :: "SecurityScheme option \<Rightarrow> bool" where
  "expected_scheme s =
     (case s of None \<Rightarrow> False
      | Some scheme \<Rightarrow> ss_Type scheme = ''apiKey'' \<and> ss_In scheme = ''header'' \<and> ss_Name scheme = HeaderAuthorization)"

definition v2OpenAPIAuthentication :: "echo_context option \<Rightarrow> AuthenticationInput option \<Rightarrow> bool" where
  "v2OpenAPIAuthentication ctx inp =
     (case inp of None \<Rightarrow> False | Some i \<Rightarrow>
      case ai_RequestValidationInput i of None \<Rightarrow> False | Some None \<Rightarrow> False | Some (Some request) \<Rightarrow>
      if ai_SecuritySchemeName i \<noteq> v2OpenAPISecuritySchemeName \<or> \<not> expected_scheme (ai_SecurityScheme i) \<or>
         ai_Scopes i \<noteq> [] then False
      else
      case ctx of None \<Rightarrow> False | Some c \<Rightarrow>
      if ec_Request c \<noteq> Some request then False
      else
      case ec_session c of None \<Rightarrow> False | Some (authentication, seen) \<Rightarrow> seen = request)"

text \<open>
  The generated wrappers bind the path or query parameter (\<open>bind_serial\<close>, \<open>bind_uuid\<close>, \<open>bind_form\<close>, \<open>None\<close>
  when the format is wrong) and call the handler.
\<close>

record v2_deps =
  bind_serial :: "request \<Rightarrow> string option"
  bind_uuid :: "request \<Rightarrow> string option"
  bind_form :: "request \<Rightarrow> string option"
  v2_unmarshal :: "string \<Rightarrow> (string \<Rightarrow> string) option"
  oapi :: "(AuthenticationInput option \<Rightarrow> bool) \<Rightarrow> request \<Rightarrow> response option"
  address_of :: "request \<Rightarrow> nat"

definition wrapper_DeleteEvent :: "v2_deps \<Rightarrow> 'x app_handler" where
  "wrapper_DeleteEvent V rq w =
     (case bind_uuid V rq of
        None \<Rightarrow> (HTTPError 400, w)
      | Some uuid \<Rightarrow> (case api_DeleteEvent uuid w of (m, w1) \<Rightarrow> (PlainJSON StatusOK (OneEvent m), w1)))"

definition wrapper_GetEvents :: "v2_deps \<Rightarrow> 'x app_handler" where
  "wrapper_GetEvents V rq w =
     (case bind_form V rq of
        None \<Rightarrow> (HTTPError 400, w)
      | Some _ \<Rightarrow> (case api_GetEvents w of (list, w1) \<Rightarrow> (PlainJSON StatusOK (AllEvents list), w1)))"

definition wrapper_DeleteEventBySerial :: "v2_deps \<Rightarrow> 'x app_handler" where
  "wrapper_DeleteEventBySerial V rq w =
     (case bind_serial V rq of
        None \<Rightarrow> (HTTPError 400, w)
      | Some serial \<Rightarrow>
          (case api_DeleteEventBySerial (v2_unmarshal V) serial w of
             (s, w1) \<Rightarrow> (PlainJSON StatusOK (SerialText s), w1)))"

definition RegisterHandlersWithOptions :: "v2_deps \<Rightarrow> string \<Rightarrow> 'x app_world_scheme route list" where
  "RegisterHandlersWithOptions V baseURL = map (route True baseURL)
     [(DELETE, ''/event/:event_uuid'', wrapper_DeleteEvent V),
      (GET, ''/events'', wrapper_GetEvents V),
      (DELETE, ''/event/local_storage/:serial'', wrapper_DeleteEventBySerial V)]"

text \<open>
  \<open>InitV2Router\<close>: the access-token middleware and the request validator stand before every route,
  the answer for unknown paths included.
\<close>

definition validated :: "v2_deps \<Rightarrow> 'x app_handler \<Rightarrow> 'x app_handler" where
  "validated V h rq w =
     (let ctx = \<lparr>ec_Request = Some (address_of V rq),
                 ec_session = map_option (\<lambda>s. (s, address_of V rq)) (rq_session rq)\<rparr> in
      case oapi V (v2OpenAPIAuthentication (Some ctx)) rq of
        Some r \<Rightarrow> (r, w)
      | None \<Rightarrow> h rq w)"

definition serve_v2 :: "deps \<Rightarrow> v2_deps \<Rightarrow> string \<Rightarrow> router \<Rightarrow> http_method \<Rightarrow> string \<Rightarrow> 'x app_handler" where
  "serve_v2 D V V2APIPath pick meth path rq w =
     (case pick meth path of
        NoRoute guarded c \<Rightarrow> guard D True (validated V (fail_with c)) (rq\<lparr>rq_session := None\<rparr>) w
      | Route i params \<Rightarrow>
          guard D True (validated V
            (if i < length (RegisterHandlersWithOptions V V2APIPath :: 'x app_world_scheme route list)
             then rt_handler (RegisterHandlersWithOptions V V2APIPath ! i) else fail_with 404))
            (rq\<lparr>rq_session := None, rq_param := params\<rparr>) w)"

section \<open>Allowed origins\<close>

text \<open>The fields of \<open>url.URL\<close> that are looked at.\<close>

record URL =
  url_Scheme :: string
  url_Host :: string
  url_User :: bool
  url_RawQuery :: string
  url_Fragment :: string
  url_Path :: string

definition exact_origin :: "(string \<Rightarrow> URL option) \<Rightarrow> string \<Rightarrow> error + string" where
  "exact_origin url_Parse origin =
     (if origin = [] then Inl (ErrorsNew ''empty CORS origin'')
      else if origin = ''*'' then Inl (ErrorsNew ''wildcard CORS origin is forbidden with credentials'')
      else
      case url_Parse origin of
        None \<Rightarrow> Inl (ErrorsNew ''CORS origin must be an exact http(s) origin'')
      | Some parsed \<Rightarrow>
          if (url_Scheme parsed \<noteq> ''http'' \<and> url_Scheme parsed \<noteq> ''https'') \<or> url_Host parsed = [] \<or> url_User parsed \<or>
             url_RawQuery parsed \<noteq> [] \<or> url_Fragment parsed \<noteq> [] \<or> (url_Path parsed \<noteq> [] \<and> url_Path parsed \<noteq> ''/'')
          then Inl (ErrorsNew ''CORS origin must be an exact http(s) origin'')
          else Inr (url_Scheme parsed @ ''://'' @ url_Host parsed))"

fun cors_loop :: "(string \<Rightarrow> URL option) \<Rightarrow> string list \<Rightarrow> string list \<Rightarrow> error + string list" where
  "cors_loop url_Parse origins [] = Inr origins"
| "cors_loop url_Parse origins (part # parts) =
     (case exact_origin url_Parse (TrimSpace part) of
        Inl e \<Rightarrow> Inl e
      | Inr origin \<Rightarrow> cors_loop url_Parse (origins @ [origin]) parts)"

definition corsAllowlist :: "(string \<Rightarrow> URL option) \<Rightarrow> string \<Rightarrow> error + string list" where
  "corsAllowlist url_Parse raw =
     (let trimmed = TrimSpace raw in
      if trimmed = [] then Inr [] else cors_loop url_Parse [] (Split trimmed (CHR '','')))"

text \<open>\<open>applyConfiguredCORS\<close>: a panic (\<open>None\<close>), no middleware, or the origins, methods and headers of the policy.\<close>

record CORSConfig =
  AllowOrigins :: "string list"
  AllowMethods :: "string list"
  AllowHeaders :: "string list"
  ExposeHeaders :: "string list"
  MaxAge :: int
  AllowCredentials :: bool

definition applyConfiguredCORS :: "(string \<Rightarrow> URL option) \<Rightarrow> string \<Rightarrow> CORSConfig option option" where
  "applyConfiguredCORS url_Parse configured =
     (case corsAllowlist url_Parse configured of
        Inl e \<Rightarrow> None
      | Inr origins \<Rightarrow>
          if origins = [] then Some None
          else Some (Some \<lparr>AllowOrigins = origins,
                 AllowMethods = [''POST'', ''GET'', ''OPTIONS'', ''PUT'', ''DELETE''],
                 AllowHeaders = [''Authorization'', ''Content-Length'', ''X-CSRF-Token'', ''Content-Type'', ''Origin'',
                   ''X-Requested-With''],
                 ExposeHeaders = [''Content-Length''], MaxAge = 600, AllowCredentials = True\<rparr>))"

end
