(* ===== verification/Config_Frame.thy ===== *)
theory Config_Frame
  imports Handlers Service_Invariant
begin

text \<open>
  The configuration store works on files only: whatever calls fail and whatever other processes do
  to the files, its operations leave the tables and the published events as they are.
\<close>

definition steady :: "'x fs_world_scheme \<Rightarrow> 'x fs_world_scheme \<Rightarrow> bool" where
  "steady w w' \<longleftrightarrow> db w' = db w \<and> env w' = env w \<and> sys w' = sys w \<and> fs_world.more w' = fs_world.more w"

lemma steady_refl: "steady w w"
  by (simp add: steady_def)

lemma steady_pair: "steady w v \<Longrightarrow> steady w (snd (r, v))"
  by simp

lemma steady_prod:
  "steady w (snd x) \<Longrightarrow> (\<And>a v. steady w v \<Longrightarrow> steady w (snd (f a v))) \<Longrightarrow> steady w (snd (case x of (a, v) \<Rightarrow> f a v))"
  by (cases x) simp

lemma steady_split: "(\<And>a b. steady w (snd (f a b))) \<Longrightarrow> steady w (snd (case p of (a, b) \<Rightarrow> f a b))"
  by (cases p) simp

lemma steady_sum:
  "(\<And>e. steady w (snd (f e))) \<Longrightarrow> (\<And>a. steady w (snd (g a))) \<Longrightarrow> steady w (snd (case s of Inl e \<Rightarrow> f e | Inr a \<Rightarrow> g a))"
  by (cases s) simp_all

lemma steady_option:
  "steady w (snd f) \<Longrightarrow> (\<And>a. steady w (snd (g a))) \<Longrightarrow> steady w (snd (case s of None \<Rightarrow> f | Some a \<Rightarrow> g a))"
  by (cases s) simp_all

lemma steady_if: "steady w (snd f) \<Longrightarrow> steady w (snd g) \<Longrightarrow> steady w (snd (if b then f else g))"
  by simp

lemma steady_if_world: "steady w f \<Longrightarrow> steady w g \<Longrightarrow> steady w (if b then f else g)"
  by simp

lemma steady_call: "steady w v \<Longrightarrow> steady w (snd (sys_call f v))"
  by (auto simp: steady_def sys_call_def Let_def split: option.splits sum.splits)

lemma steady_rand: "steady w v \<Longrightarrow> steady w (snd (rand_Read n v))"
  by (simp add: steady_def rand_Read_def)

lemma steady_calls:
  assumes "steady w v"
  shows "steady w (snd (os_Lstat p v))" "steady w (snd (file_Stat h v))" "steady w (snd (read_limited h n v))"
    "steady w (snd (file_Write h x v))" "steady w (snd (file_Chmod h perm v))" "steady w (snd (file_Sync h v))"
    "steady w (snd (file_Close h v))" "steady w (snd (os_OpenRoot p v))" "steady w (snd (root_Lstat h p v))"
    "steady w (snd (root_Stat h p v))" "steady w (snd (root_Open h p v))" "steady w (snd (root_OpenRoot h p v))"
    "steady w (snd (root_CreateExcl h p perm v))" "steady w (snd (root_Mkdir h p perm v))"
    "steady w (snd (root_Remove h p v))" "steady w (snd (root_Rename h p q v))"
  unfolding os_Lstat_def file_Stat_def read_limited_def file_Write_def file_Chmod_def file_Sync_def file_Close_def
    os_OpenRoot_def root_Lstat_def root_Stat_def root_Open_def root_OpenRoot_def root_CreateExcl_def root_Mkdir_def
    root_Remove_def root_Rename_def
  by (rule steady_call [OF assms])+

lemma steady_close: "steady w v \<Longrightarrow> steady w (close_all hs v)"
  by (induction hs arbitrary: v) (simp_all add: close_all_def steady_calls)

lemmas steady_rules =
  steady_prod steady_split steady_sum steady_option steady_if steady_if_world steady_pair steady_rand steady_close steady_calls

lemma steady_openUserRoot: "steady w v \<Longrightarrow> steady w (snd (openUserRoot p uid create v))"
  unfolding openUserRoot_def open_shared_root_def make_user_directory_def open_user_directory_def
    secure_user_directory_def Let_def
  by (intro steady_rules)

lemma steady_openExisting: "steady w v \<Longrightarrow> steady w (snd (openExistingRegularFile root name v))"
  unfolding openExistingRegularFile_def by (intro steady_rules)

lemma steady_createTemporary: "steady w v \<Longrightarrow> steady w (snd (createTemporaryFile n root v))"
proof (induction n arbitrary: v)
  case (Suc n)
  then show ?case unfolding createTemporaryFile.simps Let_def by (intro steady_rules)
qed simp

lemma steady_syncRoot: "steady w v \<Longrightarrow> steady w (snd (syncRoot root v))"
  unfolding syncRoot_def by (intro steady_rules)

definition world_of :: "'a \<times> 'b \<times> 'c \<times> 'w \<Rightarrow> 'w" where "world_of x = snd (snd (snd x))"

lemma steady_world_of:
  "steady w (snd x) \<Longrightarrow> (\<And>a v. steady w v \<Longrightarrow> steady w (world_of (f a v))) \<Longrightarrow> steady w (world_of (case x of (a, v) \<Rightarrow> f a v))"
  "(\<And>e. steady w (world_of (g e))) \<Longrightarrow> (\<And>a. steady w (world_of (h a))) \<Longrightarrow>
     steady w (world_of (case s of Inl e \<Rightarrow> g e | Inr a \<Rightarrow> h a))"
  "steady w v \<Longrightarrow> steady w (world_of (a, b, c, v))"
  by (auto simp: world_of_def split: prod.splits sum.splits)

lemma steady_install: "steady w v \<Longrightarrow> steady w (world_of (install_file root filename tmp t data v))"
  unfolding install_file_def by (intro steady_world_of steady_syncRoot steady_calls)

lemma steady_quad:
  "steady w (world_of x) \<Longrightarrow> (\<And>a b c v. steady w v \<Longrightarrow> steady w (snd (f a b c v))) \<Longrightarrow>
   steady w (snd (case x of (a, b, c, v) \<Rightarrow> f a b c v))"
  by (cases x) (simp add: world_of_def)

lemma steady_Write: "steady w v \<Longrightarrow> steady w (snd (config_Write p uid key data v))"
  unfolding config_Write_def Let_def
  by (intro steady_quad steady_rules steady_openUserRoot steady_createTemporary steady_install)

lemma steady_Read: "steady w v \<Longrightarrow> steady w (snd (Read p uid key v))"
  unfolding Read_def by (intro steady_rules steady_openUserRoot steady_openExisting)

lemma steady_Delete: "steady w v \<Longrightarrow> steady w (snd (config_Delete p uid key v))"
  unfolding config_Delete_def Let_def by (intro steady_rules steady_openUserRoot steady_syncRoot)

end
