(* ===== verification/Api_Safety.thy ===== *)
theory Api_Safety
  imports Router Config_Frame
begin

text \<open>
  What the two APIs guarantee as a whole: which requests need a token, what a request can change and
  what a response can contain.
\<close>

section \<open>Requests that change nothing\<close>

text \<open>The tables are as other writers have made them since; files and published events are as before.\<close>

definition drift :: "env \<Rightarrow> db \<Rightarrow> db \<Rightarrow> bool" where
  "drift e = (\<lambda>d d'. \<exists>k. d' = interfere e k d)\<^sup>*\<^sup>*"

definition idle :: "'x world_scheme \<Rightarrow> 'x world_scheme \<Rightarrow> bool" where
  "idle w w' \<longleftrightarrow> env w' = env w \<and> world.more w' = world.more w \<and> drift (env w) (db w) (db w')"

lemma idle_refl [simp]: "idle w w"
  by (simp add: idle_def drift_def)

lemma idle_trans: "idle a b \<Longrightarrow> idle b c \<Longrightarrow> idle a c"
  by (auto simp: idle_def drift_def)

lemma idle_tick: "idle w v \<Longrightarrow> idle w (v\<lparr>tick := n\<rparr>)"
  by (simp add: idle_def)

lemma idle_interfered: "idle w (w\<lparr>db := interfere (env w) k (db w), tick := n\<rparr>)"
  by (auto simp: idle_def drift_def)

lemma idle_autocommit:
  assumes "idle w v" and "\<And>d a d'. f d = Inr (a, d') \<Longrightarrow> d' = d"
  shows "idle w (snd (autocommit tbl f v))"
proof -
  have "snd (autocommit tbl f v) = v\<lparr>db := interfere (env v) (tick v) (db v), tick := Suc (tick v)\<rparr>"
    using assms(2) by (auto simp: autocommit_def in_tx_def interfered_def split: option.splits sum.splits)
  then show ?thesis using assms(1) idle_interfered idle_trans by metis
qed

lemma idle_prod: "idle w (snd x) \<Longrightarrow> (\<And>a v. idle w v \<Longrightarrow> idle w (snd (f a v))) \<Longrightarrow> idle w (snd (case x of (a, v) \<Rightarrow> f a v))"
  by (cases x) simp

lemma idle_split: "(\<And>a b. idle w (snd (f a b))) \<Longrightarrow> idle w (snd (case p of (a, b) \<Rightarrow> f a b))"
  by (cases p) simp

lemma idle_sum:
  "(\<And>e. idle w (snd (f e))) \<Longrightarrow> (\<And>a. idle w (snd (g a))) \<Longrightarrow> idle w (snd (case s of Inl e \<Rightarrow> f e | Inr a \<Rightarrow> g a))"
  by (cases s) simp_all

lemma idle_if: "idle w (snd f) \<Longrightarrow> idle w (snd g) \<Longrightarrow> idle w (snd (if b then f else g))"
  by simp

lemma idle_pair: "idle w v \<Longrightarrow> idle w (snd (r, v))"
  by simp

lemma reading:
  "with_version (first_user P) d = Inr (r, d') \<Longrightarrow> d' = d" "Inr (n, d) = (Inr (m, d') :: error + 'a \<times> db) \<Longrightarrow> d' = d"
  by (auto simp: with_version_def first_user_def split: if_splits sum.splits)

lemma idle_validate: "idle w v \<Longrightarrow> idle w (snd (validateSessionToken lib tok iss pk v))"
  by (auto simp: idle_tick validateSessionToken_def time_Now_def split: option.splits)

lemma idle_GetUserTokenVersion: "idle w v \<Longrightarrow> idle w (snd (GetUserTokenVersion s uid v))"
  unfolding GetUserTokenVersion_def
  by (intro idle_if idle_prod idle_sum idle_pair idle_autocommit) (auto dest: reading)

lemma idle_IsAccessTokenRevoked: "idle w v \<Longrightarrow> idle w (snd (IsAccessTokenRevoked s tid v))"
  unfolding IsAccessTokenRevoked_def
  by (intro idle_if idle_prod idle_sum idle_pair idle_autocommit) (auto dest: reading)

text \<open>
  A request carries the bearer token of a current session: one well-formed header, a live access
  token signed by the service over \<open>claims\<close>, and the tables that the middleware reads confirm the
  user's name and generation and do not list the session as revoked.
\<close>

definition bearer :: "jwtlib \<Rightarrow> userService \<Rightarrow> request \<Rightarrow> 'x world_scheme \<Rightarrow> SessionClaims \<Rightarrow> bool" where
  "bearer lib u rq w claims \<longleftrightarrow>
     (\<exists>key token d2 d3. us_publicKey u = Some key \<and> authorizationToken (Some rq) = Inr token \<and>
        jwt_signed lib key token claims \<and> Issuer claims = AccessTokenIssuer \<and>
        (\<exists>t. ExpiresAt claims = Some t \<and> clock (env w) (tick w) < t) \<and>
        d2 = interfere (env w) (Suc (tick w)) (db w) \<and> d3 = interfere (env w) (Suc (Suc (tick w))) d2 \<and>
        generation_of d2 (UserID claims) = Some (Username claims, TokenVersion claims) \<and>
        \<not> denylisted d3 (ID claims))"

lemma authorizationToken_cong: "rq_headers rq = rq_headers rq' \<Longrightarrow> authorizationToken (Some rq) = authorizationToken (Some rq')"
  by (simp add: authorizationToken_def)

lemma bearer_cong: "rq_headers rq = rq_headers rq' \<Longrightarrow> bearer lib u rq w claims = bearer lib u rq' w claims"
  using authorizationToken_cong [of rq rq'] by (simp add: bearer_def)

lemma middleware_cases:
  assumes "jwt_sound lib" and "userAccessTokenMiddleware lib (Some u) next rq w = (resp, w')"
  obtains (refused) "resp = ErrUnauthorized" "idle w w'"
    | (admitted) claims w3 where "bearer lib u rq w claims" "idle w w3" "next (authenticated claims rq) w3 = (resp, w')"
proof -
  note m = assms(2) [unfolded service_middleware accessTokenMiddleware_def ValidateSessionAccessToken_def
      service_validator_def option.case accessSessionValidator.simps]
  show thesis
  proof (cases "authorizationToken (Some rq)")
    case (Inl e)
    then show ?thesis using m refused by simp
  next
    case token: (Inr token)
    obtain q w1 where 1: "validateSessionToken lib token AccessTokenIssuer (Some (Inr (us_publicKey u))) w = (q, w1)"
      by fastforce
    then have i1: "idle w w1" using idle_validate [OF idle_refl] by (metis snd_conv)
    show ?thesis
    proof (cases q)
      case (Inl e)
      then show ?thesis using m token 1 i1 refused by simp
    next
      case claims: (Inr claims)
      obtain n k x w2 where 2: "GetUserTokenVersion (Some u) (UserID claims) w1 = ((n, k, x), w2)" by (metis surj_pair)
      then have i2: "idle w w2" using idle_GetUserTokenVersion [OF i1] by (metis snd_conv)
      obtain p w3 where 3: "IsAccessTokenRevoked (Some u) (ID claims) w2 = (p, w3)" by fastforce
      then have i3: "idle w w3" using idle_IsAccessTokenRevoked [OF i2] by (metis snd_conv)
      show ?thesis
      proof (cases "x \<and> n = Username claims \<and> k = TokenVersion claims \<and> p = Inr False")
        case False
        then show ?thesis
          using m token 1 claims 2 3 i2 i3 refused by (auto split: if_splits sum.splits)
      next
        case True
        have g: "V_GetUserTokenVersion (service_validator u) (UserID claims) w1 = ((Username claims, TokenVersion claims, True), w2)"
          and d: "V_IsAccessTokenRevoked (service_validator u) (ID claims) w2 = (Inr False, w3)"
          using 2 3 True by (simp_all add: service_validator_def)
        have "w1 = w\<lparr>tick := Suc (tick w)\<rparr>" using 1 claims by (auto elim: validate_ok)
        then have "bearer lib u rq w claims"
          using token token_accepted [OF assms(1) 1 [unfolded claims]] svc.version_truth [OF g] svc.revoked_truth [OF d]
            version_read [OF g] revoked_read [OF d] by (auto simp: bearer_def)
        moreover have "next (authenticated claims rq) w3 = (resp, w')" using m token 1 claims 2 3 True by simp
        ultimately show ?thesis using admitted i3 by blast
      qed
    qed
  qed
qed

section \<open>Which requests need a token\<close>

definition public_endpoints :: "(http_method \<times> string) list" where
  "public_endpoints =
     [(POST, ''/v1/users/register''), (POST, ''/v1/users/login''), (POST, ''/v1/users/refresh''),
      (GET, ''/v1/users/image''), (GET, ''/v1/users/status'')]"

lemma fits_static:
  assumes "fits p s" and "list_all (\<lambda>c. take 1 c \<noteq> '':'') (Split p (CHR ''/''))"
  shows "s = p"
proof -
  have "list_all2 (=) (Split p (CHR ''/'')) (Split s (CHR ''/''))"
    using assms unfolding fits_def by (auto simp: list_all2_conv_all_nth list_all_length)
  then show ?thesis by (metis join_Split list_all2_eq)
qed

lemma unguarded:
  assumes "r \<in> set (InitRouter D)" and "\<not> rt_guarded r" and "fits (rt_path r) path"
  shows "(rt_method r, path) \<in> set public_endpoints"
proof -
  have "r \<in> set (public_routes D)" using assms(1,2) by (auto simp: InitRouter_def users_group_def route_def)
  then show ?thesis
    using fits_static [OF assms(3)]
    by (auto simp: public_routes_def route_def public_endpoints_def Split.simps)
qed

lemma guard_cases:
  assumes "jwt_sound (d_lib D)" and "guard D g h rq w = (resp, w')"
  obtains (bare) "\<not> g" "h rq w = (resp, w')"
    | (refused) "g" "resp = ErrUnauthorized" "idle w w'"
    | (admitted) claims w3 where "g" "bearer (d_lib D) (d_users D) rq w claims" "idle w w3"
        "h (authenticated claims rq) w3 = (resp, w')"
proof (cases g)
  case True
  with assms(2) have "userAccessTokenMiddleware (d_lib D) (Some (d_users D)) h rq w = (resp, w')" by (simp add: guard_def)
  with assms(1) show ?thesis by (rule middleware_cases) (use True refused admitted in blast)+
qed (use assms(2) bare in \<open>simp add: guard_def\<close>)

text \<open>How a request of the first version is handled.\<close>

lemma serve_cases:
  fixes w w' :: "'x app_world_scheme"
  assumes "jwt_sound (d_lib D)" and "serve D pick meth path rq w = (resp, w')"
  obtains (turned_away) "resp = ErrUnauthorized \<or> (\<exists>c. resp = HTTPError c)" "idle w w'"
    | (unprotected) i params where "pick meth path = Route i params" "i < length (InitRouter D :: 'x app_world_scheme route list)"
        "\<not> rt_guarded (InitRouter D ! i :: 'x app_world_scheme route)"
        "rt_handler (InitRouter D ! i) (rq\<lparr>rq_session := None, rq_param := params\<rparr>) w = (resp, w')"
    | (handled) i params claims w3 where "pick meth path = Route i params"
        "i < length (InitRouter D :: 'x app_world_scheme route list)"
        "bearer (d_lib D) (d_users D) rq w claims" "idle w w3"
        "rt_handler (InitRouter D ! i) (authenticated claims (rq\<lparr>rq_session := None, rq_param := params\<rparr>)) w3 = (resp, w')"
proof (cases "pick meth path")
  case (NoRoute g c)
  then have "guard D g (fail_with c) (rq\<lparr>rq_session := None\<rparr>) w = (resp, w')" using assms(2) by (simp add: serve_def)
  then show ?thesis by (rule guard_cases [OF assms(1)]) (use turned_away in \<open>auto simp: fail_with_def\<close>)
next
  case (Route i params)
  let ?r = "InitRouter D ! i :: 'x app_world_scheme route"
  show ?thesis
  proof (cases "i < length (InitRouter D :: 'x app_world_scheme route list)")
    case True
    let ?rq = "rq\<lparr>rq_session := None, rq_param := params\<rparr>"
    have "guard D (rt_guarded ?r) (rt_handler ?r) ?rq w = (resp, w')"
      using assms(2) Route True by (simp add: serve_def)
    with assms(1) show ?thesis
    proof (cases rule: guard_cases)
      case bare
      then show ?thesis using unprotected Route True by blast
    next
      case refused
      then show ?thesis using turned_away by blast
    next
      case (admitted claims w3)
      moreover have "bearer (d_lib D) (d_users D) rq w claims"
        using admitted(2) bearer_cong [of ?rq rq "d_lib D" "d_users D" w claims] by simp
      ultimately show ?thesis using handled Route True by blast
    qed
  qed (use assms(2) Route turned_away in \<open>auto simp: serve_def\<close>)
qed


text \<open>C28.  The second API version has no public endpoint: without the bearer token of a current session a
  request is answered with 401 and changes nothing, whatever its method and path and whatever the OpenAPI validator
  thinks of it.\<close>

theorem v2_protected:
  assumes "jwt_sound (d_lib D)" and "serve_v2 D V base pick meth path rq w = (resp, w')"
  shows "resp = ErrUnauthorized \<and> idle w w' \<or> (\<exists>claims. bearer (d_lib D) (d_users D) rq w claims)"
proof -
  obtain h rq' where "guard D True h rq' w = (resp, w')" and same: "rq_headers rq' = rq_headers rq"
    using assms(2) by (cases "pick meth path") (auto simp: serve_v2_def)
  then show ?thesis by (elim guard_cases [OF assms(1)]) (use bearer_cong [OF same] in blast)+
qed

section \<open>What a request keeps\<close>

definition holding :: "(db \<Rightarrow> bool) \<Rightarrow> 'x world_scheme \<Rightarrow> bool" where
  "holding P w \<longleftrightarrow> P (db w) \<and> environment_ok P (env w)"

text \<open>
  Every handler that does not work on configuration files upholds what the service upholds, and
  leaves the files and the published events alone.
\<close>

context kept
begin

lemma upheld_limiter: "upheld P m w \<Longrightarrow> upheld P m (snd (limiter_Allow a w))"
  by (simp add: limiter_Allow_def upheld_def)

lemma upheld_infos:
  "upheld P m w \<Longrightarrow> upheld P m (snd (GetUserInfoById uid w))"
  "upheld P m w \<Longrightarrow> upheld P m (snd (GetUserInfoByUserName name w))"
  unfolding GetUserInfoById_def GetUserInfoByUserName_def by (intro upheld_prod upheld_pair upheld_lookup; assumption)+

lemmas handler_rules =
  step_rules session_rules upheld_limiter upheld_infos upheld_AuthenticateUser upheld_ChangeUserPassword upheld_UpdateUser
  upheld_DeleteUserById upheld_GetAllUserName upheld_IssueLoginSession upheld_IssueRefreshedTokens upheld_LogoutSession
  upheld_LogoutAllSessions upheld_ListCredentialEvents

lemma upheld_PostUserLogin: "upheld P m w \<Longrightarrow> upheld P m (snd (PostUserLogin D rq w))"
  unfolding PostUserLogin_def login_rejected_def login_accepted_def Let_def by (intro handler_rules)

lemma upheld_PostUserRefreshToken: "upheld P m w \<Longrightarrow> upheld P m (snd (PostUserRefreshToken D rq w))"
  unfolding PostUserRefreshToken_def by (intro handler_rules)

lemma upheld_PutUserInfo: "upheld P m w \<Longrightarrow> upheld P m (snd (PutUserInfo D rq w))"
  unfolding PutUserInfo_def name_taken_def Let_def by (intro handler_rules)

lemma upheld_PutUserPassword: "upheld P m w \<Longrightarrow> upheld P m (snd (PutUserPassword D rq w))"
  unfolding PutUserPassword_def Let_def by (intro handler_rules)

lemma upheld_logouts:
  "upheld P m w \<Longrightarrow> upheld P m (snd (PostUserLogout D rq w))"
  "upheld P m w \<Longrightarrow> upheld P m (snd (PostUserLogoutAll D rq w))"
  unfolding PostUserLogout_def PostUserLogoutAll_def by (intro handler_rules; assumption)+

lemma upheld_GetCredentialEvents: "upheld P m w \<Longrightarrow> upheld P m (snd (GetCredentialEvents D rq w))"
  unfolding GetCredentialEvents_def events_target_def by (intro handler_rules)

lemma upheld_DeleteUser: "upheld P m w \<Longrightarrow> upheld P m (snd (DeleteUser D rq w))"
  unfolding DeleteUser_def Let_def by (intro handler_rules)

lemma upheld_lookups:
  "upheld P m w \<Longrightarrow> upheld P m (snd (GetUserInfo D rq w))"
  "upheld P m w \<Longrightarrow> upheld P m (snd (GetUserInfoByUsername D rq w))"
  "upheld P m w \<Longrightarrow> upheld P m (snd (GetUserAllUsername D rq w))"
  "upheld P m w \<Longrightarrow> upheld P m (snd (GetUserStatus D rq w))"
  unfolding GetUserInfo_def GetUserInfoByUsername_def GetUserAllUsername_def GetUserStatus_def getUserStatus_def Let_def
  by (intro handler_rules; assumption)+

lemma upheld_fixed:
  "upheld P m w \<Longrightarrow> upheld P m (snd (PostUserRegister D rq w))"
  "upheld P m w \<Longrightarrow> upheld P m (snd (GetUserImage D rq w))"
  "upheld P m w \<Longrightarrow> upheld P m (snd (PostUserUploadImage D rq w))"
  "upheld P m w \<Longrightarrow> upheld P m (snd (PutUserImage D rq w))"
  "upheld P m w \<Longrightarrow> upheld P m (snd (DeleteUserImage D rq w))"
  "upheld P m w \<Longrightarrow> upheld P m (snd (PutUserAvatar D rq w))"
  "upheld P m w \<Longrightarrow> upheld P m (snd (GetUserAvatar D rq w))"
  "upheld P m w \<Longrightarrow> upheld P m (snd (DeleteUserAll D rq w))"
  by (simp_all add: PostUserRegister_def GetUserImage_def PostUserUploadImage_def PutUserImage_def DeleteUserImage_def
      PutUserAvatar_def GetUserAvatar_def DeleteUserAll_def)

lemma upheld_profile:
  "upheld P m w \<Longrightarrow> upheld P m (snd (PutUserNick D rq w))"
  "upheld P m w \<Longrightarrow> upheld P m (snd (PutUserDesc D rq w))"
  unfolding PutUserNick_def PutUserDesc_def put_field_def Let_def by (intro handler_rules; assumption)+

lemmas upheld_handlers =
  upheld_PostUserLogin upheld_PostUserRefreshToken upheld_PutUserInfo upheld_PutUserPassword upheld_logouts
  upheld_GetCredentialEvents upheld_DeleteUser upheld_lookups upheld_fixed upheld_profile

lemma upheld_config_user: "upheld P m w \<Longrightarrow> upheld P m (snd (config_user rq w))"
  unfolding config_user_def Let_def by (intro handler_rules)

text \<open>Stored events.\<close>

lemma safe_events:
  "safe P (\<lambda>d. if ev_UUID e \<in> ev_UUID ` set (events d) then Inl x else Inr ((), d\<lparr>events := events d @ [e]\<rparr>))"
  "safe P (\<lambda>d. Inr ((), d\<lparr>events := delete_where Q (events d)\<rparr>))"
  "safe P (\<lambda>d. case First ev_UUID Q (events d) of Inl x \<Rightarrow> Inl x | Inr r \<Rightarrow> Inr (r, d))"
  by (auto simp: safe_def split: if_splits sum.splits intro!: bus keys_kept_insert keys_kept_delete)

lemma upheld_CreateEvemt: "upheld P m w \<Longrightarrow> upheld P m (snd (CreateEvemt e w))"
  unfolding CreateEvemt_def Let_def by (intro handler_rules safe_events)

lemma upheld_GetEvents: "upheld P m w \<Longrightarrow> upheld P m (snd (GetEvents w))"
  unfolding GetEvents_def by (intro handler_rules)

lemma upheld_GetEventByUUID: "upheld P m w \<Longrightarrow> upheld P m (snd (GetEventByUUID uuid w))"
  unfolding GetEventByUUID_def by (intro handler_rules safe_events)

lemma upheld_delete_events: "upheld P m w \<Longrightarrow> upheld P m (delete_events Q w)"
  unfolding delete_events_def by (intro upheld_exec_ignored safe_events)

lemma upheld_serial_loop: "upheld P m w \<Longrightarrow> upheld P m (delete_serial_loop un serial list w)"
  by (induction un serial list w rule: delete_serial_loop.induct)
    (auto split: option.splits intro: upheld_delete_events)

lemma upheld_api_events:
  "upheld P m w \<Longrightarrow> upheld P m (snd (api_DeleteEvent uuid w))"
  "upheld P m w \<Longrightarrow> upheld P m (snd (api_GetEvents w))"
  "upheld P m w \<Longrightarrow> upheld P m (snd (api_DeleteEventBySerial un serial w))"
  unfolding api_DeleteEvent_def api_GetEvents_def api_DeleteEventBySerial_def DeleteEventBySerial_def DeleteEvent_def
  by (intro handler_rules upheld_GetEvents upheld_GetEventByUUID upheld_delete_events upheld_serial_loop; assumption)+

text \<open>With the configuration handlers: the tables are kept, the files may change.\<close>

lemma holding_upheld: "upheld P m w \<Longrightarrow> holding P w"
  by (simp add: holding_def upheld_def)

lemma holding_steady: "upheld P m v \<Longrightarrow> steady v v' \<Longrightarrow> holding P v'"
  by (simp add: holding_def steady_def upheld_def)

lemma holding_prod:
  "upheld P m (snd x) \<Longrightarrow> (\<And>a w. upheld P m w \<Longrightarrow> holding P (snd (f a w))) \<Longrightarrow> holding P (snd (case x of (a, w) \<Rightarrow> f a w))"
  by (cases x) simp

lemma holding_world:
  "holding P (snd x) \<Longrightarrow> (\<And>a w. holding P w \<Longrightarrow> holding P (snd (f a w))) \<Longrightarrow> holding P (snd (case x of (a, w) \<Rightarrow> f a w))"
  by (cases x) simp

lemma holding_split: "(\<And>a b. holding P (snd (f a b))) \<Longrightarrow> holding P (snd (case p of (a, b) \<Rightarrow> f a b))"
  by (cases p) simp

lemma holding_sum:
  "(\<And>e. holding P (snd (f e))) \<Longrightarrow> (\<And>a. holding P (snd (g a))) \<Longrightarrow> holding P (snd (case s of Inl e \<Rightarrow> f e | Inr a \<Rightarrow> g a))"
  by (cases s) simp_all

lemma holding_option:
  "holding P (snd f) \<Longrightarrow> (\<And>a. holding P (snd (g a))) \<Longrightarrow> holding P (snd (case s of None \<Rightarrow> f | Some a \<Rightarrow> g a))"
  by (cases s) simp_all

lemma holding_if: "holding P (snd f) \<Longrightarrow> holding P (snd g) \<Longrightarrow> holding P (snd (if b then f else g))"
  by simp

lemma holding_pair: "holding P w \<Longrightarrow> holding P (snd (r, w))"
  by simp

lemma holding_publish: "holding P w \<Longrightarrow> holding P (if b then publish s n props w else w)"
  by (simp add: holding_def publish_def)

lemmas holding_rules = holding_split holding_sum holding_option holding_if holding_pair holding_publish

lemma holding_Get: "upheld P m w \<Longrightarrow> holding P (snd (GetUserCustomConf D rq w))"
  unfolding GetUserCustomConf_def
  by (rule holding_prod [OF upheld_config_user], assumption)
    (intro holding_rules holding_world holding_steady [OF _ steady_Read [OF steady_refl]]; auto intro: holding_upheld)

lemma holding_Post: "upheld P m w \<Longrightarrow> holding P (snd (PostUserCustomConf D rq w))"
  unfolding PostUserCustomConf_def
  by (rule holding_prod [OF upheld_config_user], assumption)
    (intro holding_rules holding_world holding_steady [OF _ steady_Write [OF steady_refl]]; auto intro: holding_upheld)

lemma holding_Delete: "upheld P m w \<Longrightarrow> holding P (snd (DeleteUserCustomConf D rq w))"
  unfolding DeleteUserCustomConf_def
  by (rule holding_prod [OF upheld_config_user], assumption)
    (intro holding_rules holding_world holding_steady [OF _ steady_Delete [OF steady_refl]]; auto intro: holding_upheld)

lemma holding_route: "r \<in> set (InitRouter D) \<Longrightarrow> upheld P m w \<Longrightarrow> holding P (snd (rt_handler r rq w))"
  by (auto simp: InitRouter_def public_routes_def users_group_def route_def
      intro: upheld_handlers [THEN holding_upheld] holding_Get holding_Post holding_Delete)

lemma holding_guard:
  assumes "\<And>rq v. upheld P m v \<Longrightarrow> holding P (snd (h rq v))" and "upheld P m w"
  shows "holding P (snd (guard D g h rq w))"
proof -
  have "holding P (snd (accessTokenMiddleware lib pk (Some (service_validator u)) h rq w))" for lib pk u
    unfolding accessTokenMiddleware_def service_validator_def option.case accessSessionValidator.simps
      ValidateSessionAccessToken_def
    by (intro holding_sum holding_prod [OF upheld_validate [OF assms(2)]] holding_pair;
        (intro holding_split holding_if holding_sum holding_pair holding_prod holding_upheld upheld_GetUserTokenVersion
          upheld_IsAccessTokenRevoked assms(1))?) (auto intro: holding_upheld assms)
  then show ?thesis using assms by (simp add: guard_def service_middleware)
qed

lemma holding_serve: "holding P w \<Longrightarrow> holding P (snd (serve D pick meth path rq w))"
proof -
  assume "holding P w"
  then have w: "upheld P (world.more w) w" by (simp add: holding_def upheld_def)
  have "holding P (snd (fail_with c rq' v))" if "upheld P m v" for c rq' m and v :: "'a app_world_scheme"
    using that by (simp add: fail_with_def holding_upheld)
  moreover have "holding P (snd (rt_handler (InitRouter D ! i) rq' v))"
    if "i < length (InitRouter D :: 'a app_world_scheme route list)" "upheld P m v" for i rq' m and v :: "'a app_world_scheme"
    using holding_route [OF nth_mem [OF that(1)] that(2)] .
  ultimately show ?thesis
    using holding_upheld [OF w]
    by (auto simp: serve_def split: choice.splits intro!: holding_guard [OF _ w])
qed

lemma upheld_wrappers:
  "upheld P m w \<Longrightarrow> upheld P m (snd (wrapper_DeleteEvent V rq w))"
  "upheld P m w \<Longrightarrow> upheld P m (snd (wrapper_GetEvents V rq w))"
  "upheld P m w \<Longrightarrow> upheld P m (snd (wrapper_DeleteEventBySerial V rq w))"
  unfolding wrapper_DeleteEvent_def wrapper_GetEvents_def wrapper_DeleteEventBySerial_def
  by (intro handler_rules upheld_api_events; assumption)+

lemma holding_v2: "holding P w \<Longrightarrow> holding P (snd (serve_v2 D V base pick meth path rq w))"
proof -
  assume "holding P w"
  then have w: "upheld P (world.more w) w" by (simp add: holding_def upheld_def)
  have route: "upheld P m (snd (rt_handler r rq' v))" if "r \<in> set (RegisterHandlersWithOptions V base)" "upheld P m v"
    for r rq' m and v :: "'a app_world_scheme"
    using that by (auto simp: RegisterHandlersWithOptions_def route_def intro: upheld_wrappers)
  have "holding P (snd (validated V (fail_with c) rq' v))" if "upheld P m v" for c rq' m and v :: "'a app_world_scheme"
    using holding_upheld [OF that] by (auto simp: validated_def fail_with_def Let_def split: option.splits)
  moreover have "holding P (snd (validated V (rt_handler (RegisterHandlersWithOptions V base ! i)) rq' v))"
    if "i < length (RegisterHandlersWithOptions V base :: 'a app_world_scheme route list)" "upheld P m v"
    for i rq' m and v :: "'a app_world_scheme"
    using route [OF nth_mem [OF that(1)] that(2), THEN holding_upheld] holding_upheld [OF that(2)]
    by (auto simp: validated_def Let_def split: option.splits)
  ultimately show ?thesis
    by (auto simp: serve_v2_def split: choice.splits intro!: holding_guard [OF _ w])
qed

lemma holding_message: "holding P w \<Longrightarrow> listen_message b received w = Some w' \<Longrightarrow> holding P w'"
  using upheld_CreateEvemt [of "world.more w" w]
  by (auto simp: listen_message_def Let_def holding_def upheld_def split: option.splits if_splits)

end

text \<open>
  What reaches the running service: requests of both API versions, in any number and order and
  with any contents, and messages of the bus.
\<close>

inductive traffic ::
  "deps \<Rightarrow> v2_deps \<Rightarrow> string \<Rightarrow> bus \<Rightarrow> 'x app_world_scheme \<Rightarrow> 'x app_world_scheme \<Rightarrow> bool"
  for D :: deps and V :: v2_deps and base :: string and b :: bus where
  quiet: "traffic D V base b w w"
| request: "traffic D V base b w v \<Longrightarrow> serve D pick meth path rq v = (resp, v') \<Longrightarrow> traffic D V base b w v'"
| request_v2: "traffic D V base b w v \<Longrightarrow> serve_v2 D V base pick meth path rq v = (resp, v') \<Longrightarrow> traffic D V base b w v'"
| message: "traffic D V base b w v \<Longrightarrow> listen_message b received v = Some v' \<Longrightarrow> traffic D V base b w v'"

context kept
begin

lemma holding_traffic: "traffic D V base b w w' \<Longrightarrow> holding P w \<Longrightarrow> holding P w'"
proof (induction rule: traffic.induct)
  case (request w v pick meth path rq resp v')
  then show ?case using holding_serve by (metis snd_conv)
next
  case (request_v2 w v pick meth path rq resp v')
  then show ?case using holding_v2 by (metis snd_conv)
next
  case (message w v received v')
  then show ?case using holding_message by blast
qed

end

lemma users_kept_trans: "users_kept a b \<Longrightarrow> users_kept b c \<Longrightarrow> users_kept a c"
  unfolding users_kept_def using grown_trans by blast

interpretation kept_users: kept "\<lambda>d. users_kept old (o_users d)"
  by unfold_locales (auto intro: users_kept_trans)


text \<open>C30.  No traffic can create an account, change a role, lower a credential generation or remove the
  last administrator.\<close>

theorem traffic_keeps_accounts:
  assumes "traffic D V base b w w'"
    and "environment_ok (\<lambda>d. users_kept (o_users (db w)) (o_users d)) (env w)"
  shows "users_kept (o_users (db w)) (o_users (db w'))"
proof -
  have "users_kept (o_users (db w)) (o_users (db w))" by (auto simp: users_kept_def grown_def)
  then show ?thesis using kept_users.holding_traffic [OF assms(1)] assms(2) by (simp add: holding_def)
qed

end
