(* ===== verification/Api_Data.thy ===== *)
theory Api_Data
  imports Api_Safety
begin

text \<open>
  Whose data a request can reach: the configuration files of other users are out of reach of every
  request, and no response carries a password verifier.
\<close>

section \<open>Configurations\<close>

text \<open>The data root exists, nobody else meddles with the files, and no two users share a directory.\<close>

definition config_store :: "deps \<Rightarrow> nat \<Rightarrow> 'x fs_world_scheme \<Rightarrow> bool" where
  "config_store D r w \<longleftrightarrow> undisturbed w \<and> fresh_inodes (files w) \<and> separate (files w) r \<and>
     (\<exists>cs. UserDataPath D = abs_path cs \<and> chain (files w) root_ino cs r)"

lemma fs_more: "world.more w' = world.more w \<Longrightarrow> files w' = files w \<and> sys w' = sys (w :: 'x fs_world_scheme)"
  by (cases w; cases w') simp

lemma config_store_more:
  "world.more w' = world.more w \<Longrightarrow> config_store D r w' = config_store D r (w :: 'x fs_world_scheme)"
  using fs_more [of w' w] by (simp add: config_store_def undisturbed_def)

text \<open>Any property of the tables whatever, so only what is left of the process state counts.\<close>

interpretation anything: kept "\<lambda>d. True"
  by unfold_locales simp_all

lemma upheld_more: "upheld (\<lambda>d. True) m w \<longleftrightarrow> world.more w = m"
  by (simp add: upheld_def environment_ok_def safe_def)

lemmas handlers_more = anything.upheld_handlers [unfolded upheld_more, OF refl]

lemma config_user_known:
  assumes "config_user rq w = (Inr (name, uid), w1)"
  shows "id_affinity (env w) (HeaderUserID_of rq) = Some uid" "world.more w1 = world.more w"
proof -
  obtain u where u: "GetUserInfoById (HeaderUserID_of rq) w = (u, w1)" "u_Id u = uid" "uid \<noteq> 0"
    using assms by (auto simp: config_user_def Let_def split: if_splits sum.splits prod.splits)
  then obtain v where v: "lookup_user (has_id (env w) (HeaderUserID_of rq)) w = (v, w1)" "u_Id v = uid"
    by (auto simp: GetUserInfoById_def public_columns_def split: prod.splits)
  then obtain q where "autocommit UserDBModel_TableName (first_user (has_id (env w) (HeaderUserID_of rq))) w = (Inr v, w1)"
    using u(3) by (auto simp: lookup_user_def zero_user_def split: prod.splits sum.splits)
  then have "has_id (env w) (HeaderUserID_of rq) v"
    by (auto simp: first_user_def split: sum.splits dest!: autocommit_ok First_Inr)
  then show "id_affinity (env w) (HeaderUserID_of rq) = Some uid" using v(2) by (simp add: has_id_def)
  show "world.more w1 = world.more w"
    using anything.upheld_config_user [unfolded upheld_more, OF refl, of rq w] assms by simp
qed

lemma publish_files: "files (publish s n props w) = files w"
  by (simp add: publish_def)

lemma config_user_rejected: "config_user rq w = (Inl resp, w1) \<Longrightarrow> files w1 = files (w :: 'x fs_world_scheme)"
  using anything.upheld_config_user [unfolded upheld_more, OF refl, of rq w] fs_more [of w1 w] by simp

lemma config_handlers_isolated:
  assumes "config_store D r w" and "id_affinity (env w) (HeaderUserID_of rq) \<noteq> Some u"
  shows "user_config (files (snd (GetUserCustomConf D rq w))) r u k = user_config (files w) r u k"
    "user_config (files (snd (PostUserCustomConf D rq w))) r u k = user_config (files w) r u k"
    "user_config (files (snd (DeleteUserCustomConf D rq w))) r u k = user_config (files w) r u k"
proof -
  obtain found w1 where c: "config_user rq w = (found, w1)" by fastforce
  obtain cs where cs: "UserDataPath D = abs_path cs" "chain (files w) root_ino cs r" using assms(1) by (auto simp: config_store_def)
  consider (rejected) resp where "found = Inl resp" "files w1 = files w"
    | (known) name uid where "found = Inr (name, uid)" "uid \<noteq> u" "files w1 = files w" "undisturbed w1" "fresh_inodes (files w1)"
        "separate (files w1) r" "chain (files w1) root_ino cs r"
  proof (cases found)
    case (Inl resp)
    then show thesis using rejected config_user_rejected c by blast
  next
    case (Inr p)
    then obtain name uid where p: "found = Inr (name, uid)" by (cases p) simp
    note k = config_user_known [OF c [unfolded p]]
    have "config_store D r w1" "files w1 = files w"
      using config_store_more [OF k(2)] fs_more [OF k(2)] assms(1) by simp_all
    then show thesis using known [OF p] k(1) assms(2) cs(2) by (auto simp: config_store_def)
  qed
  note cases = this
  show "user_config (files (snd (GetUserCustomConf D rq w))) r u k = user_config (files w) r u k"
  proof (cases rule: cases)
    case (known name uid)
    obtain q w2 where rd: "Read (abs_path cs) uid name w1 = (q, w2)" by fastforce
    have "user_config (files w2) = user_config (files w)"
      using user_config_contents [OF Read_effect(1) [OF rd known(4,5,7)]] known(3) by simp
    moreover have "snd (GetUserCustomConf D rq w) = w2"
      using c known(1) cs(1) rd by (auto simp: GetUserCustomConf_def split: sum.splits option.splits)
    ultimately show ?thesis by simp
  qed (use c in \<open>simp add: GetUserCustomConf_def\<close>)
  show "user_config (files (snd (PostUserCustomConf D rq w))) r u k = user_config (files w) r u k"
  proof (cases rule: cases)
    case (known name uid)
    obtain q w2 where wr: "config_Write (abs_path cs) uid name (rq_body rq) w1 = (q, w2)" by fastforce
    have "user_config (files w2) r u k = user_config (files w) r u k"
      using written_config(1) [OF config_Write_effect [OF wr known(4,5,7)] known(6)] known(2,3) by simp
    moreover have "files (snd (PostUserCustomConf D rq w)) \<in> {files w1, files w2}"
      using c known(1) cs(1) wr
      by (auto simp: PostUserCustomConf_def publish_files split: sum.splits if_splits)
    ultimately show ?thesis using known(3) by auto
  qed (use c in \<open>simp add: PostUserCustomConf_def\<close>)
  show "user_config (files (snd (DeleteUserCustomConf D rq w))) r u k = user_config (files w) r u k"
  proof (cases rule: cases)
    case (known name uid)
    obtain q w2 where d: "config_Delete (abs_path cs) uid name w1 = (q, w2)" by fastforce
    have "user_config (files w2) r u k = user_config (files w) r u k"
      using config_Delete_effect [OF d known(4,5,7)] deleted_config(2) [OF _ _ known(6)] user_config_contents known(2,3)
      by (metis prod.inject)
    moreover have "snd (DeleteUserCustomConf D rq w) = w2"
      using c known(1) cs(1) d by (auto simp: DeleteUserCustomConf_def split: sum.splits)
    ultimately show ?thesis by simp
  qed (use c in \<open>simp add: DeleteUserCustomConf_def\<close>)
qed

lemma route_isolated:
  assumes "x \<in> set (InitRouter D)" and "config_store D r w" and "id_affinity (env w) (HeaderUserID_of rq) \<noteq> Some u"
  shows "user_config (files (snd (rt_handler x rq w))) r u k = user_config (files w) r u k"
proof -
  have "world.more (snd (rt_handler x rq w)) = world.more w \<or>
     rt_handler x \<in> {GetUserCustomConf D, PostUserCustomConf D, DeleteUserCustomConf D}"
    using assms(1) by (auto simp: InitRouter_def public_routes_def users_group_def route_def handlers_more)
  then show ?thesis
    using config_handlers_isolated [OF assms(2,3)] fs_more [of "snd (rt_handler x rq w)" w] by auto
qed

text \<open>SQLite's integer affinity reads a canonical decimal numeral as no other number.\<close>

definition exact_affinity :: "env \<Rightarrow> bool" where
  "exact_affinity e \<longleftrightarrow> (\<forall>n m. id_affinity e (Itoa n) = Some m \<longrightarrow> m = n)"

text \<open>C31.  A request changes no configuration but those of the user whose bearer token it carries; one
  without a current token changes none.\<close>

theorem config_isolation:
  fixes w w' :: "'x app_world_scheme"
  assumes "jwt_sound (d_lib D)" and "config_store D r w" and "exact_affinity (env w)"
    and "serve D pick meth path rq w = (resp, w')"
  shows "user_config (files w') r u k = user_config (files w) r u k \<or>
    (\<exists>claims. bearer (d_lib D) (d_users D) rq w claims \<and> UserID claims = u)"
  using assms(1,4)
proof (cases rule: serve_cases)
  case turned_away
  then show ?thesis using fs_more [of w' w] by (simp add: idle_def)
next
  case (unprotected i params)
  have "InitRouter D ! i \<in> set (public_routes D :: 'x app_world_scheme route list)"
    using nth_mem [OF unprotected(2)] unprotected(3) by (auto simp: InitRouter_def users_group_def route_def)
  then have "world.more w' = world.more w"
    using unprotected(4) by (auto simp: public_routes_def route_def) (metis handlers_more snd_conv)+
  then show ?thesis using fs_more [of w' w] by simp
next
  case (handled i params claims w3)
  let ?rq = "authenticated claims (rq\<lparr>rq_session := None, rq_param := params\<rparr>)"
  have w3: "world.more w3 = world.more w" "env w3 = env w" using handled(4) by (simp_all add: idle_def)
  have "id_affinity (env w3) (HeaderUserID_of ?rq) \<noteq> Some u" if "UserID claims \<noteq> u"
    using assms(3) w3(2) that
    by (auto simp: exact_affinity_def HeaderUserID_of_def authenticated_def Header_Get_def Header_Set_def)
  then have "UserID claims = u \<or> user_config (files w') r u k = user_config (files w3) r u k"
    using route_isolated [OF nth_mem [OF handled(2)], of r w3 ?rq u k] handled(5) config_store_more [OF w3(1)] assms(2)
    by (metis option.inject snd_conv)
  then show ?thesis using handled(3) fs_more [OF w3(1)] by auto
qed

section \<open>Verifiers\<close>

text \<open>No user in the response has a password field.\<close>

definition discreet :: "response \<Rightarrow> bool" where
  "discreet resp =
     (case resp of
        JSON c r hdrs \<Rightarrow>
          (case Data r of UserData u \<Rightarrow> u_Password u = [] | LoginData t u \<Rightarrow> u_Password u = [] | _ \<Rightarrow> True)
      | _ \<Rightarrow> True)"

lemma discreet_prod: "(\<And>a v. discreet (fst (f a v))) \<Longrightarrow> discreet (fst (case x of (a, v) \<Rightarrow> f a v))"
  by (cases x) simp

lemma discreet_sum:
  "(\<And>e. discreet (fst (f e))) \<Longrightarrow> (\<And>a. discreet (fst (g a))) \<Longrightarrow> discreet (fst (case s of Inl e \<Rightarrow> f e | Inr a \<Rightarrow> g a))"
  by (cases s) simp_all

lemma discreet_option:
  "discreet (fst f) \<Longrightarrow> (\<And>a. discreet (fst (g a))) \<Longrightarrow> discreet (fst (case s of None \<Rightarrow> f | Some a \<Rightarrow> g a))"
  by (cases s) simp_all

lemma discreet_if: "discreet (fst f) \<Longrightarrow> discreet (fst g) \<Longrightarrow> discreet (fst (if b then f else g))"
  by simp

lemma discreet_user:
  assumes "\<And>u v. u_Password u = [] \<Longrightarrow> discreet (fst (f u v))"
  shows "discreet (fst (case GetUserInfoById uid w of (u, v) \<Rightarrow> f u v))"
    "discreet (fst (case GetUserInfoByUserName name w of (u, v) \<Rightarrow> f u v))"
proof -
  have "u_Password (public_columns q) = []" for q by (simp add: public_columns_def zero_user_def)
  then show "discreet (fst (case GetUserInfoById uid w of (u, v) \<Rightarrow> f u v))"
    "discreet (fst (case GetUserInfoByUserName name w of (u, v) \<Rightarrow> f u v))"
    using assms by (auto simp: GetUserInfoById_def GetUserInfoByUserName_def split: prod.splits)
qed

lemma discreet_simps [simp]:
  "discreet ErrUnauthorized" "discreet (HTTPError n)" "discreet EncodeError"
  "discreet (JSON c (msg m) hdrs)" "discreet (JSON c server_error hdrs)"
  "discreet (JSON c (result s t NoData) hdrs)" "discreet (JSON c (ok NoData) hdrs)"
  "discreet (JSON c (ok (UserData u)) hdrs) = (u_Password u = [])"
  "discreet (JSON c (ok (LoginData vi u)) hdrs) = (u_Password u = [])"
  "discreet (JSON c (ok (TokenData vi)) hdrs)" "discreet (JSON c (ok (NameList ns)) hdrs)"
  "discreet (JSON c (ok (EventList es)) hdrs)" "discreet (JSON c (ok (TextData body)) hdrs)"
  "discreet (JSON c (ok (InitializedFlag i)) hdrs)"
  "discreet (ctx_JSON D c (ok (TextData body)) hdrs)" "discreet (ctx_JSON D c (ok (RawJSON body)) hdrs)"
  "discreet legacyImageEndpointGone" "discreet invalidCustomConfigResponse" "discreet (loginRateLimited d hdrs)"
  "discreet refresh_limited" "discreet (refreshUnauthorized hdrs)"
  by (auto simp: discreet_def msg_def result_def server_error_def ok_def ctx_JSON_def legacyImageEndpointGone_def
      invalidCustomConfigResponse_def loginRateLimited_def refresh_limited_def refreshUnauthorized_def Let_def)

lemmas discreet_rules = discreet_user discreet_prod discreet_sum discreet_option discreet_if

lemma discreet_handlers:
  "discreet (fst (PostUserLogin D rq w))" "discreet (fst (PostUserRefreshToken D rq w))"
  "discreet (fst (GetUserStatus D rq w))" "discreet (fst (GetUserInfo D rq w))" "discreet (fst (PutUserInfo D rq w))"
  "discreet (fst (PutUserPassword D rq w))" "discreet (fst (GetUserAllUsername D rq w))"
  "discreet (fst (PostUserLogout D rq w))" "discreet (fst (PostUserLogoutAll D rq w))"
  "discreet (fst (DeleteUser D rq w))"
  "discreet (fst (GetUserInfoByUsername D rq w))"
  unfolding PostUserLogin_def login_rejected_def login_accepted_def PostUserRefreshToken_def GetUserStatus_def
    getUserStatus_def GetUserInfo_def PutUserInfo_def PutUserPassword_def GetUserAllUsername_def PostUserLogout_def
    PostUserLogoutAll_def DeleteUser_def GetUserInfoByUsername_def Let_def
  by (intro discreet_rules; simp)+

lemma discreet_fixed:
  "discreet (fst (PostUserRegister D rq w))" "discreet (fst (GetUserImage D rq w))"
  "discreet (fst (PostUserUploadImage D rq w))" "discreet (fst (PutUserImage D rq w))"
  "discreet (fst (DeleteUserImage D rq w))" "discreet (fst (PutUserAvatar D rq w))"
  "discreet (fst (GetUserAvatar D rq w))" "discreet (fst (DeleteUserAll D rq w))"
  by (simp_all add: PostUserRegister_def GetUserImage_def PostUserUploadImage_def PutUserImage_def DeleteUserImage_def
      PutUserAvatar_def GetUserAvatar_def DeleteUserAll_def)

lemma discreet_config:
  "discreet (fst (GetUserCustomConf D rq w))" "discreet (fst (PostUserCustomConf D rq w))"
  "discreet (fst (DeleteUserCustomConf D rq w))"
proof -
  have rejected: "discreet r" if "config_user rq w = (Inl r, w1)" for r w1
    using that by (auto simp: config_user_def Let_def split: if_splits sum.splits prod.splits)
  show "discreet (fst (GetUserCustomConf D rq w))" "discreet (fst (PostUserCustomConf D rq w))"
    "discreet (fst (DeleteUserCustomConf D rq w))"
    by (auto simp: GetUserCustomConf_def PostUserCustomConf_def DeleteUserCustomConf_def rejected
        split: prod.splits sum.splits option.splits if_splits)
qed

lemma discreet_events: "discreet (fst (GetCredentialEvents D rq w))"
proof -
  have "discreet r" if "events_target a requested v = (Inl r, v')" for r a requested v v'
    using that by (auto simp: events_target_def split: if_splits option.splits prod.splits)
  then show ?thesis
    by (auto simp: GetCredentialEvents_def split: option.splits prod.splits sum.splits)
qed

lemma discreet_route: "x \<in> set (InitRouter D) \<Longrightarrow> discreet (fst (rt_handler x rq w))"
  by (auto simp: InitRouter_def public_routes_def users_group_def route_def
      discreet_handlers discreet_fixed discreet_config discreet_events)

lemma discreet_guard:
  assumes "\<And>rq v. discreet (fst (h rq v))"
  shows "discreet (fst (guard D g h rq w))"
  unfolding guard_def service_middleware accessTokenMiddleware_def option.case
  by (cases g) (simp_all add: assms split: sum.splits prod.splits)

text \<open>C32.  No response of the first API version contains a password verifier: every user record it carries has an
  empty password field, on every route, for every request and in every environment.\<close>

theorem no_verifier_disclosed:
  "discreet (fst (serve D pick meth path rq w))"
  by (auto simp: serve_def fail_with_def split: choice.splits intro!: discreet_guard discreet_route nth_mem)

end
