(* ===== verification/Api_Witness.thy ===== *)
theory Api_Witness
  imports Api_Data
begin

text \<open>
  A small installation on which the properties of the API are applied: one administrator and one
  other user, the data root of \<open>User_Config\<close>, the sample token library, and a router that knows one
  route.
\<close>

definition sample_deps :: deps where
  "sample_deps =
     \<lparr>d_users = sample_service, d_lib = toy_lib, d_idkey = toy_idkey, UserDataPath = abs_path [''data''],
      login_Allow = (\<lambda>_. True), refresh_Allow = (\<lambda>_. True), decode_login = (\<lambda>_. None), decode_refresh = (\<lambda>_. None),
      bind_map = (\<lambda>_ _. []), bind_profile = (\<lambda>_. None), gjson_Valid = (\<lambda>_. True), json_Valid = (\<lambda>_. True)\<rparr>"

definition sample_v2 :: v2_deps where
  "sample_v2 = \<lparr>bind_serial = (\<lambda>_. None), bind_uuid = (\<lambda>_. None), bind_form = (\<lambda>_. Some []), v2_unmarshal = (\<lambda>_. None),
     oapi = (\<lambda>_ _. None), address_of = (\<lambda>_. 0)\<rparr>"

definition api_world :: app_world where
  "api_world = \<lparr>db = staff_db, env = numbering_env, tick = 0, kdf = [], files = config_fs, sys = calm_sys, published = []\<rparr>"

definition sample_pick :: router where
  "sample_pick meth path =
     (if meth = DELETE \<and> path = ''/v1/users/2'' then Route 20 (\<lambda>_. ''2'') else NoRoute True 404)"

definition anonymous :: request where
  "anonymous = \<lparr>rq_headers = (\<lambda>_. []), rq_body = [], rq_body_fails = False, rq_param = (\<lambda>_. []), rq_query = (\<lambda>_. []),
     rq_session = None, rq_ctx_err = None\<rparr>"

lemma sample_selects: "selects (InitRouter sample_deps :: app_world route list) sample_pick"
  by (simp add: selects_def sample_pick_def InitRouter_def public_routes_def users_group_def route_def fits_def Split.simps)

lemma anonymous_not_bearer [simp]: "\<not> bearer lib u anonymous w claims"
  by (simp add: bearer_def authorizationToken_def anonymous_def)

lemma sample_lib: "jwt_sound (d_lib sample_deps)"
  using toy_lib_laws(1) by (simp add: sample_deps_def)


theorem v2_protected_witness:
  "(let x = serve_v2 sample_deps sample_v2 ''/v2/users'' sample_pick GET ''/v2/users/events'' anonymous api_world in
      fst x = ErrUnauthorized \<and> idle api_world (snd x))"
  using v2_protected [OF sample_lib, of sample_v2 "''/v2/users''" sample_pick GET "''/v2/users/events''" anonymous api_world
      "fst (serve_v2 sample_deps sample_v2 ''/v2/users'' sample_pick GET ''/v2/users/events'' anonymous api_world)"
      "snd (serve_v2 sample_deps sample_v2 ''/v2/users'' sample_pick GET ''/v2/users/events'' anonymous api_world)"]
    by (simp add: Let_def)

text \<open>A request of each version and a message.\<close>

definition morning :: "app_world \<Rightarrow> app_world" where
  "morning w =
     snd (serve_v2 sample_deps sample_v2 ''/v2/users'' sample_pick GET ''/v2/users/events'' anonymous
       (snd (serve sample_deps sample_pick DELETE ''/v1/users/2'' anonymous w)))"

lemma morning_traffic: "traffic sample_deps sample_v2 ''/v2/users'' silent_bus w (morning w)"
  unfolding morning_def
  by (rule traffic.request_v2 [OF traffic.request [OF traffic.quiet] prod.collapse [symmetric]] prod.collapse [symmetric])
    (rule prod.collapse [symmetric])

lemma api_world_ok: "wf_db (db api_world)" "environment_ok wf_db (env api_world)"
  "environment_ok (\<lambda>d. users_kept old (o_users d)) (env api_world)"
proof -
  have db: "db api_world = db staff_world" "env api_world = env staff_world"
    by (simp_all add: api_world_def staff_world_def calm_world_def)
  show "wf_db (db api_world)" "environment_ok wf_db (env api_world)" using staff_ok numbering_ok by (simp_all add: db)
  show "environment_ok (\<lambda>d. users_kept old (o_users d)) (env api_world)"
    by (simp add: environment_ok_def safe_def insert_event_def api_world_def numbering_env_def calm_env_def)
qed


theorem traffic_keeps_accounts_witness:
  "traffic sample_deps sample_v2 ''/v2/users'' silent_bus api_world (morning api_world) \<and>
   environment_ok (\<lambda>d. users_kept (o_users (db api_world)) (o_users d)) (env api_world) \<and>
   users_kept (o_users (db api_world)) (o_users (db (morning api_world)))"
  using traffic_keeps_accounts [OF morning_traffic api_world_ok(3)] morning_traffic api_world_ok by blast

lemma Atoi_exact: "Atoi (Itoa n) = Some m \<Longrightarrow> m = n"
proof (cases "n < 0")
  case False
  assume a: "Atoi (Itoa n) = Some m"
  have "hd (dec_of_nat (nat n)) \<noteq> CHR ''-''" "hd (dec_of_nat (nat n)) \<noteq> CHR ''+''"
    using is_digit_not_sign dec_of_nat_hd_digit by blast+
  with False a show ?thesis by (simp add: Atoi_def Itoa_def Let_def split: if_splits)
qed (simp add: Atoi_def Itoa_def Let_def split: if_splits)

lemma api_store: "config_store sample_deps 1 api_world" "exact_affinity (env api_world)"
proof -
  have "world.more config_world = \<lparr>files = config_fs, sys = calm_sys\<rparr>" by (simp add: config_world_def)
  then show "config_store sample_deps 1 api_world"
    using config_world_ok
    by (auto simp: config_store_def sample_deps_def api_world_def config_world_def undisturbed_def)
  show "exact_affinity (env api_world)"
    using Atoi_exact by (simp add: exact_affinity_def api_world_def numbering_env_def calm_env_def)
qed

theorem config_isolation_witness:
  "config_store sample_deps 1 api_world \<and> exact_affinity (env api_world) \<and>
   user_config (files (snd (serve sample_deps sample_pick DELETE ''/v1/users/2'' anonymous api_world))) 1 7 ''system'' =
   user_config (files api_world) 1 7 ''system''"
  using config_isolation [OF sample_lib api_store, of sample_pick DELETE "''/v1/users/2''" anonymous
      "fst (serve sample_deps sample_pick DELETE ''/v1/users/2'' anonymous api_world)"
      "snd (serve sample_deps sample_pick DELETE ''/v1/users/2'' anonymous api_world)" 7 "''system''"]
    api_store by simp

end
