(* ===== verification/Password_Change.thy ===== *)
theory Password_Change
  imports Handlers
begin

text \<open>
  The effect of a password change (\<open>ChangeUserPassword\<close> in \<open>src/service/user.go\<close>) on the tables.
\<close>

lemma Hash_frame: "Hash idkey p w = (r, w') \<Longrightarrow> db w' = db w \<and> env w' = env w"
  by (auto simp: Hash_def hashWithReader_def deriveKey_def rand_Read_def Let_def
      split: sum.splits prod.splits option.splits if_splits)

lemma Verify_any: "fst (Verify idkey enc pw w) = fst (Verify idkey enc pw v)"
  by (simp add: verify_result)

lemma Verify_new:
  assumes "idkey_length idkey" and "Hash idkey pw w = (Inr h, w')"
  shows "fst (Verify idkey h pw v) = Inr ()"
  using assms(2,1) unfolding Hash_def by (rule parse_hashWithReader) (simp add: verify_result)

lemma Log_tables:
  "ready w \<Longrightarrow> o_users (db (LogCredentialEvent u a b c d e w)) = o_users (db w) \<and>
     o_refresh_sessions (db (LogCredentialEvent u a b c d e w)) = o_refresh_sessions (db w)"
  by (auto simp: LogCredentialEvent_def time_Now_def insert_event_def sql Let_def split: sum.splits)

definition change_row :: "string \<Rightarrow> time \<Rightarrow> UserDBModel \<Rightarrow> UserDBModel" where
  "change_row newHash stamp r = r\<lparr>u_Password := newHash, u_TokenVersion := u_TokenVersion r + 1, u_UpdatedAt := stamp\<rparr>"

lemma change_effect:
  fixes w w' :: "'x world_scheme"
  assumes "ready w" and "ChangeUserPassword idkey u uid oldPassword newPassword w = (Inr (), w')"
  obtains user newHash stamp now and v v' :: "'x world_scheme" where
    "First u_Id (has_id (env w) uid) (o_users (db w)) = Inr user"
    "fst (Verify idkey (u_Password user) oldPassword w) = Inr ()"
    "Hash idkey newPassword v = (Inr newHash, v')"
    "o_users (db w') = update_where (\<lambda>r. u_Id r = u_Id user \<and> u_Password r = u_Password user) (change_row newHash stamp) (o_users (db w))"
    "o_refresh_sessions (db w') = update_where (\<lambda>r. rs_UserID r = u_Id user \<and> rs_RevokedAt r = None)
       (revoke_row now ''password change'') (o_refresh_sessions (db w))"
proof -
  obtain r1 w1 where 1: "autocommit UserDBModel_TableName (first_user (has_id (env w) uid)) w = (r1, w1)" by fastforce
  obtain user where user: "r1 = Inr user"
    using assms(2) 1 by (cases r1) (auto simp: ChangeUserPassword_def split: sum.splits if_splits)
  have w1: "First u_Id (has_id (env w) uid) (o_users (db w)) = Inr user" "w1 = w\<lparr>tick := Suc (tick w)\<rparr>"
    using 1 user assms(1) by (auto simp: sql first_user_def split: sum.splits)
  obtain r2 w2 where 2: "Verify idkey (u_Password user) oldPassword w1 = (r2, w2)" by fastforce
  have w2: "db w2 = db w1" "env w2 = env w1" using verify_frame [of idkey "u_Password user" oldPassword w1] 2 by simp_all
  obtain r3 w3 where 3: "Hash idkey newPassword w2 = (r3, w3)" by fastforce
  have w3: "db w3 = db w" "env w3 = env w" using Hash_frame [OF 3] w2 w1(2) by simp_all
  have ok2: "r2 = Inr ()"
    using assms(2) 1 user 2 by (cases r2) (auto simp: ChangeUserPassword_def split: sum.splits if_splits)
  obtain newHash where h: "r3 = Inr newHash"
    using assms(2) 1 user 2 ok2 3 by (cases r3) (auto simp: ChangeUserPassword_def split: sum.splits if_splits)
  obtain stamp w4 where 4: "time_Now w3 = (stamp, w4)" by fastforce
  have w4: "ready w4" "db w4 = db w" using 4 w3 assms(1) by (auto simp: time_Now_def ready_def quiet_def)
  define d5 where "d5 = (db w)\<lparr>o_users := update_where (\<lambda>r. u_Id r = u_Id user \<and> u_Password r = u_Password user)
     (change_row newHash stamp) (o_users (db w))\<rparr>"
  let ?cas = "with_version (update_users (\<lambda>r. u_Id r = u_Id user \<and> u_Password r = u_Password user)
    (\<lambda>r. r\<lparr>u_Password := newHash, u_TokenVersion := u_TokenVersion r + 1, u_UpdatedAt := stamp\<rparr>))"
  have "has_token_version (db w4)" using w4(1) by (simp add: ready_def migrated_def)
  then have cas: "\<exists>n. ?cas (db w4) = Inr (n, d5)"
    using w4(2) by (simp add: with_version_def update_users_def d5_def change_row_def [abs_def])
  obtain r5 w5 where 50: "autocommit UserDBModel_TableName ?cas w4 = (r5, w5)" by fastforce
  have w5: "\<exists>n. r5 = Inr n" "db w5 = d5" "ready w5"
    using 50 cas w4 assms(1) by (auto simp: sql d5_def)
  then obtain n where 5: "autocommit UserDBModel_TableName ?cas w4 = (Inr n, w5)" using 50 by blast
  obtain now w6 where 6: "time_Now w5 = (now, w6)" by fastforce
  have w6: "ready w6" "db w6 = d5" using 6 w5 by (auto simp: time_Now_def)
  obtain r7 w7 where 7: "revokeUserSessions (u_Id user) now ''password change'' w6 = (r7, w7)" by fastforce
  have w7: "ready w7" "o_users (db w7) = o_users d5" "o_refresh_sessions (db w7) =
      update_where (\<lambda>r. rs_UserID r = u_Id user \<and> rs_RevokedAt r = None) (revoke_row now ''password change'') (o_refresh_sessions (db w))"
    using 7 w6 assms(1) by (auto simp: revokeUserSessions_def sql update_sessions_def d5_def)
  have "w' = LogCredentialEvent (Some u) (u_Id user) CredentialEventPasswordChanged True ''password-change'' [] w7"
    using assms(2) 1 user 2 ok2 3 h 4 5 6 7 by (auto simp: ChangeUserPassword_def split: sum.splits if_splits)
  then have tables: "o_users (db w') = o_users d5" "o_refresh_sessions (db w') = o_refresh_sessions (db w7)"
    using Log_tables [OF w7(1)] w7(2) by simp_all
  have ver: "fst (Verify idkey (u_Password user) oldPassword w) = Inr ()" using 2 ok2 Verify_any by (metis fst_conv)
  show thesis by (rule that [OF w1(1) ver 3 [unfolded h]]) (use tables w7(3) in \<open>simp_all add: d5_def\<close>)
qed

text \<open>C33.  A password change does what it says.  When \<open>ChangeUserPassword\<close> succeeds on a working database, the
  old password was the account's, the account now accepts the new one, its credential generation has
  grown by one (so no access token issued before is admitted), none of its refresh sessions is
  live, and no other account has changed.\<close>

theorem password_change_effect:
  fixes w w' :: "'x world_scheme"
  assumes "ready w" and "wf_db (db w)" and "idkey_length idkey"
    and "ChangeUserPassword idkey u uid oldPassword newPassword w = (Inr (), w')"
  shows "\<exists>r q. has_id (env w) uid r \<and> fst (Verify idkey (u_Password r) oldPassword w) = Inr () \<and>
     u_Id q = u_Id r \<and> u_Role q = u_Role r \<and> u_TokenVersion q = u_TokenVersion r + 1 \<and>
     fst (Verify idkey (u_Password q) newPassword w') = Inr () \<and>
     o_users (db w') = map (\<lambda>x. if x = r then q else x) (o_users (db w)) \<and> r \<in> set (o_users (db w)) \<and>
     (\<nexists>s. s \<in> set (o_refresh_sessions (db w')) \<and> rs_UserID s = u_Id r \<and> rs_RevokedAt s = None)"
proof -
  obtain r newHash stamp now and v v' :: "'x world_scheme" where e:
    "First u_Id (has_id (env w) uid) (o_users (db w)) = Inr r"
    "fst (Verify idkey (u_Password r) oldPassword w) = Inr ()" "Hash idkey newPassword v = (Inr newHash, v')"
    "o_users (db w') = update_where (\<lambda>x. u_Id x = u_Id r \<and> u_Password x = u_Password r) (change_row newHash stamp) (o_users (db w))"
    "o_refresh_sessions (db w') = update_where (\<lambda>s. rs_UserID s = u_Id r \<and> rs_RevokedAt s = None)
       (revoke_row now ''password change'') (o_refresh_sessions (db w))"
    using change_effect [OF assms(1,4)] .
  have r: "r \<in> set (o_users (db w))" "has_id (env w) uid r" using First_Inr [OF e(1)] by simp_all
  have "x = r" if "x \<in> set (o_users (db w))" "u_Id x = u_Id r" for x
    using that r(1) wf_dbD(1) [OF assms(2)] by (auto simp: distinct_map inj_on_def)
  then have "o_users (db w') = map (\<lambda>x. if x = r then change_row newHash stamp r else x) (o_users (db w))"
    unfolding e(4) update_where_def by (intro map_cong) auto
  moreover have "\<nexists>s. s \<in> set (o_refresh_sessions (db w')) \<and> rs_UserID s = u_Id r \<and> rs_RevokedAt s = None"
    unfolding e(5) update_where_def by (auto simp: revoke_row_def split: if_splits)
  ultimately show ?thesis
    using r e(2) Verify_new [OF assms(3) e(3)]
    by (intro exI [of _ r] exI [of _ "change_row newHash stamp r"]) (simp add: change_row_def)
qed

text \<open>A user who changes the password \<open>secret\<close>.\<close>

definition old_hash :: string where
  "old_hash = encodeHash defaultParameters (replicate 16 (char_of (0::nat))) (replicate 32 (CHR ''s''))"

definition change_db :: db where
  "change_db = empty_db\<lparr>o_users := [zero_user\<lparr>u_Id := 1, u_Username := ''ann'', u_Password := old_hash\<rparr>]\<rparr>"

lemma toy_Hash_any:
  "env w = calm_env \<Longrightarrow> \<exists>h w'. Hash toy_idkey p w = (Inr h, w')"
  by (simp add: Hash_def hashWithReader_def rand_Read_def calm_env_def
      deriveKey_def toy_idkey_def defaultParameters_def limits validateParameters_def Let_def)

lemma change_ready: "ready (calm_world change_db)" "wf_db (db (calm_world change_db))"
  by (simp_all add: ready_def quiet_def migrated_def calm_world_def calm_env_def change_db_def empty_db_def wf_db_def)

lemma change_succeeds:
  "\<exists>w'. ChangeUserPassword toy_idkey sample_service ''1'' ''secret'' ''correct horse battery'' (calm_world change_db) = (Inr (), w')"
proof -
  let ?w = "calm_world change_db" and ?r = "zero_user\<lparr>u_Id := 1, u_Username := ''ann'', u_Password := old_hash\<rparr>"
  have r: "ready ?w" "env ?w = calm_env" "o_users (db ?w) = [?r]"
    using change_ready by (simp_all add: calm_world_def change_db_def)
  have id: "has_id (env ?w) ''1'' ?r" using Atoi_Itoa [of 1] by (simp add: has_id_def r(2) calm_env_def) code_simp
  have 1: "autocommit UserDBModel_TableName (first_user (has_id (env ?w) ''1'')) ?w = (Inr ?r, ?w\<lparr>tick := Suc (tick ?w)\<rparr>)"
    using r id readyD(2) [OF r(1)] by (simp add: sql first_user_def First_def)
  have "fst (Verify toy_idkey (u_Password ?r) ''secret'' v) = Inr ()" for v :: world
    using Verify_new [OF toy_idkey_length toy_Hash] by (simp add: old_hash_def)
  then obtain w2 where 2: "Verify toy_idkey (u_Password ?r) ''secret'' (?w\<lparr>tick := Suc (tick ?w)\<rparr>) = (Inr (), w2)"
    by (metis prod.collapse)
  have w2: "db w2 = change_db" "env w2 = calm_env"
    using verify_frame [of toy_idkey "u_Password ?r" "''secret''" "?w\<lparr>tick := Suc (tick ?w)\<rparr>"] 2 r by (simp_all add: calm_world_def)
  obtain h w3 where 3: "Hash toy_idkey ''correct horse battery'' w2 = (Inr h, w3)" using toy_Hash_any [OF w2(2)] by blast
  have w3: "db w3 = change_db" "env w3 = calm_env" using Hash_frame [OF 3] w2 by simp_all
  have r3: "ready (w3\<lparr>tick := n\<rparr>)" for n
    using r(1) w3 by (simp add: ready_def quiet_def calm_world_def)
  have "\<exists>w5. autocommit UserDBModel_TableName
        (with_version (update_users (\<lambda>x. u_Id x = u_Id ?r \<and> u_Password x = u_Password ?r)
           (\<lambda>x. x\<lparr>u_Password := h, u_TokenVersion := u_TokenVersion x + 1, u_UpdatedAt := stamp\<rparr>))) (w3\<lparr>tick := n\<rparr>) = (Inr 1, w5)" for stamp n
    using r3 [of n] w3 by (simp add: sql with_version_def update_users_def change_db_def empty_db_def all_tables_def RowsAffected_def)
  then obtain w5 where 5: "autocommit UserDBModel_TableName
        (with_version (update_users (\<lambda>x. u_Id x = u_Id ?r \<and> u_Password x = u_Password ?r)
           (\<lambda>x. x\<lparr>u_Password := h, u_TokenVersion := u_TokenVersion x + 1, u_UpdatedAt := clock calm_env (tick w3)\<rparr>)))
        (w3\<lparr>tick := Suc (tick w3)\<rparr>) = (Inr 1, w5)" by blast
  have "ValidateNewPassword ''correct horse battery'' = Inr ()" by code_simp
  then show ?thesis
    using 1 2 3 5 w3(2) by (simp add: ChangeUserPassword_def time_Now_def split: prod.splits)
qed

theorem password_change_effect_witness:
  "\<exists>w' r q. ChangeUserPassword toy_idkey sample_service ''1'' ''secret'' ''correct horse battery'' (calm_world change_db) = (Inr (), w') \<and>
     u_TokenVersion q = u_TokenVersion r + 1 \<and> fst (Verify toy_idkey (u_Password q) ''correct horse battery'' w') = Inr () \<and>
     o_users (db w') = map (\<lambda>x. if x = r then q else x) (o_users change_db)"
proof -
  obtain w' where c: "ChangeUserPassword toy_idkey sample_service ''1'' ''secret'' ''correct horse battery'' (calm_world change_db) = (Inr (), w')"
    using change_succeeds by blast
  have "db (calm_world change_db) = change_db" by (simp add: calm_world_def)
  then show ?thesis using password_change_effect [OF change_ready toy_idkey_length c] c by auto
qed

end
