(* ===== verification/Password_Reset.thy ===== *)
theory Password_Reset
  imports File_Seal Password_Change
begin

text \<open>
  The effect of the offline password resets (\<open>ResetAdminPassword\<close> and \<open>ResetUserPassword\<close> in
  \<open>src/service/user.go\<close>) on the tables and the seal.
\<close>

section \<open>Loading the target\<close>

lemma take_two: "take 2 xs = [x] \<Longrightarrow> xs = [x]"
  by (cases xs; cases "tl xs") auto

lemma load_target_ok:
  assumes "ready w" and "run = autocommit \<or> run = in_tx" and "load_target check run username w = (Inr r, w')"
  shows "\<exists>x. filter (\<lambda>x. u_Username x = username) (o_users (db w)) = [x] \<and> check x = Inr r"
    "\<exists>n. w' = w\<lparr>tick := n\<rparr>"
proof -
  have "run UserDBModel_TableName (\<lambda>d. Inr (take 2 (filter (\<lambda>r. u_Username r = username) (o_users d)), d)) w =
      (Inr (take 2 (filter (\<lambda>r. u_Username r = username) (o_users (db w)))), w\<lparr>tick := Suc (tick w)\<rparr>)"
    using assms(1,2) by (auto simp: sql)
  then show "\<exists>x. filter (\<lambda>x. u_Username x = username) (o_users (db w)) = [x] \<and> check x = Inr r"
    "\<exists>n. w' = w\<lparr>tick := n\<rparr>"
    using assms(1,3) by (auto simp: load_target_def sql split: list.splits dest: take_two)
qed

definition kind_of :: "bool \<Rightarrow> 'x reset_kind" where
  "kind_of admin = (if admin then admin_kind else user_kind)"

lemma load_kind_ok:
  assumes "ready w" and "run = autocommit \<or> run = in_tx" and "load_with (kind_of admin) run username w = (Inr r, w')"
  shows "filter (\<lambda>x. u_Username x = username) (o_users (db w)) = [r] \<and> is_admin r = admin \<and> (\<exists>n. w' = w\<lparr>tick := n\<rparr>)"
  using load_target_ok [OF assms(1,2), of _ username r w'] assms(3)
  by (cases admin)
    (fastforce simp: kind_of_def admin_kind_def user_kind_def loadUniqueAdministrator_def loadUniqueNonAdministrator_def
      admin_target_def user_target_def split: if_splits)+

section \<open>Before the transaction\<close>

lemma table_exists_ok:
  assumes "ready w" and "bootstrapStateTableExists w = (Inr b, w')"
  shows "b \<and> (\<exists>n. w' = w\<lparr>tick := n\<rparr>)"
proof -
  have "BootstrapStateDBModel_TableName \<in> set (schema (db w))" using assms(1) by simp
  then have "count_list (schema (db w)) BootstrapStateDBModel_TableName \<noteq> 0" by (simp add: count_list_0_iff)
  then show ?thesis
    using assms by (auto simp: bootstrapStateTableExists_def any_table_def sql split: if_splits)
qed

context seal_contract
begin

text \<open>A world that database work has reached from \<open>w\<close> without changing the tables.\<close>

definition near :: "'x world_scheme \<Rightarrow> 'x world_scheme \<Rightarrow> bool" where
  "near w v \<longleftrightarrow> db v = db w \<and> env v = env w \<and> content v = content w \<and> sound v"

lemma near_tick: "near w v \<Longrightarrow> near w (v\<lparr>tick := n\<rparr>)"
  using db_indep [of v "v\<lparr>tick := n\<rparr>"] by (simp add: near_def)

lemma near_ready: "near w v \<Longrightarrow> ready w \<Longrightarrow> ready v"
  by (simp add: near_def ready_def quiet_def)

lemma near_load:
  assumes "near w v" and "Seal_Load sl v = (Inr (i, ex), v')"
  shows "near w v' \<and> (if ex then content w = Some i else content w = None)"
  using load_spec [of v] assms by (auto simp: near_def split: option.splits)

lemma reconciled:
  assumes "near w v" and "ready w" and "ReconcileState (Some sl) v = ((st, None), v')" and "Status st = StatusInitialized"
  shows "state_only (db w) (db v') \<and> env v' = env w \<and> sound v' \<and> marker_of (db v') = Some st"
proof -
  have v: "sound v" "quiet v" "db v = db w" "env v = env w"
    using assms(1) near_ready [OF assms(1,2)] by (simp_all add: near_def)
  show ?thesis
    using v(1) assms(3)
  proof (cases rule: reconcile_cases)
    case (ran newID d1 w2 cr)
    have d1: "d1 = db w" using ran(9) v by simp
    show ?thesis
    proof (cases cr)
      case True
      then have "content w2 = None" "validInstallationID (InstallationID st)"
        using decide_create [of _ _ _ newID st] ran(1,2,7) by metis+
      then show ?thesis
        using True ran(10) create_new [OF ran(8)] ran(4,5,6) d1 v(4) by fastforce
    next
      case False
      then show ?thesis using ran d1 v(4) by simp
    qed
  qed simp
qed

lemma preflight_ok:
  assumes "near w v" and "ready w" and "reset_preflight (kind_of admin) sl username v = (Inr st, v')"
  shows "state_only (db w) (db v') \<and> env v' = env w \<and> marker_of (db v') = Some st \<and> Status st = StatusInitialized \<and>
    content v' = Some (InstallationID st) \<and> sound v'"
proof -
  let ?k = "kind_of admin :: 'x reset_kind"
  note p = assms(3)
  obtain v1 where 1: "driver_call v = (Inr (), v1)" and n1: "near w v1"
    using near_ready [OF assms(1,2)] near_tick [OF assms(1)] by (simp add: sql)
  obtain i ex v2 where 2: "Seal_Load sl v1 = (Inr (i, ex), v2)"
    using p 1 by (auto simp: reset_preflight_def split: prod.splits sum.splits)
  have n2: "near w v2" using near_load [OF n1 2] by simp
  obtain b v3 where 3: "bootstrapStateTableExists v2 = (Inr b, v3)"
    using p 1 2 by (auto simp: reset_preflight_def split: prod.splits sum.splits)
  have b: "b" "near w v3" using table_exists_ok [OF near_ready [OF n2 assms(2)] 3] near_tick [OF n2] by auto
  obtain r v4 where 4: "load_with ?k autocommit username v3 = (Inr r, v4)"
    using p 1 2 3 by (auto simp: reset_preflight_def split: prod.splits sum.splits)
  have n4: "near w v4" using load_kind_ok [OF near_ready [OF b(2) assms(2)] _ 4] near_tick [OF b(2)] by auto
  obtain marker v6 where 6: "autocommit BootstrapStateDBModel_TableName select_state v4 = (marker, v6)" by fastforce
  have n6: "near w v6"
    using 6 near_ready [OF n4 assms(2)] near_tick [OF n4] by (auto simp: sql select_state_def split: option.splits)
  obtain v7 where 7: "ReconcileState (Some sl) v6 = ((st, None), v7)" and init: "Status st = StatusInitialized"
    and 8: "Seal_Load sl v7 = (Inr (InstallationID st, True), v')"
    using p 1 2 3 b(1) 4 6 by (auto simp: reset_preflight_def split: prod.splits sum.splits option.splits if_splits)
  have r: "state_only (db w) (db v7)" "env v7 = env w" "sound v7" "marker_of (db v7) = Some st"
    using reconciled [OF n6 assms(2) 7 init] by simp_all
  then have "near v7 v7" by (simp add: near_def)
  note near_load [OF this 8]
  then show ?thesis using r init by (simp add: near_def)
qed

end

section \<open>The transaction\<close>

definition reset_row :: "string \<Rightarrow> time \<Rightarrow> UserDBModel \<Rightarrow> UserDBModel" where
  "reset_row newHash stamp r = r\<lparr>u_Password := newHash, u_UpdatedAt := stamp, u_TokenVersion := u_TokenVersion r + 1\<rparr>"

definition advanced :: "int \<Rightarrow> db \<Rightarrow> db" where
  "advanced i d = d\<lparr>o_users := update_where (\<lambda>x. u_Id x = i) (\<lambda>x. x\<lparr>u_TokenVersion := u_TokenVersion x + 1\<rparr>) (o_users d)\<rparr>"

definition without_sessions :: "int \<Rightarrow> db \<Rightarrow> db" where
  "without_sessions i d = d\<lparr>o_refresh_sessions := delete_where (\<lambda>s. rs_UserID s = i) (o_refresh_sessions d)\<rparr>"

lemma legacy_steps:
  assumes "ready w"
  shows "legacy_exec UserDBModel_TableName (advance_version i) what w = (Inr (), w\<lparr>db := advanced i (db w), tick := Suc (tick w)\<rparr>)"
    "legacy_exec RefreshSessionDBModel_TableName (drop_sessions i) what w = (Inr (), w\<lparr>db := without_sessions i (db w), tick := Suc (tick w)\<rparr>)"
proof -
  have "has_token_version (db w)" using readyD(2) [OF assms] by (simp add: migrated_def)
  then show "legacy_exec UserDBModel_TableName (advance_version i) what w = (Inr (), w\<lparr>db := advanced i (db w), tick := Suc (tick w)\<rparr>)"
    using assms by (simp add: legacy_exec_def sql advance_version_def with_version_def advanced_def)
  show "legacy_exec RefreshSessionDBModel_TableName (drop_sessions i) what w = (Inr (), w\<lparr>db := without_sessions i (db w), tick := Suc (tick w)\<rparr>)"
    using assms by (simp add: legacy_exec_def sql drop_sessions_def without_sessions_def)
qed

lemma unique_row:
  assumes "filter P xs = [r]" and "distinct (map key xs)"
  shows "r \<in> set xs" "P r" "x \<in> set xs \<Longrightarrow> key x = key r \<Longrightarrow> x = r"
proof -
  have "r \<in> set (filter P xs)" using assms(1) by simp
  then show m: "r \<in> set xs" "P r" by simp_all
  show "x \<in> set xs \<Longrightarrow> key x = key r \<Longrightarrow> x = r" using assms(2) m(1) by (auto simp: distinct_map inj_on_def)
qed

lemma reset_tx_ok:
  assumes "ready w" and "distinct (map u_Id (o_users (db w)))"
    and "reset_tx (kind_of admin) st username newHash w = (Inr userID, w')"
  shows "\<exists>r stamp. filter (\<lambda>x. u_Username x = username) (o_users (db w)) = [r] \<and> is_admin r = admin \<and> userID = u_Id r \<and>
     db w' = (db w)\<lparr>o_users := map (\<lambda>x. if x = r then reset_row newHash stamp r else x) (o_users (db w)),
       o_refresh_sessions := delete_where (\<lambda>s. rs_UserID s = u_Id r) (o_refresh_sessions (db w))\<rparr> \<and> db_only w w'"
proof -
  let ?k = "kind_of admin :: 'a reset_kind"
  note p = assms(3)
  obtain m w1 where 1: "in_tx BootstrapStateDBModel_TableName select_state w = (Inr m, w1)"
    using p by (auto simp: reset_tx_def split: prod.splits sum.splits)
  have w1: "\<exists>n. w1 = w\<lparr>tick := n\<rparr>" using 1 assms(1) by (auto simp: sql select_state_def split: option.splits)
  then have r1: "ready w1" "db w1 = db w" "env w1 = env w" using assms(1) by auto
  obtain r w2 where 2: "load_with ?k in_tx username w1 = (Inr r, w2)"
    using p 1 by (auto simp: reset_tx_def split: prod.splits sum.splits if_splits)
  have r: "filter (\<lambda>x. u_Username x = username) (o_users (db w)) = [r]" "is_admin r = admin" "\<exists>n. w2 = w1\<lparr>tick := n\<rparr>"
    using load_kind_ok [OF r1(1) _ 2] r1(2) by auto
  then have r2: "ready w2" "db w2 = db w" "env w2 = env w" using r1 by auto
  note un = unique_row [OF r(1) assms(2)]
  obtain stamp w3 where 3: "current_timestamp w2 = (stamp, w3)" by fastforce
  have r3: "ready w3" "db w3 = db w" "env w3 = env w" using 3 r2 by (auto simp: current_timestamp_def time_Now_def)
  let ?P = "\<lambda>x. u_Id x = u_Id r \<and> u_Username x = username \<and> cas_role ?k r x \<and> u_Password x = u_Password r"
  let ?f = "\<lambda>x. x\<lparr>u_Password := newHash, u_UpdatedAt := stamp\<rparr>"
  have role: "cas_role ?k r r" using r(2) by (simp add: kind_of_def admin_kind_def user_kind_def)
  have P: "?P x \<longleftrightarrow> x = r" if "x \<in> set (o_users (db w))" for x using un(3) [OF that] un(2) role by auto
  define d4 where "d4 = (db w)\<lparr>o_users := update_where ?P ?f (o_users (db w))\<rparr>"
  obtain rows w4 where 4: "in_tx UserDBModel_TableName (update_users ?P ?f) w3 = (Inr rows, w4)"
    using p 1 2 3 by (auto simp: reset_tx_def split: prod.splits sum.splits if_splits)
  have r4: "ready w4" "db w4 = d4" "env w4 = env w" using 4 r3 assms(1) by (auto simp: sql update_users_def d4_def)
  obtain w5 where 5: "driver_call w4 = (Inr (), w5)" and w5: "w5 = w4\<lparr>tick := Suc (tick w4)\<rparr>" using r4(1) by (simp add: sql)
  have r5: "ready w5" "db w5 = d4" "env w5 = env w" using r4 w5 by simp_all
  define w6 where "w6 = w5\<lparr>db := advanced (u_Id r) d4, tick := Suc (tick w5)\<rparr>"
  have r6: "ready w6" "env w6 = env w" using r5 readyD(2) [OF r5(1)] by (simp_all add: w6_def advanced_def)
  have fin: "userID = u_Id r" "db w' = without_sessions (u_Id r) (advanced (u_Id r) d4)" "db_only w6 w'"
    using p 1 2 3 4 5 legacy_steps [OF r5(1)] legacy_steps [OF r6(1)] r5(2) r6(2)
    by (auto simp: reset_tx_def w6_def [symmetric] split: if_splits) (simp_all add: w6_def)
  have "o_users (advanced (u_Id r) d4) = map (\<lambda>x. if x = r then reset_row newHash stamp r else x) (o_users (db w))"
    using P un(3) by (auto simp: advanced_def d4_def update_where_def reset_row_def)
  moreover have "db_only w w'"
  proof -
    have "db_only w w3" using w1 r(3) 3 by (auto simp: current_timestamp_def time_Now_def)
    moreover have "db_only w4 w6" by (simp add: w6_def w5)
    ultimately show ?thesis using db_only_in_tx [OF 4] fin(3) by (blast intro: db_only_trans)
  qed
  ultimately show ?thesis
    using r(1,2) fin by (intro exI [of _ r] exI [of _ stamp]) (simp add: without_sessions_def advanced_def d4_def)
qed

section \<open>The reset\<close>

lemma create_event_tables:
  assumes "ready w"
  shows "o_users (db (create_event i a t s w)) = o_users (db w)"
    "o_refresh_sessions (db (create_event i a t s w)) = o_refresh_sessions (db w)"
    "marker_of (db (create_event i a t s w)) = marker_of (db w)" "db_only w (create_event i a t s w)"
  using assms
  by (simp_all add: create_event_def time_Now_def sql insert_event_def marker_of_def Let_def split: sum.splits)

lemma Hash_files: "Hash idkey p w = (r, w') \<Longrightarrow> files w' = files w \<and> sys w' = sys w"
  by (auto simp: Hash_def hashWithReader_def deriveKey_def rand_Read_def Let_def
      split: sum.splits prod.splits option.splits if_splits)

lemma reset_steps:
  fixes w w' :: "'x world_scheme"
  assumes "reset_password k idkey (Some sl) username password w = (Inr (), w')"
  obtains newHash w1 st w2 w3 a b userID w4 src where "Hash idkey password w = (Inr newHash, w1)"
    "reset_preflight k sl username w1 = (Inr st, w2)" "driver_call w2 = (Inr (), w3)"
    "Transaction a b (reset_tx k st username newHash) w3 = (Inr userID, w4)"
    "w' = create_event [] userID CredentialEventPasswordReset src w4"
  using assms by (auto simp: reset_password_def split: if_splits sum.splits prod.splits)

lemma marker_of_frame: "d' = d\<lparr>o_users := us, o_refresh_sessions := ss\<rparr> \<Longrightarrow> marker_of d' = marker_of d"
  by (simp add: marker_of_def)

lemma reset_committed:
  assumes "ready w2" and "wf_db (db w2)" and "driver_call w2 = (Inr (), w3)"
    and "Transaction a b (reset_tx (kind_of admin) st username newHash) w3 = (Inr userID, w4)"
  obtains r stamp where "filter (\<lambda>x. u_Username x = username) (o_users (db w2)) = [r]" "is_admin r = admin"
    "db w4 = (db w2)\<lparr>o_users := map (\<lambda>x. if x = r then reset_row newHash stamp r else x) (o_users (db w2)),
       o_refresh_sessions := delete_where (\<lambda>s. rs_UserID s = u_Id r) (o_refresh_sessions (db w2))\<rparr>"
    "ready w4" "db_only w2 w4"
proof -
  obtain x2 where t: "reset_tx (kind_of admin) st username newHash ((interfered w3)\<lparr>tick := Suc (tick w3)\<rparr>) = (Inr userID, x2)"
    and w4: "w4 = x2\<lparr>tick := Suc (tick x2)\<rparr>"
    using assms(4) by (rule Transaction_ok)
  have w3: "w3 = w2\<lparr>tick := Suc (tick w2)\<rparr>" using assms(1,3) by (simp add: sql)
  define v where "v = (interfered w3)\<lparr>tick := Suc (tick w3)\<rparr>"
  have v: "db v = db w2" "ready v" "db_only w2 v" using assms(1) by (simp_all add: v_def w3 interfered_quiet)
  have "distinct (map u_Id (o_users (db v)))" using wf_dbD(1) [OF assms(2)] v(1) by simp
  from reset_tx_ok [OF v(2) this t [folded v_def]] obtain r stamp where
    r: "filter (\<lambda>x. u_Username x = username) (o_users (db w2)) = [r]" "is_admin r = admin"
    and d: "db x2 = (db w2)\<lparr>o_users := map (\<lambda>x. if x = r then reset_row newHash stamp r else x) (o_users (db w2)),
       o_refresh_sessions := delete_where (\<lambda>s. rs_UserID s = u_Id r) (o_refresh_sessions (db w2))\<rparr>"
    and o: "db_only v x2"
    unfolding v(1) by blast
  have "ready w4" using assms(1) db_onlyD(1) [OF o] db_onlyD(1) [OF v(3)] d by (intro ready_env [OF assms(1)]) (simp_all add: w4)
  moreover have "db_only w2 w4" using v(3) o by (simp add: w4) (blast intro: db_only_trans)
  ultimately show thesis using that [OF r, of stamp] d by (simp add: w4)
qed

text \<open>C34.  An offline reset does what it says.  When it succeeds on a working database, exactly one account has
  the given name, and it is an administrator for the administrator reset and none for the user
  reset; the account now accepts the new password, keeps its role, has the next credential generation
  and no refresh session, no other account has changed, and the installation is initialized with its
  seal in place.\<close>

theorem password_reset_effect:
  fixes w w' :: "'x fs_world_scheme"
  assumes "ready w" and "wf_db (db w)" and "seal_sound s w" and "idkey_length idkey"
    and "(if admin then ResetAdminPassword else ResetUserPassword) idkey (Some (file_seal s)) username password w = (Inr (), w')"
  shows "\<exists>r q i. filter (\<lambda>x. u_Username x = username) (o_users (db w)) = [r] \<and> is_admin r = admin \<and>
     u_Id q = u_Id r \<and> u_Username q = username \<and> u_Role q = u_Role r \<and> u_TokenVersion q = u_TokenVersion r + 1 \<and>
     fst (Verify idkey (u_Password q) password w') = Inr () \<and>
     o_users (db w') = map (\<lambda>x. if x = r then q else x) (o_users (db w)) \<and>
     (\<nexists>x. x \<in> set (o_refresh_sessions (db w')) \<and> rs_UserID x = u_Id r) \<and>
     marker_of (db w') = Some \<lparr>InstallationID = i, Status = StatusInitialized\<rparr> \<and> seal_content s w' = Some i"
proof -
  have "reset_password (kind_of admin) idkey (Some (file_seal s)) username password w = (Inr (), w')"
    using assms(5) by (simp add: kind_of_def ResetAdminPassword_def ResetUserPassword_def split: if_splits)
  then obtain newHash w1 st w2 w3 a b userID w4 src where x: "Hash idkey password w = (Inr newHash, w1)"
    "reset_preflight (kind_of admin) (file_seal s) username w1 = (Inr st, w2)" "driver_call w2 = (Inr (), w3)"
    "Transaction a b (reset_tx (kind_of admin) st username newHash) w3 = (Inr userID, w4)"
    "w' = create_event [] userID CredentialEventPasswordReset src w4"
    by (rule reset_steps)
  have "fseal.near s w w1"
    using Hash_frame [OF x(1)] Hash_files [OF x(1)] assms(3) seal_sound_indep [of w1 w s] by (simp add: fseal.near_def seal_content_def)
  then have p: "state_only (db w) (db w2)" "env w2 = env w" "marker_of (db w2) = Some st" "Status st = StatusInitialized"
    "seal_content s w2 = Some (InstallationID st)" "seal_sound s w2"
    using fseal.preflight_ok [OF _ assms(1) x(2)] by blast+
  have r2: "ready w2" "wf_db (db w2)"
    using assms(1,2) p(1,2) state_onlyD [OF p(1)] by (simp_all add: quiet_def ready_env) 
  from reset_committed [OF r2 x(3,4)] obtain r stamp where
    r: "filter (\<lambda>x. u_Username x = username) (o_users (db w2)) = [r]" "is_admin r = admin"
    and d: "db w4 = (db w2)\<lparr>o_users := map (\<lambda>x. if x = r then reset_row newHash stamp r else x) (o_users (db w2)),
       o_refresh_sessions := delete_where (\<lambda>s. rs_UserID s = u_Id r) (o_refresh_sessions (db w2))\<rparr>"
    and o: "ready w4" "db_only w2 w4" .
  note e = create_event_tables [OF o(1), of "[]" userID CredentialEventPasswordReset src, folded x(5)]
  have "db_only w2 w'" using o(2) e(4) by (rule db_only_trans)
  then have "seal_content s w' = Some (InstallationID st)" using fseal.db_indep p(5) by metis
  moreover have "marker_of (db w') = Some \<lparr>InstallationID = InstallationID st, Status = StatusInitialized\<rparr>"
    using e(3) marker_of_frame [OF d] p(3,4) by (cases st) simp
  moreover have "u_Username r = username" using unique_row(2) [OF r(1) wf_dbD(1) [OF r2(2)]] .
  ultimately show ?thesis
    using r d e(1,2) Verify_new [OF assms(4) x(1)] state_onlyD(1) [OF p(1)]
    by (intro exI [of _ r] exI [of _ "reset_row newHash stamp r"] exI [of _ "InstallationID st"])
      (simp add: reset_row_def delete_where_def)
qed

section \<open>A reset that succeeds\<close>

lemma load_kind_ready:
  assumes "ready w" and "run = autocommit \<or> run = in_tx"
    and "filter (\<lambda>x. u_Username x = username) (o_users (db w)) = [r]" and "is_admin r = admin"
  shows "load_with (kind_of admin) run username w = (Inr r, w\<lparr>tick := Suc (Suc (tick w))\<rparr>)"
proof -
  have "run UserDBModel_TableName (\<lambda>d. Inr (take 2 (filter (\<lambda>r. u_Username r = username) (o_users d)), d)) w =
      (Inr [r], w\<lparr>tick := Suc (tick w)\<rparr>)"
    using assms(1-3) by (auto simp: sql)
  then show ?thesis
    using assms(1,4) by (simp add: kind_of_def admin_kind_def user_kind_def loadUniqueAdministrator_def
        loadUniqueNonAdministrator_def load_target_def admin_target_def user_target_def sql)
qed

context seal_contract
begin

text \<open>An installation from before the bootstrap state: users, but neither marker nor seal.\<close>

lemma preflight_legacy:
  assumes "near w v" and "ready w" and "wf_db (db w)" and "rng_ok (env w)" and "content w = None"
    and "marker_of (db w) = None" and "count_list (schema (db w)) BootstrapStateDBModel_TableName = 1"
    and "filter (\<lambda>x. u_Username x = username) (o_users (db w)) = [r]" and "is_admin r = admin"
  shows "\<exists>st v'. reset_preflight (kind_of admin) sl username v = (Inr st, v')"
proof -
  have n: "o_users (db w) \<noteq> []" using assms(8) by auto
  obtain v1 where 1: "driver_call v = (Inr (), v1)" and n1: "near w v1"
    using near_ready [OF assms(1,2)] near_tick [OF assms(1)] by (simp add: sql)
  have "sound v1" "content v1 = None" using n1 assms(5) by (simp_all add: near_def)
  then obtain v2 where 2: "Seal_Load sl v1 = (Inr ([], False), v2)" using load_spec [of v1] by auto
  have n2: "near w v2" using near_load [OF n1 2] by simp
  then have 3: "bootstrapStateTableExists v2 = (Inr True, v2\<lparr>tick := Suc (tick v2)\<rparr>)"
    using near_ready [OF n2 assms(2)] assms(7) by (simp add: bootstrapStateTableExists_def any_table_def sql near_def)
  let ?v3 = "v2\<lparr>tick := Suc (tick v2)\<rparr>"
  have n3: "near w ?v3" by (rule near_tick [OF n2])
  have 4: "load_with (kind_of admin) autocommit username ?v3 = (Inr r, ?v3\<lparr>tick := Suc (Suc (tick ?v3))\<rparr>)"
    by (rule load_kind_ready [OF near_ready [OF n3 assms(2)] _ _ assms(9)]) (use n3 assms(8) in \<open>simp_all add: near_def\<close>)
  let ?v4 = "?v3\<lparr>tick := Suc (Suc (tick ?v3))\<rparr>"
  have n4: "near w ?v4" by (rule near_tick [OF n3])
  have "select_state (db ?v4) = Inl ErrNoRows"
    using n4 assms(6) by (simp add: near_def select_state_def marker_of_def)
  then have 6: "autocommit BootstrapStateDBModel_TableName select_state ?v4 = (Inl ErrNoRows, ?v4\<lparr>tick := Suc (tick ?v4)\<rparr>)"
    using near_ready [OF n4 assms(2)] by (simp add: sql)
  let ?v6 = "?v4\<lparr>tick := Suc (tick ?v4)\<rparr>"
  have n6: "near w ?v6" by (rule near_tick [OF n4])
  obtain st v7 where 7: "ReconcileState (Some sl) ?v6 = ((st, None), v7)" "Status st = StatusInitialized"
    "content v7 = Some (InstallationID st)" "sound v7"
    using reconcile_ready [of ?v6] near_ready [OF n6 assms(2)] n6 assms(3-6) n
    by (auto simp: near_def decide_def status_defs)
  then obtain v8 where "Seal_Load sl v7 = (Inr (InstallationID st, True), v8)" using load_spec [of v7] by auto
  then show ?thesis
    using 1 2 3 4 6 7 by (simp add: reset_preflight_def reset_marker_ok_def)
qed

end

lemma reset_tx_ready:
  assumes "ready w" and "distinct (map u_Id (o_users (db w)))" and "marker_of (db w) = Some st" and "Status st = StatusInitialized"
    and "filter (\<lambda>x. u_Username x = username) (o_users (db w)) = [r]" and "is_admin r = admin"
  shows "\<exists>w'. reset_tx (kind_of admin) st username newHash w = (Inr (u_Id r), w')"
proof -
  let ?k = "kind_of admin :: 'a reset_kind"
  let ?P = "\<lambda>x. u_Id x = u_Id r \<and> u_Username x = username \<and> cas_role ?k r x \<and> u_Password x = u_Password r"
  note un = unique_row [OF assms(5,2)]
  have role: "cas_role ?k r r" using assms(6) by (simp add: kind_of_def admin_kind_def user_kind_def)
  have rows: "RowsAffected ?P (o_users (db w)) = 1"
    using RowsAffected_unique [OF assms(2) un(1), of "\<lambda>x. u_Username x = username \<and> cas_role ?k r x \<and> u_Password x = u_Password r"]
      un(2) role by simp
  define w1 where "w1 = w\<lparr>tick := Suc (tick w)\<rparr>"
  have 1: "in_tx BootstrapStateDBModel_TableName select_state w = (Inr st, w1)"
    using assms(1,3) by (auto simp: sql select_state_def marker_of_def w1_def)
  have r1: "ready w1" "db w1 = db w" using assms(1) by (simp_all add: w1_def)
  define w2 where "w2 = w1\<lparr>tick := Suc (Suc (tick w1))\<rparr>"
  have 2: "load_with ?k in_tx username w1 = (Inr r, w2)"
    unfolding w2_def by (rule load_kind_ready [OF r1(1) _ _ assms(6)]) (simp_all add: r1(2) assms(5))
  obtain stamp w3 where 3: "current_timestamp w2 = (stamp, w3)" by fastforce
  have r3: "ready w3" "db w3 = db w" using 3 r1 by (auto simp: current_timestamp_def time_Now_def w2_def)
  obtain w4 where 4: "in_tx UserDBModel_TableName (update_users ?P (\<lambda>x. x\<lparr>u_Password := newHash, u_UpdatedAt := stamp\<rparr>)) w3 = (Inr 1, w4)"
    and r4: "ready w4"
    using r3 assms(1) rows by (simp add: sql update_users_def)
  define w5 where "w5 = w4\<lparr>tick := Suc (tick w4)\<rparr>"
  have 5: "driver_call w4 = (Inr (), w5)" and r5: "ready w5" using r4 by (simp_all add: sql w5_def)
  define w6 where "w6 = w5\<lparr>db := advanced (u_Id r) (db w5), tick := Suc (tick w5)\<rparr>"
  have r6: "ready w6" using r5 readyD(2) [OF r5] by (simp add: w6_def advanced_def)
  show ?thesis
    using 1 2 3 4 5 legacy_steps [OF r5, of "u_Id r", folded w6_def] legacy_steps [OF r6, of "u_Id r"] assms(4)
    by (simp add: reset_tx_def)
qed

text \<open>A legacy installation with one administrator.\<close>

definition legacy_db :: db where
  "legacy_db = empty_db\<lparr>o_users := [zero_user\<lparr>u_Id := 1, u_Username := ''root'', u_Role := ''admin'', u_Password := ''md5''\<rparr>]\<rparr>"

lemma legacy_db_ok: "migrated legacy_db" "wf_db legacy_db" "marker_of legacy_db = None"
  "filter (\<lambda>x. u_Username x = ''root'') (o_users legacy_db) = o_users legacy_db"
  "o_users legacy_db = [hd (o_users legacy_db)]" "is_admin (hd (o_users legacy_db))"
  by (simp_all add: legacy_db_def empty_db_def migrated_def wf_db_def marker_of_def all_tables_def is_admin_def)

lemma legacy_schema: "count_list (schema legacy_db) BootstrapStateDBModel_TableName = 1"
  by code_simp

lemma legacy_reset:
  "\<exists>w'. ResetAdminPassword toy_idkey (Some (file_seal sample_seal)) ''root'' ''correct horse battery'' (sample_world legacy_db) = (Inr (), w')"
proof -
  let ?w = "sample_world legacy_db" and ?r = "hd (o_users legacy_db)" and ?k = "kind_of True"
  have rd: "ready ?w" "wf_db (db ?w)" "rng_ok (env ?w)" using legacy_db_ok by simp_all
  have one: "filter (\<lambda>x. u_Username x = ''root'') (o_users (db ?w)) = [?r]" using legacy_db_ok(4,5) by simp
  obtain h w1 where 1: "Hash toy_idkey ''correct horse battery'' ?w = (Inr h, w1)"
    using toy_Hash_any [of ?w "''correct horse battery''"] by (auto simp: sample_world_def)
  have near: "fseal.near sample_seal ?w w1"
    using Hash_frame [OF 1] Hash_files [OF 1] sample_sound seal_sound_indep [of w1 ?w sample_seal] by (simp add: fseal.near_def)
  obtain st w2 where 2: "reset_preflight ?k (file_seal sample_seal) ''root'' w1 = (Inr st, w2)"
    using fseal.preflight_legacy [OF near rd sample_sound(2) _ _ one, of True] legacy_db_ok(3,6) legacy_schema by (metis sample_ready(3))
  note p = fseal.preflight_ok [OF near rd(1) 2]
  then have so: "state_only (db ?w) (db w2)" "env w2 = env ?w" by blast+
  have "migrated (db w2)" using state_onlyD(2) [OF so(1)] readyD(2) [OF rd(1)] by simp
  then have w2: "ready w2" "o_users (db w2) = o_users (db ?w)" "wf_db (db w2)"
    using ready_env [OF rd(1) so(2)] state_onlyD(1) [OF so(1)] state_onlyD(3) [OF so(1) rd(2)] by blast+
  define w3 where "w3 = w2\<lparr>tick := Suc (tick w2)\<rparr>"
  have 3: "driver_call w2 = (Inr (), w3)" using w2(1) by (simp add: sql w3_def)
  have r3: "ready (w3\<lparr>tick := n\<rparr>)" "db w3 = db w2" for n using w2(1) by (simp_all add: w3_def)
  obtain w4 where 4: "reset_tx ?k st ''root'' h (w3\<lparr>tick := Suc (tick w3)\<rparr>) = (Inr (u_Id ?r), w4)"
    using reset_tx_ready [of "w3\<lparr>tick := Suc (tick w3)\<rparr>" st "''root''" ?r True h] r3 w2 p one wf_dbD(1) [OF w2(3)] legacy_db_ok(6) by auto
  have "db_only (w3\<lparr>tick := Suc (tick w3)\<rparr>) w4"
    using reset_tx_ok [OF r3(1) _ 4] wf_dbD(1) [OF w2(3)] r3(2) by auto
  then have "env w4 = env w3" using db_onlyD(1) by fastforce
  then have "quiet w4" using readyD(1) [OF r3(1) [of 0]] by (simp add: quiet_def)
  then have 5: "Transaction a b (reset_tx ?k st ''root'' h) w3 = (Inr (u_Id ?r), w4\<lparr>tick := Suc (tick w4)\<rparr>)" for a b
    using Transaction_run [of w3 "reset_tx ?k st ''root'' h"] 4 readyD(1) [OF r3(1) [of 0]] by simp
  have "validResetUsername ''root''" "ValidateNewPassword ''correct horse battery'' = Inr ()" by code_simp+
  then show ?thesis
    using 1 2 3 5 by (simp add: ResetAdminPassword_def reset_password_def kind_of_def)
qed

theorem password_reset_effect_witness:
  "\<exists>w' q. ResetAdminPassword toy_idkey (Some (file_seal sample_seal)) ''root'' ''correct horse battery'' (sample_world legacy_db) = (Inr (), w') \<and>
     o_users (db w') = [q] \<and> u_Role q = ''admin'' \<and> fst (Verify toy_idkey (u_Password q) ''correct horse battery'' w') = Inr () \<and>
     seal_content sample_seal w' \<noteq> None"
proof -
  obtain w' where c: "ResetAdminPassword toy_idkey (Some (file_seal sample_seal)) ''root'' ''correct horse battery'' (sample_world legacy_db) = (Inr (), w')"
    using legacy_reset by blast
  have r: "ready (sample_world legacy_db)" "wf_db (db (sample_world legacy_db))" using legacy_db_ok by simp_all
  from password_reset_effect [OF r sample_sound(1) toy_idkey_length, of True "''root''" "''correct horse battery''" w'] c
  obtain x q i where "filter (\<lambda>x. u_Username x = ''root'') (o_users legacy_db) = [x]" "is_admin x" "u_Role q = u_Role x"
    "fst (Verify toy_idkey (u_Password q) ''correct horse battery'' w') = Inr ()"
    "o_users (db w') = map (\<lambda>y. if y = x then q else y) (o_users legacy_db)" "seal_content sample_seal w' = Some i"
    by auto
  then show ?thesis using c legacy_db_ok(4) by (auto simp: is_admin_def)
qed

end
