(* ===== verification/Process_Lock.thy ===== *)
theory Process_Lock
  imports File_Seal
begin

text \<open>
  \<open>src/pkg/processlock/lock.go\<close>: the lock file that keeps the daemon, the bootstrap command and the
  reset commands apart.  An exclusive \<open>flock\<close> belongs to an open file description; here it is
  named by the moment of the call that took it.
\<close>

section \<open>flock\<close>

definition EWOULDBLOCK :: error where "EWOULDBLOCK = DriverError ''resource temporarily unavailable''"

definition Flock_EX_NB :: "nat \<Rightarrow> (nat, 'x) sysop" where
  "Flock_EX_NB h w = sys_call (\<lambda>f.
     case flocks f h of
       None \<Rightarrow> Inr (tick w, f\<lparr>flocks := (flocks f)(h \<mapsto> tick w)\<rparr>)
     | Some holder \<Rightarrow> Inl EWOULDBLOCK) w"

definition Flock_UN :: "nat \<Rightarrow> nat \<Rightarrow> (unit, 'x) sysop" where
  "Flock_UN h holder = sys_call (\<lambda>f.
     Inr ((), if flocks f h = Some holder then f\<lparr>flocks := (flocks f)(h := None)\<rparr> else f))"

section \<open>The lock\<close>

record Lock =
  lk_file :: "(nat \<times> nat) option"

definition Acquire :: "string \<Rightarrow> int \<Rightarrow> (Lock, 'x) sysop" where
  "Acquire p ownerUID w =
     (if \<not> IsAbs p then (Inl (ErrorsNew ''process lock path must be absolute''), w)
      else
      case os_Lstat (path_Dir p) w of
        (Inl e, w1) \<Rightarrow> (Inl (Errorf ''inspect process lock directory'' e), w1)
      | (Inr i, w1) \<Rightarrow>
      if IsSymlink i \<or> \<not> IsDir i
      then (Inl (ErrorsNew ''process lock directory must be a real directory, not a symlink''), w1)
      else if \<not> owned_by i ownerUID then (Inl (ErrorsNew ''process lock directory has an unexpected owner''), w1)
      else
      case open_create True False p 384 w1 of
        (Inl e, w2) \<Rightarrow> (Inl (Errorf ''open process lock'' e), w2)
      | (Inr fd, w2) \<Rightarrow>
      case file_Stat fd w2 of
        (Inl e, w3) \<Rightarrow> (Inl (Errorf ''inspect process lock'' e), snd (file_Close fd w3))
      | (Inr openedInfo, w3) \<Rightarrow>
      if \<not> IsRegular openedInfo then (Inl (ErrorsNew ''process lock must be a regular file''), snd (file_Close fd w3))
      else if \<not> owned_by openedInfo ownerUID
      then (Inl (ErrorsNew ''process lock has an unexpected owner''), snd (file_Close fd w3))
      else
      case file_Chmod fd 384 w3 of
        (Inl e, w4) \<Rightarrow> (Inl (Errorf ''secure process lock'' e), snd (file_Close fd w4))
      | (Inr _, w4) \<Rightarrow>
      case Flock_EX_NB fd w4 of
        (Inl e, w5) \<Rightarrow>
          if errors_Is e EWOULDBLOCK then (Inl ErrAlreadyLocked, snd (file_Close fd w5))
          else (Inl (Errorf ''acquire process lock'' e), snd (file_Close fd w5))
      | (Inr holder, w5) \<Rightarrow> (Inr \<lparr>lk_file = Some (fd, holder)\<rparr>, w5))"

text \<open>Closing sets the file of the lock to nil; the updated lock is returned with the error.\<close>

definition lock_Close :: "Lock \<Rightarrow> 'x fs_world_scheme \<Rightarrow> (error + unit) \<times> Lock \<times> 'x fs_world_scheme" where
  "lock_Close lock w =
     (case lk_file lock of
        None \<Rightarrow> (Inr (), lock, w)
      | Some (fd, holder) \<Rightarrow>
      case Flock_UN fd holder w of (unlockErr, w1) \<Rightarrow>
      case file_Close fd w1 of (closeErr, w2) \<Rightarrow>
      (case unlockErr of
         Inl e \<Rightarrow> Inl (Errorf ''unlock process lock'' e)
       | Inr _ \<Rightarrow> (case closeErr of Inl e \<Rightarrow> Inl (Errorf ''close process lock'' e) | Inr _ \<Rightarrow> Inr ()),
       lock\<lparr>lk_file := None\<rparr>, w2))"

section \<open>Exclusion\<close>

text \<open>Other processes cannot release or take over a lock that they do not hold.\<close>

definition locks_respected :: "'x fs_world_scheme \<Rightarrow> bool" where
  "locks_respected w \<longleftrightarrow> (\<forall>k f i. flocks f i \<noteq> None \<longrightarrow> flocks (fs_interfere (sys w) k f) i = flocks f i)"

definition keeps_locks :: "'x fs_world_scheme \<Rightarrow> 'x fs_world_scheme \<Rightarrow> bool" where
  "keeps_locks w w' \<longleftrightarrow> sys w' = sys w \<and> (\<forall>i. flocks (files w) i \<noteq> None \<longrightarrow> flocks (files w') i = flocks (files w) i)"

lemma keeps_locks_trans: "keeps_locks a b \<Longrightarrow> keeps_locks b c \<Longrightarrow> keeps_locks a c"
  unfolding keeps_locks_def by metis

lemma locks_respected_keeps: "keeps_locks w w' \<Longrightarrow> locks_respected w' = locks_respected w"
  by (simp add: keeps_locks_def locks_respected_def)

lemma sys_call_locks:
  assumes "locks_respected w" and "\<And>f r f'. g f = Inr (r, f') \<Longrightarrow> flocks f' = flocks f" and "sys_call g w = (q, w')"
  shows "keeps_locks w w'"
  using assms unfolding keeps_locks_def locks_respected_def
  by (auto simp: sys_call_def Let_def split: option.splits sum.splits)

lemma calls_keep_locks:
  assumes "locks_respected w"
  shows "os_Lstat p w = (q, w') \<Longrightarrow> keeps_locks w w'" "open_create a b p n w = (q2, w') \<Longrightarrow> keeps_locks w w'"
    "file_Stat h w = (q, w') \<Longrightarrow> keeps_locks w w'" "file_Chmod h n w = (q3, w') \<Longrightarrow> keeps_locks w w'"
  unfolding os_Lstat_def open_create_def file_Stat_def file_Chmod_def
  by (erule sys_call_locks [OF assms, rotated];
      auto simp: add_node_def add_entry_def set_node_def split: sum.splits option.splits prod.splits if_splits)+

lemma Flock_EX_NB_free:
  assumes "locks_respected w" and "Flock_EX_NB h w = (Inr holder, w')"
  shows "flocks (files w) h = None" "flocks (files w') h = Some holder" "sys w' = sys w"
proof -
  let ?g = "fs_interfere (sys w) (tick w) (files w)"
  have "flocks ?g h = None \<and> flocks (files w') h = Some holder \<and> sys w' = sys w"
    using assms(2) by (auto simp: Flock_EX_NB_def sys_call_def Let_def split: option.splits)
  moreover have "flocks (files w) h = None" if "flocks ?g h = None"
    using assms(1) that unfolding locks_respected_def by metis
  ultimately show "flocks (files w) h = None" "flocks (files w') h = Some holder" "sys w' = sys w" by blast+
qed

lemma Acquire_takes_free:
  assumes "locks_respected w" and "Acquire p uid w = (Inr l, w')"
  obtains i holder where "lk_file l = Some (i, holder)" "flocks (files w) i = None" "flocks (files w') i = Some holder"
    "sys w' = sys w"
proof -
  obtain r1 w1 where 1: "os_Lstat (path_Dir p) w = (r1, w1)" by fastforce
  obtain r2 w2 where 2: "open_create True False p 384 w1 = (r2, w2)" by fastforce
  obtain fd where fd: "r2 = Inr fd"
    using assms(2) 1 2 by (cases r2) (auto simp: Acquire_def split: if_splits sum.splits)
  obtain r3 w3 where 3: "file_Stat fd w2 = (r3, w3)" by fastforce
  obtain r4 w4 where 4: "file_Chmod fd 384 w3 = (r4, w4)" by fastforce
  obtain r5 w5 where 5: "Flock_EX_NB fd w4 = (r5, w5)" by fastforce
  have last: "\<exists>holder. r5 = Inr holder \<and> l = \<lparr>lk_file = Some (fd, holder)\<rparr> \<and> w' = w5"
    using assms(2) 1 2 fd 3 4 5 by (auto simp: Acquire_def split: if_splits sum.splits)
  have k1: "keeps_locks w w1" using calls_keep_locks(1) [OF assms(1) 1] .
  have l1: "locks_respected w1" using locks_respected_keeps [OF k1] assms(1) by simp
  have k2: "keeps_locks w w2" using keeps_locks_trans [OF k1 calls_keep_locks(2) [OF l1 2]] .
  have l2: "locks_respected w2" using locks_respected_keeps [OF k2] assms(1) by simp
  have k3: "keeps_locks w w3" using keeps_locks_trans [OF k2 calls_keep_locks(3) [OF l2 3]] .
  have l3: "locks_respected w3" using locks_respected_keeps [OF k3] assms(1) by simp
  have k4: "keeps_locks w w4" using keeps_locks_trans [OF k3 calls_keep_locks(4) [OF l3 4]] .
  have l4: "locks_respected w4" using locks_respected_keeps [OF k4] assms(1) by simp
  obtain holder where h: "r5 = Inr holder" "l = \<lparr>lk_file = Some (fd, holder)\<rparr>" "w' = w5" using last by blast
  note f = Flock_EX_NB_free [OF l4 5 [unfolded h(1)]]
  have "flocks (files w) fd = None" using k4 f(1) unfolding keeps_locks_def by metis
  moreover have "sys w5 = sys w" using f(3) k4 by (simp add: keeps_locks_def)
  ultimately show thesis using that [of fd holder] h f by simp
qed

text \<open>The process lock excludes.  While a lock that \<open>Acquire\<close> returned has not been released, no further
  call of \<open>Acquire\<close>, in this or another process, under this or another path, returns a lock on the
  same file, whatever other processes do to the files in between and during the call.\<close>

lemma lock_exclusive:
  assumes "locks_respected w" and "Acquire p uid w = (Inr l1, w1)" and "keeps_locks w1 v"
    and "Acquire q uid' v = (Inr l2, v')"
  shows "fst (the (lk_file l1)) \<noteq> fst (the (lk_file l2))"
proof -
  obtain i holder where 1: "lk_file l1 = Some (i, holder)" "flocks (files w1) i = Some holder" "sys w1 = sys w"
    using Acquire_takes_free [OF assms(1,2)] by metis
  have "locks_respected v" using assms(1,3) 1(3) by (simp add: locks_respected_def keeps_locks_def)
  then obtain j holder' where 2: "lk_file l2 = Some (j, holder')" "flocks (files v) j = None"
    using Acquire_takes_free [OF _ assms(4)] by metis
  have "flocks (files v) i = Some holder" using assms(3) 1(2) unfolding keeps_locks_def by (metis option.distinct(1))
  then show ?thesis using 1(1) 2 by auto
qed

end
