(* ===== verification/Database_File.thy ===== *)
theory Database_File
  imports File_Seal Recovery
begin

unbundle bit_operations_syntax

text \<open>
  \<open>src/pkg/sqlite/db.go\<close>: securing and opening the database file.  The connection that gorm opens is
  to the tables of the process state; opening it and migrating one table are statements that may
  fail.
\<close>

section \<open>Files\<close>

definition databaseFilename :: string where "databaseFilename = ''user.db''"

text \<open>\<open>os.OpenFile\<close> with \<open>O_RDWR\<close> and without \<open>O_CREATE\<close>.\<close>

definition open_existing :: "string \<Rightarrow> (nat, 'x) sysop" where
  "open_existing p = sys_call (\<lambda>f. case resolve f True p of
     Inl e \<Rightarrow> Inl e
   | Inr st \<Rightarrow>
       (case inodes f (cur_ino st) of
          None \<Rightarrow> Inl ErrNotExist
        | Some n \<Rightarrow> if i_kind n = Directory then Inl (DriverError ''is a directory'') else Inr (cur_ino st, f)))"

definition ownerUID :: "FileInfo \<Rightarrow> int \<times> bool" where
  "ownerUID i = fileOwnerUID i"

definition owned_by_process :: "FileInfo \<Rightarrow> 'x fs_world_scheme \<Rightarrow> bool" where
  "owned_by_process i w = (case ownerUID i of (uid, ok) \<Rightarrow> ok \<and> uid = euid (sys w))"

definition made_directory :: "string \<Rightarrow> bool \<Rightarrow> (FileInfo, 'x) sysop" where
  "made_directory p create w =
     (case os_Lstat p w of
        (Inr i, w1) \<Rightarrow> (Inr i, w1)
      | (Inl e, w1) \<Rightarrow>
      if \<not> os_IsNotExist e then (Inl (Errorf ''inspect database directory'' e), w1)
      else if \<not> create then (Inl (ErrorsNew ''user database directory does not exist''), w1)
      else
      case os_MkdirAll p 448 w1 of
        (Inl e, w2) \<Rightarrow> (Inl (Errorf ''create database directory'' e), w2)
      | (Inr _, w2) \<Rightarrow>
      case os_Lstat p w2 of
        (Inl e, w3) \<Rightarrow> (Inl (Errorf ''inspect created database directory'' e), w3)
      | (Inr i, w3) \<Rightarrow> (Inr i, w3))"

definition secureDirectory :: "string \<Rightarrow> bool \<Rightarrow> (unit, 'x) sysop" where
  "secureDirectory p create w =
     (case made_directory p create w of (Inl e, w1) \<Rightarrow> (Inl e, w1) | (Inr i, w1) \<Rightarrow>
      if IsSymlink i \<or> \<not> IsDir i then (Inl (ErrorsNew ''database directory must be a real directory, not a symlink''), w1)
      else if \<not> owned_by_process i w1 then (Inl (ErrorsNew ''database directory has an unexpected owner''), w1)
      else
      case os_Chmod p 448 w1 of
        (Inl e, w2) \<Rightarrow> (Inl (Errorf ''secure database directory'' e), w2)
      | (Inr _, w2) \<Rightarrow> (Inr (), w2))"

definition database_file_checks :: "(error + FileInfo) \<Rightarrow> bool \<Rightarrow> 'x fs_world_scheme \<Rightarrow> error + unit" where
  "database_file_checks found create w =
     (case found of
        Inr i \<Rightarrow>
          if IsSymlink i \<or> \<not> IsRegular i then Inl (ErrorsNew ''user database must be a regular file, not a symlink'')
          else if \<not> owned_by_process i w then Inl (ErrorsNew ''user database has an unexpected owner'')
          else Inr ()
      | Inl e \<Rightarrow>
          if \<not> os_IsNotExist e then Inl (Errorf ''inspect user database'' e)
          else if \<not> create then Inl (ErrorsNew ''user database file does not exist'')
          else Inr ())"

definition secureDatabaseFile :: "string \<Rightarrow> bool \<Rightarrow> (unit, 'x) sysop" where
  "secureDatabaseFile p create w =
     (case os_Lstat p w of (found, w1) \<Rightarrow>
      case database_file_checks found create w1 of Inl e \<Rightarrow> (Inl e, w1) | Inr _ \<Rightarrow>
      case (if create then open_create False False p 384 w1 else open_existing p w1) of
        (Inl e, w2) \<Rightarrow> (Inl (Errorf ''open user database bootstrap file'' e), w2)
      | (Inr file, w2) \<Rightarrow>
      case file_Close file w2 of
        (Inl e, w3) \<Rightarrow> (Inl (Errorf ''close user database bootstrap file'' e), w3)
      | (Inr _, w3) \<Rightarrow>
      case os_Chmod p 384 w3 of
        (Inl e, w4) \<Rightarrow> (Inl (Errorf ''secure user database bootstrap file'' e), w4)
      | (Inr _, w4) \<Rightarrow> (Inr (), w4))"

section \<open>Opening\<close>

text \<open>\<open>AutoMigrate\<close> creates the missing tables and columns, one table after the other.\<close>

definition migrate_table :: "string \<Rightarrow> db \<Rightarrow> unit \<times> db" where
  "migrate_table tbl d =
     ((), d\<lparr>schema := (if tbl \<in> set (schema d) then schema d else schema d @ [tbl]),
           has_token_version := (has_token_version d \<or> tbl = UserDBModel_TableName)\<rparr>)"

fun AutoMigrate :: "string list \<Rightarrow> 'x world_scheme \<Rightarrow> (error + unit) \<times> 'x world_scheme" where
  "AutoMigrate [] w = (Inr (), w)"
| "AutoMigrate (tbl # tbls) w =
     (case any_table (migrate_table tbl) w of
        (Inl e, w1) \<Rightarrow> (Inl e, w1)
      | (Inr _, w1) \<Rightarrow> AutoMigrate tbls w1)"

definition openDb :: "string \<Rightarrow> bool \<Rightarrow> bool \<Rightarrow> (unit, 'x) sysop" where
  "openDb dbPath create migrate w =
     (if TrimSpace dbPath = [] then (Inl (ErrorsNew ''database directory is empty''), w)
      else
      case secureDirectory dbPath create w of (Inl e, w1) \<Rightarrow> (Inl e, w1) | (Inr _, w1) \<Rightarrow>
      let databasePath = path_Join dbPath databaseFilename in
      case secureDatabaseFile databasePath create w1 of (Inl e, w2) \<Rightarrow> (Inl e, w2) | (Inr _, w2) \<Rightarrow>
      case driver_call w2 of (Inl e, w3) \<Rightarrow> (Inl (Errorf ''open user database'' e), w3) | (Inr _, w3) \<Rightarrow>
      case driver_call w3 of (Inl e, w4) \<Rightarrow> (Inl (Errorf ''access user database pool'' e), w4) | (Inr _, w4) \<Rightarrow>
      case (if migrate then AutoMigrate all_tables w4 else (Inr (), w4)) of
        (Inl e, w5) \<Rightarrow> (Inl (Errorf ''migrate user database'' e), w5)
      | (Inr _, w5) \<Rightarrow>
      case os_Chmod databasePath 384 w5 of
        (Inl e, w6) \<Rightarrow> (Inl (Errorf ''secure user database'' e), w6)
      | (Inr _, w6) \<Rightarrow> (Inr (), w6))"

definition GetDb :: "string \<Rightarrow> (unit, 'x) sysop" where
  "GetDb dbPath = openDb dbPath True True"

definition GetExistingDb :: "string \<Rightarrow> (unit, 'x) sysop" where
  "GetExistingDb dbPath = openDb dbPath False False"

definition GetBootstrapDb :: "string \<Rightarrow> (unit, 'x) sysop" where
  "GetBootstrapDb dbPath w =
     (if TrimSpace dbPath = [] then (Inl (ErrorsNew ''database directory is empty''), w)
      else
      case secureDirectory dbPath True w of (Inl e, w1) \<Rightarrow> (Inl e, w1) | (Inr _, w1) \<Rightarrow>
      let databasePath = path_Join dbPath databaseFilename in
      case open_create False True databasePath 384 w1 of
        (Inr file, w2) \<Rightarrow>
          (case file_Close file w2 of
             (Inl e, w3) \<Rightarrow> (Inl (Errorf ''close new bootstrap database'' e), w3)
           | (Inr _, w3) \<Rightarrow> openDb dbPath False True w3)
      | (Inl e, w2) \<Rightarrow>
          if \<not> os_IsExist e then (Inl (Errorf ''create bootstrap database exclusively'' e), w2)
          else openDb dbPath False False w2)"

end
