(* ===== verification/Startup.thy ===== *)
theory Startup
  imports Process_Lock Database_File
begin

unbundle bit_operations_syntax

text \<open>
  The path and credential checks of \<open>src/main.go\<close>.  \<open>path_Rel\<close> is \<open>filepath.Rel\<close> on absolute paths.
\<close>

section \<open>Credentials\<close>

definition maximumCredentialBytes :: nat where "maximumCredentialBytes = 1024"

text \<open>\<open>erase\<close> overwrites a buffer; the buffers live no longer than the command.\<close>

definition erase :: "string \<Rightarrow> string" where
  "erase buffer = map (\<lambda>_. CHR 0x00) buffer"

definition ownerUIDFromFileInfo :: "FileInfo \<Rightarrow> int \<times> bool" where
  "ownerUIDFromFileInfo i = fileOwnerUID i"

definition owner_is :: "FileInfo \<Rightarrow> int \<Rightarrow> bool" where
  "owner_is i owner = (case ownerUIDFromFileInfo i of (uid, ok) \<Rightarrow> ok \<and> uid = owner)"

definition credential_contents :: "string \<Rightarrow> string \<Rightarrow> error + string" where
  "credential_contents name contents =
     (if length contents > maximumCredentialBytes + 2
      then Inl (ErrorsNew (''credential '' @ name @ '' exceeds 1024 bytes''))
      else
      let value = TrimSuffix (TrimSuffix contents [CHR 0x0A]) [CHR 0x0D] in
      if length value = 0 \<or> length value > maximumCredentialBytes \<or> CHR 0x00 \<in> set value \<or>
         ContainsAny value [CHR 0x0D, CHR 0x0A]
      then Inl (ErrorsNew (''credential '' @ name @ '' is empty or contains forbidden bytes''))
      else Inr value)"

definition credential_directory_checks :: "FileInfo \<Rightarrow> int \<Rightarrow> error + unit" where
  "credential_directory_checks i owner =
     (if IsSymlink i \<or> \<not> IsDir i then Inl (ErrorsNew ''credentials directory must be a real directory, not a symlink'')
      else if Perm i AND 63 \<noteq> 0
      then Inl (ErrorsNew ''credentials directory must not be accessible by group or other users'')
      else if \<not> owner_is i owner then Inl (ErrorsNew ''credentials directory has an unexpected owner'')
      else Inr ())"

definition credential_file_checks :: "string \<Rightarrow> FileInfo \<Rightarrow> int \<Rightarrow> error + unit" where
  "credential_file_checks name i owner =
     (if IsSymlink i \<or> \<not> IsRegular i
      then Inl (ErrorsNew (''credential '' @ name @ '' must be a regular file, not a symlink''))
      else if Perm i AND 63 \<noteq> 0
      then Inl (ErrorsNew (''credential '' @ name @ '' must not be accessible by group or other users''))
      else if \<not> owner_is i owner then Inl (ErrorsNew (''credential '' @ name @ '' has an unexpected owner''))
      else Inr ())"

definition open_credential :: "string \<Rightarrow> string \<Rightarrow> FileInfo \<Rightarrow> (string, 'x) sysop" where
  "open_credential credentialPath name beforeOpen w =
     (case open_read True credentialPath w of
        (Inl e, w1) \<Rightarrow> (Inl (Errorf (''open credential '' @ name) e), w1)
      | (Inr file, w1) \<Rightarrow>
      case file_Stat file w1 of
        (Inl e, w2) \<Rightarrow> (Inl (Errorf (''inspect open credential '' @ name) e), snd (file_Close file w2))
      | (Inr afterOpen, w2) \<Rightarrow>
      if \<not> SameFile beforeOpen afterOpen \<or> \<not> IsRegular afterOpen
      then (Inl (ErrorsNew (''credential '' @ name @ '' changed while opening'')), snd (file_Close file w2))
      else
      case read_limited file (maximumCredentialBytes + 3) w2 of
        (Inl e, w3) \<Rightarrow> (Inl (Errorf (''read credential '' @ name) e), snd (file_Close file w3))
      | (Inr contents, w3) \<Rightarrow> (credential_contents name contents, snd (file_Close file w3)))"

definition readCredential :: "string \<Rightarrow> string \<Rightarrow> int \<Rightarrow> (string, 'x) sysop" where
  "readCredential directory name owner w =
     (if \<not> IsAbs directory then (Inl (ErrorsNew ''credentials directory must be absolute''), w)
      else
      case os_Lstat directory w of
        (Inl e, w1) \<Rightarrow> (Inl (Errorf ''inspect credentials directory'' e), w1)
      | (Inr directoryInfo, w1) \<Rightarrow>
      case credential_directory_checks directoryInfo owner of Inl e \<Rightarrow> (Inl e, w1) | Inr _ \<Rightarrow>
      let credentialPath = path_Join directory name in
      case os_Lstat credentialPath w1 of
        (Inl e, w2) \<Rightarrow> (Inl (Errorf (''inspect credential '' @ name) e), w2)
      | (Inr beforeOpen, w2) \<Rightarrow>
      case credential_file_checks name beforeOpen owner of Inl e \<Rightarrow> (Inl e, w2) | Inr _ \<Rightarrow>
      open_credential credentialPath name beforeOpen w2)"

section \<open>Directories\<close>

definition secureUserDataDirectory :: "string \<Rightarrow> (unit, 'x) sysop" where
  "secureUserDataDirectory p w =
     (case (case os_Lstat p w of
              (Inr i, w1) \<Rightarrow>
                if IsSymlink i \<or> \<not> IsDir i
                then (Inl (ErrorsNew ''administrator data path must be a real directory, not a symlink''), w1)
                else (Inr (), w1)
            | (Inl e, w1) \<Rightarrow>
                if \<not> os_IsNotExist e then (Inl (Errorf ''inspect administrator data path'' e), w1)
                else (case os_MkdirAll p 448 w1 of
                        (Inl e, w2) \<Rightarrow> (Inl (Errorf ''create administrator data path'' e), w2)
                      | (Inr _, w2) \<Rightarrow> (Inr (), w2))) of
        (Inl e, w1) \<Rightarrow> (Inl e, w1)
      | (Inr _, w1) \<Rightarrow>
      case os_Chmod p 448 w1 of
        (Inl e, w2) \<Rightarrow> (Inl (Errorf ''secure administrator data path'' e), w2)
      | (Inr _, w2) \<Rightarrow> (Inr (), w2))"

text \<open>\<open>os.WriteFile\<close>: create or truncate, write, close.\<close>

definition open_truncate :: "string \<Rightarrow> nat \<Rightarrow> (nat, 'x) sysop" where
  "open_truncate p perm w =
     (case open_create False False p perm w of
        (Inl e, w1) \<Rightarrow> (Inl e, w1)
      | (Inr h, w1) \<Rightarrow> (Inr h, w1\<lparr>files := set_node h (\<lambda>n. n\<lparr>i_data := []\<rparr>) (files w1)\<rparr>))"

definition os_WriteFile :: "string \<Rightarrow> string \<Rightarrow> nat \<Rightarrow> (unit, 'x) sysop" where
  "os_WriteFile p data perm w =
     (case open_truncate p perm w of
        (Inl e, w1) \<Rightarrow> (Inl e, w1)
      | (Inr h, w1) \<Rightarrow>
      case file_Write h data w1 of (r, w2) \<Rightarrow>
      case file_Close h w2 of (c, w3) \<Rightarrow>
      (case r of Inl e \<Rightarrow> Inl e | Inr _ \<Rightarrow> c, w3))"

definition writeAddressFile :: "string \<Rightarrow> string \<Rightarrow> string \<Rightarrow> (string, 'x) sysop" where
  "writeAddressFile runtimePath filename address w =
     (case os_MkdirAll runtimePath 493 w of
        (Inl e, w1) \<Rightarrow> (Inl e, w1)
      | (Inr _, w1) \<Rightarrow>
      let p = path_Join runtimePath filename in
      case os_WriteFile p address 384 w1 of
        (Inl e, w2) \<Rightarrow> (Inl e, w2)
      | (Inr _, w2) \<Rightarrow> (Inr p, w2))"

section \<open>Where the seal may be\<close>

text \<open>The components of a cleaned absolute path, and \<open>filepath.Rel\<close> between two such paths.\<close>

definition components :: "string \<Rightarrow> string list" where
  "components p = filter (\<lambda>c. c \<noteq> []) (Split (Clean p) (CHR ''/''))"

fun drop_common :: "string list \<Rightarrow> string list \<Rightarrow> string list \<times> string list" where
  "drop_common (b # bs) (t # ts) = (if b = t then drop_common bs ts else (b # bs, t # ts))"
| "drop_common bs ts = (bs, ts)"

definition path_Rel :: "string \<Rightarrow> string \<Rightarrow> error + string" where
  "path_Rel basepath targpath =
     (if Clean basepath = Clean targpath then Inr ''.''
      else if \<not> IsAbs (Clean basepath) \<or> \<not> IsAbs (Clean targpath)
      then Inl (ErrorsNew (''Rel: can't make '' @ targpath @ '' relative to '' @ basepath))
      else case drop_common (components basepath) (components targpath) of
             (bs, ts) \<Rightarrow> Inr (join_with (CHR ''/'') (replicate (length bs) ''..'' @ ts)))"

text \<open>
  The loop climbs from \<open>probe\<close> to the first existing ancestor.  It ends because \<open>filepath.Dir\<close> gives a
  shorter path, the working directory or the path itself.
\<close>

definition weight :: "string list \<Rightarrow> nat" where
  "weight cs = sum_list (map (\<lambda>c. Suc (length c)) cs)"

lemma weight_simps [simp]:
  "weight [] = 0" "weight (c # cs) = Suc (length c + weight cs)" "weight (cs @ ds) = weight cs + weight ds" "weight (rev cs) = weight cs"
  by (simp_all add: weight_def flip: rev_map)

lemma weight_Split: "weight (Split s d) = Suc (length s)"
  by (induction s d rule: Split.induct) (auto simp: Split.simps split: list.splits)

lemma length_join: "length (join_with d cs) = weight cs - 1"
  by (induction d cs rule: join_with.induct) auto

lemma clean_step_weight: "weight (clean_step r st c) \<le> weight st + (if c = [] then 0 else Suc (length c))"
  by (auto split: list.splits)

lemma clean_weight:
  "weight (foldl (clean_step r) st cs) \<le> weight st + weight (filter (\<lambda>c. c \<noteq> []) cs)"
proof (induction cs arbitrary: st)
  case (Cons c cs)
  have "weight (foldl (clean_step r) st (c # cs)) \<le> weight (clean_step r st c) + weight (filter (\<lambda>c. c \<noteq> []) cs)"
    using Cons [of "clean_step r st c"] by (simp del: clean_step.simps)
  also have "\<dots> \<le> weight st + weight (filter (\<lambda>c. c \<noteq> []) (c # cs))" using clean_step_weight [of r st c] by (auto simp del: clean_step.simps)
  finally show ?case .
qed simp

lemma weight_filter: "weight (filter P cs) \<le> weight cs"
  by (induction cs) auto

lemma Split_extend: "Split (s @ [d]) d = Split s d @ [[]]"
  by (induction s d rule: Split.induct) (auto simp: Split.simps split: list.splits)

lemma Clean_length:
  "length (Clean (CHR ''/'' # s @ ''/'')) \<le> Suc (length s)"
  "s \<noteq> [] \<Longrightarrow> hd s \<noteq> CHR ''/'' \<Longrightarrow> Clean (s @ ''/'') = ''.'' \<or> length (Clean (s @ ''/'')) \<le> length s"
proof -
  have w: "weight (foldl (clean_step r) [] (Split s (CHR ''/''))) \<le> Suc (length s)" for r
    using clean_weight [of r "[]" "Split s (CHR ''/'')"] weight_filter [of "\<lambda>c. c \<noteq> []" "Split s (CHR ''/'')"]
    by (simp add: weight_Split)
  have "Split (CHR ''/'' # s @ ''/'') (CHR ''/'') = [] # Split s (CHR ''/'') @ [[]]"
    using Split_extend [of s "CHR ''/''"] by (simp add: Split.simps)
  then show "length (Clean (CHR ''/'' # s @ ''/'')) \<le> Suc (length s)"
    using w [of True] by (simp add: Clean_def IsAbs_def HasPrefix_def length_join Let_def)
  assume "s \<noteq> []" and "hd s \<noteq> CHR ''/''"
  then have "\<not> IsAbs (s @ ''/'')" by (cases s) (simp_all add: IsAbs_def HasPrefix_def)
  then show "Clean (s @ ''/'') = ''.'' \<or> length (Clean (s @ ''/'')) \<le> length s"
    using w [of False] Split_extend [of s "CHR ''/''"] by (auto simp: Clean_def Let_def length_join)
qed

lemma path_Dir_shrinks: "path_Dir p = ''.'' \<or> path_Dir p = p \<or> length (path_Dir p) < length p"
proof (cases "CHR ''/'' \<in> set p")
  case False
  then have "dropWhile (\<lambda>c. c \<noteq> CHR ''/'') (rev p) = []" by (auto simp: dropWhile_eq_Nil_conv)
  then have "path_Dir p = Clean []" by (simp only: path_Dir_def rev.simps)
  then show ?thesis by (simp add: Clean_def IsAbs_def HasPrefix_def)
next
  case True
  then obtain s t where st: "p = s @ ''/'' @ t" "CHR ''/'' \<notin> set t" using split_list_last by fastforce
  then have dw: "dropWhile (\<lambda>c. c \<noteq> CHR ''/'') (rev p) = CHR ''/'' # rev s"
    by (auto simp: dropWhile_append3 intro!: dropWhile_eq_Cons_conv [THEN iffD2])
  have d: "path_Dir p = Clean (s @ ''/'')" using dw by (simp add: path_Dir_def)
  show ?thesis
  proof (cases s)
    case Nil
    then show ?thesis using d st by (cases t) (simp_all add: Clean_def IsAbs_def HasPrefix_def Split.simps)
  next
    case (Cons c s')
    show ?thesis
    proof (cases "c = CHR ''/''")
      case True
      then show ?thesis using Clean_length(1) [of s'] d st Cons by simp
    next
      case False
      then show ?thesis using Clean_length(2) [of s] d st Cons by auto
    qed
  qed
qed

definition rank :: "string \<Rightarrow> nat" where
  "rank p = (if p = ''.'' then 0 else Suc (length p))"

lemma path_Dir_rank: "path_Dir p \<noteq> p \<Longrightarrow> rank (path_Dir p) < rank p"
proof -
  assume "path_Dir p \<noteq> p"
  moreover have "path_Dir ''.'' = ''.''" by (simp add: path_Dir_def Clean_def IsAbs_def HasPrefix_def)
  ultimately show ?thesis using path_Dir_shrinks [of p] by (auto simp: rank_def)
qed

function resolve_loop :: "string \<Rightarrow> string list \<Rightarrow> (string, 'x) sysop" where
  "resolve_loop probe missing w =
     (case os_Lstat probe w of
        (Inr _, w1) \<Rightarrow>
          (case EvalSymlinks probe w1 of
             (Inl e, w2) \<Rightarrow> (Inl e, w2)
           | (Inr resolved, w2) \<Rightarrow> (Inr (Clean (foldl path_Join resolved (rev missing))), w2))
      | (Inl e, w1) \<Rightarrow>
          if \<not> os_IsNotExist e then (Inl e, w1)
          else
          let parent = path_Dir probe in
          if parent = probe then (Inl (ErrorsNew ''no existing path ancestor''), w1)
          else resolve_loop parent (missing @ [path_Base probe]) w1)"
  by pat_completeness auto
termination
  by (relation "measure (\<lambda>(probe, missing, w). rank probe)") (auto simp: path_Dir_rank)

declare resolve_loop.simps [simp del]

definition resolveThroughExistingAncestor :: "string \<Rightarrow> (string, 'x) sysop" where
  "resolveThroughExistingAncestor p w = resolve_loop (Clean (path_Abs p w)) [] w"

definition requireSealOutsideDatabase :: "string \<Rightarrow> string \<Rightarrow> (unit, 'x) sysop" where
  "requireSealOutsideDatabase databaseDirectory sealPath w =
     (case resolveThroughExistingAncestor databaseDirectory w of
        (Inl e, w1) \<Rightarrow> (Inl (Errorf ''resolve database directory'' e), w1)
      | (Inr databaseAbsolute, w1) \<Rightarrow>
      case resolveThroughExistingAncestor sealPath w1 of
        (Inl e, w2) \<Rightarrow> (Inl (Errorf ''resolve bootstrap seal'' e), w2)
      | (Inr sealAbsolute, w2) \<Rightarrow>
      case path_Rel databaseAbsolute sealAbsolute of
        Inl e \<Rightarrow> (Inl (Errorf ''compare database and bootstrap seal paths'' e), w2)
      | Inr relative \<Rightarrow>
          if relative = ''.'' \<or> (relative \<noteq> ''..'' \<and> \<not> HasPrefix relative ''../'')
          then (Inl (ErrorsNew ''bootstrap seal must be stored outside the database directory''), w2)
          else (Inr (), w2))"

section \<open>Properties\<close>

lemma sys_call_tick: "sys_call f w = (r, w') \<Longrightarrow> tick w' = Suc (tick w)"
  by (auto simp: sys_call_def Let_def split: option.splits sum.splits)

lemma lookup_tick:
  "os_Lstat p w = (r, w') \<Longrightarrow> tick w' = Suc (tick w)" "EvalSymlinks p w = (q, w') \<Longrightarrow> tick w' = Suc (tick w)"
  unfolding os_Lstat_def EvalSymlinks_def by (rule sys_call_tick, assumption)+

lemma resolve_loop_ticks: "tick (snd (resolve_loop probe missing w)) \<le> tick w + rank probe + 2"
proof (induction probe missing w rule: resolve_loop.induct)
  case (1 probe missing w)
  obtain r w1 where l: "os_Lstat probe w = (r, w1)" by fastforce
  note t = lookup_tick(1) [OF l]
  show ?case
  proof (cases r)
    case (Inr i)
    obtain q w2 where ev: "EvalSymlinks probe w1 = (q, w2)" by fastforce
    then have "snd (resolve_loop probe missing w) = w2"
      using l Inr by (subst resolve_loop.simps) (simp split: sum.splits)
    then show ?thesis using t lookup_tick(2) [OF ev] by simp
  next
    case (Inl e)
    show ?thesis
    proof (cases "os_IsNotExist e \<and> path_Dir probe \<noteq> probe")
      case True
      have "tick (snd (resolve_loop (path_Dir probe) (missing @ [path_Base probe]) w1)) \<le> tick w1 + rank (path_Dir probe) + 2"
        using 1 l Inl True by (auto simp: Let_def)
      moreover have "resolve_loop probe missing w = resolve_loop (path_Dir probe) (missing @ [path_Base probe]) w1"
        using l Inl True by (subst resolve_loop.simps) (simp add: Let_def)
      ultimately show ?thesis using t path_Dir_rank [of probe] True by simp
    next
      case False
      then show ?thesis using l Inl t by (subst resolve_loop.simps) (auto simp: Let_def)
    qed
  qed
qed

text \<open>C37.  The search for an existing ancestor ends: it makes at most one system call per character of the
  absolute path and three more, whatever the file system answers and however it changes meanwhile.\<close>

theorem resolve_terminates:
  "tick (snd (resolveThroughExistingAncestor p w)) \<le> tick w + length (Clean (path_Abs p w)) + 3"
  using resolve_loop_ticks [of "Clean (path_Abs p w)" "[]" w]
  by (simp add: resolveThroughExistingAncestor_def rank_def split: if_splits)

text \<open>Cleaned absolute paths are lists of plain components.\<close>

lemma clean_step_plain:
  "list_all plain st \<Longrightarrow> CHR ''/'' \<notin> set c \<Longrightarrow> list_all plain (clean_step True st c)"
  by (auto simp: plain_def split: list.splits)

lemma foldl_clean_plain:
  "list_all plain st \<Longrightarrow> (\<And>c. c \<in> set cs \<Longrightarrow> CHR ''/'' \<notin> set c) \<Longrightarrow> list_all plain (foldl (clean_step True) st cs)"
proof (induction cs arbitrary: st)
  case (Cons c cs)
  have "list_all plain (clean_step True st c)" using Cons.prems by (intro clean_step_plain) simp_all
  then show ?case using Cons.IH [of "clean_step True st c"] Cons.prems(2) by (simp del: clean_step.simps)
qed simp

lemma Clean_components:
  assumes "IsAbs p"
  shows "Clean p = abs_path (components p)" "list_all plain (components p)"
proof -
  let ?cs = "rev (foldl (clean_step True) [] (Split p (CHR ''/'')))"
  have plain: "list_all plain ?cs"
    using foldl_clean_plain [of "[]" "Split p (CHR ''/'')"] Split_pieces by (auto simp: list_all_iff)
  have clean: "Clean p = abs_path ?cs" using assms by (simp add: Clean_def Let_def abs_path_def)
  have "filter (\<lambda>c. c \<noteq> []) ?cs = ?cs"
    using plain unfolding list_all_iff by (intro filter_True) (auto simp: plain_def)
  then have "components p = ?cs"
    using Split_abs_path [OF plain] unfolding components_def clean by (cases "?cs = []") simp_all
  with plain clean show "Clean p = abs_path (components p)" "list_all plain (components p)" by simp_all
qed

lemma Clean_abs: "IsAbs p \<Longrightarrow> IsAbs (Clean p)"
  using Clean_components(1) [of p] by simp

lemma path_Join_abs: "IsAbs p \<Longrightarrow> IsAbs (path_Join p c)"
proof -
  assume a: "IsAbs p"
  then have "IsAbs (p @ CHR ''/'' # c)" and "p \<noteq> []" by (auto simp: IsAbs_def HasPrefix_def) (cases p; simp)
  then show ?thesis using a Clean_abs by (simp add: path_Join_def)
qed

lemma resolved_abs: "resolveThroughExistingAncestor p w = (Inr q, w') \<Longrightarrow> IsAbs q"
proof -
  have join: "IsAbs x \<Longrightarrow> IsAbs (foldl path_Join x cs)" for x cs
    by (induction cs arbitrary: x) (simp_all add: path_Join_abs)
  have ev: "IsAbs x" if "EvalSymlinks probe v = (Inr x, v')" for probe x and v v' :: "'a fs_world_scheme"
    using that by (auto simp: EvalSymlinks_def sys_call_def Let_def IsAbs_def HasPrefix_def split: option.splits sum.splits)
  have "IsAbs q" if "resolve_loop probe missing w = (Inr q, w')" for probe missing q and w w' :: "'a fs_world_scheme"
    using that
  proof (induction probe missing w rule: resolve_loop.induct)
    case (1 probe missing w)
    then show ?case
      by (subst (asm) (2) resolve_loop.simps)
        (auto simp: Let_def Clean_abs join split: prod.splits sum.splits if_splits dest!: ev)
  qed
  then show "resolveThroughExistingAncestor p w = (Inr q, w') \<Longrightarrow> IsAbs q" by (simp add: resolveThroughExistingAncestor_def)
qed

lemma drop_common_Nil: "fst (drop_common bs ts) = [] \<longleftrightarrow> prefix bs ts"
  by (induction bs ts rule: drop_common.induct) auto

lemma drop_common_rest:
  "set (snd (drop_common bs ts)) \<subseteq> set ts" "drop_common bs ts = ([], []) \<Longrightarrow> bs = ts"
  by (induction bs ts rule: drop_common.induct) (auto split: if_splits)

lemma join_first: "join_with d (x # xs) = x @ (if xs = [] then [] else d # join_with d xs)"
  by (cases xs) simp_all

text \<open>The test on the relative path is the prefix relation on components.\<close>

definition climbs :: "string \<Rightarrow> bool" where
  "climbs relative \<longleftrightarrow> relative \<noteq> ''.'' \<and> (relative = ''..'' \<or> HasPrefix relative ''../'')"

lemma Rel_climbs:
  assumes "IsAbs p" and "IsAbs q"
  obtains relative where "path_Rel p q = Inr relative" "climbs relative \<longleftrightarrow> \<not> prefix (components p) (components q)"
proof (cases "Clean p = Clean q")
  case True
  then have "components p = components q" by (simp add: components_def)
  then show thesis using that [of "''.''"] True by (simp add: path_Rel_def climbs_def)
next
  case False
  obtain bs ts where d: "drop_common (components p) (components q) = (bs, ts)" by fastforce
  let ?rel = "join_with (CHR ''/'') (replicate (length bs) ''..'' @ ts)"
  have rel: "path_Rel p q = Inr ?rel" using False d assms Clean_abs by (simp add: path_Rel_def)
  have inside: "bs = [] \<longleftrightarrow> prefix (components p) (components q)" using drop_common_Nil d by (metis fst_conv)
  show thesis
  proof (cases bs)
    case Nil
    have "components p \<noteq> components q" using False Clean_components(1) assms by metis
    then obtain t ts' where t: "ts = t # ts'" using drop_common_rest(2) d Nil by (cases ts) auto
    then have "t \<in> set (components q)" using drop_common_rest(1) [of "components p" "components q"] d by auto
    then have "plain t" using Clean_components(2) [OF assms(2)] by (simp add: list_all_iff)
    then have "takeWhile (\<lambda>c. c \<noteq> CHR ''/'') ?rel = t" "t \<noteq> ''..''"
      using Nil t by (auto simp: join_first plain_def takeWhile_append)
    then have "\<not> climbs ?rel" by (auto simp: climbs_def HasPrefix_iff)
    then show thesis using that rel inside Nil by blast
  next
    case (Cons b bs')
    then have "climbs ?rel" by (auto simp: climbs_def join_first HasPrefix_def)
    then show thesis using that rel inside Cons by blast
  qed
qed

text \<open>C36.  The seal is accepted exactly if both paths resolve and the resolved seal is neither the resolved
  database directory nor below it, component by component.\<close>

theorem seal_outside_database:
  "fst (requireSealOutsideDatabase database seal w) = Inr () \<longleftrightarrow>
     (\<exists>p q w1 w2. resolveThroughExistingAncestor database w = (Inr p, w1) \<and>
        resolveThroughExistingAncestor seal w1 = (Inr q, w2) \<and> \<not> prefix (components p) (components q))"
proof -
  obtain r1 w1 where 1: "resolveThroughExistingAncestor database w = (r1, w1)" by fastforce
  obtain r2 w2 where 2: "resolveThroughExistingAncestor seal w1 = (r2, w2)" by fastforce
  show ?thesis
  proof (cases "\<exists>p q. r1 = Inr p \<and> r2 = Inr q")
    case False
    then show ?thesis using 1 2 by (cases r1; cases r2) (auto simp: requireSealOutsideDatabase_def)
  next
    case True
    then obtain p q where pq: "r1 = Inr p" "r2 = Inr q" by blast
    have abs: "IsAbs p" "IsAbs q" using resolved_abs 1 2 pq by blast+
    obtain relative where rel: "path_Rel p q = Inr relative" "climbs relative \<longleftrightarrow> \<not> prefix (components p) (components q)"
      using Rel_climbs [OF abs] .
    then have "fst (requireSealOutsideDatabase database seal w) = Inr () \<longleftrightarrow> climbs relative"
      using 1 2 pq by (auto simp: requireSealOutsideDatabase_def climbs_def)
    then show ?thesis using rel(2) 1 2 pq by simp
  qed
qed

end
