(* ===== verification/Gateway_Client.thy ===== *)
theory Gateway_Client
  imports Router
begin

text \<open>
  \<open>src/pkg/gatewayclient/gatewayclient.go\<close>: the client of the gateway's management listener.  The
  state records the requests that left the process; what is answered, the parsing of URLs and
  addresses, and the constants of CasaOS-Common are parameters.
\<close>

section \<open>Requests\<close>

text \<open>\<open>out_base\<close> is the management address the URL was built from.\<close>

record out_request =
  out_method :: string
  out_base :: string
  out_url :: string
  out_headers :: "(string \<times> string) list"
  out_body :: "string option"

record gw_world = fs_world +
  sent :: "out_request list"

record gw_deps =
  gw_ManagementURLFilename :: string
  gw_APIGatewayRoutes :: string
  gw_APIGatewayPort :: string
  gw_Parse :: "string \<Rightarrow> URL option"
  gw_SplitHostPort :: "string \<Rightarrow> (string \<times> string) option"
  gw_IsLoopback :: "string \<Rightarrow> bool"
  gw_answer :: "nat \<Rightarrow> out_request \<Rightarrow> (error + nat \<times> (error + string))"

definition ServiceTokenFilename :: string where "ServiceTokenFilename = ''gateway.token''"
definition maxResponseBytes :: nat where "maxResponseBytes = 65536"
definition maxCredentialFileBytes :: nat where "maxCredentialFileBytes = 1024"
definition addressRetryAttempts :: nat where "addressRetryAttempts = 10"

type_synonym ('a, 'x) gwop = "'x gw_world_scheme \<Rightarrow> (error + 'a) \<times> 'x gw_world_scheme"

text \<open>\<open>http.Client.Do\<close> without following redirects: the request is sent once.\<close>

definition http_Do :: "gw_deps \<Rightarrow> out_request \<Rightarrow> (nat \<times> (error + string), 'x) gwop" where
  "http_Do G rq w = (gw_answer G (tick w) rq, w\<lparr>sent := sent w @ [rq], tick := Suc (tick w)\<rparr>)"

section \<open>The runtime files\<close>

definition readBoundedFile :: "string \<Rightarrow> string \<Rightarrow> nat \<Rightarrow> (string, 'x) gwop" where
  "readBoundedFile runtimePath name limit w =
     (let p = path_Join runtimePath name in
      case os_Lstat p w of (Inl e, w1) \<Rightarrow> (Inl e, w1) | (Inr i, w1) \<Rightarrow>
      if \<not> IsRegular i then (Inl (ErrorsNew (name @ '' is not a regular file'')), w1)
      else if length (i_data (fi_node i)) > limit then (Inl (ErrorsNew (name @ '' exceeds '' @ Itoa (int limit) @ '' bytes'')), w1)
      else
      case open_read False p w1 of (Inl e, w2) \<Rightarrow> (Inl e, w2) | (Inr file, w2) \<Rightarrow>
      case file_Stat file w2 of (Inl e, w3) \<Rightarrow> (Inl e, snd (file_Close file w3)) | (Inr opened, w3) \<Rightarrow>
      if \<not> SameFile i opened then (Inl (ErrorsNew (name @ '' changed while opening'')), snd (file_Close file w3))
      else
      case read_limited file (limit + 1) w3 of (Inl e, w4) \<Rightarrow> (Inl e, snd (file_Close file w4)) | (Inr raw, w4) \<Rightarrow>
      let w5 = snd (file_Close file w4); value = TrimSpace raw in
      if length raw > limit then (Inl (ErrorsNew (name @ '' exceeds '' @ Itoa (int limit) @ '' bytes'')), w5)
      else if CHR 0x00 \<in> set value then (Inl (ErrorsNew (name @ '' contains a NUL byte'')), w5)
      else (Inr value, w5))"

text \<open>A plain http URL with an explicit port on a loopback address.\<close>

definition management_address :: "gw_deps \<Rightarrow> string \<Rightarrow> error + string" where
  "management_address G value =
     (case gw_Parse G value of
        None \<Rightarrow> Inl (ErrorsNew ''gateway management address is not a plain http loopback URL'')
      | Some parsed \<Rightarrow>
      if url_Scheme parsed \<noteq> ''http'' \<or> url_User parsed \<or> (url_Path parsed \<noteq> [] \<and> url_Path parsed \<noteq> ''/'') \<or>
         url_RawQuery parsed \<noteq> [] \<or> url_Fragment parsed \<noteq> []
      then Inl (ErrorsNew ''gateway management address is not a plain http loopback URL'')
      else
      case gw_SplitHostPort G (url_Host parsed) of
        None \<Rightarrow> Inl (ErrorsNew ''gateway management address must include an explicit port'')
      | Some (host, port) \<Rightarrow>
      if port = [] then Inl (ErrorsNew ''gateway management address must include an explicit port'')
      else if \<not> gw_IsLoopback G host then Inl (ErrorsNew ''gateway management address must be a loopback IP'')
      else Inr value)"

definition client_address :: "gw_deps \<Rightarrow> string \<Rightarrow> (string, 'x) gwop" where
  "client_address G runtimePath w =
     (case readBoundedFile runtimePath (gw_ManagementURLFilename G) maxCredentialFileBytes w of
        (Inl e, w1) \<Rightarrow> (Inl (Errorf ''read gateway management address'' e), w1)
      | (Inr value, w1) \<Rightarrow> (management_address G value, w1))"

definition serviceToken :: "string \<Rightarrow> (string, 'x) gwop" where
  "serviceToken runtimePath w =
     (case readBoundedFile runtimePath ServiceTokenFilename maxCredentialFileBytes w of
        (Inl e, w1) \<Rightarrow> (Inl (Errorf ''read gateway service token'' e), w1)
      | (Inr value, w1) \<Rightarrow> if value = [] then (Inl (ErrorsNew ''gateway service token is empty''), w1) else (Inr value, w1))"

section \<open>The client\<close>

fun wait_loop :: "nat \<Rightarrow> string \<Rightarrow> 'x gw_world_scheme \<Rightarrow> 'x gw_world_scheme" where
  "wait_loop 0 addressFile w = w"
| "wait_loop (Suc attempts) addressFile w =
     (case os_Stat addressFile w of (Inr _, w1) \<Rightarrow> w1 | (Inl _, w1) \<Rightarrow> wait_loop attempts addressFile w1)"

definition waitForAddress :: "gw_deps \<Rightarrow> string \<Rightarrow> (string, 'x) gwop" where
  "waitForAddress G runtimePath w =
     client_address G runtimePath
       (wait_loop addressRetryAttempts (path_Join runtimePath (gw_ManagementURLFilename G)) w)"

definition ping :: "gw_deps \<Rightarrow> string \<Rightarrow> (unit, 'x) gwop" where
  "ping G address w =
     (case http_Do G \<lparr>out_method = ''GET'', out_base = address, out_url = TrimSuffix address ''/'' @ ''/ping'',
                      out_headers = [], out_body = None\<rparr> w of
        (Inl e, w1) \<Rightarrow> (Inl (Errorf ''ping gateway management service'' e), w1)
      | (Inr (status, _), w1) \<Rightarrow>
          if status \<noteq> 200 then (Inl (ErrorsNew (''gateway management service answered '' @ Itoa (int status))), w1)
          else (Inr (), w1))"

text \<open>The client is its runtime path.\<close>

definition client_New :: "gw_deps \<Rightarrow> string \<Rightarrow> (string, 'x) gwop" where
  "client_New G runtimePath w =
     (if TrimSpace runtimePath = [] then (Inl (ErrorsNew ''gateway runtime path is empty''), w)
      else
      case waitForAddress G runtimePath w of (Inl e, w1) \<Rightarrow> (Inl e, w1) | (Inr address, w1) \<Rightarrow>
      case ping G address w1 of (Inl e, w2) \<Rightarrow> (Inl e, w2) | (Inr _, w2) \<Rightarrow> (Inr runtimePath, w2))"

definition client_do :: "gw_deps \<Rightarrow> string \<Rightarrow> string \<Rightarrow> string \<Rightarrow> string option \<Rightarrow> (nat \<times> (error + string), 'x) gwop" where
  "client_do G c meth path body w =
     (case client_address G c w of (Inl e, w1) \<Rightarrow> (Inl e, w1) | (Inr address, w1) \<Rightarrow>
      case serviceToken c w1 of (Inl e, w2) \<Rightarrow> (Inl e, w2) | (Inr token, w2) \<Rightarrow>
      case http_Do G \<lparr>out_method = meth, out_base = address,
                      out_url = TrimSuffix address ''/'' @ ''/'' @ TrimPrefix path ''/'',
                      out_headers = (''Authorization'', ''Bearer '' @ token) #
                        (if body \<noteq> None then [(''Content-Type'', ''application/json'')] else []),
                      out_body = body\<rparr> w2 of
        (Inl e, w3) \<Rightarrow> (Inl (Errorf ''gateway management request failed'' e), w3)
      | (Inr response, w3) \<Rightarrow> (Inr response, w3))"

text \<open>\<open>body\<close> is the result of \<open>json.Marshal\<close> on a request that is not nil.\<close>

definition CreateRoute :: "gw_deps \<Rightarrow> string \<Rightarrow> (error + string) option \<Rightarrow> (unit, 'x) gwop" where
  "CreateRoute G c wanted w =
     (case wanted of
        None \<Rightarrow> (Inl (ErrorsNew ''gateway route is required''), w)
      | Some (Inl e) \<Rightarrow> (Inl e, w)
      | Some (Inr body) \<Rightarrow>
      case client_do G c ''POST'' (gw_APIGatewayRoutes G) (Some body) w of
        (Inl e, w1) \<Rightarrow> (Inl e, w1)
      | (Inr (status, _), w1) \<Rightarrow>
          if status \<noteq> 201 then (Inl (ErrorsNew (''failed to create route (status code: '' @ Itoa (int status) @ '')'')), w1)
          else (Inr (), w1))"

definition ChangePort :: "gw_deps \<Rightarrow> string \<Rightarrow> (error + string) option \<Rightarrow> (unit, 'x) gwop" where
  "ChangePort G c request w =
     (case request of
        None \<Rightarrow> (Inl (ErrorsNew ''gateway port change request is required''), w)
      | Some (Inl e) \<Rightarrow> (Inl e, w)
      | Some (Inr body) \<Rightarrow>
      case client_do G c ''PUT'' (gw_APIGatewayPort G) (Some body) w of
        (Inl e, w1) \<Rightarrow> (Inl e, w1)
      | (Inr (status, _), w1) \<Rightarrow>
          if status \<noteq> 200 then (Inl (ErrorsNew (''failed to change port (status code: '' @ Itoa (int status) @ '')'')), w1)
          else (Inr (), w1))"

definition GetPort :: "gw_deps \<Rightarrow> string \<Rightarrow> (string, 'x) gwop" where
  "GetPort G c w =
     (case client_do G c ''GET'' (gw_APIGatewayPort G) None w of
        (Inl e, w1) \<Rightarrow> (Inl e, w1)
      | (Inr (status, Inl readErr), w1) \<Rightarrow> (Inl readErr, w1)
      | (Inr (status, Inr body), w1) \<Rightarrow>
          if length body > maxResponseBytes then (Inl (ErrorsNew ''gateway port response is too large''), w1)
          else if status \<noteq> 200 then (Inl (ErrorsNew (''failed to read port (status code: '' @ Itoa (int status) @ '')'')), w1)
          else (Inr body, w1))"

section \<open>Where the credential goes\<close>

inductive gateway_call :: "gw_deps \<Rightarrow> string \<Rightarrow> 'x gw_world_scheme \<Rightarrow> 'x gw_world_scheme \<Rightarrow> bool"
  for G :: gw_deps and c :: string where
  new: "gateway_call G c w (snd (client_New G c w))"
| create_route: "gateway_call G c w (snd (CreateRoute G c wanted w))"
| change_port: "gateway_call G c w (snd (ChangePort G c request w))"
| get_port: "gateway_call G c w (snd (GetPort G c w))"

text \<open>
  A request is harmless if it carries no credential or goes to a plain http URL with an explicit port
  on a loopback address.
\<close>

definition loopback_url :: "gw_deps \<Rightarrow> string \<Rightarrow> bool" where
  "loopback_url G base \<longleftrightarrow>
     (\<exists>parsed host port. gw_Parse G base = Some parsed \<and> url_Scheme parsed = ''http'' \<and> \<not> url_User parsed \<and>
        url_Path parsed \<in> {[], ''/''} \<and> url_RawQuery parsed = [] \<and> url_Fragment parsed = [] \<and>
        gw_SplitHostPort G (url_Host parsed) = Some (host, port) \<and> port \<noteq> [] \<and> gw_IsLoopback G host)"

definition confined :: "gw_deps \<Rightarrow> out_request \<Rightarrow> bool" where
  "confined G rq \<longleftrightarrow> (''Authorization'' \<notin> fst ` set (out_headers rq) \<or> loopback_url G (out_base rq)) \<and>
     HasPrefix (out_url rq) (TrimSuffix (out_base rq) ''/'' @ ''/'')"

lemma sent_call: "sys_call f w = (r, w') \<Longrightarrow> sent w' = sent (w :: 'x gw_world_scheme)"
  by (auto simp: sys_call_def Let_def split: option.splits sum.splits)

lemma sent_calls:
  fixes w :: "'x gw_world_scheme"
  shows "os_Lstat p w = (r1, w') \<Longrightarrow> sent w' = sent w" "os_Stat p w = (r2, w') \<Longrightarrow> sent w' = sent w"
    "open_read b p w = (r3, w') \<Longrightarrow> sent w' = sent w" "file_Stat h w = (r4, w') \<Longrightarrow> sent w' = sent w"
    "read_limited h n w = (r5, w') \<Longrightarrow> sent w' = sent w"
  unfolding os_Lstat_def os_Stat_def open_read_def file_Stat_def read_limited_def by (rule sent_call, assumption)+

lemma sent_close [simp]: "sent (snd (file_Close h w)) = sent w"
  by (auto simp: file_Close_def sys_call_def Let_def split: option.splits)

lemma sent_read: "sent (snd (readBoundedFile rp name limit w)) = sent w"
  unfolding readBoundedFile_def Let_def
  by (auto split: prod.splits sum.splits if_splits dest!: sent_calls)

lemma sent_address: "sent (snd (client_address G c w)) = sent w" "sent (snd (serviceToken c w)) = sent w"
  using sent_read [of c "gw_ManagementURLFilename G" maxCredentialFileBytes w]
    sent_read [of c ServiceTokenFilename maxCredentialFileBytes w]
  by (auto simp: client_address_def serviceToken_def split: prod.splits sum.splits)

lemma sent_wait: "sent (wait_loop n p w) = sent w"
proof (induction n arbitrary: w)
  case (Suc n)
  obtain r w1 where "os_Stat p w = (r, w1)" by fastforce
  then show ?case using Suc sent_calls(2) [of p w r w1] by (auto split: sum.splits)
qed simp

lemma management_address_loopback: "management_address G v = Inr a \<Longrightarrow> a = v \<and> loopback_url G v"
  by (auto simp: management_address_def loopback_url_def split: option.splits if_splits prod.splits)

lemma client_address_ok: "client_address G c w = (Inr a, w') \<Longrightarrow> loopback_url G a"
  using management_address_loopback by (auto simp: client_address_def split: prod.splits sum.splits)

lemma confined_do:
  "\<exists>rqs. sent (snd (client_do G c meth path body w)) = sent w @ rqs \<and> list_all (confined G) rqs"
proof -
  obtain r1 w1 where 1: "client_address G c w = (r1, w1)" by fastforce
  obtain r2 w2 where 2: "serviceToken c w1 = (r2, w2)" by fastforce
  have s: "sent w1 = sent w" "sent w2 = sent w" using sent_address(1) [of G c w] sent_address(2) [of c w1] 1 2 by simp_all
  show ?thesis
  proof (cases "\<exists>a t. r1 = Inr a \<and> r2 = Inr t")
    case False
    then have "sent (snd (client_do G c meth path body w)) = sent w"
      using 1 2 s by (cases r1; cases r2) (auto simp: client_do_def)
    then show ?thesis by (intro exI [of _ "[]"]) simp
  next
    case True
    then obtain a t where at: "r1 = Inr a" "r2 = Inr t" by blast
    have a: "loopback_url G a" using client_address_ok 1 at by blast
    then show ?thesis
      using 1 2 at s by (auto simp: client_do_def http_Do_def confined_def HasPrefix_iff split: sum.splits)
  qed
qed

lemma confined_new:
  "\<exists>rqs. sent (snd (client_New G c w)) = sent w @ rqs \<and> list_all (confined G) rqs"
proof -
  obtain r w1 where 1: "waitForAddress G c w = (r, w1)" by fastforce
  then have s: "sent w1 = sent w" using sent_address(1) sent_wait by (metis snd_conv waitForAddress_def)
  have "snd (client_New G c w) = w \<or> snd (client_New G c w) = w1 \<or> (\<exists>a. snd (client_New G c w) = snd (ping G a w1))"
  proof (cases r)
    case (Inr a)
    then have "snd (client_New G c w) = w \<or> snd (client_New G c w) = snd (ping G a w1)"
      using 1 by (auto simp: client_New_def split: prod.splits sum.splits)
    then show ?thesis by blast
  qed (use 1 in \<open>simp add: client_New_def\<close>)
  then consider "snd (client_New G c w) = w" | "snd (client_New G c w) = w1" | a where "snd (client_New G c w) = snd (ping G a w1)"
    by blast
  then show ?thesis
  proof cases
    case 3
    then show ?thesis using s by (auto simp: ping_def http_Do_def confined_def HasPrefix_iff split: sum.splits)
  qed (use s in simp_all)
qed

lemma client_worlds:
  "snd (CreateRoute G c wanted w) =
     (case wanted of Some (Inr b) \<Rightarrow> snd (client_do G c ''POST'' (gw_APIGatewayRoutes G) (Some b) w) | _ \<Rightarrow> w)"
  "snd (ChangePort G c wanted w) =
     (case wanted of Some (Inr b) \<Rightarrow> snd (client_do G c ''PUT'' (gw_APIGatewayPort G) (Some b) w) | _ \<Rightarrow> w)"
  "snd (GetPort G c w) = snd (client_do G c ''GET'' (gw_APIGatewayPort G) None w)"
  by (simp_all add: CreateRoute_def ChangePort_def GetPort_def split: option.split sum.split prod.split)

text \<open>C38.  The gateway credential stays on the machine.  Every request that a call of the client sends
  either carries no credential or goes to a plain http URL with an explicit port on a loopback address.\<close>

theorem credential_confined:
  assumes "gateway_call G c w w'"
  shows "\<exists>rqs. sent w' = sent w @ rqs \<and> list_all (confined G) rqs"
  using assms
proof cases
  case new
  then show ?thesis using confined_new by simp
next
  case (create_route wanted)
  then show ?thesis by (simp add: client_worlds confined_do split: option.split sum.split)
next
  case (change_port request)
  then show ?thesis by (simp add: client_worlds confined_do split: option.split sum.split)
next
  case get_port
  then show ?thesis by (simp add: client_worlds confined_do)
qed

text \<open>A gateway on a loopback port, whose address and token lie in the runtime directory.\<close>

definition sample_gateway :: gw_deps where
  "sample_gateway =
     \<lparr>gw_ManagementURLFilename = ''management.url'', gw_APIGatewayRoutes = ''/v1/gateway/routes'',
      gw_APIGatewayPort = ''/v1/gateway/port'',
      gw_Parse = (\<lambda>_. Some \<lparr>url_Scheme = ''http'', url_Host = ''127.0.0.1:80'', url_User = False,
                     url_RawQuery = [], url_Fragment = [], url_Path = []\<rparr>),
      gw_SplitHostPort = (\<lambda>_. Some (''127.0.0.1'', ''80'')),
      gw_IsLoopback = (\<lambda>h. h = ''127.0.0.1''), gw_answer = (\<lambda>_ _. Inr (201, Inr []))\<rparr>"

definition gateway_fs :: fs where
  "gateway_fs = \<lparr>inodes = [0 \<mapsto> \<lparr>i_kind = Directory, i_perm = 493, i_uid = 0, i_nlink = 3, i_data = []\<rparr>,
       1 \<mapsto> \<lparr>i_kind = Directory, i_perm = 493, i_uid = 0, i_nlink = 2, i_data = []\<rparr>,
       2 \<mapsto> \<lparr>i_kind = Regular, i_perm = 420, i_uid = 0, i_nlink = 1, i_data = ''http://127.0.0.1:80''\<rparr>,
       3 \<mapsto> \<lparr>i_kind = Regular, i_perm = 384, i_uid = 0, i_nlink = 1, i_data = ''secret''\<rparr>],
     dirents = (\<lambda>i. if i = 0 then [(''run'', 1)] else if i = 1 then [(''management.url'', 2), (''gateway.token'', 3)] else []),
     next_ino = 4, flocks = (\<lambda>_. None)\<rparr>"

definition gateway_world :: gw_world where
  "gateway_world = \<lparr>db = empty_db, env = calm_env, tick = 0, kdf = [], files = gateway_fs, sys = calm_sys, sent = []\<rparr>"

lemma sample_route:
  "map out_headers (sent (snd (CreateRoute sample_gateway ''/run'' (Some (Inr ''{}'')) gateway_world))) =
     [[(''Authorization'', ''Bearer secret''), (''Content-Type'', ''application/json'')]]"
  by code_simp

theorem credential_confined_witness:
  "map out_headers (sent (snd (CreateRoute sample_gateway ''/run'' (Some (Inr ''{}'')) gateway_world))) =
     [[(''Authorization'', ''Bearer secret''), (''Content-Type'', ''application/json'')]] \<and>
   (\<exists>rqs. sent (snd (CreateRoute sample_gateway ''/run'' (Some (Inr ''{}'')) gateway_world)) = sent gateway_world @ rqs \<and>
     list_all (confined sample_gateway) rqs)"
  using sample_route credential_confined [OF gateway_call.create_route] by blast

end
