(* ===== verification/Commands.thy ===== *)
theory Commands
  imports Startup Gateway_Client
begin

text \<open>
  The command line of \<open>src/main.go\<close>: the flag sets, \<open>config.InitSetup\<close> (\<open>src/pkg/config/init.go\<close>), the
  bootstrap and reset commands and the start of the server up to serving.  The ini parser, Argon2id,
  the key generator, the listener and the embedded sample are parameters; what a command prints on
  success is its result.
\<close>

section \<open>Flags\<close>

text \<open>\<open>flag.FlagSet.Parse\<close>: \<open>specs\<close> says of each flag whether it is boolean; later values come first.\<close>

definition ParseBool :: "string \<Rightarrow> bool option" where
  "ParseBool s =
     (if s \<in> set [''1'', ''t'', ''T'', ''TRUE'', ''true'', ''True''] then Some True
      else if s \<in> set [''0'', ''f'', ''F'', ''FALSE'', ''false'', ''False''] then Some False
      else None)"

definition flag_name :: "string \<Rightarrow> string" where
  "flag_name s = (if s = [] then [] else hd s # takeWhile (\<lambda>c. c \<noteq> CHR ''='') (tl s))"

definition flag_value :: "string \<Rightarrow> string option" where
  "flag_value s = (case dropWhile (\<lambda>c. c \<noteq> CHR ''='') (tl s) of [] \<Rightarrow> None | _ # v \<Rightarrow> Some v)"

fun flags_Parse ::
  "(string \<times> bool) list \<Rightarrow> (string \<times> string) list \<Rightarrow> string list \<Rightarrow> error + (string \<times> string) list \<times> string list" where
  "flags_Parse specs vals [] = Inr (vals, [])"
| "flags_Parse specs vals (s # args) =
     (if length s < 2 \<or> hd s \<noteq> CHR ''-'' then Inr (vals, s # args)
      else if s = ''--'' then Inr (vals, args)
      else
      let body = (if s ! 1 = CHR ''-'' then drop 2 s else drop 1 s); name = flag_name body in
      if body = [] \<or> hd body = CHR ''-'' \<or> hd body = CHR ''='' then Inl (ErrorsNew (''bad flag syntax: '' @ s))
      else
      case map_of specs name of
        None \<Rightarrow> Inl (if name = ''help'' \<or> name = ''h'' then ErrorsNew ''flag: help requested''
                     else ErrorsNew (''flag provided but not defined: -'' @ name))
      | Some True \<Rightarrow>
          (case flag_value body of
             None \<Rightarrow> flags_Parse specs ((name, ''true'') # vals) args
           | Some v \<Rightarrow>
               (case ParseBool v of
                  None \<Rightarrow> Inl (ErrorsNew (''invalid boolean value for -'' @ name))
                | Some b \<Rightarrow> flags_Parse specs ((name, if b then ''true'' else ''false'') # vals) args))
      | Some False \<Rightarrow>
          (case flag_value body of
             Some v \<Rightarrow> flags_Parse specs ((name, v) # vals) args
           | None \<Rightarrow>
               (case args of
                  [] \<Rightarrow> Inl (ErrorsNew (''flag needs an argument: -'' @ name))
                | v # rest \<Rightarrow> flags_Parse specs ((name, v) # vals) rest)))"

definition flag_or :: "(string \<times> string) list \<Rightarrow> string \<Rightarrow> string \<Rightarrow> string" where
  "flag_or vals name fallback = (case map_of vals name of None \<Rightarrow> fallback | Some v \<Rightarrow> v)"

definition defaultBootstrapSealPath :: string where
  "defaultBootstrapSealPath = ''/etc/casaos/recasaos-user-bootstrap.seal''"
definition defaultProcessLockPath :: string where
  "defaultProcessLockPath = ''/run/lock/recasaos-user-service.lock''"

section \<open>Configuration\<close>

record settings =
  cfg_RuntimePath :: string
  cfg_CORSOrigins :: string
  cfg_DBPath :: string
  cfg_UserDataPath :: string

definition UserServiceConfigFilePath :: string where
  "UserServiceConfigFilePath = ''/etc/casaos/user-service.conf''"

definition read_file :: "string \<Rightarrow> (string, 'x) sysop" where
  "read_file p w =
     (case open_read False p w of (Inl e, w1) \<Rightarrow> (Inl e, w1) | (Inr h, w1) \<Rightarrow>
      case sys_call (\<lambda>f. case inodes f h of
             None \<Rightarrow> Inl ErrNotExist
           | Some n \<Rightarrow> if i_kind n = Directory then Inl (DriverError ''is a directory'') else Inr (i_data n, f)) w1 of
        (r, w2) \<Rightarrow> (r, snd (file_Close h w2)))"

text \<open>
  A panic and an exit of the process are errors here.  \<open>ini_Load\<close> parses the file and maps its
  sections over the default values.
\<close>

definition InitSetup :: "(string \<Rightarrow> settings option) \<Rightarrow> string \<Rightarrow> string \<Rightarrow> (settings, 'x) sysop" where
  "InitSetup ini_Load config sample w =
     (let p = (if length config > 0 then config else UserServiceConfigFilePath) in
      case (case os_Stat p w of
              (Inr _, w1) \<Rightarrow> (Inr (), w1)
            | (Inl e, w1) \<Rightarrow>
                if \<not> os_IsNotExist e then (Inr (), w1)
                else (case open_truncate p 438 w1 of
                        (Inl e, w2) \<Rightarrow> (Inl (Errorf ''panic'' e), w2)
                      | (Inr h, w2) \<Rightarrow>
                          (case file_Write h sample w2 of
                             (Inl e, w3) \<Rightarrow> (Inl (Errorf ''panic'' e), w3)
                           | (Inr _, w3) \<Rightarrow> (Inr (), w3)))) of
        (Inl e, w1) \<Rightarrow> (Inl e, w1)
      | (Inr _, w1) \<Rightarrow>
      case read_file p w1 of
        (Inl e, w2) \<Rightarrow> (Inl (Errorf ''Fail to read file'' e), w2)
      | (Inr raw, w2) \<Rightarrow>
          (case ini_Load raw of
             None \<Rightarrow> (Inl (ErrorsNew ''Fail to read file''), w2)
           | Some s \<Rightarrow> (Inr s, w2)))"

section \<open>Local commands\<close>

record cmd_deps =
  cmd_idkey :: argon2
  cmd_ini_Load :: "string \<Rightarrow> settings option"
  cmd_confSample :: string
  cmd_getenv :: "string \<Rightarrow> string"
  cmd_keypair :: "(PrivateKey \<times> PublicKey) option"

definition credentialsDirectoryEnvironment :: string where "credentialsDirectoryEnvironment = ''CREDENTIALS_DIRECTORY''"
definition usernameCredentialName :: string where "usernameCredentialName = ''recasaos.admin.username''"
definition passwordCredentialName :: string where "passwordCredentialName = ''recasaos.admin.password''"
definition newPasswordCredentialName :: string where "newPasswordCredentialName = ''recasaos.admin.new-password''"
definition userUsernameCredentialName :: string where "userUsernameCredentialName = ''recasaos.user.username''"
definition userNewPasswordCredentialName :: string where "userNewPasswordCredentialName = ''recasaos.user.new-password''"

text \<open>The lock is released when the command returns, whatever it returns.\<close>

definition with_lock :: "string \<Rightarrow> int \<Rightarrow> ('a, 'x) sysop \<Rightarrow> ('a, 'x) sysop" where
  "with_lock lockPath uid body w =
     (case Acquire lockPath uid w of
        (Inl e, w1) \<Rightarrow> (Inl e, w1)
      | (Inr lock, w1) \<Rightarrow> (case body w1 of (r, w2) \<Rightarrow> (r, snd (snd (lock_Close lock w2)))))"

definition read_credentials :: "cmd_deps \<Rightarrow> string \<Rightarrow> string \<Rightarrow> int \<Rightarrow> (string \<times> string, 'x) sysop" where
  "read_credentials C userCredential passwordCredential uid w =
     (let directory = cmd_getenv C credentialsDirectoryEnvironment in
      if directory = []
      then (Inl (ErrorsNew (credentialsDirectoryEnvironment @ '' is not set; use systemd LoadCredential with '' @ userCredential @ '' and '' @ passwordCredential)), w)
      else
      case readCredential directory userCredential uid w of (Inl e, w1) \<Rightarrow> (Inl e, w1) | (Inr username, w1) \<Rightarrow>
      case readCredential directory passwordCredential uid w1 of (Inl e, w2) \<Rightarrow> (Inl e, w2) | (Inr password, w2) \<Rightarrow>
      (Inr (username, password), w2))"

text \<open>The flags of a local command, which takes no arguments and runs as root.\<close>

definition command_flags :: "string \<Rightarrow> (string \<times> bool) list \<Rightarrow> string list \<Rightarrow> int \<Rightarrow> error + (string \<times> string) list" where
  "command_flags command specs args effectiveUID =
     (case flags_Parse specs [] args of
        Inl e \<Rightarrow> Inl e
      | Inr (vals, rest) \<Rightarrow>
          if rest \<noteq> [] then Inl (ErrorsNew (command @ '' accepts no username or password arguments''))
          else if effectiveUID \<noteq> 0 then Inl (ErrorsNew (command @ '' requires effective uid 0''))
          else Inr vals)"

definition bootstrap_paths :: "cmd_deps \<Rightarrow> (string \<times> string) list \<Rightarrow> (string \<times> string, 'x) sysop" where
  "bootstrap_paths C vals w =
     (let dbFlag = flag_or vals ''db'' []; userDataFlag = flag_or vals ''user-data'' [] in
      if dbFlag = [] \<or> userDataFlag = [] then
        (case InitSetup (cmd_ini_Load C) (flag_or vals ''c'' []) (cmd_confSample C) w of
           (Inl e, w1) \<Rightarrow> (Inl e, w1)
         | (Inr s, w1) \<Rightarrow>
             (Inr (if dbFlag = [] then cfg_DBPath s else dbFlag,
                   if userDataFlag = [] then cfg_UserDataPath s else userDataFlag), w1))
      else (Inr (dbFlag, userDataFlag), w))"

definition bootstrap_body :: "cmd_deps \<Rightarrow> (string \<times> string) list \<Rightarrow> int \<Rightarrow> (string, 'x) sysop" where
  "bootstrap_body C vals uid w =
     (case read_credentials C usernameCredentialName passwordCredentialName uid w of
        (Inl e, w1) \<Rightarrow> (Inl e, w1)
      | (Inr (username, password), w1) \<Rightarrow>
      case bootstrap_paths C vals w1 of (Inl e, w2) \<Rightarrow> (Inl e, w2) | (Inr (dbPath, userData), w2) \<Rightarrow>
      let sealPath = flag_or vals ''bootstrap-seal'' defaultBootstrapSealPath in
      case requireSealOutsideDatabase dbPath sealPath w2 of (Inl e, w3) \<Rightarrow> (Inl e, w3) | (Inr _, w3) \<Rightarrow>
      case GetBootstrapDb dbPath w3 of (Inl e, w4) \<Rightarrow> (Inl e, w4) | (Inr _, w4) \<Rightarrow>
      case driver_call w4 of (Inl e, w5) \<Rightarrow> (Inl (Errorf ''access user database pool'' e), w5) | (Inr _, w5) \<Rightarrow>
      case BootstrapAdmin (cmd_idkey C) (Some (file_seal (NewFileSeal sealPath uid))) username password
             (Some (\<lambda>userID. secureUserDataDirectory (path_Join userData (Itoa userID)))) w5 of
        (Inl e, w6) \<Rightarrow> (Inl e, w6)
      | (Inr _, w6) \<Rightarrow> (Inr ''administrator bootstrap completed'', w6))"

definition runBootstrapAdmin :: "cmd_deps \<Rightarrow> string list \<Rightarrow> int \<Rightarrow> (string, 'x) sysop" where
  "runBootstrapAdmin C args effectiveUID w =
     (case command_flags ''bootstrap-admin''
             [(''c'', False), (''db'', False), (''user-data'', False), (''bootstrap-seal'', False), (''process-lock'', False)]
             args effectiveUID of
        Inl e \<Rightarrow> (Inl e, w)
      | Inr vals \<Rightarrow>
          with_lock (flag_or vals ''process-lock'' defaultProcessLockPath) effectiveUID (bootstrap_body C vals effectiveUID) w)"

text \<open>The two reset commands differ in the credentials they read, the operation and the message.\<close>

definition reset_body ::
  "cmd_deps \<Rightarrow> string \<Rightarrow> string \<Rightarrow>
   (argon2 \<Rightarrow> 'x fs_world_scheme Seal option \<Rightarrow> string \<Rightarrow> string \<Rightarrow> 'x fs_world_scheme \<Rightarrow> (error + unit) \<times> 'x fs_world_scheme) \<Rightarrow>
   string \<Rightarrow> (string \<times> string) list \<Rightarrow> int \<Rightarrow> (string, 'x) sysop" where
  "reset_body C userCredential passwordCredential operation message vals uid w =
     (case read_credentials C userCredential passwordCredential uid w of
        (Inl e, w1) \<Rightarrow> (Inl e, w1)
      | (Inr (username, password), w1) \<Rightarrow>
      case (if flag_or vals ''db'' [] = [] then
              (case InitSetup (cmd_ini_Load C) (flag_or vals ''c'' []) (cmd_confSample C) w1 of
                 (Inl e, w2) \<Rightarrow> (Inl e, w2) | (Inr s, w2) \<Rightarrow> (Inr (cfg_DBPath s), w2))
            else (Inr (flag_or vals ''db'' []), w1)) of
        (Inl e, w2) \<Rightarrow> (Inl e, w2)
      | (Inr dbPath, w2) \<Rightarrow>
      let sealPath = flag_or vals ''bootstrap-seal'' defaultBootstrapSealPath in
      case requireSealOutsideDatabase dbPath sealPath w2 of (Inl e, w3) \<Rightarrow> (Inl e, w3) | (Inr _, w3) \<Rightarrow>
      case GetExistingDb dbPath w3 of (Inl e, w4) \<Rightarrow> (Inl e, w4) | (Inr _, w4) \<Rightarrow>
      case driver_call w4 of (Inl e, w5) \<Rightarrow> (Inl (Errorf ''access user database pool'' e), w5) | (Inr _, w5) \<Rightarrow>
      case operation (cmd_idkey C) (Some (file_seal (NewFileSeal sealPath uid))) username password w5 of
        (Inl e, w6) \<Rightarrow> (Inl e, w6)
      | (Inr _, w6) \<Rightarrow> (Inr message, w6))"

definition reset_flags :: "(string \<times> bool) list" where
  "reset_flags = [(''c'', False), (''db'', False), (''bootstrap-seal'', False), (''process-lock'', False)]"

definition runResetAdminPassword :: "cmd_deps \<Rightarrow> string list \<Rightarrow> int \<Rightarrow> (string, 'x) sysop" where
  "runResetAdminPassword C args effectiveUID w =
     (case command_flags ''reset-admin-password'' reset_flags args effectiveUID of
        Inl e \<Rightarrow> (Inl e, w)
      | Inr vals \<Rightarrow>
          with_lock (flag_or vals ''process-lock'' defaultProcessLockPath) effectiveUID
            (reset_body C usernameCredentialName newPasswordCredentialName ResetAdminPassword
               ''administrator password reset completed'' vals effectiveUID) w)"

definition runResetUserPassword :: "cmd_deps \<Rightarrow> string list \<Rightarrow> int \<Rightarrow> (string, 'x) sysop" where
  "runResetUserPassword C args effectiveUID w =
     (case command_flags ''reset-user-password'' reset_flags args effectiveUID of
        Inl e \<Rightarrow> (Inl e, w)
      | Inr vals \<Rightarrow>
          with_lock (flag_or vals ''process-lock'' defaultProcessLockPath) effectiveUID
            (reset_body C userUsernameCredentialName userNewPasswordCredentialName ResetUserPassword
               ''user password reset completed'' vals effectiveUID) w)"

section \<open>The server\<close>

text \<open>
  \<open>NewService\<close> panics when the gateway client cannot be made, and leaves no user service when there is
  no key pair.
\<close>

definition NewService ::
  "cmd_deps \<Rightarrow> gw_deps \<Rightarrow> string \<Rightarrow> State \<Rightarrow> (userService option, 'x) gwop" where
  "NewService C G runtimePath initializationState w =
     (case client_New G runtimePath w of
        (Inl e, w1) \<Rightarrow> (Inl (Errorf ''panic'' e), w1)
      | (Inr _, w1) \<Rightarrow> (Inr (NewUserService (cmd_keypair C) True initializationState), w1))"

text \<open>
  What the server needs from outside: \<open>net.Listen\<close> (the address of the listener), the JSON text of a
  route and the constants of CasaOS-Common.
\<close>

record server_deps =
  sv_Listen :: "error + string"
  sv_route_json :: "string \<Rightarrow> string \<Rightarrow> error + string"
  sv_V2APIPath :: string
  sv_V2DocPath :: string
  sv_JWKSPath :: string
  sv_AddressFilename :: string

fun register_routes :: "gw_deps \<Rightarrow> string \<Rightarrow> (string \<Rightarrow> error + string) \<Rightarrow> string list \<Rightarrow> (unit, 'x) gwop" where
  "register_routes G runtimePath body [] w = (Inr (), w)"
| "register_routes G runtimePath body (v # apiPaths) w =
     (case CreateRoute G runtimePath (Some (body v)) w of
        (Inl e, w1) \<Rightarrow> (Inl (Errorf (''register gateway route '' @ v) e), w1)
      | (Inr _, w1) \<Rightarrow> register_routes G runtimePath body apiPaths w1)"

text \<open>
  The server opens the database, reconciles the bootstrap state and builds the services, then listens,
  registers its routes at the gateway and publishes its address.
\<close>

definition open_service ::
  "cmd_deps \<Rightarrow> gw_deps \<Rightarrow> string \<Rightarrow> string \<Rightarrow> string \<Rightarrow> int \<Rightarrow> (userService, 'x) gwop" where
  "open_service C G runtimePath dbPath sealPath uid w =
     (case requireSealOutsideDatabase dbPath sealPath w of
        (Inl e, w2) \<Rightarrow> (Inl e, w2)
      | (Inr _, w2) \<Rightarrow>
     (case GetDb dbPath w2 of
        (Inl e, w3) \<Rightarrow> (Inl e, w3)
      | (Inr _, w3) \<Rightarrow>
     (case driver_call w3 of
        (Inl e, w4) \<Rightarrow> (Inl (Errorf ''access user database pool'' e), w4)
      | (Inr _, w4) \<Rightarrow>
     (case ReconcileState (Some (file_seal (NewFileSeal sealPath uid))) w4 of
        ((_, Some e), w5) \<Rightarrow> (Inl e, w5)
      | ((initializationState, None), w5) \<Rightarrow>
     (case NewService C G runtimePath initializationState w5 of
        (Inl e, w6) \<Rightarrow> (Inl e, w6)
      | (Inr None, w6) \<Rightarrow> (Inl (ErrorsNew ''initialize user service''), w6)
      | (Inr (Some u), w6) \<Rightarrow> (Inr u, w6))))))"

definition publish_service ::
  "gw_deps \<Rightarrow> server_deps \<Rightarrow> string \<Rightarrow> (string, 'x) gwop" where
  "publish_service G S runtimePath w =
     (case sv_Listen S of
        Inl e \<Rightarrow> (Inl (Errorf ''listen for user service'' e), w)
      | Inr address \<Rightarrow>
     (case register_routes G runtimePath (\<lambda>v. sv_route_json S v (''http://'' @ address))
             [''/v1/users'', sv_V2APIPath S, sv_V2DocPath S, ''/'' @ sv_JWKSPath S] w of
        (Inl e, w1) \<Rightarrow> (Inl e, w1)
      | (Inr _, w1) \<Rightarrow>
     (case writeAddressFile runtimePath (sv_AddressFilename S) (''http://'' @ address) w1 of
        (Inl e, w2) \<Rightarrow> (Inl (Errorf ''write user service address'' e), w2)
      | (Inr _, w2) \<Rightarrow> (Inr address, w2))))"

definition start_server ::
  "cmd_deps \<Rightarrow> gw_deps \<Rightarrow> server_deps \<Rightarrow> (string \<times> string) list \<Rightarrow> int \<Rightarrow> (userService \<times> string \<times> string, 'x) gwop" where
  "start_server C G S vals uid w =
     (case InitSetup (cmd_ini_Load C) (flag_or vals ''c'' []) (cmd_confSample C) w of
        (Inl e, w1) \<Rightarrow> (Inl e, w1)
      | (Inr s, w1) \<Rightarrow>
     (case open_service C G (cfg_RuntimePath s)
             (if flag_or vals ''db'' [] = [] then cfg_DBPath s else flag_or vals ''db'' [])
             (flag_or vals ''bootstrap-seal'' defaultBootstrapSealPath) uid w1 of
        (Inl e, w2) \<Rightarrow> (Inl e, w2)
      | (Inr u, w2) \<Rightarrow>
     (case GeneratePublicJWKS (snd (GetKeyPair u)) of
        Inl e \<Rightarrow> (Inl (Errorf ''generate JWKS document'' e), w2)
      | Inr jwksJSON \<Rightarrow>
     (case publish_service G S (cfg_RuntimePath s) w2 of
        (Inl e, w3) \<Rightarrow> (Inl e, w3)
      | (Inr address, w3) \<Rightarrow> (Inr (u, jwksJSON, address), w3)))))"

text \<open>
  What a run of the program comes to when it does not fail: a printed line, or the server serving, which
  keeps the process lock.
\<close>

definition Version :: string where "Version = ''0.4.8''"

datatype outcome = Printed string | Serving userService string string

definition runServer ::
  "cmd_deps \<Rightarrow> gw_deps \<Rightarrow> server_deps \<Rightarrow> string list \<Rightarrow> int \<Rightarrow> (outcome, 'x) gwop" where
  "runServer C G S args effectiveUID w =
     (case flags_Parse
             [(''c'', False), (''db'', False), (''bootstrap-seal'', False), (''process-lock'', False),
              (''ru'', True), (''user'', False), (''v'', True)] [] args of
        Inl e \<Rightarrow> (Inl e, w)
      | Inr (vals, rest) \<Rightarrow>
          if rest \<noteq> [] then (Inl (ErrorsNew (''unexpected arguments: '' @ join_with (CHR '' '') rest)), w)
          else if flag_or vals ''v'' ''false'' = ''true'' then (Inr (Printed (CHR ''v'' # Version)), w)
          else if flag_or vals ''ru'' ''false'' = ''true'' then
            (Inl (ErrorsNew ''-ru is disabled because it exposed plaintext passwords; use an authenticated local recovery workflow''), w)
          else
          (case Acquire (flag_or vals ''process-lock'' defaultProcessLockPath) effectiveUID w of
             (Inl e, w1) \<Rightarrow> (Inl e, w1)
           | (Inr lock, w1) \<Rightarrow>
          (case start_server C G S vals effectiveUID w1 of
             (Inl e, w2) \<Rightarrow> (Inl e, snd (snd (lock_Close lock w2)))
           | (Inr (u, jwks, address), w2) \<Rightarrow> (Inr (Serving u jwks address), w2))))"

definition run_main ::
  "cmd_deps \<Rightarrow> gw_deps \<Rightarrow> server_deps \<Rightarrow> string list \<Rightarrow> int \<Rightarrow> (outcome, 'x) gwop" where
  "run_main C G S args effectiveUID w =
     (let printed = (\<lambda>(r, w1). (map_sum id Printed r, w1)) in
      if args \<noteq> [] \<and> hd args = ''bootstrap-admin'' then printed (runBootstrapAdmin C (tl args) effectiveUID w)
      else if args \<noteq> [] \<and> hd args = ''reset-admin-password'' then printed (runResetAdminPassword C (tl args) effectiveUID w)
      else if args \<noteq> [] \<and> hd args = ''reset-user-password'' then printed (runResetUserPassword C (tl args) effectiveUID w)
      else runServer C G S args effectiveUID w)"

text \<open>
  The documentation router answers 200 always: once a body is being written, a later status has no
  effect.
\<close>

definition InitV2DocRouter :: "string \<Rightarrow> string \<Rightarrow> string \<Rightarrow> string \<Rightarrow> nat \<times> string" where
  "InitV2DocRouter V2DocPath docHTML docYAML path =
     (200, if path = V2DocPath then docHTML else if path = V2DocPath @ ''/openapi.yaml'' then docYAML else [])"

text \<open>\<open>UpLoadFile\<close> of \<open>src/service/user.go\<close>; \<open>data\<close> is what the uploaded file yields.\<close>

definition UpLoadFile :: "string \<Rightarrow> string \<Rightarrow> (unit, 'x) sysop" where
  "UpLoadFile data url w =
     (case open_truncate url 420 w of
        (Inl _, w1) \<Rightarrow> (Inr (), w1)
      | (Inr out, w1) \<Rightarrow> (case file_Write out data w1 of (_, w2) \<Rightarrow> (Inr (), snd (file_Close out w2))))"

section \<open>Commands exclude one another\<close>

definition untouched :: "'x gw_world_scheme \<Rightarrow> 'x gw_world_scheme \<Rightarrow> bool" where
  "untouched w w' \<longleftrightarrow> db w' = db w \<and> sent w' = sent w"

lemma untouched_refl [simp]: "untouched w w"
  by (simp add: untouched_def)

lemma untouched_trans: "untouched a b \<Longrightarrow> untouched b c \<Longrightarrow> untouched a c"
  by (simp add: untouched_def)

lemma sys_call_untouched: "sys_call f w = (r, w') \<Longrightarrow> untouched w w'"
  by (auto simp: untouched_def sys_call_def Let_def split: option.splits sum.splits)

lemma untouched_calls:
  fixes w :: "'x gw_world_scheme"
  shows "os_Lstat p w = (r1, w') \<Longrightarrow> untouched w w'" "open_create a b p n w = (r2, w') \<Longrightarrow> untouched w w'"
    "file_Stat h w = (r1, w') \<Longrightarrow> untouched w w'" "file_Chmod h n w = (r3, w') \<Longrightarrow> untouched w w'"
    "Flock_EX_NB h w = (r4, w') \<Longrightarrow> untouched w w'" "file_Close h w = (r5, w') \<Longrightarrow> untouched w w'"
  unfolding os_Lstat_def open_create_def file_Stat_def file_Chmod_def Flock_EX_NB_def file_Close_def
  by (rule sys_call_untouched, assumption)+

lemma untouched_Close [simp]: "untouched v (snd (file_Close h w)) = untouched v w"
  using untouched_calls(6) [of h w _ "snd (file_Close h w)"] by (cases "file_Close h w") (auto simp: untouched_def)

lemma Acquire_refused: "Acquire p uid w = (Inl e, w') \<Longrightarrow> untouched w w'"
  unfolding Acquire_def
  by (auto split: prod.splits sum.splits if_splits dest!: untouched_calls(1-5)) (simp_all add: untouched_def)

text \<open>A command started in \<open>w\<close> that has taken no lock has failed and touched nothing.\<close>

definition gated :: "int \<Rightarrow> 'x gw_world_scheme \<Rightarrow> (error + 'a) \<times> 'x gw_world_scheme \<Rightarrow> bool" where
  "gated uid w p \<longleftrightarrow> (\<exists>q l v. Acquire q uid w = (Inr l, v)) \<or> isl (fst p) \<and> untouched w (snd p)"

lemma gated_acquire:
  "gated uid w (case Acquire q uid w of (Inl e, w1) \<Rightarrow> (Inl e, w1) | (Inr lock, w1) \<Rightarrow> body lock w1)"
proof (cases "Acquire q uid w")
  case (Pair r w1)
  then show ?thesis by (cases r) (auto simp: gated_def dest: Acquire_refused)
qed

lemma gated_error: "gated uid w (Inl e, w)"
  by (simp add: gated_def)

lemma gated_commands:
  "gated uid w (runBootstrapAdmin C args uid w)" "gated uid w (runResetAdminPassword C args uid w)"
  "gated uid w (runResetUserPassword C args uid w)"
  unfolding runBootstrapAdmin_def runResetAdminPassword_def runResetUserPassword_def
  by (simp_all add: with_lock_def gated_acquire gated_error split: sum.split)

lemma gated_server:
  "gated uid w (runServer C G S args uid w) \<or> runServer C G S args uid w = (Inr (Printed (CHR ''v'' # Version)), w)"
  unfolding runServer_def by (simp add: gated_error gated_acquire split: sum.split prod.split)

lemma gated_printed:
  "gated uid w (case z of (r, w1) \<Rightarrow> (map_sum id Printed r, w1)) = gated uid w z"
  by (cases z) (simp add: gated_def isl_map_sum)

lemma gated_main:
  "gated uid w (run_main C G S args uid w) \<or> run_main C G S args uid w = (Inr (Printed (CHR ''v'' # Version)), w)"
  using gated_server [of uid w C G S args] by (cases args) (simp_all add: run_main_def Let_def gated_printed gated_commands)


text \<open>A reset that finds the lock of a running server.\<close>

definition no_commands :: cmd_deps where
  "no_commands = \<lparr>cmd_idkey = toy_idkey, cmd_ini_Load = (\<lambda>_. None), cmd_confSample = [], cmd_getenv = (\<lambda>_. []), cmd_keypair = None\<rparr>"

definition no_server :: server_deps where
  "no_server = \<lparr>sv_Listen = Inr ''127.0.0.1:1'', sv_route_json = (\<lambda>_ _. Inr []), sv_V2APIPath = [], sv_V2DocPath = [],
     sv_JWKSPath = [], sv_AddressFilename = []\<rparr>"

definition locked_world :: gw_world where
  "locked_world = snd (Acquire ''/run/a.lock'' 0 gateway_world)"

lemma lock_taken:
  "fst (Acquire ''/run/a.lock'' 0 gateway_world) = Inr \<lparr>lk_file = Some (4, 4)\<rparr>"
  "fst (Acquire ''/run/a.lock'' 0 locked_world) = Inl ErrAlreadyLocked"
  by code_simp+

lemma lock_flag:
  "command_flags ''reset-user-password'' reset_flags [''-process-lock=/run/a.lock''] 0 = Inr [(''process-lock'', ''/run/a.lock'')]"
  by code_simp

lemma reset_refused:
  "fst (run_main no_commands sample_gateway no_server [''reset-user-password'', ''-process-lock=/run/a.lock''] 0 locked_world) = Inl ErrAlreadyLocked"
  using lock_taken(2)
  by (auto simp: run_main_def Let_def runResetUserPassword_def lock_flag with_lock_def flag_or_def split: prod.splits)


end
