(* ===== verification/Service_Wiring.thy ===== *)
theory Service_Wiring
  imports Commands
begin

text \<open>
  What holds the parts together: the message-bus client of \<open>src/service/service.go\<close> with the operations of
  the generated client (\<open>src/codegen/message_bus/api.go\<close>) that the program calls, the registration of its event
  type (\<open>src/main.go\<close>), the paths of the second API (\<open>src/route/v2.go\<close>), the log format of
  \<open>src/route/logging.go\<close> and \<open>src/pkg/utils/random\<close>.  URL resolution, the styling of path parameters, the JSON
  codec and the answers of the bus are parameters.
\<close>

section \<open>The message-bus client\<close>

text \<open>
  \<open>bd_resolve\<close> is \<open>url.Parse\<close> of the server followed by its \<open>Parse\<close> and \<open>String\<close>, and the check of
  the URL by \<open>http.NewRequest\<close>; \<open>bd_address\<close> is
  \<open>external.GetMessageBusAddress\<close> at a moment; an answer is a status, the content type and what reading the
  body returns; \<open>bd_unmarshal\<close> is \<open>json.Unmarshal\<close> at the named type.
\<close>

record bus_deps =
  bd_address :: "nat \<Rightarrow> error + string"
  bd_resolve :: "string \<Rightarrow> string \<Rightarrow> error + string"
  bd_style :: "string \<Rightarrow> string \<Rightarrow> error + string"
  bd_answer :: "nat \<Rightarrow> out_request \<Rightarrow> error + nat \<times> string \<times> (error + string)"
  bd_unmarshal :: "string \<Rightarrow> string \<Rightarrow> error + unit"

record bus_client =
  bc_Server :: string

text \<open>An option is a function that changes the client or fails.\<close>

fun apply_options :: "(bus_client \<Rightarrow> error + bus_client) list \<Rightarrow> bus_client \<Rightarrow> error + bus_client" where
  "apply_options [] c = Inr c"
| "apply_options (f # fs) c = (case f c of Inl e \<Rightarrow> Inl e | Inr c1 \<Rightarrow> apply_options fs c1)"

definition NewClient :: "string \<Rightarrow> (bus_client \<Rightarrow> error + bus_client) list \<Rightarrow> error + bus_client" where
  "NewClient server opts =
     (case apply_options opts \<lparr>bc_Server = server\<rparr> of
        Inl e \<Rightarrow> Inl e
      | Inr c \<Rightarrow> Inr (if HasSuffix (bc_Server c) ''/'' then c else c\<lparr>bc_Server := bc_Server c @ ''/''\<rparr>))"

definition MessageBus :: "bus_deps \<Rightarrow> nat \<Rightarrow> error + bus_client" where
  "MessageBus D now =
     NewClient []
       [\<lambda>c. Inr (c\<lparr>bc_Server := (case bd_address D now of
              Inl e \<Rightarrow> ''message bus address not found''
            | Inr messageBusAddress \<Rightarrow> messageBusAddress)\<rparr>)]"

text \<open>Both requests are posted; \<open>body\<close> is the JSON text, or the error of encoding it.\<close>

definition post_request :: "bus_deps \<Rightarrow> string \<Rightarrow> string \<Rightarrow> string \<Rightarrow> string \<Rightarrow> error + out_request" where
  "post_request D server operationPath contentType body =
     (let p = (if operationPath ! 0 = CHR ''/'' then CHR ''.'' # operationPath else operationPath) in
      case bd_resolve D server p of
        Inl e \<Rightarrow> Inl e
      | Inr queryURL \<Rightarrow>
          Inr \<lparr>out_method = ''POST'', out_base = server, out_url = queryURL,
               out_headers = [(''Content-Type'', contentType)], out_body = Some body\<rparr>)"

definition NewPublishEventRequestWithBody ::
  "bus_deps \<Rightarrow> string \<Rightarrow> string \<Rightarrow> string \<Rightarrow> string \<Rightarrow> string \<Rightarrow> error + out_request" where
  "NewPublishEventRequestWithBody D server sourceId name contentType body =
     (case bd_style D ''source_id'' sourceId of Inl e \<Rightarrow> Inl e | Inr pathParam0 \<Rightarrow>
      case bd_style D ''name'' name of Inl e \<Rightarrow> Inl e | Inr pathParam1 \<Rightarrow>
      post_request D server (''/event/'' @ pathParam0 @ ''/'' @ pathParam1) contentType body)"

definition NewPublishEventRequest ::
  "bus_deps \<Rightarrow> string \<Rightarrow> string \<Rightarrow> string \<Rightarrow> error + string \<Rightarrow> error + out_request" where
  "NewPublishEventRequest D server sourceId name body =
     (case body of Inl e \<Rightarrow> Inl e | Inr buf \<Rightarrow> NewPublishEventRequestWithBody D server sourceId name ''application/json'' buf)"

definition NewRegisterEventTypesRequestWithBody :: "bus_deps \<Rightarrow> string \<Rightarrow> string \<Rightarrow> string \<Rightarrow> error + out_request" where
  "NewRegisterEventTypesRequestWithBody D server contentType body = post_request D server ''/event_type'' contentType body"

definition NewRegisterEventTypesRequest :: "bus_deps \<Rightarrow> string \<Rightarrow> error + string \<Rightarrow> error + out_request" where
  "NewRegisterEventTypesRequest D server body =
     (case body of Inl e \<Rightarrow> Inl e | Inr buf \<Rightarrow> NewRegisterEventTypesRequestWithBody D server ''application/json'' buf)"

text \<open>\<open>Do\<close> sends a request once.  The client has no request editors.\<close>

definition bus_Do :: "bus_deps \<Rightarrow> out_request \<Rightarrow> (nat \<times> string \<times> (error + string), 'x) gwop" where
  "bus_Do D rq w = (bd_answer D (tick w) rq, w\<lparr>sent := sent w @ [rq], tick := Suc (tick w)\<rparr>)"

definition bus_PublishEvent ::
  "bus_deps \<Rightarrow> bus_client \<Rightarrow> string \<Rightarrow> string \<Rightarrow> error + string \<Rightarrow> (nat \<times> string \<times> (error + string), 'x) gwop" where
  "bus_PublishEvent D c sourceId name body w =
     (case NewPublishEventRequest D (bc_Server c) sourceId name body of Inl e \<Rightarrow> (Inl e, w) | Inr rq \<Rightarrow> bus_Do D rq w)"

definition bus_RegisterEventTypes ::
  "bus_deps \<Rightarrow> bus_client \<Rightarrow> error + string \<Rightarrow> (nat \<times> string \<times> (error + string), 'x) gwop" where
  "bus_RegisterEventTypes D c body w =
     (case NewRegisterEventTypesRequest D (bc_Server c) body of Inl e \<Rightarrow> (Inl e, w) | Inr rq \<Rightarrow> bus_Do D rq w)"

text \<open>A parsed response; \<open>br_JSON\<close> names the status whose JSON payload was decoded.\<close>

record bus_response =
  br_Body :: string
  br_StatusCode :: nat
  br_JSON :: "nat option"

definition parse_response ::
  "bus_deps \<Rightarrow> (nat \<times> string) list \<Rightarrow> nat \<times> string \<times> (error + string) \<Rightarrow> error + bus_response" where
  "parse_response D known rsp =
     (case rsp of (status, contentType, body) \<Rightarrow>
      case body of
        Inl e \<Rightarrow> Inl e
      | Inr bodyBytes \<Rightarrow>
          (case if Contains contentType ''json'' then map_of known status else None of
             Some dest \<Rightarrow>
               (case bd_unmarshal D dest bodyBytes of
                  Inl e \<Rightarrow> Inl e
                | Inr _ \<Rightarrow> Inr \<lparr>br_Body = bodyBytes, br_StatusCode = status, br_JSON = Some status\<rparr>)
           | None \<Rightarrow> Inr \<lparr>br_Body = bodyBytes, br_StatusCode = status, br_JSON = None\<rparr>))"

definition ParsePublishEventResponse :: "bus_deps \<Rightarrow> nat \<times> string \<times> (error + string) \<Rightarrow> error + bus_response" where
  "ParsePublishEventResponse D =
     parse_response D [(200, ''PublishEventOK''), (400, ''ResponseBadRequest''), (404, ''ResponseNotFound'')]"

definition ParseRegisterEventTypesResponse :: "bus_deps \<Rightarrow> nat \<times> string \<times> (error + string) \<Rightarrow> error + bus_response" where
  "ParseRegisterEventTypesResponse D =
     parse_response D [(200, ''ResponseOK''), (400, ''ResponseBadRequest''), (409, ''ResponseConflict'')]"

definition PublishEventWithResponse ::
  "bus_deps \<Rightarrow> bus_client \<Rightarrow> string \<Rightarrow> string \<Rightarrow> error + string \<Rightarrow> (bus_response, 'x) gwop" where
  "PublishEventWithResponse D c sourceId name body w =
     (case bus_PublishEvent D c sourceId name body w of
        (Inl e, w1) \<Rightarrow> (Inl e, w1)
      | (Inr rsp, w1) \<Rightarrow> (ParsePublishEventResponse D rsp, w1))"

definition RegisterEventTypesWithResponse :: "bus_deps \<Rightarrow> bus_client \<Rightarrow> error + string \<Rightarrow> (bus_response, 'x) gwop" where
  "RegisterEventTypesWithResponse D c body w =
     (case bus_RegisterEventTypes D c body w of
        (Inl e, w1) \<Rightarrow> (Inl e, w1)
      | (Inr rsp, w1) \<Rightarrow> (ParseRegisterEventTypesResponse D rsp, w1))"

section \<open>Registration\<close>

text \<open>
  The loop of \<open>runServer\<close>, which looks the bus up anew each time; a client that cannot be made would be a nil
  pointer, which \<open>MessageBus\<close> never returns.  \<open>body\<close> is the JSON text of the event types.
\<close>

fun register_events :: "bus_deps \<Rightarrow> error + string \<Rightarrow> nat \<Rightarrow> 'x gw_world_scheme \<Rightarrow> 'x gw_world_scheme" where
  "register_events D body 0 w = w"
| "register_events D body (Suc remaining) w =
     (case MessageBus D (tick w) of
        Inl e \<Rightarrow> w
      | Inr c \<Rightarrow>
     (case RegisterEventTypesWithResponse D c body w of
        (Inr rsp, w1) \<Rightarrow> if br_StatusCode rsp = 200 then w1 else register_events D body remaining w1
      | (Inl e, w1) \<Rightarrow> register_events D body remaining w1))"

definition registrationAttempts :: nat where "registrationAttempts = 10"

section \<open>Paths, logging, random strings\<close>

definition TrimRight :: "string \<Rightarrow> char \<Rightarrow> string" where
  "TrimRight s c = rev (dropWhile (\<lambda>d. d = c) (rev s))"

text \<open>The paths of the second API and of its documentation; the initialization panics without a URL.\<close>

definition v2_init :: "(string \<Rightarrow> URL option) \<Rightarrow> error + string list \<Rightarrow> error + string \<times> string" where
  "v2_init url_Parse servers =
     (case servers of
        Inl e \<Rightarrow> Inl (Errorf ''panic'' e)
      | Inr urls \<Rightarrow>
          (case urls of
             [] \<Rightarrow> Inl (ErrorsNew ''panic: index out of range'')
           | first_url # _ \<Rightarrow>
               (case url_Parse first_url of
                  None \<Rightarrow> Inl (ErrorsNew ''panic'')
                | Some u \<Rightarrow> (let V2APIPath = TrimRight (url_Path u) (CHR ''/'') in Inr (V2APIPath, ''/doc'' @ V2APIPath)))))"

definition safeRequestLogFormat :: string where
  "safeRequestLogFormat =
     ''time=${time_rfc3339} method=${method} route=${route} status=${status} latency=${latency_human}'' @ [CHR 0x0A]"

definition letters_only :: string where
  "letters_only = ''abcdefghijklmnopqrstuvwxyzABCDEFGHIJKLMNOPQRSTUVWXYZ''"

definition RandomString :: "(nat \<Rightarrow> nat \<Rightarrow> nat) \<Rightarrow> nat \<Rightarrow> bool \<Rightarrow> string" where
  "RandomString Intn n onlyLetter =
     (let letters = (if onlyLetter then letters_only else letters_only @ ''0123456789'') in
      map (\<lambda>i. letters ! Intn i (length letters)) [0..<n])"

section \<open>Lemmas\<close>

text \<open>The bus is no hard dependency: there always is a client, even without an address.\<close>

lemma MessageBus_total: "\<exists>c. MessageBus D now = Inr c \<and> HasSuffix (bc_Server c) ''/''"
  by (auto simp: MessageBus_def NewClient_def HasSuffix_iff split: sum.splits)

text \<open>Every request of the registration is a JSON post to the bus; none follows an answer with status 200.\<close>

definition registration_request :: "error + string \<Rightarrow> out_request \<Rightarrow> bool" where
  "registration_request body rq \<longleftrightarrow> out_method rq = ''POST'' \<and> out_headers rq = [(''Content-Type'', ''application/json'')] \<and>
     (\<exists>buf. body = Inr buf \<and> out_body rq = Some buf)"

lemma register_once:
  "\<exists>rqs. sent (snd (RegisterEventTypesWithResponse D c body w)) = sent w @ rqs \<and> length rqs \<le> 1 \<and>
     list_all (registration_request body) rqs"
  by (auto simp: RegisterEventTypesWithResponse_def bus_RegisterEventTypes_def NewRegisterEventTypesRequest_def
      NewRegisterEventTypesRequestWithBody_def post_request_def bus_Do_def registration_request_def Let_def split: sum.splits)

lemma registration_bounded:
  "\<exists>rqs. sent (register_events D body n w) = sent w @ rqs \<and> length rqs \<le> n \<and> list_all (registration_request body) rqs"
proof (induction n arbitrary: w)
  case (Suc n)
  obtain c where c: "MessageBus D (tick w) = Inr c" using MessageBus_total by blast
  obtain r w1 where r: "RegisterEventTypesWithResponse D c body w = (r, w1)" by fastforce
  obtain rqs where s: "sent w1 = sent w @ rqs" "length rqs \<le> 1" "list_all (registration_request body) rqs"
    using register_once [of D c body w] r by auto
  obtain qs where q: "sent (register_events D body n w1) = sent w1 @ qs" "length qs \<le> n" "list_all (registration_request body) qs"
    using Suc.IH by blast
  have "register_events D body (Suc n) w = w1 \<or> register_events D body (Suc n) w = register_events D body n w1"
    using c r by (auto split: sum.splits)
  then show ?case
  proof
    assume "register_events D body (Suc n) w = w1"
    then show ?thesis using s by (intro exI [of _ rqs]) simp
  next
    assume "register_events D body (Suc n) w = register_events D body n w1"
    then show ?thesis using s q by (intro exI [of _ "rqs @ qs"]) simp
  qed
qed simp

text \<open>What a log line can contain: nothing of the URI, the query or the headers.\<close>

fun template_tags :: "string \<Rightarrow> string list" where
  "template_tags [] = []"
| "template_tags (c # s) =
     (if c = CHR ''$'' \<and> s \<noteq> [] \<and> hd s = CHR ''{'' then [takeWhile (\<lambda>d. d \<noteq> CHR ''}'') (tl s)] else []) @ template_tags s"

lemma logged_fields:
  "template_tags safeRequestLogFormat = [''time_rfc3339'', ''method'', ''route'', ''status'', ''latency_human'']"
  by code_simp

lemma drawn_letters:
  assumes "\<And>i m. 0 < m \<Longrightarrow> Intn i m < m" "list_all P letters" "letters \<noteq> []"
  shows "list_all P (map (\<lambda>i. letters ! Intn i (length letters)) [0..<n])"
  using assms by (auto simp: list_all_iff)

lemma RandomString_shape:
  assumes Intn: "\<And>i m. 0 < m \<Longrightarrow> Intn i m < m"
  shows "length (RandomString Intn n onlyLetter) = n" "list_all alnum (RandomString Intn n onlyLetter)"
proof -
  show "length (RandomString Intn n onlyLetter) = n" by (simp add: RandomString_def Let_def)
  define letters where "letters = (if onlyLetter then letters_only else letters_only @ ''0123456789'')"
  have "list_all alnum (letters_only @ ''0123456789'')" "list_all alnum letters_only" by code_simp+
  then have "list_all alnum letters" "letters \<noteq> []" by (simp_all add: letters_def letters_only_def)
  from drawn_letters [where Intn = Intn, OF Intn this] show "list_all alnum (RandomString Intn n onlyLetter)"
    unfolding RandomString_def Let_def letters_def by simp
qed

end
