(* ===== verification/Migration.thy ===== *)
theory Migration
  imports Commands
begin

text \<open>
  \<open>src/cmd/migration-tool\<close>: the migration program of the package.  Whether the service runs is the answer of
  \<open>systemctl\<close>, a parameter; log lines are part of the result.
\<close>

text \<open>A migration tool is a record of the results of its four methods.\<close>

record migrationTool =
  mt_IsMigrationNeeded :: "error + bool"
  mt_PreMigrate :: "error + unit"
  mt_Migrate :: "error + unit"
  mt_PostMigrate :: "error + unit"

definition NewMigrationDummy :: migrationTool where
  "NewMigrationDummy =
     \<lparr>mt_IsMigrationNeeded = Inr False, mt_PreMigrate = Inr (), mt_Migrate = Inr (), mt_PostMigrate = Inr ()\<rparr>"

datatype ending = Exit nat | Panic error | Returned

record Logger =
  DebugMode :: bool
  lines :: "string list"

definition NewLogger :: Logger where "NewLogger = \<lparr>DebugMode = False, lines = []\<rparr>"

definition Logger_Debug :: "string \<Rightarrow> Logger \<Rightarrow> Logger" where
  "Logger_Debug t l = (if DebugMode l then l\<lparr>lines := lines l @ [''DEBUG: '' @ t]\<rparr> else l)"

definition Logger_Info :: "string \<Rightarrow> Logger \<Rightarrow> Logger" where
  "Logger_Info t l = l\<lparr>lines := lines l @ [t]\<rparr>"

definition Logger_Error :: "string \<Rightarrow> Logger \<Rightarrow> Logger" where
  "Logger_Error t l = l\<lparr>lines := lines l @ [''ERROR: '' @ t]\<rparr>"

definition userServiceName :: string where "userServiceName = ''casaos-user-service.service''"

text \<open>The first tool that is needed.\<close>

fun select_tool :: "migrationTool list \<Rightarrow> error + migrationTool option" where
  "select_tool [] = Inr None"
| "select_tool (t # ts) =
     (case mt_IsMigrationNeeded t of Inl e \<Rightarrow> Inl e | Inr needed \<Rightarrow> if needed then Inr (Some t) else select_tool ts)"

definition run_tool :: "migrationTool \<Rightarrow> Logger \<Rightarrow> ending \<times> Logger" where
  "run_tool t l =
     (case mt_PreMigrate t of Inl e \<Rightarrow> (Panic e, l) | Inr _ \<Rightarrow>
      case mt_Migrate t of Inl e \<Rightarrow> (Panic e, l) | Inr _ \<Rightarrow>
      case mt_PostMigrate t of
        Inl e \<Rightarrow> (Returned, Logger_Error ''Migration succeeded, but post-migration failed'' l)
      | Inr _ \<Rightarrow> (Returned, l))"

definition migrate_with :: "migrationTool list \<Rightarrow> Logger \<Rightarrow> ending \<times> Logger" where
  "migrate_with tools l =
     (case select_tool tools of
        Inl e \<Rightarrow> (Panic e, l)
      | Inr None \<Rightarrow> (Returned, Logger_Info ''No migration to proceed.'' l)
      | Inr (Some t) \<Rightarrow> run_tool t l)"

definition migration_tools :: "migrationTool list" where "migration_tools = [NewMigrationDummy]"

text \<open>The global flag set exits with 2 on a bad flag and with 0 on a request for help.\<close>

definition migration_main :: "string list \<Rightarrow> int \<Rightarrow> error + bool \<Rightarrow> ending \<times> Logger" where
  "migration_main args uid IsServiceRunning =
     (case flags_Parse [(''v'', True), (''d'', True), (''f'', True)] [] args of
        Inl e \<Rightarrow> (Exit (if e = ErrorsNew ''flag: help requested'' then 0 else 2), NewLogger)
      | Inr (vals, _) \<Rightarrow>
      if flag_or vals ''v'' ''false'' = ''true'' then (Exit 0, NewLogger\<lparr>lines := [CHR ''v'' # Version]\<rparr>)
      else if uid \<noteq> 0 then (Exit 1, Logger_Info ''Root privileges are required to run this program.'' NewLogger)
      else
      let l = (if flag_or vals ''d'' ''true'' = ''true'' then NewLogger\<lparr>DebugMode := True\<rparr> else NewLogger) in
      if flag_or vals ''f'' ''false'' \<noteq> ''true'' then
        (case IsServiceRunning of
           Inl e \<Rightarrow> (Panic e, Logger_Error (''Failed to check if '' @ userServiceName @ '' is running'') l)
         | Inr isRunning \<Rightarrow>
             if isRunning then (Exit 1, Logger_Info (userServiceName @ '' is running. If migration is still needed, try with -f.'') l)
             else migrate_with migration_tools l)
      else migrate_with migration_tools l)"

text \<open>
  The tool is a stub: it never runs a migration, and never claims to have run one.  With root rights, \<open>-f\<close>
  and nothing else it always returns normally.
\<close>

lemma migration_stub: "migrate_with migration_tools l = (Returned, Logger_Info ''No migration to proceed.'' l)"
  by (simp add: migrate_with_def migration_tools_def NewMigrationDummy_def)

lemma forced_migration: "fst (migration_main [''-f''] 0 running) = Returned"
proof -
  have "flags_Parse [(''v'', True), (''d'', True), (''f'', True)] [] [''-f''] = Inr ([(''f'', ''true'')], [])" by code_simp
  then show ?thesis by (simp add: migration_main_def flag_or_def migration_stub Let_def)
qed

end
