(* ===== verification/Vulnerability_Policy.thy ===== *)
theory Vulnerability_Policy
  imports Go_Prelude
begin

text \<open>
  \<open>src/scripts/govuln-policy.go\<close>: the build passes only if the vulnerabilities that govulncheck reports as
  reachable are exactly those of an allowlist.  The JSON decoder is a parameter: a stream is the list
  of what \<open>Decode\<close> returns up to the end of input, an object being the list of its members, and the fields
  of \<open>vuln_json\<close> are \<open>json.Unmarshal\<close> at the types of the program.
\<close>

section \<open>Lines and fields\<close>

text \<open>
  \<open>bufio.Scanner\<close> on lines: the lines before the first that does not fit the buffer, without their line
  ends, and whether there is such a line.
\<close>

definition maxTokenSize :: nat where "maxTokenSize = 64 * 1024"

definition raw_lines :: "string \<Rightarrow> string list" where
  "raw_lines text = (let ls = Split text (CHR 0x0A) in if last ls = [] then butlast ls else ls)"

definition dropCR :: "string \<Rightarrow> string" where
  "dropCR l = (if l \<noteq> [] \<and> last l = CHR 0x0D then butlast l else l)"

definition scan_lines :: "string \<Rightarrow> string list \<times> bool" where
  "scan_lines text =
     (let fits = (\<lambda>l. length l < maxTokenSize) in
      (map dropCR (takeWhile fits (raw_lines text)), \<not> list_all fits (raw_lines text)))"

text \<open>\<open>strings.Fields\<close>; \<open>acc\<close> is the field being read, reversed.\<close>

function field_pieces :: "string \<Rightarrow> string \<Rightarrow> string list" where
  "field_pieces acc s =
     (let done = (if acc = [] then [] else [rev acc]) in
      if s = [] then done
      else case find (\<lambda>sp. sp \<noteq> [] \<and> HasPrefix s sp) spaces of
        Some sp \<Rightarrow> done @ field_pieces [] (drop (length sp) s)
      | None \<Rightarrow> field_pieces (hd s # acc) (tl s))"
  by pat_completeness auto
termination
  by (relation "measure (\<lambda>(acc, s). length s)") (auto simp: find_Some_iff neq_Nil_conv)

declare field_pieces.simps [simp del]

definition Fields :: "string \<Rightarrow> string list" where
  "Fields s = field_pieces [] s"

section \<open>The allowlist\<close>

text \<open>A map to \<open>struct{}\<close> is the list of its keys, without repetition.\<close>

definition allow_line :: "string \<Rightarrow> string" where
  "allow_line text = TrimSpace (takeWhile (\<lambda>c. c \<noteq> CHR ''#'') text)"

fun allow_loop :: "string list \<Rightarrow> string list \<Rightarrow> error + string list" where
  "allow_loop allowed [] = Inr allowed"
| "allow_loop allowed (text # texts) =
     (let line = allow_line text; fields = Fields line in
      if line = [] then allow_loop allowed texts
      else if length fields \<noteq> 1 \<or> \<not> HasPrefix (hd fields) ''GO-'' then Inl (ErrorsNew (''invalid allowlist line '' @ text))
      else if hd fields \<in> set allowed then Inl (ErrorsNew (''duplicate allowlist entry '' @ hd fields))
      else allow_loop (allowed @ [hd fields]) texts)"

text \<open>The file cannot be opened, or yields bytes and then perhaps an error.\<close>

definition readAllowlist :: "error + string \<times> error option \<Rightarrow> error + string list" where
  "readAllowlist file_contents =
     (case file_contents of
        Inl e \<Rightarrow> Inl e
      | Inr (text, readErr) \<Rightarrow>
          (case scan_lines text of (texts, tooLong) \<Rightarrow>
           case allow_loop [] texts of
             Inl e \<Rightarrow> Inl e
           | Inr allowed \<Rightarrow>
               if tooLong then Inl (ErrorsNew ''bufio.Scanner: token too long'')
               else (case readErr of Some e \<Rightarrow> Inl e | None \<Rightarrow> Inr allowed)))"

section \<open>The findings\<close>

record scanConfig =
  ProtocolVersion :: string
  ScannerName :: string
  ScannerVersion :: string
  sc_GoVersion :: string
  ScanLevel :: string
  ScanMode :: string

record scanSBOM =
  sb_GoVersion :: string
  sb_Modules :: "string list"

record vuln_finding =
  fd_OSV :: string
  fd_Trace :: "string list"

record vuln_json =
  vj_config :: "string \<Rightarrow> error + scanConfig"
  vj_sbom :: "string \<Rightarrow> error + scanSBOM"
  vj_progress :: "string \<Rightarrow> error + string"
  vj_finding :: "string \<Rightarrow> error + vuln_finding"

record scan_state =
  reachable :: "string list"
  configCount :: nat
  sbomCount :: nat
  checkingProgress :: bool

definition vuln_message :: "vuln_json \<Rightarrow> string \<Rightarrow> string \<Rightarrow> scan_state \<Rightarrow> error + scan_state" where
  "vuln_message J kind payload st =
     (if kind = ''config'' then
        (case vj_config J payload of
           Inl e \<Rightarrow> Inl (Errorf ''decode govulncheck config'' e)
         | Inr config \<Rightarrow>
             if ProtocolVersion config \<noteq> ''v1.0.0'' \<or> ScannerName config \<noteq> ''govulncheck'' \<or>
                ScannerVersion config = [] \<or> sc_GoVersion config = [] \<or>
                ScanLevel config \<noteq> ''symbol'' \<or> ScanMode config \<noteq> ''source''
             then Inl (ErrorsNew ''govulncheck config is not a source symbol scan'')
             else Inr (st\<lparr>configCount := configCount st + 1\<rparr>))
      else if kind = ''SBOM'' then
        (case vj_sbom J payload of
           Inl e \<Rightarrow> Inl (Errorf ''decode govulncheck SBOM'' e)
         | Inr sbom \<Rightarrow>
             if sb_GoVersion sbom = [] \<or> sb_Modules sbom = [] then Inl (ErrorsNew ''govulncheck SBOM is empty'')
             else if \<not> list_ex (\<lambda>m. m = ''github.com/EdmundFu-233/ReCasaOS-UserService'') (sb_Modules sbom)
             then Inl (ErrorsNew ''govulncheck SBOM does not contain the root module'')
             else Inr (st\<lparr>sbomCount := sbomCount st + 1\<rparr>))
      else if kind = ''progress'' then
        (case vj_progress J payload of
           Inl e \<Rightarrow> Inl (Errorf ''decode govulncheck progress'' e)
         | Inr text \<Rightarrow>
             Inr (if text = ''Checking the code against the vulnerabilities...'' then st\<lparr>checkingProgress := True\<rparr> else st))
      else if kind = ''osv'' then
        (if payload = [] \<or> payload = ''null'' then Inl (ErrorsNew ''govulncheck OSV message is empty'') else Inr st)
      else if kind = ''finding'' then
        (case vj_finding J payload of
           Inl e \<Rightarrow> Inl (Errorf ''decode govulncheck finding'' e)
         | Inr f \<Rightarrow>
             if fd_OSV f = [] then Inl (ErrorsNew ''govulncheck finding is missing an OSV identifier'')
             else Inr (if fd_Trace f \<noteq> [] \<and> hd (fd_Trace f) \<noteq> [] then st\<lparr>reachable := List.insert (fd_OSV f) (reachable st)\<rparr> else st))
      else Inl (ErrorsNew (''unknown govulncheck message type '' @ kind)))"

fun vuln_stream :: "vuln_json \<Rightarrow> scan_state \<Rightarrow> (error + (string \<times> string) list) list \<Rightarrow> error + string list" where
  "vuln_stream J st [] =
     (if configCount st \<noteq> 1 \<or> sbomCount st \<noteq> 1 \<or> \<not> checkingProgress st
      then Inl (ErrorsNew ''govulncheck stream is incomplete or duplicated'')
      else Inr (reachable st))"
| "vuln_stream J st (Inl e # ms) = Inl e"
| "vuln_stream J st (Inr raw # ms) =
     (if length raw \<noteq> 1 then Inl (ErrorsNew ''govulncheck message must contain exactly one top-level field'')
      else case vuln_message J (fst (hd raw)) (snd (hd raw)) st of
        Inl e \<Rightarrow> Inl e
      | Inr st1 \<Rightarrow> vuln_stream J st1 ms)"

definition readReachableFindings :: "vuln_json \<Rightarrow> (error + (string \<times> string) list) list \<Rightarrow> error + string list" where
  "readReachableFindings J ms =
     vuln_stream J \<lparr>reachable = [], configCount = 0, sbomCount = 0, checkingProgress = False\<rparr> ms"

definition difference :: "string list \<Rightarrow> string list \<Rightarrow> string list" where
  "difference left right = sort (filter (\<lambda>i. i \<notin> set right) left)"

fun strings_Join :: "string list \<Rightarrow> string \<Rightarrow> string" where
  "strings_Join [] sep = []"
| "strings_Join [x] sep = x"
| "strings_Join (x # y # xs) sep = x @ sep @ strings_Join (y # xs) sep"

text \<open>The exit status, and the lines written to standard error or output, without the texts of errors.\<close>

definition policy_main ::
  "string list \<Rightarrow> (string \<Rightarrow> error + string \<times> error option) \<Rightarrow> vuln_json \<Rightarrow> (error + (string \<times> string) list) list \<Rightarrow>
   nat \<times> string list" where
  "policy_main args os_Open J stdin =
     (if length args \<noteq> 1 then (2, [''usage: govuln-policy <allowlist>''])
      else case readAllowlist (os_Open (hd args)) of
        Inl e \<Rightarrow> (2, [''read vulnerability allowlist''])
      | Inr allowed \<Rightarrow>
      case readReachableFindings J stdin of
        Inl e \<Rightarrow> (2, [''read govulncheck output''])
      | Inr found \<Rightarrow>
      let unexpected = difference found allowed; stale = difference allowed found in
      if unexpected \<noteq> [] \<or> stale \<noteq> [] then
        (1, (if unexpected \<noteq> [] then [''unexpected reachable vulnerabilities: '' @ strings_Join unexpected '', ''] else []) @
            (if stale \<noteq> [] then [''stale vulnerability allowlist entries: '' @ strings_Join stale '', ''] else []))
      else (0, [''reachable vulnerability policy passed ('' @ Itoa (int (length allowed)) @ '' explicitly held)'']))"

section \<open>What passes\<close>

text \<open>The allowlist: each line that is not blank holds one identifier, and none is repeated.\<close>

definition entry_lines :: "string list \<Rightarrow> string list" where
  "entry_lines texts = filter (\<lambda>l. l \<noteq> []) (map allow_line texts)"

definition valid_entry :: "string \<Rightarrow> bool" where
  "valid_entry l \<longleftrightarrow> length (Fields l) = 1 \<and> HasPrefix (hd (Fields l)) ''GO-''"

definition entry_ids :: "string list \<Rightarrow> string list" where
  "entry_ids texts = map (\<lambda>l. hd (Fields l)) (entry_lines texts)"

lemma entry_ids_simps:
  "entry_ids [] = []"
  "entry_ids (t # ts) = (if allow_line t = [] then entry_ids ts else hd (Fields (allow_line t)) # entry_ids ts)"
  "entry_lines [] = []"
  "entry_lines (t # ts) = (if allow_line t = [] then entry_lines ts else allow_line t # entry_lines ts)"
  by (simp_all add: entry_ids_def entry_lines_def)

lemma allow_loop_iff:
  "distinct acc \<Longrightarrow> allow_loop acc texts = Inr allowed \<longleftrightarrow>
     list_all valid_entry (entry_lines texts) \<and> distinct (acc @ entry_ids texts) \<and> allowed = acc @ entry_ids texts"
proof (induction texts arbitrary: acc)
  case Nil
  then show ?case by (auto simp: entry_ids_simps)
next
  case (Cons t ts)
  then show ?case
    using Cons.IH [of acc] Cons.IH [of "acc @ [hd (Fields (allow_line t))]"]
    by (simp add: entry_ids_simps valid_entry_def Let_def) blast
qed

lemma takeWhile_all: "list_all P xs \<Longrightarrow> takeWhile P xs = xs"
  by (induction xs) auto

lemma readAllowlist_iff:
  "readAllowlist f = Inr allowed \<longleftrightarrow>
     (\<exists>text. f = Inr (text, None) \<and> list_all (\<lambda>l. length l < maxTokenSize) (raw_lines text) \<and>
        list_all valid_entry (entry_lines (map dropCR (raw_lines text))) \<and>
        distinct (entry_ids (map dropCR (raw_lines text))) \<and> allowed = entry_ids (map dropCR (raw_lines text)))"
  (is "?L \<longleftrightarrow> ?R")
proof (cases "\<exists>text. f = Inr (text, None) \<and> list_all (\<lambda>l. length l < maxTokenSize) (raw_lines text)")
  case True
  then obtain bytes where t: "f = Inr (bytes, None)" "list_all (\<lambda>l. length l < maxTokenSize) (raw_lines bytes)" by blast
  then have "?L \<longleftrightarrow> allow_loop [] (map dropCR (raw_lines bytes)) = Inr allowed"
    by (auto simp: readAllowlist_def scan_lines_def Let_def takeWhile_all split: sum.splits)
  then show ?thesis using t allow_loop_iff [of "[]"] by auto
next
  case False
  then show ?thesis
    by (auto simp: readAllowlist_def scan_lines_def Let_def split: sum.splits prod.splits option.splits if_splits)
qed

text \<open>The stream: which messages are accepted, and what each contributes.\<close>

definition config_ok :: "scanConfig \<Rightarrow> bool" where
  "config_ok c \<longleftrightarrow> ProtocolVersion c = ''v1.0.0'' \<and> ScannerName c = ''govulncheck'' \<and> ScannerVersion c \<noteq> [] \<and>
     sc_GoVersion c \<noteq> [] \<and> ScanLevel c = ''symbol'' \<and> ScanMode c = ''source''"

definition sbom_ok :: "scanSBOM \<Rightarrow> bool" where
  "sbom_ok b \<longleftrightarrow> sb_GoVersion b \<noteq> [] \<and> ''github.com/EdmundFu-233/ReCasaOS-UserService'' \<in> set (sb_Modules b)"

definition message_ok :: "vuln_json \<Rightarrow> string \<times> string \<Rightarrow> bool" where
  "message_ok J m \<longleftrightarrow>
     (case m of (kind, payload) \<Rightarrow>
        kind = ''config'' \<and> (\<exists>c. vj_config J payload = Inr c \<and> config_ok c) \<or>
        kind = ''SBOM'' \<and> (\<exists>b. vj_sbom J payload = Inr b \<and> sbom_ok b) \<or>
        kind = ''progress'' \<and> (\<exists>t. vj_progress J payload = Inr t) \<or>
        kind = ''osv'' \<and> payload \<noteq> [] \<and> payload \<noteq> ''null'' \<or>
        kind = ''finding'' \<and> (\<exists>f. vj_finding J payload = Inr f \<and> fd_OSV f \<noteq> []))"

definition announces :: "vuln_json \<Rightarrow> string \<times> string \<Rightarrow> bool" where
  "announces J m \<longleftrightarrow> fst m = ''progress'' \<and> vj_progress J (snd m) = Inr ''Checking the code against the vulnerabilities...''"

text \<open>A finding is reachable if the first frame of its trace names a function.\<close>

definition reaches :: "vuln_json \<Rightarrow> string \<times> string \<Rightarrow> string \<Rightarrow> bool" where
  "reaches J m osv \<longleftrightarrow> fst m = ''finding'' \<and>
     (\<exists>f. vj_finding J (snd m) = Inr f \<and> fd_OSV f = osv \<and> fd_Trace f \<noteq> [] \<and> hd (fd_Trace f) \<noteq> [])"

definition contribute :: "vuln_json \<Rightarrow> string \<times> string \<Rightarrow> scan_state \<Rightarrow> scan_state" where
  "contribute J m st =
     st\<lparr>reachable := (case vj_finding J (snd m) of
          Inr f \<Rightarrow> if reaches J m (fd_OSV f) then List.insert (fd_OSV f) (reachable st) else reachable st
        | Inl _ \<Rightarrow> reachable st),
       configCount := configCount st + of_bool (fst m = ''config''),
       sbomCount := sbomCount st + of_bool (fst m = ''SBOM''),
       checkingProgress := checkingProgress st \<or> announces J m\<rparr>"

lemma contribute_fields:
  "configCount (contribute J m st) = configCount st + of_bool (fst m = ''config'')"
  "sbomCount (contribute J m st) = sbomCount st + of_bool (fst m = ''SBOM'')"
  "checkingProgress (contribute J m st) = (checkingProgress st \<or> announces J m)"
  "set (reachable (contribute J m st)) = set (reachable st) \<union> {i. reaches J m i}"
  by (auto simp: contribute_def reaches_def split: sum.splits)

lemma message_kind:
  assumes "message_ok J (kind, payload) \<or> \<not> isl (vuln_message J kind payload st)"
  obtains "kind = ''config''" | "kind = ''SBOM''" | "kind = ''progress''" | "kind = ''osv''" | "kind = ''finding''"
proof -
  have "isl (vuln_message J kind payload st)"
    if "kind \<noteq> ''config''" "kind \<noteq> ''SBOM''" "kind \<noteq> ''progress''" "kind \<noteq> ''osv''" "kind \<noteq> ''finding''"
    unfolding vuln_message_def by (simp only: that if_False) simp
  then show thesis using assms that unfolding message_ok_def by fastforce
qed

lemma vuln_message_config:
  "vuln_message J ''config'' p st = Inr st' \<longleftrightarrow> message_ok J (''config'', p) \<and> st' = contribute J (''config'', p) st"
  by (cases "vj_config J p")
    (auto simp: vuln_message_def message_ok_def config_ok_def contribute_def announces_def reaches_def split: sum.splits)

lemma vuln_message_SBOM:
  "vuln_message J ''SBOM'' p st = Inr st' \<longleftrightarrow> message_ok J (''SBOM'', p) \<and> st' = contribute J (''SBOM'', p) st"
  by (cases "vj_sbom J p")
    (auto simp: vuln_message_def message_ok_def sbom_ok_def contribute_def announces_def reaches_def list_ex_iff split: sum.splits)

lemma vuln_message_progress:
  "vuln_message J ''progress'' p st = Inr st' \<longleftrightarrow> message_ok J (''progress'', p) \<and> st' = contribute J (''progress'', p) st"
  by (cases "vj_progress J p")
    (auto simp: vuln_message_def message_ok_def contribute_def announces_def reaches_def split: sum.splits)

lemma vuln_message_osv:
  "vuln_message J ''osv'' p st = Inr st' \<longleftrightarrow> message_ok J (''osv'', p) \<and> st' = contribute J (''osv'', p) st"
  by (auto simp: vuln_message_def message_ok_def contribute_def announces_def reaches_def split: sum.splits)

lemma vuln_message_finding:
  "vuln_message J ''finding'' p st = Inr st' \<longleftrightarrow> message_ok J (''finding'', p) \<and> st' = contribute J (''finding'', p) st"
  by (cases "vj_finding J p")
    (auto simp: vuln_message_def message_ok_def contribute_def announces_def reaches_def split: sum.splits)

lemma vuln_message_iff:
  "vuln_message J kind payload st = Inr st' \<longleftrightarrow> message_ok J (kind, payload) \<and> st' = contribute J (kind, payload) st"
proof (cases "message_ok J (kind, payload) \<or> \<not> isl (vuln_message J kind payload st)")
  case True
  then show ?thesis
    by (rule message_kind)
      (simp_all only: vuln_message_config vuln_message_SBOM vuln_message_progress vuln_message_osv vuln_message_finding)
qed auto

text \<open>A stream runs through exactly if all its messages are accepted and it is complete.\<close>

definition stream_ok :: "vuln_json \<Rightarrow> (error + (string \<times> string) list) list \<Rightarrow> (string \<times> string) list \<Rightarrow> bool" where
  "stream_ok J ms vs \<longleftrightarrow> ms = map (\<lambda>m. Inr [m]) vs \<and> list_all (message_ok J) vs \<and>
     length (filter (\<lambda>m. fst m = ''config'') vs) = 1 \<and> length (filter (\<lambda>m. fst m = ''SBOM'') vs) = 1 \<and> list_ex (announces J) vs"

lemma vuln_stream_run:
  "list_all (message_ok J) vs \<Longrightarrow> vuln_stream J st (map (\<lambda>m. Inr [m]) vs) = vuln_stream J (fold (contribute J) vs st) []"
proof (induction vs arbitrary: st)
  case (Cons m vs)
  then have "vuln_message J (fst m) (snd m) st = Inr (contribute J m st)" by (simp add: vuln_message_iff)
  then show ?case using Cons by simp
qed simp

lemma vuln_stream_messages:
  "vuln_stream J st ms = Inr ids \<Longrightarrow> \<exists>vs. ms = map (\<lambda>m. Inr [m]) vs \<and> list_all (message_ok J) vs"
proof (induction ms arbitrary: st)
  case (Cons x ms)
  obtain m where x: "x = Inr [m]"
    using Cons.prems by (cases x) (auto split: if_splits simp: length_Suc_conv)
  then obtain st' where m: "vuln_message J (fst m) (snd m) st = Inr st'" "vuln_stream J st' ms = Inr ids"
    using Cons.prems by (auto split: sum.splits)
  obtain vs where "ms = map (\<lambda>m. Inr [m]) vs" "list_all (message_ok J) vs" using Cons.IH [OF m(2)] by blast
  then have "x # ms = map (\<lambda>m. Inr [m]) (m # vs) \<and> list_all (message_ok J) (m # vs)"
    using x m(1) by (simp add: vuln_message_iff)
  then show ?case by (rule exI)
qed simp

lemma fold_contribute:
  "configCount (fold (contribute J) vs st) = configCount st + length (filter (\<lambda>m. fst m = ''config'') vs)"
  "sbomCount (fold (contribute J) vs st) = sbomCount st + length (filter (\<lambda>m. fst m = ''SBOM'') vs)"
  "checkingProgress (fold (contribute J) vs st) = (checkingProgress st \<or> list_ex (announces J) vs)"
  "set (reachable (fold (contribute J) vs st)) = set (reachable st) \<union> {i. \<exists>m. m \<in> set vs \<and> reaches J m i}"
  by (induction vs arbitrary: st) (auto simp: contribute_fields)

lemma readReachableFindings_ok:
  "stream_ok J ms vs \<Longrightarrow> \<exists>ids. readReachableFindings J ms = Inr ids \<and> set ids = {i. \<exists>m. m \<in> set vs \<and> reaches J m i}"
  by (auto simp: stream_ok_def readReachableFindings_def vuln_stream_run fold_contribute)

lemma readReachableFindings_only:
  assumes "readReachableFindings J ms = Inr ids"
  shows "\<exists>vs. stream_ok J ms vs"
proof -
  obtain vs where vs: "ms = map (\<lambda>m. Inr [m]) vs" "list_all (message_ok J) vs"
    using vuln_stream_messages assms unfolding readReachableFindings_def by blast
  then show ?thesis
    using assms by (auto simp: stream_ok_def readReachableFindings_def vuln_stream_run fold_contribute split: if_splits)
qed

lemma readReachableFindings_iff:
  "(\<exists>ids. readReachableFindings J ms = Inr ids \<and> set ids = A) \<longleftrightarrow>
   (\<exists>vs. stream_ok J ms vs \<and> A = {i. \<exists>m. m \<in> set vs \<and> reaches J m i})"
proof
  assume "\<exists>ids. readReachableFindings J ms = Inr ids \<and> set ids = A"
  then obtain ids where ids: "readReachableFindings J ms = Inr ids" "set ids = A" by blast
  then obtain vs where vs: "stream_ok J ms vs" using readReachableFindings_only by blast
  then show "\<exists>vs. stream_ok J ms vs \<and> A = {i. \<exists>m. m \<in> set vs \<and> reaches J m i}"
    using readReachableFindings_ok [OF vs] ids by auto
qed (use readReachableFindings_ok in blast)

lemma difference_empty: "difference xs ys = [] \<and> difference ys xs = [] \<longleftrightarrow> set xs = set ys"
proof -
  have "difference as bs = [] \<longleftrightarrow> set as \<subseteq> set bs" for as bs
    unfolding difference_def by (subst set_empty [symmetric]) auto
  then show ?thesis by blast
qed

text \<open>C40.  The vulnerability policy passes exactly if the allowlist can be read, has one identifier on each line
  that is not blank or a comment and none twice, the scan is one complete source scan of this module at
  symbol level, and the identifiers are those of the findings with a call trace: none unexpected and
  none stale.\<close>

theorem vulnerability_policy_iff:
  "fst (policy_main args os_Open J stdin) = 0 \<longleftrightarrow>
     (\<exists>p text vs. args = [p] \<and> os_Open p = Inr (text, None) \<and> list_all (\<lambda>l. length l < maxTokenSize) (raw_lines text) \<and>
        list_all valid_entry (entry_lines (map dropCR (raw_lines text))) \<and> distinct (entry_ids (map dropCR (raw_lines text))) \<and>
        stream_ok J stdin vs \<and> set (entry_ids (map dropCR (raw_lines text))) = {i. \<exists>m. m \<in> set vs \<and> reaches J m i})"
proof -
  have "fst (policy_main args os_Open J stdin) = 0 \<longleftrightarrow>
      (\<exists>p allowed. args = [p] \<and> readAllowlist (os_Open p) = Inr allowed \<and> (\<exists>ids. readReachableFindings J stdin = Inr ids \<and> set ids = set allowed))"
  proof (cases "\<exists>p. args = [p]")
    case True
    then obtain p where p: "args = [p]" by blast
    show ?thesis
    proof (cases "\<exists>allowed ids. readAllowlist (os_Open p) = Inr allowed \<and> readReachableFindings J stdin = Inr ids")
      case True
      then obtain allowed ids where ai: "readAllowlist (os_Open p) = Inr allowed" "readReachableFindings J stdin = Inr ids" by blast
      have "fst (policy_main args os_Open J stdin) = 0 \<longleftrightarrow> difference ids allowed = [] \<and> difference allowed ids = []"
        using p ai by (simp add: policy_main_def Let_def)
      then show ?thesis using p ai by (simp add: difference_empty)
    next
      case False
      then show ?thesis using p by (auto simp: policy_main_def split: sum.splits)
    qed
  qed (auto simp: policy_main_def length_Suc_conv)
  then show ?thesis unfolding readReachableFindings_iff readAllowlist_iff by auto
qed

text \<open>A scan with one reachable finding, which the allowlist holds, and one finding that is only imported.\<close>

definition sample_json :: vuln_json where
  "sample_json =
     \<lparr>vj_config = (\<lambda>_. Inr \<lparr>ProtocolVersion = ''v1.0.0'', ScannerName = ''govulncheck'', ScannerVersion = ''v1'', sc_GoVersion = ''go1'',
        ScanLevel = ''symbol'', ScanMode = ''source''\<rparr>),
      vj_sbom = (\<lambda>_. Inr \<lparr>sb_GoVersion = ''go1'', sb_Modules = [''github.com/EdmundFu-233/ReCasaOS-UserService'']\<rparr>),
      vj_progress = (\<lambda>_. Inr ''Checking the code against the vulnerabilities...''),
      vj_finding = (\<lambda>p. Inr \<lparr>fd_OSV = p, fd_Trace = (if p = ''GO-1'' then [''f''] else [])\<rparr>)\<rparr>"

definition sample_scan :: "(error + (string \<times> string) list) list" where
  "sample_scan = [Inr [(''config'', [])], Inr [(''SBOM'', [])], Inr [(''progress'', [])], Inr [(''finding'', ''GO-1'')], Inr [(''finding'', ''GO-2'')]]"

lemma sample_policy:
  "allow_loop [] [''# held'', '' GO-1 # until May'', []] = Inr [''GO-1'']"
  "isl (allow_loop [] [''GO-1 GO-2''])" "isl (allow_loop [] [''GO-1'', ''GO-1''])"
  "readReachableFindings sample_json sample_scan = Inr [''GO-1'']"
  by code_simp+

end
