(* ===== verification/Dependency_Boundary.thy ===== *)
theory Dependency_Boundary
  imports Go_Encoding
begin

text \<open>
  \<open>src/scripts/check-go-dependency-boundary.go\<close>: the build is refused if a forbidden package is in the
  package graph or a forbidden import is in the source tree.  Splitting a text into JSON values and an
  object into its members, decoding a string or a boolean, and parsing the imports of a Go file are
  parameters.
\<close>

section \<open>Text\<close>

text \<open>\<open>utf8.Valid\<close>: the range of the second byte and the length of a sequence by its first byte.\<close>

definition utf8_lead :: "nat \<Rightarrow> (nat \<times> nat \<times> nat) option" where
  "utf8_lead n =
     (if 0xC2 \<le> n \<and> n \<le> 0xDF then Some (0x80, 0xBF, 2)
      else if n = 0xE0 then Some (0xA0, 0xBF, 3)
      else if n = 0xED then Some (0x80, 0x9F, 3)
      else if 0xE1 \<le> n \<and> n \<le> 0xEF then Some (0x80, 0xBF, 3)
      else if n = 0xF0 then Some (0x90, 0xBF, 4)
      else if 0xF1 \<le> n \<and> n \<le> 0xF3 then Some (0x80, 0xBF, 4)
      else if n = 0xF4 then Some (0x80, 0x8F, 4)
      else None)"

function utf8_Valid :: "string \<Rightarrow> bool" where
  "utf8_Valid s =
     (case s of
        [] \<Rightarrow> True
      | c # t \<Rightarrow>
          if code c < 0x80 then utf8_Valid t
          else (case utf8_lead (code c) of
             None \<Rightarrow> False
           | Some (lo, hi, k) \<Rightarrow>
               k - 1 \<le> length t \<and> lo \<le> code (hd t) \<and> code (hd t) \<le> hi \<and>
               list_all (\<lambda>d. 0x80 \<le> code d \<and> code d \<le> 0xBF) (take (k - 2) (tl t)) \<and> utf8_Valid (drop (k - 1) t)))"
  by pat_completeness auto
termination by (relation "measure length") auto

declare utf8_Valid.simps [simp del]

fun strings_Index :: "string \<Rightarrow> string \<Rightarrow> nat option" where
  "strings_Index [] p = (if p = [] then Some 0 else None)"
| "strings_Index (c # s) p = (if HasPrefix (c # s) p then Some 0 else map_option Suc (strings_Index s p))"

text \<open>\<open>strings.Count\<close> of a text that is not empty.\<close>

function strings_Count :: "string \<Rightarrow> string \<Rightarrow> nat" where
  "strings_Count s p =
     (if s = [] \<or> p = [] then 0
      else if HasPrefix s p then Suc (strings_Count (drop (length p) s) p)
      else strings_Count (tl s) p)"
  by pat_completeness auto
termination by (relation "measure (\<lambda>(s, p). length s)") (auto simp: neq_Nil_conv)

declare strings_Count.simps [simp del]

definition Ext :: "string \<Rightarrow> string" where
  "Ext name =
     (if CHR ''.'' \<in> set name then CHR ''.'' # rev (takeWhile (\<lambda>c. c \<noteq> CHR ''.'') (rev name)) else [])"

section \<open>The package graph\<close>

definition forbiddenOpenPGPPackage :: string where "forbiddenOpenPGPPackage = ''golang.org/x/crypto/openpgp''"
definition forbiddenLegacyFilePackage :: string where
  "forbiddenLegacyFilePackage = ''github.com/EdmundFu-233/ReCasaOS-UserService/pkg/utils/file''"
definition forbiddenLegacyFileSourcePath :: string where "forbiddenLegacyFileSourcePath = ''pkg/utils/file''"
definition maximumGraphBytes :: nat where "maximumGraphBytes = 67108864"
definition maximumSourceFileBytes :: nat where "maximumSourceFileBytes = 4194304"
definition maximumSourceFiles :: nat where "maximumSourceFiles = 4096"

definition forbiddenSourceImports :: "string \<Rightarrow> string option" where
  "forbiddenSourceImports =
     [''crypto/md5'' \<mapsto> ''weak hash'', ''crypto/sha1'' \<mapsto> ''weak hash'',
      forbiddenLegacyFilePackage \<mapsto> ''removed unsafe path helper'']"

record packageRecord =
  pr_ImportPath :: string
  pr_Incomplete :: bool
  pr_Error :: string
  pr_DepsErrors :: string

text \<open>
  \<open>pj_values\<close> is what successive calls of \<open>Decode\<close> find up to the end of input.  A JSON value is an object,
  given by its members in order with the text of each value, or something else.
\<close>

record pkg_json =
  pj_values :: "string \<Rightarrow> (error + string) list"
  pj_members :: "string \<Rightarrow> (string \<times> string) list option"
  pj_string :: "string \<Rightarrow> error + string"
  pj_bool :: "string \<Rightarrow> error + bool"

fun record_members :: "pkg_json \<Rightarrow> packageRecord \<Rightarrow> string list \<Rightarrow> (string \<times> string) list \<Rightarrow> error + packageRecord" where
  "record_members J r seen [] = Inr r"
| "record_members J r seen ((key, raw) # ms) =
     (if key \<in> set seen then Inl (ErrorsNew (''package record contains duplicate key '' @ key))
      else case (if key = ''ImportPath'' then map_sum id (\<lambda>v. r\<lparr>pr_ImportPath := v\<rparr>) (pj_string J raw)
                 else if key = ''Incomplete'' then map_sum id (\<lambda>v. r\<lparr>pr_Incomplete := v\<rparr>) (pj_bool J raw)
                 else if key = ''Error'' then Inr (r\<lparr>pr_Error := raw\<rparr>)
                 else if key = ''DepsErrors'' then Inr (r\<lparr>pr_DepsErrors := raw\<rparr>)
                 else Inr r) of
        Inl e \<Rightarrow> Inl (Errorf (''decode package record key '' @ key) e)
      | Inr r1 \<Rightarrow> record_members J r1 (key # seen) ms)"

definition UnmarshalJSON :: "pkg_json \<Rightarrow> string \<Rightarrow> error + packageRecord" where
  "UnmarshalJSON J payload =
     (if \<not> utf8_Valid payload then Inl (ErrorsNew ''package record is not valid UTF-8'')
      else case pj_members J payload of
        None \<Rightarrow> Inl (ErrorsNew ''package record is not a JSON object'')
      | Some ms \<Rightarrow>
          record_members J \<lparr>pr_ImportPath = [], pr_Incomplete = False, pr_Error = [], pr_DepsErrors = []\<rparr> [] ms)"

definition canonicalImportPath :: "string \<Rightarrow> error + string" where
  "canonicalImportPath importPath =
     (if importPath = [] then Inl (ErrorsNew ''package record has an empty ImportPath'')
      else if \<not> utf8_Valid importPath then Inl (ErrorsNew ''package record has an invalid ImportPath'')
      else if list_ex (\<lambda>c. code c < 0x20 \<or> code c > 0x7e) importPath then Inl (ErrorsNew ''package record has a non-ASCII ImportPath'')
      else if ContainsAny importPath [CHR 0x09, CHR 0x0D, CHR 0x0A] then Inl (ErrorsNew ''package record has an invalid ImportPath'')
      else
      case (case strings_Index importPath '' ['' of
              None \<Rightarrow> Inr importPath
            | Some marker \<Rightarrow>
                if marker = 0 \<or> \<not> HasSuffix importPath '']'' \<or> strings_Count importPath '' ['' \<noteq> 1
                then Inl (ErrorsNew ''package record has a malformed test ImportPath'')
                else
                let testContext = drop (marker + 2) (take (length importPath - 1) importPath) in
                if testContext = [] \<or> \<not> HasSuffix testContext ''.test'' \<or> ContainsAny testContext ''[] ''
                then Inl (ErrorsNew ''package record has a malformed test ImportPath'')
                else Inr (take marker importPath)) of
        Inl e \<Rightarrow> Inl e
      | Inr p \<Rightarrow> if Contains p '' '' then Inl (ErrorsNew ''package record has an invalid ImportPath'') else Inr p)"

definition rawJSONIs :: "string \<Rightarrow> string list \<Rightarrow> bool" where
  "rawJSONIs raw allowed = (let trimmed = TrimSpace raw in trimmed = [] \<or> list_ex (\<lambda>v. trimmed = v) allowed)"

definition isForbidden :: "string \<Rightarrow> bool" where
  "isForbidden importPath = (importPath = forbiddenOpenPGPPackage \<or> HasPrefix importPath (forbiddenOpenPGPPackage @ ''/''))"

text \<open>
  \<open>inspect\<close> on the values the decoder finds up to the end of input.  A map to \<open>struct{}\<close> is the list of its
  keys, without repetition.
\<close>

definition decode_record :: "pkg_json \<Rightarrow> error + string \<Rightarrow> error + packageRecord" where
  "decode_record J payload = (case payload of Inl e \<Rightarrow> Inl e | Inr v \<Rightarrow> UnmarshalJSON J v)"

definition check_record :: "nat \<Rightarrow> packageRecord \<Rightarrow> error + string" where
  "check_record seen r =
     (case canonicalImportPath (pr_ImportPath r) of
        Inl e \<Rightarrow> Inl (Errorf (''package record '' @ Itoa (int seen)) e)
      | Inr importPath \<Rightarrow>
      if pr_Incomplete r then Inl (ErrorsNew (''selected package graph is incomplete at '' @ importPath))
      else if \<not> rawJSONIs (pr_Error r) [''null''] then Inl (ErrorsNew (''selected package contains a load error: '' @ importPath))
      else if \<not> rawJSONIs (pr_DepsErrors r) [''null'', ''[]'']
      then Inl (ErrorsNew (''selected package contains dependency load errors: '' @ importPath))
      else Inr importPath)"

fun inspect_loop :: "pkg_json \<Rightarrow> nat \<Rightarrow> string list \<Rightarrow> (error + string) list \<Rightarrow> nat \<times> (error + string list)" where
  "inspect_loop J seen violations [] =
     (if seen = 0 then (0, Inl (ErrorsNew ''selected package graph is empty'')) else (seen, Inr (sort violations)))"
| "inspect_loop J seen violations (payload # payloads) =
     (case decode_record J payload of
        Inl e \<Rightarrow> (seen, Inl (Errorf (''decode package record '' @ Itoa (int (seen + 1))) e))
      | Inr r \<Rightarrow>
      case check_record (seen + 1) r of
        Inl e \<Rightarrow> (seen + 1, Inl e)
      | Inr importPath \<Rightarrow>
          inspect_loop J (seen + 1) (if isForbidden importPath then List.insert importPath violations else violations) payloads)"

definition inspect :: "pkg_json \<Rightarrow> string \<Rightarrow> nat \<times> (error + string list)" where
  "inspect J payload = inspect_loop J 0 [] (pj_values J payload)"

text \<open>The exit status; \<open>readBounded\<close> of the bytes a reader yields.\<close>

definition readBounded :: "string \<times> error option \<Rightarrow> error + string" where
  "readBounded input =
     (case input of
        (bytes, Some e) \<Rightarrow> if length bytes \<le> maximumGraphBytes then Inl e else Inl (ErrorsNew ''selected package graph exceeds 67108864 bytes'')
      | (bytes, None) \<Rightarrow> if length bytes > maximumGraphBytes then Inl (ErrorsNew ''selected package graph exceeds 67108864 bytes'') else Inr bytes)"

definition enforce :: "pkg_json \<Rightarrow> string \<Rightarrow> nat" where
  "enforce J payload =
     (case inspect J payload of
        (_, Inl e) \<Rightarrow> 1
      | (_, Inr forbidden) \<Rightarrow> if forbidden \<noteq> [] then 1 else 0)"

section \<open>The source tree\<close>

text \<open>
  What \<open>filepath.WalkDir\<close> meets: a directory, whose listing may fail, with its entries in lexical order, or
  something else, of which is known whether it is a symbolic link, what \<open>Info\<close> returns (whether it is a
  regular file, and its size) and what parsing its imports returns, each import unquoted.
\<close>

record go_file =
  gf_symlink :: bool
  gf_info :: "error + bool \<times> nat"
  gf_imports :: "error + (error + string) list"

datatype src_node = SrcDir string "error option" "src_node list" | SrcFile string go_file

record walk_state =
  ws_files :: nat
  ws_violations :: "string list"

fun check_imports :: "string \<Rightarrow> (error + string) list \<Rightarrow> walk_state \<Rightarrow> error + walk_state" where
  "check_imports relative [] st = Inr st"
| "check_imports relative (Inl e # is) st = Inl (Errorf (''decode Go import in '' @ relative) e)"
| "check_imports relative (Inr importPath # is) st =
     check_imports relative is
       (case forbiddenSourceImports importPath of
          None \<Rightarrow> st
        | Some reason \<Rightarrow>
            st\<lparr>ws_violations := ws_violations st @ [relative @ '': '' @ importPath @ '' ('' @ reason @ '')'']\<rparr>)"

text \<open>The callback on an entry that is not a directory; \<open>relative\<close> is its path below the root.\<close>

definition visit_file :: "string \<Rightarrow> string \<Rightarrow> go_file \<Rightarrow> walk_state \<Rightarrow> error + walk_state" where
  "visit_file relative name f st =
     (if gf_symlink f then
        (if Ext name = ''.go'' then Inl (ErrorsNew (''Go source file is symbolic: '' @ relative)) else Inr st)
      else if Ext name \<noteq> ''.go'' then Inr st
      else
      case gf_info f of
        Inl e \<Rightarrow> Inl (Errorf (''inspect Go source file '' @ relative) e)
      | Inr (regular, bytes) \<Rightarrow>
      if \<not> regular then Inl (ErrorsNew (''Go source file is not regular: '' @ relative))
      else if bytes > maximumSourceFileBytes then Inl (ErrorsNew (''Go source file exceeds 4194304 bytes: '' @ relative))
      else
      let st1 = (if relative = forbiddenLegacyFileSourcePath \<or> HasPrefix relative (forbiddenLegacyFileSourcePath @ ''/'')
                 then st\<lparr>ws_violations := ws_violations st @ [relative @ '': removed unsafe path helper package'']\<rparr> else st);
          st2 = st1\<lparr>ws_files := ws_files st1 + 1\<rparr> in
      if ws_files st2 > maximumSourceFiles then Inl (ErrorsNew ''source root exceeds 4096 Go files'')
      else
      case gf_imports f of
        Inl e \<Rightarrow> Inl (Errorf (''parse Go imports in '' @ relative) e)
      | Inr is \<Rightarrow> check_imports relative is st2)"

definition rel_path :: "string \<Rightarrow> string \<Rightarrow> string" where
  "rel_path dir name = (if dir = [] then name else dir @ ''/'' @ name)"

fun walk_dir :: "string \<Rightarrow> src_node list \<Rightarrow> walk_state \<Rightarrow> error + walk_state" where
  "walk_dir dir [] st = Inr st"
| "walk_dir dir (SrcFile name f # nodes) st =
     (case visit_file (rel_path dir name) name f st of Inl e \<Rightarrow> Inl e | Inr st1 \<Rightarrow> walk_dir dir nodes st1)"
| "walk_dir dir (SrcDir name readErr entries # nodes) st =
     (if name = ''.git'' then walk_dir dir nodes st
      else case readErr of
        Some e \<Rightarrow> Inl e
      | None \<Rightarrow> (case walk_dir (rel_path dir name) entries st of Inl e \<Rightarrow> Inl e | Inr st1 \<Rightarrow> walk_dir dir nodes st1))"

text \<open>The root: what \<open>Lstat\<close> returns (whether it is a directory, whether a symbolic link) and its listing.\<close>

definition inspectSourceImports ::
  "error + bool \<times> bool \<Rightarrow> error + src_node list \<Rightarrow> error + nat \<times> string list" where
  "inspectSourceImports root listing =
     (case root of
        Inl e \<Rightarrow> Inl (Errorf ''inspect source root'' e)
      | Inr (directory, symlink) \<Rightarrow>
      if \<not> directory \<or> symlink then Inl (ErrorsNew ''source root must be a real directory, not a symlink'')
      else
      case (case listing of Inl e \<Rightarrow> Inl e | Inr nodes \<Rightarrow> walk_dir [] nodes \<lparr>ws_files = 0, ws_violations = []\<rparr>) of
        Inl e \<Rightarrow> Inl e
      | Inr st \<Rightarrow>
          if ws_files st = 0 then Inl (ErrorsNew ''source root contains no Go files'')
          else Inr (ws_files st, sort (ws_violations st)))"

definition enforceSourceImports :: "error + bool \<times> bool \<Rightarrow> error + src_node list \<Rightarrow> nat" where
  "enforceSourceImports root listing =
     (case inspectSourceImports root listing of Inl e \<Rightarrow> 1 | Inr (_, violations) \<Rightarrow> if violations \<noteq> [] then 1 else 0)"

text \<open>
  The graph file: what each call on it returns, in the order of the program, since it may change under the
  program's feet.
\<close>

record graph_info =
  gi_regular :: bool
  gi_symlink :: bool
  gi_ino :: nat
  gi_bytes :: nat
  gi_mtime :: int

record graph_io =
  io_stdin :: "string \<times> error option"
  io_Lstat :: "string \<Rightarrow> error + graph_info"
  io_Open :: "string \<Rightarrow> error option"
  io_opened :: "error + graph_info"
  io_read :: "string \<times> error option"
  io_after :: "error + graph_info"
  io_Seek :: "error option"
  io_reread :: "string \<times> error option"

definition read_graph :: "graph_io \<Rightarrow> string \<Rightarrow> error + string" where
  "read_graph G graphPath =
     (if graphPath = ''-'' then readBounded (io_stdin G)
      else case io_Lstat G graphPath of
        Inl e \<Rightarrow> Inl (Errorf ''inspect package graph'' e)
      | Inr i \<Rightarrow>
      if \<not> gi_regular i \<or> gi_symlink i then Inl (ErrorsNew ''package graph is not a regular non-symbolic file'')
      else case io_Open G graphPath of
        Some e \<Rightarrow> Inl (Errorf ''open package graph'' e)
      | None \<Rightarrow>
      case io_opened G of
        Inl e \<Rightarrow> Inl (Errorf ''inspect opened package graph'' e)
      | Inr opened \<Rightarrow>
      if \<not> gi_regular opened \<or> gi_ino i \<noteq> gi_ino opened then Inl (ErrorsNew ''package graph identity changed while opening'')
      else case readBounded (io_read G) of
        Inl e \<Rightarrow> Inl (Errorf ''read package graph'' e)
      | Inr payload \<Rightarrow>
      case io_after G of
        Inl e \<Rightarrow> Inl (Errorf ''reinspect opened package graph'' e)
      | Inr afterRead \<Rightarrow>
      if gi_ino opened \<noteq> gi_ino afterRead \<or> gi_bytes afterRead \<noteq> length payload \<or> gi_mtime afterRead \<noteq> gi_mtime opened
      then Inl (ErrorsNew ''package graph metadata changed while reading'')
      else case io_Seek G of
        Some e \<Rightarrow> Inl (Errorf ''rewind package graph'' e)
      | None \<Rightarrow>
      case readBounded (io_reread G) of
        Inl e \<Rightarrow> Inl (Errorf ''reread package graph'' e)
      | Inr verification \<Rightarrow>
      if payload \<noteq> verification then Inl (ErrorsNew ''package graph bytes changed while reading'')
      else Inr payload)"

text \<open>The exit status of the program, on the parsed flags and the remaining arguments.\<close>

definition boundary_main ::
  "pkg_json \<Rightarrow> string \<Rightarrow> bool \<Rightarrow> string list \<Rightarrow> error + bool \<times> bool \<Rightarrow> error + src_node list \<Rightarrow> graph_io \<Rightarrow> nat" where
  "boundary_main J sourceRoot sourceOnly args root listing G =
     (if sourceRoot \<noteq> [] \<and> enforceSourceImports root listing \<noteq> 0 then 1
      else if sourceOnly then (if sourceRoot = [] \<or> args \<noteq> [] then 1 else 0)
      else if length args \<noteq> 1 then 1
      else case read_graph G (hd args) of Inl e \<Rightarrow> 1 | Inr payload \<Rightarrow> enforce J payload)"

section \<open>Import paths\<close>

definition printable :: "string \<Rightarrow> bool" where
  "printable s \<longleftrightarrow> list_all (\<lambda>c. 0x20 \<le> code c \<and> code c \<le> 0x7e) s"

lemma utf8_printable: "printable s \<Longrightarrow> utf8_Valid s"
proof (induction s)
  case Nil
  then show ?case by (simp add: utf8_Valid.simps)
next
  case (Cons c s)
  then show ?case by (subst utf8_Valid.simps) (simp add: printable_def)
qed

lemma printable_no_break: "printable s \<Longrightarrow> \<not> ContainsAny s [CHR 0x09, CHR 0x0D, CHR 0x0A]"
  by (auto simp: printable_def ContainsAny_iff list_all_iff)

lemma strings_Index_None: "strings_Index s p = None \<longleftrightarrow> \<not> Contains s p"
  by (induction s p rule: strings_Index.induct) auto

lemma strings_Index_Some:
  "strings_Index s p = Some n \<Longrightarrow> s = take n s @ p @ drop (n + length p) s"
proof (induction s p arbitrary: n rule: strings_Index.induct)
  case (2 c s p)
  show ?case
  proof (cases "HasPrefix (c # s) p")
    case True
    then show ?thesis using 2 by (auto simp: HasPrefix_iff)
  next
    case False
    then obtain k where "strings_Index s p = Some k" "n = Suc k" using 2 by auto
    then show ?thesis using 2 False by simp
  qed
qed (auto split: if_splits)

lemma strings_Index_first:
  "CHR '' '' \<notin> set p \<Longrightarrow> strings_Index (p @ '' ['' @ t) '' ['' = Some (length p)"
  by (induction p) (auto simp: HasPrefix_def)

lemma strings_Count_none: "CHR '' '' \<notin> set s \<Longrightarrow> strings_Count s '' ['' = 0"
proof (induction s)
  case (Cons c s)
  then show ?case by (subst strings_Count.simps) (auto simp: HasPrefix_def)
qed (simp add: strings_Count.simps)

lemma strings_Count_once:
  "CHR '' '' \<notin> set p \<Longrightarrow> CHR '' '' \<notin> set t \<Longrightarrow> strings_Count (p @ '' ['' @ t) '' ['' = 1"
proof (induction p)
  case Nil
  then show ?case by (subst strings_Count.simps) (simp add: HasPrefix_def strings_Count_none)
next
  case (Cons c p)
  then show ?case by (subst strings_Count.simps) (auto simp: HasPrefix_def)
qed

text \<open>A path as \<open>go list -test\<close> prints it: the package, alone or followed by the test binary it was rebuilt for.\<close>

definition test_context :: "string \<Rightarrow> bool" where
  "test_context c \<longleftrightarrow> HasSuffix c ''.test'' \<and> \<not> ContainsAny c ''[] ''"

definition names_package :: "string \<Rightarrow> string \<Rightarrow> bool" where
  "names_package s p \<longleftrightarrow> printable s \<and> p \<noteq> [] \<and> CHR '' '' \<notin> set p \<and>
     (s = p \<or> (\<exists>c. s = p @ '' ['' @ c @ '']'' \<and> test_context c))"

lemma canonical_marked:
  assumes "s = p @ '' ['' @ c @ '']''" and "CHR '' '' \<notin> set p" and "test_context c"
  shows "strings_Index s '' ['' = Some (length p)" "HasSuffix s '']''" "strings_Count s '' ['' = 1"
    "drop (length p + 2) (take (length s - 1) s) = c" "take (length p) s = p"
proof -
  have "CHR '' '' \<notin> set c" using assms(3) by (auto simp: test_context_def ContainsAny_iff)
  then show "strings_Count s '' ['' = 1" using strings_Count_once [of p "c @ '']''"] assms(1,2) by simp
  show "strings_Index s '' ['' = Some (length p)" using strings_Index_first [of p "c @ '']''"] assms(1,2) by simp
  show "HasSuffix s '']''" using assms(1) by (simp add: HasSuffix_iff)
qed (simp_all add: assms(1))

lemma marked_rest:
  assumes "strings_Index s '' ['' = Some n" and "HasSuffix s '']''"
  shows "s = take n s @ '' ['' @ drop (n + 2) (take (length s - 1) s) @ '']''"
proof -
  let ?r = "drop (n + 2) s"
  have s: "s = take n s @ '' ['' @ ?r" using strings_Index_Some [OF assms(1)] by simp
  obtain t where t: "s = t @ '']''" using assms(2) by (auto simp: HasSuffix_iff)
  then have last: "last s = CHR '']''" by simp
  have "?r \<noteq> []"
  proof
    assume "?r = []"
    then have "s = take n s @ '' [''" using s by simp
    then have "last s = CHR ''[''" by (metis last_ConsL last_ConsR last_appendR list.distinct(1))
    then show False using last by simp
  qed
  moreover have "last ?r = CHR '']''" using last calculation by (metis last_drop drop_eq_Nil not_le)
  ultimately have "?r = butlast ?r @ '']''" by (metis append_butlast_last_id)
  moreover have "drop (n + 2) (take (length s - 1) s) = butlast ?r" unfolding butlast_conv_take [of s, symmetric] by (rule drop_butlast)
  ultimately show ?thesis using s by simp
qed

lemma canonicalImportPath_names: "canonicalImportPath s = Inr p \<longleftrightarrow> names_package s p"
proof
  assume "names_package s p"
  then have s: "printable s" "p \<noteq> []" "CHR '' '' \<notin> set p" "s = p \<or> (\<exists>c. s = p @ '' ['' @ c @ '']'' \<and> test_context c)"
    by (auto simp: names_package_def)
  have guards: "s \<noteq> []" "utf8_Valid s" "\<not> list_ex (\<lambda>c. code c < 0x20 \<or> code c > 0x7e) s"
    "\<not> ContainsAny s [CHR 0x09, CHR 0x0D, CHR 0x0A]" "\<not> Contains p '' ''"
    using s utf8_printable printable_no_break by (auto simp: printable_def list_all_iff list_ex_iff Contains_single)
  show "canonicalImportPath s = Inr p"
    using s(4)
  proof
    assume e: "s = p"
    then have "strings_Index s '' ['' = None" using s(3) by (auto simp: strings_Index_None Contains_iff)
    then show ?thesis using guards e by (simp add: canonicalImportPath_def)
  next
    assume "\<exists>c. s = p @ '' ['' @ c @ '']'' \<and> test_context c"
    then obtain c where c: "s = p @ '' ['' @ c @ '']''" "test_context c" by blast
    note m = canonical_marked [OF c(1) s(3) c(2)]
    have "c \<noteq> []" "HasSuffix c ''.test''" "\<not> ContainsAny c ''[] ''" using c(2) by (auto simp: test_context_def HasSuffix_iff)
    then show ?thesis using guards m s(2) by (simp add: canonicalImportPath_def Let_def)
  qed
next
  assume a: "canonicalImportPath s = Inr p"
  then have pr: "printable s" "s \<noteq> []"
    by (auto simp: canonicalImportPath_def printable_def list_all_iff list_ex_iff not_less split: if_splits)
  show "names_package s p"
  proof (cases "strings_Index s '' [''")
    case None
    then show ?thesis using a pr by (auto simp: canonicalImportPath_def names_package_def Contains_single split: if_splits)
  next
    case (Some n)
    let ?c = "drop (n + 2) (take (length s - 1) s)"
    have g: "n \<noteq> 0" "HasSuffix s '']''" "HasSuffix ?c ''.test''" "\<not> ContainsAny ?c ''[] ''" "p = take n s" "CHR '' '' \<notin> set p"
      using a Some by (auto simp: canonicalImportPath_def Let_def Contains_single split: if_splits)
    then show ?thesis
      using pr marked_rest [OF Some g(2)] by (auto simp: names_package_def test_context_def)
  qed
qed

section \<open>What passes\<close>

definition record_ok :: "packageRecord \<Rightarrow> string \<Rightarrow> bool" where
  "record_ok r p \<longleftrightarrow> names_package (pr_ImportPath r) p \<and> \<not> pr_Incomplete r \<and> TrimSpace (pr_Error r) \<in> {[], ''null''} \<and>
     TrimSpace (pr_DepsErrors r) \<in> {[], ''null'', ''[]''}"

lemma check_record_ok: "check_record n r = Inr p \<longleftrightarrow> record_ok r p"
  by (auto simp: check_record_def record_ok_def rawJSONIs_def Let_def canonicalImportPath_names [symmetric] split: sum.splits)

lemma sort_Nil: "sort xs = [] \<longleftrightarrow> xs = []"
  by (metis set_empty set_sort)

lemma inspect_loop_clean:
  "(\<exists>n. inspect_loop J seen vs ps = (n, Inr [])) \<longleftrightarrow> 0 < seen + length ps \<and> vs = [] \<and>
     (\<forall>x. x \<in> set ps \<longrightarrow> (\<exists>r p. decode_record J x = Inr r \<and> record_ok r p \<and> \<not> isForbidden p))"
proof (induction ps arbitrary: seen vs)
  case (Cons x ps)
  show ?case
  proof (cases "\<exists>r p. decode_record J x = Inr r \<and> check_record (seen + 1) r = Inr p")
    case True
    then obtain r p where rp: "decode_record J x = Inr r" "check_record (seen + 1) r = Inr p" by blast
    then have ok: "record_ok r q \<longleftrightarrow> q = p" for q using check_record_ok by (metis Inr_inject)
    have step: "inspect_loop J seen vs (x # ps) = inspect_loop J (seen + 1) (if isForbidden p then List.insert p vs else vs) ps"
      using rp by simp
    have "(if isForbidden p then List.insert p vs else vs) = [] \<longleftrightarrow> vs = [] \<and> \<not> isForbidden p" by (auto simp: List.insert_def)
    then show ?thesis unfolding step Cons.IH using rp(1) ok by simp blast
  next
    case False
    then have bad: "\<not> (\<exists>r p. decode_record J x = Inr r \<and> record_ok r p)" unfolding check_record_ok .
    have "isl (snd (inspect_loop J seen vs (x # ps)))"
    proof (cases "decode_record J x")
      case (Inr r)
      then obtain e where "check_record (seen + 1) r = Inl e" using False by (cases "check_record (seen + 1) r") simp_all
      then show ?thesis using Inr by simp
    qed simp
    then have "\<not> (\<exists>n. inspect_loop J seen vs (x # ps) = (n, Inr []))" by (metis isl_def snd_conv sum.distinct(2) Inl_Inr_False)
    then show ?thesis using bad by (metis list.set_intros(1))
  qed
qed (auto simp: sort_Nil)

definition is_openpgp :: "string \<Rightarrow> bool" where
  "is_openpgp p \<longleftrightarrow> (\<exists>sub. p = ''golang.org/x/crypto/openpgp'' @ sub \<and> (sub = [] \<or> hd sub = CHR ''/''))"

lemma isForbidden_iff: "isForbidden p \<longleftrightarrow> is_openpgp p"
proof -
  have "HasPrefix p (q @ ''/'') \<longleftrightarrow> (\<exists>sub. p = q @ sub \<and> sub \<noteq> [] \<and> hd sub = CHR ''/'')" for q
  proof
    assume "HasPrefix p (q @ ''/'')"
    then obtain t where "p = q @ CHR ''/'' # t" by (auto simp: HasPrefix_iff)
    then show "\<exists>sub. p = q @ sub \<and> sub \<noteq> [] \<and> hd sub = CHR ''/''" by (intro exI [of _ "CHR ''/'' # t"]) simp
  next
    assume "\<exists>sub. p = q @ sub \<and> sub \<noteq> [] \<and> hd sub = CHR ''/''"
    then obtain sub where "p = q @ sub" "sub \<noteq> []" "hd sub = CHR ''/''" by blast
    then show "HasPrefix p (q @ ''/'')" by (cases sub) (auto simp: HasPrefix_iff)
  qed
  note this [of "''golang.org/x/crypto/openpgp''"]
  moreover have "p = ''golang.org/x/crypto/openpgp'' \<longleftrightarrow> p = ''golang.org/x/crypto/openpgp'' @ []" by simp
  ultimately show ?thesis unfolding isForbidden_def is_openpgp_def forbiddenOpenPGPPackage_def by metis
qed

definition graph_ok :: "pkg_json \<Rightarrow> string \<Rightarrow> bool" where
  "graph_ok J payload \<longleftrightarrow> pj_values J payload \<noteq> [] \<and>
     list_all (\<lambda>x. \<exists>r p. decode_record J x = Inr r \<and> record_ok r p \<and> \<not> is_openpgp p) (pj_values J payload)"

lemma enforce_iff: "enforce J payload = 0 \<longleftrightarrow> graph_ok J payload"
proof -
  have "enforce J payload = 0 \<longleftrightarrow> (\<exists>n. inspect_loop J 0 [] (pj_values J payload) = (n, Inr []))"
    by (auto simp: enforce_def inspect_def split: prod.splits sum.splits)
  then show ?thesis unfolding inspect_loop_clean by (simp add: graph_ok_def list_all_iff Ball_def isForbidden_iff)
qed

text \<open>A graph that was read: from standard input, or from a regular file that was the same throughout.\<close>

definition same_file :: "graph_io \<Rightarrow> string \<Rightarrow> nat \<Rightarrow> bool" where
  "same_file G path bytes \<longleftrightarrow>
     (\<exists>i opened afterRead. io_Lstat G path = Inr i \<and> io_Open G path = None \<and> io_opened G = Inr opened \<and> io_after G = Inr afterRead \<and>
        gi_regular i \<and> \<not> gi_symlink i \<and> gi_regular opened \<and> gi_ino i = gi_ino opened \<and> gi_ino opened = gi_ino afterRead \<and>
        gi_mtime opened = gi_mtime afterRead \<and> gi_bytes afterRead = bytes)"

definition stable_graph :: "graph_io \<Rightarrow> string \<Rightarrow> string \<Rightarrow> bool" where
  "stable_graph G path payload \<longleftrightarrow> length payload \<le> maximumGraphBytes \<and>
     (if path = ''-'' then io_stdin G = (payload, None)
      else io_read G = (payload, None) \<and> io_reread G = (payload, None) \<and> io_Seek G = None \<and> same_file G path (length payload))"

lemma readBounded_iff: "readBounded input = Inr payload \<longleftrightarrow> input = (payload, None) \<and> length payload \<le> maximumGraphBytes"
  by (auto simp: readBounded_def split: prod.splits option.splits)

lemma read_graph_iff: "read_graph G path = Inr payload \<longleftrightarrow> stable_graph G path payload"
proof (cases "path = ''-''")
  case True
  then show ?thesis by (auto simp: read_graph_def stable_graph_def readBounded_iff)
next
  case False
  show ?thesis
  proof (cases "readBounded (io_read G) = Inr payload \<and> readBounded (io_reread G) = Inr payload")
    case True
    then have "io_read G = (payload, None)" "io_reread G = (payload, None)" "length payload \<le> maximumGraphBytes"
      "readBounded (payload, None) = Inr payload" by (simp_all add: readBounded_iff)
    then show ?thesis using False
      by (auto simp: read_graph_def stable_graph_def same_file_def split: sum.splits option.splits)
  next
    case reads: False
    have "read_graph G path \<noteq> Inr payload"
      using reads False by (auto simp: read_graph_def split: sum.splits option.splits if_splits)
    then show ?thesis using reads False by (auto simp: stable_graph_def readBounded_iff)
  qed
qed

text \<open>The Go files of a tree, with their paths below the root, and whether all of its directories can be listed.\<close>

fun go_files :: "string \<Rightarrow> src_node list \<Rightarrow> (string \<times> go_file) list" where
  "go_files dir [] = []"
| "go_files dir (SrcFile name f # nodes) = (if Ext name = ''.go'' then [(rel_path dir name, f)] else []) @ go_files dir nodes"
| "go_files dir (SrcDir name readErr entries # nodes) =
     (if name = ''.git'' then [] else go_files (rel_path dir name) entries) @ go_files dir nodes"

fun listable :: "src_node list \<Rightarrow> bool" where
  "listable [] = True"
| "listable (SrcFile name f # nodes) = listable nodes"
| "listable (SrcDir name readErr entries # nodes) = ((name = ''.git'' \<or> readErr = None \<and> listable entries) \<and> listable nodes)"

fun visit_all :: "(string \<times> go_file) list \<Rightarrow> walk_state \<Rightarrow> error + walk_state" where
  "visit_all [] st = Inr st"
| "visit_all ((relative, f) # fs) st = (case visit_file relative ''.go'' f st of Inl e \<Rightarrow> Inl e | Inr st1 \<Rightarrow> visit_all fs st1)"

lemma visit_all_append:
  "visit_all (fs @ gs) st = (case visit_all fs st of Inl e \<Rightarrow> Inl e | Inr st1 \<Rightarrow> visit_all gs st1)"
  by (induction fs st rule: visit_all.induct) (auto split: sum.splits)

lemma visit_file_name: "visit_file relative name f st = (if Ext name = ''.go'' then visit_file relative ''.go'' f st else Inr st)"
proof -
  have "Ext ''.go'' = ''.go''" by code_simp
  then show ?thesis by (simp add: visit_file_def)
qed

lemma walk_dir_visits: "walk_dir dir nodes st = Inr st' \<longleftrightarrow> listable nodes \<and> visit_all (go_files dir nodes) st = Inr st'"
proof (induction dir nodes st arbitrary: st' rule: walk_dir.induct)
  case (2 dir name f nodes st)
  then show ?case
    by (cases "visit_file (rel_path dir name) name f st") (auto simp: visit_file_name [of _ name] split: if_splits)
next
  case (3 dir name readErr entries nodes st)
  show ?case
  proof (cases "name = ''.git''")
    case True
    then show ?thesis using 3(1) by simp
  next
    case dir: False
    show ?thesis
    proof (cases "\<exists>b. readErr = None \<and> walk_dir (rel_path dir name) entries st = Inr b")
      case True
      then obtain b where b: "readErr = None" "walk_dir (rel_path dir name) entries st = Inr b" by blast
      then have "listable entries" "visit_all (go_files (rel_path dir name) entries) st = Inr b" using 3(2) dir by blast+
      then show ?thesis using b dir 3(3) [OF dir b] by (simp add: visit_all_append)
    next
      case False
      then have "\<not> (\<exists>b. readErr = None \<and> listable entries \<and> visit_all (go_files (rel_path dir name) entries) st = Inr b)"
        using 3(2) [OF dir] by blast
      moreover have "\<not> (\<exists>b. walk_dir dir (SrcDir name readErr entries # nodes) st = Inr b)"
        using False dir by (auto split: option.splits sum.splits)
      ultimately show ?thesis using dir by (auto simp: visit_all_append split: sum.splits)
    qed
  qed
qed simp

definition banned_import :: "string \<Rightarrow> bool" where
  "banned_import p \<longleftrightarrow>
     p \<in> {''crypto/md5'', ''crypto/sha1'', ''github.com/EdmundFu-233/ReCasaOS-UserService/pkg/utils/file''}"

lemma forbiddenSourceImports_iff: "forbiddenSourceImports p = None \<longleftrightarrow> \<not> banned_import p"
  by (simp add: forbiddenSourceImports_def banned_import_def forbiddenLegacyFilePackage_def)

definition clean_file :: "string \<times> go_file \<Rightarrow> bool" where
  "clean_file x \<longleftrightarrow> (case x of (relative, f) \<Rightarrow>
     \<not> gf_symlink f \<and> (\<exists>n. gf_info f = Inr (True, n) \<and> n \<le> maximumSourceFileBytes) \<and>
     relative \<noteq> forbiddenLegacyFileSourcePath \<and> \<not> HasPrefix relative (forbiddenLegacyFileSourcePath @ ''/'') \<and>
     (\<exists>ps. gf_imports f = Inr (map Inr ps) \<and> list_all (\<lambda>p. \<not> banned_import p) ps))"

lemma check_imports_clean:
  "check_imports relative xs st = Inr st' \<and> ws_violations st' = [] \<longleftrightarrow>
     ws_violations st = [] \<and> st' = st \<and> (\<exists>ps. xs = map Inr ps \<and> list_all (\<lambda>p. forbiddenSourceImports p = None) ps)"
proof (induction relative xs st rule: check_imports.induct)
  case (3 relative importPath xs st)
  show ?case
  proof (cases "forbiddenSourceImports importPath")
    case None
    have "(\<exists>ps. Inr importPath # xs = map Inr ps \<and> list_all (\<lambda>p. forbiddenSourceImports p = None) ps) \<longleftrightarrow>
        (\<exists>ps. xs = map Inr ps \<and> list_all (\<lambda>p. forbiddenSourceImports p = None) ps)"
      using None by (auto simp: Cons_eq_map_conv)
    then show ?thesis using 3 None by simp
  next
    case (Some reason)
    then show ?thesis using 3 by (auto simp: Cons_eq_map_conv)
  qed
qed auto

lemma visit_file_clean:
  "visit_file relative ''.go'' f st = Inr st' \<and> ws_violations st' = [] \<longleftrightarrow>
     ws_violations st = [] \<and> clean_file (relative, f) \<and> ws_files st + 1 \<le> maximumSourceFiles \<and> st' = st\<lparr>ws_files := ws_files st + 1\<rparr>"
proof -
  have e: "Ext ''.go'' = ''.go''" by code_simp
  let ?legacy = "relative = forbiddenLegacyFileSourcePath \<or> HasPrefix relative (forbiddenLegacyFileSourcePath @ ''/'')"
  show ?thesis
  proof (cases "\<not> gf_symlink f \<and> (\<exists>n. gf_info f = Inr (True, n) \<and> n \<le> maximumSourceFileBytes) \<and> (\<exists>xs. gf_imports f = Inr xs) \<and>
      ws_files st + 1 \<le> maximumSourceFiles")
    case True
    then obtain n xs where x: "\<not> gf_symlink f" "gf_info f = Inr (True, n)" "n \<le> maximumSourceFileBytes" "gf_imports f = Inr xs"
      "ws_files st + 1 \<le> maximumSourceFiles" by blast
    define st1 where "st1 = (if ?legacy then st\<lparr>ws_violations := ws_violations st @ [relative @ '': removed unsafe path helper package'']\<rparr> else st)"
    have "visit_file relative ''.go'' f st = check_imports relative xs (st1\<lparr>ws_files := ws_files st + 1\<rparr>)"
      using x by (simp add: visit_file_def e st1_def Let_def)
    then show ?thesis using x by (auto simp: check_imports_clean clean_file_def st1_def forbiddenSourceImports_iff)
  next
    case False
    then have "isl (visit_file relative ''.go'' f st)"
      by (cases "gf_info f"; cases "gf_imports f") (auto simp: visit_file_def e Let_def)
    then show ?thesis using False by (auto simp: clean_file_def)
  qed
qed

lemma visit_file_violations:
  "visit_file relative ''.go'' f st = Inr st' \<Longrightarrow> ws_violations st \<noteq> [] \<Longrightarrow> ws_violations st' \<noteq> []"
  using visit_file_clean by blast

lemma visit_all_clean:
  "visit_all fs st = Inr st' \<and> ws_violations st' = [] \<longleftrightarrow>
     ws_violations st = [] \<and> list_all clean_file fs \<and> (fs = [] \<or> ws_files st + length fs \<le> maximumSourceFiles) \<and>
     st' = st\<lparr>ws_files := ws_files st + length fs\<rparr>"
proof (induction fs arbitrary: st)
  case (Cons x fs)
  obtain relative f where x: "x = (relative, f)" by fastforce
  show ?case
  proof (cases "visit_file relative ''.go'' f st")
    case (Inl e)
    then have "\<not> (ws_violations st = [] \<and> clean_file x \<and> ws_files st + 1 \<le> maximumSourceFiles)"
      using visit_file_clean [of relative f st] x by auto
    then show ?thesis using Inl x by auto
  next
    case (Inr st1)
    show ?thesis
    proof (cases "ws_violations st1 = []")
      case True
      then have "ws_violations st = []" "clean_file x" "ws_files st + 1 \<le> maximumSourceFiles" "st1 = st\<lparr>ws_files := ws_files st + 1\<rparr>"
        using visit_file_clean [of relative f st st1] Inr x by blast+
      then show ?thesis using Inr x Cons.IH [of st1] by (auto simp: add.assoc)
    next
      case False
      then have "\<not> (ws_violations st = [] \<and> clean_file x \<and> ws_files st + 1 \<le> maximumSourceFiles)"
        using visit_file_clean [of relative f st] x Inr by (metis Inr_inject)
      then show ?thesis using Inr x Cons.IH [of st1] False by auto
    qed
  qed
qed auto

lemma walk_clean:
  "(\<exists>st. walk_dir [] nodes \<lparr>ws_files = 0, ws_violations = []\<rparr> = Inr st \<and> ws_files st \<noteq> 0 \<and> ws_violations st = []) \<longleftrightarrow>
     listable nodes \<and> length (go_files [] nodes) \<in> {1..maximumSourceFiles} \<and> list_all clean_file (go_files [] nodes)"
    (is "?L \<longleftrightarrow> ?R")
proof -
  let ?fs = "go_files [] nodes" and ?st = "\<lparr>ws_files = 0, ws_violations = []\<rparr>"
  have "?L \<longleftrightarrow> listable nodes \<and> (\<exists>st. (visit_all ?fs ?st = Inr st \<and> ws_violations st = []) \<and> ws_files st \<noteq> 0)"
    unfolding walk_dir_visits by blast
  also have "\<dots> \<longleftrightarrow> ?R" unfolding visit_all_clean by (cases ?fs) auto
  finally show ?thesis .
qed

lemma enforceSourceImports_iff:
  "enforceSourceImports root listing = 0 \<longleftrightarrow> root = Inr (True, False) \<and>
     (\<exists>nodes. listing = Inr nodes \<and> listable nodes \<and> length (go_files [] nodes) \<in> {1..maximumSourceFiles} \<and>
        list_all clean_file (go_files [] nodes))"
proof -
  let ?st = "\<lparr>ws_files = 0, ws_violations = []\<rparr>"
  have "enforceSourceImports root listing = 0 \<longleftrightarrow> root = Inr (True, False) \<and>
      (\<exists>nodes st. listing = Inr nodes \<and> walk_dir [] nodes ?st = Inr st \<and> ws_files st \<noteq> 0 \<and> ws_violations st = [])"
    by (auto simp: enforceSourceImports_def inspectSourceImports_def sort_Nil split: sum.splits)
  also have "\<dots> \<longleftrightarrow> root = Inr (True, False) \<and> (\<exists>nodes. listing = Inr nodes \<and> listable nodes \<and>
      length (go_files [] nodes) \<in> {1..maximumSourceFiles} \<and> list_all clean_file (go_files [] nodes))"
    unfolding walk_clean [symmetric] by blast
  finally show ?thesis .
qed

text \<open>C39.  The dependency boundary passes exactly if: with a source root, it is a real directory all of whose
  directories (outside \<open>.git\<close>) can be listed, and it holds between 1 and 4096 Go files, each a regular
  file of at most 4 MiB outside the removed helper package that imports no weak hash and no removed
  package; and, unless only the sources are inspected, the package graph comes from standard input or
  from a regular file that did not change while it was read twice, is not empty, and every record of it
  is complete and names a package other than openpgp and its subpackages.\<close>

theorem dependency_boundary_iff:
  "boundary_main J sourceRoot sourceOnly args root listing G = 0 \<longleftrightarrow>
     (sourceRoot = [] \<or> root = Inr (True, False) \<and>
        (\<exists>nodes. listing = Inr nodes \<and> listable nodes \<and> length (go_files [] nodes) \<in> {1..maximumSourceFiles} \<and>
           list_all clean_file (go_files [] nodes))) \<and>
     (if sourceOnly then sourceRoot \<noteq> [] \<and> args = []
      else \<exists>path payload. args = [path] \<and> stable_graph G path payload \<and> graph_ok J payload)"
proof -
  have gr: "length args = 1 \<and> (case read_graph G (hd args) of Inl e \<Rightarrow> 1 | Inr payload \<Rightarrow> enforce J payload) = 0 \<longleftrightarrow>
      (\<exists>path payload. args = [path] \<and> stable_graph G path payload \<and> graph_ok J payload)"
    by (auto simp: length_Suc_conv enforce_iff read_graph_iff [symmetric] split: sum.splits)
  show ?thesis
    unfolding boundary_main_def enforceSourceImports_iff [symmetric] gr [symmetric]
    by (cases sourceOnly; cases "sourceRoot = []") auto
qed

text \<open>Two graphs, one of which selects openpgp for a test; a value here is the import path itself.\<close>

definition sample_pkg_json :: "string list \<Rightarrow> pkg_json" where
  "sample_pkg_json ps =
     \<lparr>pj_values = (\<lambda>_. map Inr ps), pj_members = (\<lambda>v. Some [(''ImportPath'', v), (''DepsErrors'', ''[]'')]),
      pj_string = Inr, pj_bool = (\<lambda>_. Inr False)\<rparr>"

lemma sample_graphs:
  "inspect (sample_pkg_json [''os'', ''a/b [a/b.test]'']) [] = (2, Inr [])"
  "inspect (sample_pkg_json [''os'', ''golang.org/x/crypto/openpgp/packet [a/b.test]'']) [] = (2, Inr [''golang.org/x/crypto/openpgp/packet''])"
  "isl (snd (inspect (sample_pkg_json [''a b'']) []))" "isl (snd (inspect (sample_pkg_json []) []))"
  by code_simp+

end
