(* ===== verification/Spec2Isabelle.thy ===== *)
theory Spec2Isabelle
  imports Lockout Pruning Api_Witness Password_Reset Service_Wiring Migration Vulnerability_Policy Dependency_Boundary
begin

text \<open>
  The user service of ReCasaOS: accounts and their passwords, sessions and their tokens, per-user
  configurations, and the one-time creation of the first administrator.  The program is a Go daemon
  behind a gateway with a SQLite database, two HTTP APIs and three local commands.

  \<^bold>\<open>Parts and theories.\<close>  Each theory follows the order of the source it models and keeps its names.

  \<^item> \<open>Go_Prelude\<close>, \<open>Go_Encoding\<close>: Go strings, decimal numbers, \<open>strings\<close>, \<open>errors.Is\<close>, \<open>encoding/hex\<close> and
    \<open>encoding/base64\<close>, with the lemma collections \<open>sql\<close>, \<open>frame\<close> and \<open>gostr\<close> of all proofs.
  \<^item> \<open>Store\<close>: the rows of \<open>src/service/model\<close> and \<open>src/model/event.go\<close>.  The state of the process is a record
    \<open>world\<close>: the tables, a log of key derivations, and the environment, which decides for every moment whether
    a statement fails, what other connections do to the tables before it, what clock and random source
    deliver and which rowid an insert gets.  \<open>autocommit\<close> is a statement of the pool, \<open>in_tx\<close> one of an open
    transaction, \<open>Transaction\<close> an immediate transaction with rollback.  \<open>quiet\<close> and \<open>ready\<close> say that nothing
    fails and nobody interferes (on a migrated schema); safety properties do without them where the
    code does.
  \<^item> \<open>Files\<close>: lexical paths and a file system of inodes and directory entries with the calls of \<open>os\<close>, \<open>os.Root\<close>
    and \<open>unix\<close>, again with faults and interference at every call; \<open>world\<close> is extended by it.
  \<^item> \<open>Password\<close>: \<open>src/pkg/password\<close>.  \<open>Tokens\<close>: \<open>src/pkg/authsecurity\<close>.  \<open>Bootstrap\<close>, \<open>File_Seal\<close>:
    \<open>src/pkg/userbootstrap\<close>.  \<open>User_Config\<close>, \<open>Config_Frame\<close>: \<open>src/pkg/userconfig\<close>.  \<open>Process_Lock\<close>:
    \<open>src/pkg/processlock\<close>.  \<open>Database_File\<close>: \<open>src/pkg/sqlite\<close>.  \<open>Gateway_Client\<close>: \<open>src/pkg/gatewayclient\<close>.
  \<^item> \<open>Sessions\<close>, \<open>Users\<close>, \<open>Recovery\<close>: \<open>src/service/session.go\<close>, \<open>session_issue.go\<close> and \<open>user.go\<close>, one definition
    per method; transaction bodies are definitions of their own (\<open>rotate_tx\<close>, \<open>failure_tx\<close>, \<open>delete_tx\<close>,
    \<open>create_tx\<close>, \<open>reset_tx\<close>).  \<open>Session_Proofs\<close>, \<open>Lockout\<close>, \<open>Pruning\<close>, \<open>Session_Life\<close>, \<open>Password_Change\<close>,
    \<open>Password_Reset\<close> and \<open>Service_Invariant\<close> hold their properties.
  \<^item> \<open>Http\<close>, \<open>Auth_Route\<close>, \<open>Handlers\<close>, \<open>Events\<close>, \<open>Router\<close>: \<open>src/route\<close> with the wrappers of
    \<open>src/codegen/user_service\<close>, and \<open>src/service/event.go\<close>.  \<open>Api_Safety\<close>, \<open>Api_Data\<close> and \<open>Api_Witness\<close> hold the
    properties of the two APIs as a whole.
  \<^item> \<open>Startup\<close>, \<open>Commands\<close>: \<open>src/main.go\<close>, \<open>src/pkg/config\<close> and \<open>NewService\<close> of \<open>src/service/service.go\<close>.
    \<open>Service_Wiring\<close>: its \<open>MessageBus\<close>, the calls of \<open>src/codegen/message_bus\<close> that the program makes, the
    registration of its event type, \<open>init\<close> of \<open>src/route/v2.go\<close>, the log format and \<open>src/pkg/utils/random\<close>.
  \<^item> Programs beside the service: \<open>Migration\<close> for \<open>src/cmd/migration-tool\<close>; \<open>Vulnerability_Policy\<close> and
    \<open>Dependency_Boundary\<close> for the two Go programs of \<open>src/scripts\<close> that gate the build.

  \<^bold>\<open>Interfaces.\<close>  \<open>Bootstrap\<close> relies on its seal through the locale \<open>seal_contract\<close>, which \<open>File_Seal\<close>
  interprets on the file seal; the middleware relies on the service through \<open>session_validator\<close>, interpreted
  in \<open>Auth_Route\<close>; \<open>Service_Invariant\<close> goes once through all operations in the locale \<open>kept\<close>, whose
  interpretations are the schema's constraints, the existence of an administrator, and the growth of
  accounts.

  \<^bold>\<open>What is shown.\<close>
  \<^item> First start: an administrator is created at most once, whatever database is restored later; the
    decision table over marker, seal and user count; on a working pristine installation creation
    succeeds.
  \<^item> Passwords: verifiers round trip, every verification costs one bounded derivation, accepted texts
    are canonical; what a password change and the two offline resets do to the tables.
  \<^item> Tokens and sessions: validated tokens were signed for that class; rotation consumes exactly one
    session, is atomic, and detects reuse; a refresh token is good for one refresh; logouts take effect
    at once; a fresh login is admitted.
  \<^item> Lockout and pruning: the table refines independent counters; five failures lock; bounds per
    user; the audit listing.
  \<^item> The service as a whole: histories of calls and arbitrary API traffic keep the schema, create no
    account, change no role and leave an administrator; every endpoint but five needs the token of a
    current session; configurations are isolated; no response carries a verifier.
  \<^item> Files: any sequence of configuration operations refines a map from user and key to bytes; the
    seal is accepted exactly outside the database directory; the search for an existing ancestor
    ends; commands exclude one another; the gateway credential goes to loopback addresses only.
  \<^item> Build gates: the vulnerability policy and the dependency boundary pass exactly on the inputs
    described by an independent predicate.  Lemmas of \<open>Service_Wiring\<close> show that there always is a bus
    client, that registration posts at most as often as it may try, and that log lines hold neither
    URI nor headers.

  \<^bold>\<open>Outside code.\<close>  Argon2id, the JWT library, echo's route selection and binding, the JSON decoders, the
  OpenAPI validator, the rate limiters, the ini and URL parsers, the gateway's and the message bus's
  answers, \<open>systemctl\<close> and the Go import parser are arguments of the definitions.  Laws that are needed of them are named hypotheses
  (\<open>idkey_length\<close>, \<open>jwt_sound\<close>, \<open>jwt_complete\<close>, the law of the route selector), and each theorem that has
  one is applied to a concrete instance.

  \<^bold>\<open>Loops and bounds.\<close>  Path resolution follows at most 40 symbolic links (8 inside a rooted directory),
  as the kernel and \<open>os.Root\<close> do; \<open>os.CreateTemp\<close> tries 10000 names and
  the configuration store 16; the event listener connects 1000 times and
  the gateway address is awaited and the event type registered 10 times, as in the source, each by recursion on the number of tries
  left.  The search for an existing ancestor of a path is a \<open>function\<close> whose measure is the length of the
  cleaned path.

  \<^bold>\<open>Not modelled.\<close>  The operations of the generated message-bus client that nobody calls, and its
  request editors; accepting connections, gzip, CORS headers and panic recovery, which are echo's; the
  notification of systemd and log output; the embedded specification; \<open>SaveSetup\<close> of \<open>src/pkg/config\<close>,
  which nothing calls; and the shell, Python and Ruby scripts of \<open>src/scripts\<close>.
\<close>

end
